(* ===== verification/Dsp_Prelude.thy ===== *)
theory Dsp_Prelude
  imports Main "HOL-Library.Sublist" "HOL-Library.Char_ord" "HOL-Library.List_Lexorder"
begin

section \<open>Prelude: results, loops with early return, generic lemmas\<close>

text \<open>
  Shared vocabulary of the development. A Rust \<open>Result<T, String>\<close> is the sum
  \<open>string + 'a\<close> (\<open>Inl\<close> holds the message); \<open>Result<(), String>\<close> is a
  \<open>check\<close>. The \<open>?\<close> operator is \<open>res_bind\<close>, a \<open>for\<close> loop whose body
  may return an error early is \<open>for_each\<close>, and \<open>collect::<Result<Vec<_>, _>>\<close>
  is \<open>map_res\<close>. The \<^theory_text>\<open>named_theorems\<close> collections gather the facts that the
  component theories hand to the simplifier: \<open>res_simps\<close> (results and loops),
  \<open>str_simps\<close> (string functions), \<open>gate_simps\<close> (unfolding of the middleware
  gates) and \<open>route_simps\<close> (unfolding of the router).
\<close>

named_theorems res_simps \<open>results, early return and loops over lists\<close>
named_theorems str_simps \<open>string functions\<close>
named_theorems gate_simps \<open>middleware gates\<close>
named_theorems route_simps \<open>router branches\<close>

type_synonym 'a res = "string + 'a"
type_synonym check = "string + unit"
type_synonym bytes = string

abbreviation passed :: check where
  "passed \<equiv> Inr ()"

subsection \<open>The question-mark operator and early-return loops\<close>

definition res_bind :: "'e + 'a \<Rightarrow> ('a \<Rightarrow> 'e + 'b) \<Rightarrow> 'e + 'b" where
  "res_bind r f = (case r of Inl e \<Rightarrow> Inl e | Inr x \<Rightarrow> f x)"

definition ok_or :: "'a option \<Rightarrow> 'e \<Rightarrow> 'e + 'a" where
  "ok_or v e = (case v of None \<Rightarrow> Inl e | Some x \<Rightarrow> Inr x)"

definition map_err :: "('e \<Rightarrow> 'f) \<Rightarrow> 'e + 'a \<Rightarrow> 'f + 'a" where
  "map_err f r = (case r of Inl e \<Rightarrow> Inl (f e) | Inr x \<Rightarrow> Inr x)"

definition guard_res :: "bool \<Rightarrow> 'e \<Rightarrow> 'e + unit" where
  "guard_res b e = (if b then Inr () else Inl e)"

primrec for_each :: "('a \<Rightarrow> 'e + unit) \<Rightarrow> 'a list \<Rightarrow> 'e + unit" where
  "for_each f [] = Inr ()"
| "for_each f (x # xs) = res_bind (f x) (\<lambda>_. for_each f xs)"

primrec map_res :: "('a \<Rightarrow> 'e + 'b) \<Rightarrow> 'a list \<Rightarrow> 'e + 'b list" where
  "map_res f [] = Inr []"
| "map_res f (x # xs) = res_bind (f x) (\<lambda>y. res_bind (map_res f xs) (\<lambda>ys. Inr (y # ys)))"

lemma res_bind_Inl [simp, res_simps]: "res_bind (Inl e) f = Inl e"
  and res_bind_Inr [simp, res_simps]: "res_bind (Inr x) f = f x"
  by (simp_all add: res_bind_def)

lemma res_bind_eq_Inr [simp, res_simps]:
  "res_bind r f = Inr y \<longleftrightarrow> (\<exists>x. r = Inr x \<and> f x = Inr y)"
  by (cases r) auto

lemma res_bind_eq_Inl [res_simps]:
  "res_bind r f = Inl e \<longleftrightarrow> r = Inl e \<or> (\<exists>x. r = Inr x \<and> f x = Inl e)"
  by (cases r) auto

lemma ok_or_eq_Inr [simp, res_simps]: "ok_or v e = Inr x \<longleftrightarrow> v = Some x"
  by (cases v) (auto simp: ok_or_def)

lemma ok_or_simps [simp]: "ok_or (Some x) e = Inr x" "ok_or None e = Inl e"
  by (simp_all add: ok_or_def)

lemma map_err_eq_Inr [simp, res_simps]: "map_err f r = Inr x \<longleftrightarrow> r = Inr x"
  by (cases r) (auto simp: map_err_def)

lemma map_err_simps [simp]: "map_err f (Inr x) = Inr x" "map_err f (Inl e) = Inl (f e)"
  by (simp_all add: map_err_def)

lemma guard_res_eq_Inr [simp, res_simps]: "guard_res b e = Inr u \<longleftrightarrow> b"
  by (simp add: guard_res_def)

lemma guard_res_simps [simp]: "guard_res True e = Inr ()" "guard_res False e = Inl e"
  by (simp_all add: guard_res_def)

lemma if_err_ok [simp, res_simps]: "(if c then Inl e else r) = Inr x \<longleftrightarrow> \<not> c \<and> r = Inr x"
  by simp

lemma if_pass_ok [simp, res_simps]: "(if c then Inr () else r) = Inr u \<longleftrightarrow> c \<or> r = Inr u"
  by simp

lemma check_cases: "(r :: 'e + unit) = Inr () \<or> (\<exists>e. r = Inl e)"
  by (cases r) auto

lemma for_each_ok [res_simps]: "for_each f xs = Inr u \<longleftrightarrow> (\<forall>x\<in>set xs. f x = Inr ())"
  by (induction xs) auto

lemma for_each_append:
  "for_each f (xs @ ys) = res_bind (for_each f xs) (\<lambda>_. for_each f ys)"
proof (induction xs)
  case Nil
  then show ?case by simp
next
  case (Cons x xs)
  then show ?case by (cases "f x") simp_all
qed

text \<open>A loop fails with the error of its first failing element.\<close>

lemma for_each_first_error:
  assumes "for_each f xs = Inl e"
  shows "\<exists>ys x zs. xs = ys @ x # zs \<and> (\<forall>y\<in>set ys. f y = Inr ()) \<and> f x = Inl e"
  using assms
proof (induction xs)
  case Nil
  then show ?case by simp
next
  case (Cons a xs)
  show ?case
  proof (cases "f a")
    case (Inl e')
    with Cons.prems show ?thesis by (intro exI [of _ "[]"]) auto
  next
    case (Inr u)
    with Cons obtain ys x zs where
      "xs = ys @ x # zs" "\<forall>y\<in>set ys. f y = Inr ()" "f x = Inl e" by auto
    with Inr show ?thesis by (intro exI [of _ "a # ys"] exI [of _ x] exI [of _ zs]) auto
  qed
qed

lemma map_res_ok:
  "map_res f xs = Inr ys \<longleftrightarrow> list_all2 (\<lambda>x y. f x = Inr y) xs ys"
  by (induction xs arbitrary: ys) (auto simp: list_all2_Cons1)

lemma map_res_ok_set:
  "map_res f xs = Inr ys \<Longrightarrow> y \<in> set ys \<Longrightarrow> \<exists>x\<in>set xs. f x = Inr y"
  by (induction xs arbitrary: ys) auto

subsection \<open>Generic list lemmas\<close>

lemma prefix_comparable:
  "prefix xs zs \<Longrightarrow> prefix ys zs \<Longrightarrow> prefix xs ys \<or> prefix ys xs"
  by (rule prefix_same_cases)

lemma map_singletonD: "map f xs = [y] \<Longrightarrow> \<exists>x. x \<in> set xs \<and> f x = y"
  by (cases xs) auto

lemma find_Some_in: "List.find P xs = Some x \<Longrightarrow> x \<in> set xs \<and> P x"
  by (auto simp: find_Some_iff)

lemma find_None_all: "List.find P xs = None \<longleftrightarrow> (\<forall>x\<in>set xs. \<not> P x)"
  by (auto simp: find_None_iff)

lemma length_filter_le_1_unique:
  assumes "length (filter P xs) \<le> 1" "x \<in> set xs" "y \<in> set xs" "P x" "P y"
  shows "x = y"
proof -
  from assms have "x \<in> set (filter P xs)" "y \<in> set (filter P xs)" by auto
  with assms(1) show ?thesis
    by (cases "filter P xs") auto
qed

lemma filter_at_most_one:
  assumes "sorted_wrt R xs" "\<And>a b. R a b \<Longrightarrow> \<not> (P a \<and> P b)"
  shows "length (filter P xs) \<le> 1"
  using assms(1)
proof (induction xs)
  case Nil
  then show ?case by simp
next
  case (Cons x xs)
  show ?case
  proof (cases "P x")
    case True
    with Cons.prems assms(2) have "filter P xs = []"
      by (auto simp: filter_empty_conv)
    with True show ?thesis by simp
  next
    case False
    with Cons show ?thesis by simp
  qed
qed

end
