(* ===== verification/Rust_Strings.thy ===== *)
theory Rust_Strings
  imports Dsp_Prelude "HOL-Library.Word"
begin

section \<open>Rust strings, characters and numbers\<close>

text \<open>
  The functions of Rust's standard library on \<open>&str\<close>, \<open>u8\<close> and \<open>u32\<close> that the
  sources call. A \<open>string\<close> is the UTF-8 byte sequence of the Rust value: \<open>length\<close> is
  \<open>str::len\<close>, and the order of \<open>List_Lexorder\<close> over \<open>Char_ord\<close> is the
  byte-wise \<open>Ord\<close> of \<open>String\<close>. Every separator the sources search for is ASCII, so
  splitting bytes and splitting characters agree. \<open>debug_str\<close> is the \<open>{:?}\<close> format;
  it escapes ASCII exactly and prints bytes above 127 as they are (the standard library also
  escapes unprintable non-ASCII code points, which changes message texts only).
\<close>

subsection \<open>Searching and splitting\<close>

abbreviation starts_with :: "string \<Rightarrow> string \<Rightarrow> bool" where
  "starts_with s p \<equiv> prefix p s"

abbreviation ends_with :: "string \<Rightarrow> string \<Rightarrow> bool" where
  "ends_with s p \<equiv> suffix p s"

definition strip_prefix :: "string \<Rightarrow> string \<Rightarrow> string option" where
  "strip_prefix p s = (if prefix p s then Some (drop (length p) s) else None)"

definition strip_suffix :: "string \<Rightarrow> string \<Rightarrow> string option" where
  "strip_suffix p s = (if suffix p s then Some (take (length s - length p) s) else None)"

definition unwrap_or :: "'a option \<Rightarrow> 'a \<Rightarrow> 'a" where
  "unwrap_or v d = (case v of None \<Rightarrow> d | Some x \<Rightarrow> x)"

fun str_contains :: "string \<Rightarrow> string \<Rightarrow> bool" where
  "str_contains p [] = (p = [])"
| "str_contains p (c # s) = (prefix p (c # s) \<or> str_contains p s)"

fun split_on :: "char \<Rightarrow> string \<Rightarrow> string list" where
  "split_on d [] = [[]]"
| "split_on d (c # s) =
     (if c = d then [] # split_on d s
      else (case split_on d s of [] \<Rightarrow> [[c]] | w # ws \<Rightarrow> (c # w) # ws))"

fun join_with :: "string \<Rightarrow> string list \<Rightarrow> string" where
  "join_with d [] = []"
| "join_with d [w] = w"
| "join_with d (w # v # ws) = w @ d @ join_with d (v # ws)"

fun split_once :: "char \<Rightarrow> string \<Rightarrow> (string \<times> string) option" where
  "split_once d [] = None"
| "split_once d (c # s) =
     (if c = d then Some ([], s)
      else (case split_once d s of None \<Rightarrow> None | Some (a, b) \<Rightarrow> Some (c # a, b)))"

fun rfind :: "char \<Rightarrow> string \<Rightarrow> nat option" where
  "rfind d [] = None"
| "rfind d (c # s) =
     (case rfind d s of Some i \<Rightarrow> Some (Suc i) | None \<Rightarrow> if c = d then Some 0 else None)"

lemma unwrap_or_simps [simp]: "unwrap_or (Some x) d = x" "unwrap_or None d = d"
  by (simp_all add: unwrap_or_def)

lemma strip_prefix_Some [str_simps]: "strip_prefix p s = Some r \<longleftrightarrow> s = p @ r"
  by (auto simp: strip_prefix_def elim: prefixE)

lemma strip_prefix_append [simp]: "strip_prefix p (p @ r) = Some r"
  by (simp add: strip_prefix_Some)

lemma strip_prefix_None [str_simps]: "strip_prefix p s = None \<longleftrightarrow> \<not> prefix p s"
  by (simp add: strip_prefix_def)

lemma strip_suffix_Some [str_simps]: "strip_suffix p s = Some r \<longleftrightarrow> s = r @ p"
  by (auto simp: strip_suffix_def suffix_def)

lemma split_on_nonempty [simp]: "split_on d s \<noteq> []"
  by (cases s) (auto split: list.splits)

lemma split_on_Cons_neq:
  "c \<noteq> d \<Longrightarrow> split_on d (c # s) = (c # hd (split_on d s)) # tl (split_on d s)"
  by (cases "split_on d s") auto

lemma split_on_no_sep [simp]: "d \<notin> set s \<Longrightarrow> split_on d s = [s]"
  by (induction s) auto

lemma split_on_append_sep: "split_on d (a @ d # b) = split_on d a @ split_on d b"
  by (induction a) (auto simp: split_on_Cons_neq split: list.splits)

lemma split_on_pieces: "w \<in> set (split_on d s) \<Longrightarrow> d \<notin> set w"
proof (induction s arbitrary: w)
  case Nil
  then show ?case by simp
next
  case (Cons c s)
  then show ?case
    by (cases "split_on d s") (auto split: if_splits)
qed

text \<open>Joining the pieces with the separator gives the string back: splitting loses nothing.\<close>

lemma join_split_on: "join_with [d] (split_on d s) = s"
proof (induction s)
  case Nil
  then show ?case by simp
next
  case (Cons c s)
  then show ?case
    by (cases "(split_on d s)"; cases "tl (split_on d s)") auto
qed

lemma split_on_inj: "split_on d s = split_on d t \<Longrightarrow> s = t"
  by (metis join_split_on)

lemma split_on_join:
  "ws \<noteq> [] \<Longrightarrow> \<forall>w\<in>set ws. d \<notin> set w \<Longrightarrow> split_on d (join_with [d] ws) = ws"
proof (induction ws)
  case Nil
  then show ?case by simp
next
  case (Cons w ws)
  then show ?case by (cases ws) (auto simp: split_on_append_sep)
qed

lemma join_with_append:
  "a \<noteq> [] \<Longrightarrow> b \<noteq> [] \<Longrightarrow> join_with d (a @ b) = join_with d a @ d @ join_with d b"
proof (induction d a rule: join_with.induct)
  case (2 d w)
  then show ?case by (cases b) auto
qed auto

text \<open>
  A string \<open>p\<close> is \<open>t\<close> itself or \<open>t\<close> up to one of its separators exactly when the
  pieces of \<open>p\<close> are the first pieces of \<open>t\<close>.
\<close>

lemma prefix_split_on:
  "prefix (split_on d p) (split_on d t) \<longleftrightarrow> t = p \<or> prefix (p @ [d]) t"
proof
  assume "prefix (split_on d p) (split_on d t)"
  then obtain ws where ws: "split_on d t = split_on d p @ ws" by (auto elim: prefixE)
  have "t = join_with [d] (split_on d p @ ws)" using join_split_on[of d t] ws by simp
  then show "t = p \<or> prefix (p @ [d]) t"
    by (cases "ws = []") (auto simp: join_split_on join_with_append)
next
  assume "t = p \<or> prefix (p @ [d]) t"
  then show "prefix (split_on d p) (split_on d t)"
    by (auto simp: prefix_def split_on_append_sep)
qed

lemma in_set_split_on: "w \<in> set (split_on d s) \<Longrightarrow> set w \<subseteq> set s"
proof (induction s arbitrary: w)
  case Nil
  then show ?case by simp
next
  case (Cons c s)
  then show ?case
    by (cases "split_on d s") (fastforce split: if_splits)+
qed

lemma split_once_append: "d \<notin> set a \<Longrightarrow> split_once d (a @ d # b) = Some (a, b)"
  by (induction a) auto

lemma split_once_SomeD: "split_once d s = Some (a, b) \<Longrightarrow> s = a @ d # b \<and> d \<notin> set a"
proof (induction s arbitrary: a)
  case Nil
  then show ?case by simp
next
  case (Cons c s)
  then show ?case by (auto split: if_splits option.splits)
qed

lemma split_once_Some [str_simps]:
  "split_once d s = Some (a, b) \<longleftrightarrow> s = a @ d # b \<and> d \<notin> set a"
  by (auto simp: split_once_append dest: split_once_SomeD)

lemma split_once_None [str_simps]: "split_once d s = None \<longleftrightarrow> d \<notin> set s"
  by (induction s) (auto split: option.splits)

lemma rfind_None [str_simps]: "rfind d s = None \<longleftrightarrow> d \<notin> set s"
  by (induction s) (auto split: option.splits)

lemma rfind_Some:
  assumes "rfind d s = Some i"
  shows "i < length s \<and> s = take i s @ d # drop (Suc i) s \<and> d \<notin> set (drop (Suc i) s)"
  using assms
proof (induction s arbitrary: i)
  case Nil
  then show ?case by simp
next
  case (Cons c s)
  then show ?case
    by (auto split: option.splits if_splits simp: rfind_None)
qed

lemma rfind_append_sep: "d \<notin> set b \<Longrightarrow> rfind d (a @ d # b) = Some (length a)"
proof (induction a)
  case Nil
  then show ?case by (auto simp: rfind_None split: option.splits)
next
  case (Cons c a)
  then show ?case by simp
qed

lemma str_contains_append: "str_contains p (a @ p @ b)"
proof (induction a)
  case Nil
  have "prefix p (p @ b)" by simp
  then show ?case by (cases "p @ b") (auto simp del: prefix_code)
next
  case (Cons c a)
  then show ?case by simp
qed

lemma str_containsD: "str_contains p s \<Longrightarrow> \<exists>a b. s = a @ p @ b"
proof (induction s)
  case Nil
  then show ?case by simp
next
  case (Cons c s)
  then consider "prefix p (c # s)" | "str_contains p s" by auto
  then show ?case
  proof cases
    case 1
    then obtain b where "c # s = p @ b" by (auto elim: prefixE)
    then show ?thesis by (intro exI [of _ "[]"] exI [of _ b]) simp
  next
    case 2
    with Cons.IH obtain a b where "s = a @ p @ b" by blast
    then show ?thesis by (intro exI [of _ "c # a"] exI [of _ b]) simp
  qed
qed

lemma str_contains_iff [str_simps]: "str_contains p s \<longleftrightarrow> (\<exists>a b. s = a @ p @ b)"
  using str_contains_append str_containsD by blast

subsection \<open>ASCII classes\<close>

definition is_ascii_digit :: "char \<Rightarrow> bool" where
  "is_ascii_digit c \<longleftrightarrow> CHR ''0'' \<le> c \<and> c \<le> CHR ''9''"

definition is_ascii_lowercase :: "char \<Rightarrow> bool" where
  "is_ascii_lowercase c \<longleftrightarrow> CHR ''a'' \<le> c \<and> c \<le> CHR ''z''"

definition is_ascii_uppercase :: "char \<Rightarrow> bool" where
  "is_ascii_uppercase c \<longleftrightarrow> CHR ''A'' \<le> c \<and> c \<le> CHR ''Z''"

definition is_ascii_alphanumeric :: "char \<Rightarrow> bool" where
  "is_ascii_alphanumeric c \<longleftrightarrow> is_ascii_digit c \<or> is_ascii_lowercase c \<or> is_ascii_uppercase c"

definition to_ascii_lowercase_char :: "char \<Rightarrow> char" where
  "to_ascii_lowercase_char c =
     (if is_ascii_uppercase c then char_of (of_char c + 32 :: nat) else c)"

definition to_ascii_lowercase :: "string \<Rightarrow> string" where
  "to_ascii_lowercase s = map to_ascii_lowercase_char s"

lemmas ascii_class_defs =
  is_ascii_digit_def is_ascii_lowercase_def is_ascii_uppercase_def is_ascii_alphanumeric_def

text \<open>Code equations on the bits of a character, for evaluation.\<close>

lemma is_ascii_uppercase_code [code]:
  "is_ascii_uppercase (Char b0 b1 b2 b3 b4 b5 b6 b7) \<longleftrightarrow>
     \<not> b7 \<and> b6 \<and> \<not> b5 \<and> (b0 \<or> b1 \<or> b2 \<or> b3 \<or> b4) \<and> \<not> (b4 \<and> b3 \<and> (b2 \<or> b1 \<and> b0))"
  by (cases b7; cases b6; cases b5; cases b4; cases b3) (auto simp: is_ascii_uppercase_def)

lemma to_ascii_lowercase_char_code [code]:
  "to_ascii_lowercase_char (Char b0 b1 b2 b3 b4 b5 b6 b7) =
     (if is_ascii_uppercase (Char b0 b1 b2 b3 b4 b5 b6 b7) then Char b0 b1 b2 b3 b4 True b6 b7
      else Char b0 b1 b2 b3 b4 b5 b6 b7)"
proof -
  have "\<not> b5" if "is_ascii_uppercase (Char b0 b1 b2 b3 b4 b5 b6 b7)"
    using that by (cases b7; cases b6; cases b5) (auto simp: is_ascii_uppercase_def)
  moreover have "of_char (Char b0 b1 b2 b3 b4 False b6 b7) + 32 = (of_char (Char b0 b1 b2 b3 b4 True b6 b7) :: nat)"
    by (simp add: of_char_def)
  ultimately show ?thesis
    by (auto simp: to_ascii_lowercase_char_def simp del: of_char_Char)
qed

lemma lowercase_not_upper: "\<not> is_ascii_uppercase (to_ascii_lowercase_char c)"
proof (cases "is_ascii_uppercase c")
  case True
  then have b: "65 \<le> (of_char c :: nat)" "(of_char c :: nat) \<le> 90"
    by (simp_all add: is_ascii_uppercase_def less_eq_char_def)
  then have "of_char (char_of (of_char c + 32 :: nat)) = (of_char c + 32 :: nat)"
    by (simp add: of_char_of)
  with b True show ?thesis
    by (simp add: to_ascii_lowercase_char_def is_ascii_uppercase_def less_eq_char_def)
next
  case False
  then show ?thesis by (simp add: to_ascii_lowercase_char_def)
qed

lemma lowercase_char_idem [simp]:
  "to_ascii_lowercase_char (to_ascii_lowercase_char c) = to_ascii_lowercase_char c"
  using lowercase_not_upper[of c] by (simp add: to_ascii_lowercase_char_def[of "to_ascii_lowercase_char c"])

lemma lowercase_idem [simp]: "to_ascii_lowercase (to_ascii_lowercase s) = to_ascii_lowercase s"
  by (simp add: to_ascii_lowercase_def comp_def)

lemma lowercase_id: "\<forall>c\<in>set s. \<not> is_ascii_uppercase c \<Longrightarrow> to_ascii_lowercase s = s"
  by (induction s) (auto simp: to_ascii_lowercase_def to_ascii_lowercase_char_def)

definition eq_ignore_ascii_case :: "string \<Rightarrow> string \<Rightarrow> bool" where
  "eq_ignore_ascii_case s t \<longleftrightarrow> to_ascii_lowercase s = to_ascii_lowercase t"

definition is_ascii_whitespace :: "char \<Rightarrow> bool" where
  "is_ascii_whitespace c \<longleftrightarrow> c \<in> {CHR '' '', CHR 0x09, CHR 0x0A, CHR 0x0C, CHR 0x0D}"

definition trim_ascii :: "string \<Rightarrow> string" where
  "trim_ascii s = rev (dropWhile is_ascii_whitespace (rev (dropWhile is_ascii_whitespace s)))"

subsection \<open>Decimal numbers\<close>

definition digit_val :: "char \<Rightarrow> nat" where
  "digit_val c = of_char c - 48"

definition digit_char :: "nat \<Rightarrow> char" where
  "digit_char d = char_of (d + 48)"

fun dec_nat :: "nat \<Rightarrow> string" where
  "dec_nat n = (if n < 10 then [digit_char n] else dec_nat (n div 10) @ [digit_char (n mod 10)])"

declare dec_nat.simps [simp del]

text \<open>
  \<open>u32::from_str\<close>: an optional plus sign, then at least one digit; the accumulator is a
  32-bit word and every multiplication and addition is checked.
\<close>

fun parse_u32_loop :: "32 word \<Rightarrow> string \<Rightarrow> 32 word option" where
  "parse_u32_loop acc [] = Some acc"
| "parse_u32_loop acc (c # cs) =
     (if is_ascii_digit c \<and> unat acc * 10 + digit_val c < 2 ^ 32
      then parse_u32_loop (acc * 10 + of_nat (digit_val c)) cs
      else None)"

definition parse_u32 :: "string \<Rightarrow> 32 word option" where
  "parse_u32 s = (case s of [] \<Rightarrow> None
     | c # r \<Rightarrow> if c = CHR ''+'' then (if r = [] then None else parse_u32_loop 0 r)
              else parse_u32_loop 0 s)"

definition all_digits :: "string \<Rightarrow> bool" where
  "all_digits s \<longleftrightarrow> s \<noteq> [] \<and> (\<forall>c\<in>set s. is_ascii_digit c)"

definition dec_value :: "string \<Rightarrow> nat" where
  "dec_value s = foldl (\<lambda>n c. n * 10 + digit_val c) 0 s"

lemma digit_val_bound: "is_ascii_digit c \<Longrightarrow> digit_val c < 10"
  by (auto simp: is_ascii_digit_def less_eq_char_def digit_val_def)

lemma digit_val_char [simp]: "d < 10 \<Longrightarrow> digit_val (digit_char d) = d"
  by (simp add: digit_val_def digit_char_def of_char_of)

lemma digit_char_digit [simp]: "d < 10 \<Longrightarrow> is_ascii_digit (digit_char d)"
  by (simp add: is_ascii_digit_def digit_char_def less_eq_char_def of_char_of)

lemma dec_nat_digits: "all_digits (dec_nat n)"
proof (induction n rule: dec_nat.induct)
  case (1 n)
  then show ?case by (subst dec_nat.simps) (auto simp: all_digits_def)
qed

lemma dec_value_dec_nat [simp]: "dec_value (dec_nat n) = n"
proof (induction n rule: dec_nat.induct)
  case (1 n)
  then show ?case by (subst dec_nat.simps) (auto simp: dec_value_def)
qed

lemma dec_nat_inj: "dec_nat m = dec_nat n \<Longrightarrow> m = n"
  by (metis dec_value_dec_nat)

lemma dec_fold_mono: "n \<le> foldl (\<lambda>n c. n * 10 + digit_val c) n s"
proof (induction s arbitrary: n)
  case Nil
  then show ?case by simp
next
  case (Cons c s)
  have "n \<le> n * 10 + digit_val c" by simp
  also have "\<dots> \<le> foldl (\<lambda>n c. n * 10 + digit_val c) (n * 10 + digit_val c) s" by (rule Cons.IH)
  finally show ?case by simp
qed

text \<open>The checked loop computes the decimal value exactly when it fits in 32 bits.\<close>

lemma parse_u32_loop_value:
  assumes "\<forall>c\<in>set s. is_ascii_digit c"
  shows "parse_u32_loop acc s =
    (let v = foldl (\<lambda>n c. n * 10 + digit_val c) (unat acc) s
     in if v < 2 ^ 32 then Some (of_nat v) else None)"
  using assms
proof (induction s arbitrary: acc)
  case Nil
  show ?case using unsigned_less[of acc] by (simp add: Let_def)
next
  case (Cons c s)
  let ?n = "unat acc * 10 + digit_val c"
  show ?case
  proof (cases "?n < 2 ^ 32")
    case True
    have "unat (acc * 10 + of_nat (digit_val c)) = ?n"
    proof -
      have "acc * 10 + of_nat (digit_val c) = of_nat ?n" by simp
      then show ?thesis using True by (simp only: unat_of_nat) simp
    qed
    with Cons True show ?thesis by (simp add: Let_def)
  next
    case False
    have "?n \<le> foldl (\<lambda>n c. n * 10 + digit_val c) ?n s" by (rule dec_fold_mono)
    with Cons False show ?thesis by (auto simp: Let_def)
  qed
qed

lemma parse_u32_digits:
  assumes "all_digits s"
  shows "parse_u32 s = (if dec_value s < 2 ^ 32 then Some (of_nat (dec_value s)) else None)"
proof -
  from assms obtain c r where s: "s = c # r" "is_ascii_digit c"
    by (cases s) (auto simp: all_digits_def)
  then have "c \<noteq> CHR ''+''"
    by (auto simp: is_ascii_digit_def less_eq_char_def)
  with s assms show ?thesis
    by (simp add: parse_u32_def parse_u32_loop_value all_digits_def dec_value_def Let_def
        del: parse_u32_loop.simps)
qed

lemma parse_u32_dec_nat: "n < 2 ^ 32 \<Longrightarrow> parse_u32 (dec_nat n) = Some (of_nat n)"
  by (simp add: parse_u32_digits dec_nat_digits)

subsection \<open>Formatting\<close>

text \<open>
  \<open>format!\<close>: the literal pieces and the rendered arguments, in order. It is a definition
  of its own so that message texts stay folded in proofs.
\<close>

definition fmt :: "string list \<Rightarrow> string" where
  "fmt pieces = concat pieces"

abbreviation dquote :: string where
  "dquote \<equiv> [CHR 0x22]"

definition hex_digit :: "nat \<Rightarrow> char" where
  "hex_digit d = (if d < 10 then char_of (d + 48) else char_of (d + 87))"

definition hex_digit_upper :: "nat \<Rightarrow> char" where
  "hex_digit_upper d = (if d < 10 then char_of (d + 48) else char_of (d + 55))"

text \<open>\<open>{:02x}\<close> and \<open>{:02X}\<close> of a byte.\<close>

definition hex02 :: "char \<Rightarrow> string" where
  "hex02 c = [hex_digit (of_char c div 16), hex_digit (of_char c mod 16)]"

definition hex02_upper :: "char \<Rightarrow> string" where
  "hex02_upper c = [hex_digit_upper (of_char c div 16), hex_digit_upper (of_char c mod 16)]"

definition debug_char :: "char \<Rightarrow> string" where
  "debug_char c =
     (if c = CHR 0x22 then [CHR 0x5C, CHR 0x22]
      else if c = CHR 0x5C then [CHR 0x5C, CHR 0x5C]
      else if c = CHR 0x00 then [CHR 0x5C, CHR ''0'']
      else if c = CHR 0x09 then [CHR 0x5C, CHR ''t'']
      else if c = CHR 0x0A then [CHR 0x5C, CHR ''n'']
      else if c = CHR 0x0D then [CHR 0x5C, CHR ''r'']
      else if c < CHR 0x10 then CHR 0x5C # ''u{'' @ [hex_digit (of_char c)] @ ''}''
      else if c < CHR 0x20 \<or> c = CHR 0x7F then CHR 0x5C # ''u{'' @ hex02 c @ ''}''
      else [c])"

definition debug_str :: "string \<Rightarrow> string" where
  "debug_str s = CHR 0x22 # concat (map debug_char s) @ [CHR 0x22]"

end
