(* ===== verification/Rust_Maps.thy ===== *)
theory Rust_Maps
  imports Rust_Strings
begin

section \<open>Maps: the interface, BTreeMap and HashMap\<close>

text \<open>
  The sources use two map types. \<open>BTreeMap\<close> (the manager's policies, and the objects of
  \<open>serde_json\<close>, whose \<open>Map\<close> is a \<open>BTreeMap\<close> in the configuration this crate
  builds) iterates in key order; \<open>HashMap\<close> (the create body, the file table) iterates in no
  particular order. Both are association lists: a \<open>BTreeMap\<close> is kept strictly sorted by
  \<open>bt_insert\<close>, a \<open>HashMap\<close> is any list with distinct keys, its order standing for the
  iteration order of one run. The locales state what clients may rely on; the two
  implementations are interpretations of them.
\<close>

subsection \<open>The interface\<close>

locale map_spec =
  fixes empty :: 'm
    and get :: "'m \<Rightarrow> 'k \<Rightarrow> 'v option"
    and ins :: "'k \<Rightarrow> 'v \<Rightarrow> 'm \<Rightarrow> 'm"
    and keys :: "'m \<Rightarrow> 'k list"
    and wf :: "'m \<Rightarrow> bool"
  assumes get_empty: "get empty k = None"
    and get_ins: "get (ins k v m) k' = (if k' = k then Some v else get m k')"
    and keys_get: "k \<in> set (keys m) \<longleftrightarrow> get m k \<noteq> None"
    and keys_distinct: "wf m \<Longrightarrow> distinct (keys m)"
    and wf_empty: "wf empty"
    and wf_ins: "wf m \<Longrightarrow> wf (ins k v m)"
begin

lemma get_ins_same: "get (ins k v m) k = Some v"
  by (simp add: get_ins)

lemma get_ins_other: "k' \<noteq> k \<Longrightarrow> get (ins k v m) k' = get m k'"
  by (simp add: get_ins)

lemma keys_ins: "set (keys (ins k v m)) = insert k (set (keys m))"
  by (auto simp: keys_get get_ins split: if_splits)

lemma keys_empty: "keys empty = []"
proof -
  have "\<forall>k. k \<notin> set (keys empty)" by (simp add: keys_get get_empty)
  then show ?thesis by (cases "keys empty") auto
qed

lemma get_ins_twice: "get (ins k v (ins k w m)) = get (ins k v m)"
  by (rule ext) (simp add: get_ins)

text \<open>Inserting a list of pairs from left to right: the last binding of a key wins.\<close>

lemma get_ins_fold:
  "get (fold (\<lambda>(k, v). ins k v) kvs m) k =
     (case map_of (rev kvs) k of Some v \<Rightarrow> Some v | None \<Rightarrow> get m k)"
proof (induction kvs rule: rev_induct)
  case Nil
  then show ?case by simp
next
  case (snoc kv kvs)
  then show ?case by (cases kv) (simp add: get_ins)
qed

lemma wf_ins_fold: "wf m \<Longrightarrow> wf (fold (\<lambda>(k, v). ins k v) kvs m)"
  by (induction kvs arbitrary: m) (auto simp: wf_ins)

end

locale sorted_map_spec = map_spec empty get ins keys wf
  for empty :: 'm and get :: "'m \<Rightarrow> 'k::linorder \<Rightarrow> 'v option"
    and ins :: "'k \<Rightarrow> 'v \<Rightarrow> 'm \<Rightarrow> 'm" and keys :: "'m \<Rightarrow> 'k list" and wf :: "'m \<Rightarrow> bool" +
  assumes keys_sorted: "wf m \<Longrightarrow> sorted_wrt (<) (keys m)"
    and map_ext: "wf m \<Longrightarrow> wf m' \<Longrightarrow> (\<And>k. get m k = get m' k) \<Longrightarrow> m = m'"
begin

lemma sort_keys: "wf m \<Longrightarrow> sort (keys m) = keys m"
  by (simp add: keys_sorted strict_sorted_imp_sorted sort_key_id_if_sorted)

lemma ins_idem: "wf m \<Longrightarrow> ins k v (ins k w m) = ins k v m"
  by (rule map_ext) (auto simp: wf_ins get_ins)

lemma ins_commute: "wf m \<Longrightarrow> k \<noteq> l \<Longrightarrow> ins k v (ins l w m) = ins l w (ins k v m)"
  by (rule map_ext) (auto simp: wf_ins get_ins)

lemma ins_same: "wf m \<Longrightarrow> get m k = Some v \<Longrightarrow> ins k v m = m"
  by (rule map_ext) (auto simp: wf_ins get_ins)

end

subsection \<open>BTreeMap\<close>

type_synonym ('k, 'v) btreemap = "('k \<times> 'v) list"

abbreviation bt_get :: "('k, 'v) btreemap \<Rightarrow> 'k \<Rightarrow> 'v option" where
  "bt_get m k \<equiv> map_of m k"

abbreviation bt_keys :: "('k, 'v) btreemap \<Rightarrow> 'k list" where
  "bt_keys m \<equiv> map fst m"

abbreviation bt_values :: "('k, 'v) btreemap \<Rightarrow> 'v list" where
  "bt_values m \<equiv> map snd m"

fun bt_insert :: "'k::linorder \<Rightarrow> 'v \<Rightarrow> ('k, 'v) btreemap \<Rightarrow> ('k, 'v) btreemap" where
  "bt_insert k v [] = [(k, v)]"
| "bt_insert k v ((l, w) # m) =
     (if k < l then (k, v) # (l, w) # m
      else if k = l then (k, v) # m
      else (l, w) # bt_insert k v m)"

definition bt_wf :: "('k::linorder, 'v) btreemap \<Rightarrow> bool" where
  "bt_wf m \<longleftrightarrow> sorted_wrt (<) (map fst m)"

lemma map_of_bt_insert [simp]: "map_of (bt_insert k v m) = (map_of m)(k \<mapsto> v)"
  by (induction m rule: bt_insert.induct) (auto simp: fun_eq_iff)

lemma keys_bt_insert: "set (map fst (bt_insert k v m)) = insert k (set (map fst m))"
  by (induction k v m rule: bt_insert.induct) auto

lemma bt_wf_insert: "bt_wf m \<Longrightarrow> bt_wf (bt_insert k v m)"
proof (induction k v m rule: bt_insert.induct)
  case (1 k v)
  then show ?case by (simp add: bt_wf_def)
next
  case (2 k v l w m)
  then have "bt_wf m" by (simp add: bt_wf_def)
  with 2 show ?case
    using keys_bt_insert[of k v m] by (auto simp: bt_wf_def)
qed

lemma bt_wf_ext:
  assumes "bt_wf m" "bt_wf m'" "\<And>k. map_of m k = map_of m' k"
  shows "m = m'"
proof -
  have d: "distinct (map fst m)" "distinct (map fst m')"
    using assms by (auto simp: bt_wf_def strict_sorted_iff)
  have "map_of m = map_of m'" using assms(3) by blast
  then have s: "set m = set m'"
    using d by (metis map_of_inject_set)
  have "inj_on fst (set m \<union> set m')"
    using d s by (simp add: distinct_map)
  then show ?thesis
    using assms d s by (intro map_sorted_distinct_set_unique [of fst]) (auto simp: bt_wf_def strict_sorted_iff)
qed

interpretation btm: sorted_map_spec "[] :: ('k::linorder, 'v) btreemap" bt_get bt_insert bt_keys bt_wf
proof unfold_locales
  fix m m' :: "('k, 'v) btreemap"
  assume "bt_wf m" "bt_wf m'" "\<And>k. bt_get m k = bt_get m' k"
  then show "m = m'" by (rule bt_wf_ext)
next
  fix m :: "('k, 'v) btreemap" and k v
  assume "bt_wf m"
  then show "bt_wf (bt_insert k v m)" by (rule bt_wf_insert)
qed (auto simp: bt_wf_def strict_sorted_iff map_of_eq_None_iff)

subsection \<open>HashMap\<close>

type_synonym ('k, 'v) hashmap = "('k \<times> 'v) list"

abbreviation hm_get :: "('k, 'v) hashmap \<Rightarrow> 'k \<Rightarrow> 'v option" where
  "hm_get m k \<equiv> map_of m k"

abbreviation hm_keys :: "('k, 'v) hashmap \<Rightarrow> 'k list" where
  "hm_keys m \<equiv> map fst m"

fun hm_insert :: "'k \<Rightarrow> 'v \<Rightarrow> ('k, 'v) hashmap \<Rightarrow> ('k, 'v) hashmap" where
  "hm_insert k v [] = [(k, v)]"
| "hm_insert k v ((l, w) # m) = (if k = l then (k, v) # m else (l, w) # hm_insert k v m)"

definition hm_wf :: "('k, 'v) hashmap \<Rightarrow> bool" where
  "hm_wf m \<longleftrightarrow> distinct (map fst m)"

lemma map_of_hm_insert [simp]: "map_of (hm_insert k v m) = (map_of m)(k \<mapsto> v)"
  by (induction k v m rule: hm_insert.induct) (auto simp: fun_eq_iff)

lemma keys_hm_insert [simp]: "fst ` set (hm_insert k v m) = insert k (fst ` set m)"
  by (induction k v m rule: hm_insert.induct) auto

interpretation hmm: map_spec "[] :: ('k, 'v) hashmap" hm_get hm_insert hm_keys hm_wf
proof unfold_locales
  fix m :: "('k, 'v) hashmap" and k v
  show "hm_wf m \<Longrightarrow> hm_wf (hm_insert k v m)"
    by (induction k v m rule: hm_insert.induct) (auto simp: hm_wf_def)
qed (auto simp: hm_wf_def map_of_eq_None_iff)

text \<open>Building a \<open>BTreeMap\<close> by collecting a \<open>HashMap\<close>'s pairs (\<open>into_iter().collect()\<close>).\<close>

definition bt_collect :: "('k::linorder, 'v) hashmap \<Rightarrow> ('k, 'v) btreemap" where
  "bt_collect m = fold (\<lambda>(k, v). bt_insert k v) m []"

lemma bt_wf_collect: "bt_wf (bt_collect m)"
  unfolding bt_collect_def by (rule btm.wf_ins_fold) (simp add: bt_wf_def)

lemma map_of_bt_collect: "hm_wf m \<Longrightarrow> map_of (bt_collect m) = map_of m"
proof (rule ext)
  fix k
  assume "hm_wf m"
  then have "map_of (rev m) = map_of m"
    by (intro map_of_inject_set [THEN iffD2]) (auto simp: hm_wf_def rev_map [symmetric])
  then show "map_of (bt_collect m) k = map_of m k"
    using btm.get_ins_fold[of m "[]" k] by (simp add: bt_collect_def split: option.splits)
qed

end
