(* ===== verification/Json.thy ===== *)
theory Json
  imports Rust_Maps
begin

section \<open>JSON values and the third-party interfaces\<close>

text \<open>
  \<open>serde_json::Value\<close> as a datatype. An object is a \<open>BTreeMap\<close>, so its association list
  is sorted by key (\<open>json_wf\<close>). A number is the crate's \<open>PosInt\<close> (a \<open>u64\<close>),
  \<open>NegInt\<close> (an \<open>i64\<close>, always negative) or \<open>Float\<close> (a finite \<open>f64\<close>, here
  \<open>Float m e\<close> for \<open>m * 2 ^ e\<close>). The sources only compare \<open>as_f64\<close> with zero, and
  rounding an integer to \<open>f64\<close> neither makes it zero nor changes its sign, so
  \<open>num_sgn\<close> is all they observe.

  The record \<open>externs\<close> holds the third-party functions the model is parametric in:
  \<open>regex::Regex::new\<close> with \<open>is_match\<close> for the patterns of policy files (an error text,
  or the set of accepted strings), the \<open>Display\<close> of a JSON value inside messages, and
  \<open>serde_json::to_vec\<close> and \<open>from_slice\<close>.
\<close>

datatype jnum = PosInt nat | NegInt int | Float int int

datatype json =
    JNull
  | JBool bool
  | JNumber jnum
  | JString string
  | JArray "json list"
  | JObject "(string \<times> json) list"

type_synonym json_object = "(string, json) btreemap"
type_synonym json_body = "(string, json) hashmap"

fun num_sgn :: "jnum \<Rightarrow> int" where
  "num_sgn (PosInt n) = sgn (int n)"
| "num_sgn (NegInt i) = sgn i"
| "num_sgn (Float m e) = sgn m"

fun as_str :: "json \<Rightarrow> string option" where
  "as_str (JString s) = Some s"
| "as_str _ = None"

fun as_array :: "json \<Rightarrow> json list option" where
  "as_array (JArray a) = Some a"
| "as_array _ = None"

fun as_object :: "json \<Rightarrow> json_object option" where
  "as_object (JObject m) = Some m"
| "as_object _ = None"

fun as_bool :: "json \<Rightarrow> bool option" where
  "as_bool (JBool b) = Some b"
| "as_bool _ = None"

fun as_f64_sgn :: "json \<Rightarrow> int option" where
  "as_f64_sgn (JNumber n) = Some (num_sgn n)"
| "as_f64_sgn _ = None"

lemma as_str_Some [simp]: "as_str v = Some s \<longleftrightarrow> v = JString s"
  by (cases v) auto

lemma as_array_Some [simp]: "as_array v = Some a \<longleftrightarrow> v = JArray a"
  by (cases v) auto

lemma as_object_Some [simp]: "as_object v = Some m \<longleftrightarrow> v = JObject m"
  by (cases v) auto

lemma as_bool_Some [simp]: "as_bool v = Some b \<longleftrightarrow> v = JBool b"
  by (cases v) auto

text \<open>A member of the body read as an object, the pattern \<open>body.get(k).and_then(as_object)\<close>.\<close>

definition get_object :: "json_body \<Rightarrow> string \<Rightarrow> json_object option" where
  "get_object b k = Option.bind (hm_get b k) as_object"

definition get_str_or_empty :: "('k, json) btreemap \<Rightarrow> 'k \<Rightarrow> string" where
  "get_str_or_empty m k = unwrap_or (Option.bind (bt_get m k) as_str) []"

lemma get_object_Some [simp]: "get_object b k = Some m \<longleftrightarrow> hm_get b k = Some (JObject m)"
  by (auto simp: get_object_def bind_eq_Some_conv)

lemma get_object_None:
  "get_object b k = None \<longleftrightarrow> (\<forall>m. hm_get b k \<noteq> Some (JObject m))"
  by (metis get_object_Some not_None_eq)

lemma case_get_object_ok [gate_simps]:
  "(case get_object b k of None \<Rightarrow> Inr () | Some m \<Rightarrow> f m) = Inr u \<longleftrightarrow>
     (\<forall>m. hm_get b k = Some (JObject m) \<longrightarrow> f m = Inr ())"
  unfolding get_object_Some [symmetric] by (simp del: get_object_Some split: option.split)

fun json_wf :: "json \<Rightarrow> bool" where
  "json_wf (JArray a) = (\<forall>v\<in>set a. json_wf v)"
| "json_wf (JObject m) = (bt_wf m \<and> (\<forall>kv\<in>set m. json_wf (snd kv)))"
| "json_wf (JNumber (PosInt n)) = (n < 2 ^ 64)"
| "json_wf (JNumber (NegInt i)) = (- (2 ^ 63) \<le> i \<and> i < 0)"
| "json_wf _ = True"

definition body_wf :: "json_body \<Rightarrow> bool" where
  "body_wf b \<longleftrightarrow> hm_wf b \<and> (\<forall>kv\<in>set b. json_wf (snd kv))"

lemma json_wf_member: "json_wf (JObject m) \<Longrightarrow> bt_get m k = Some v \<Longrightarrow> json_wf v"
  by (auto dest!: map_of_SomeD)

lemma body_wf_member: "body_wf b \<Longrightarrow> hm_get b k = Some v \<Longrightarrow> json_wf v"
  by (auto simp: body_wf_def dest!: map_of_SomeD)

lemma set_bt_insert: "set (bt_insert k v m) \<subseteq> insert (k, v) (set m)"
  by (induction k v m rule: bt_insert.induct) auto

lemma set_hm_insert: "set (hm_insert k v m) \<subseteq> insert (k, v) (set m)"
  by (induction k v m rule: hm_insert.induct) auto

lemma json_wf_insert: "json_wf (JObject m) \<Longrightarrow> json_wf v \<Longrightarrow> json_wf (JObject (bt_insert k v m))"
  using set_bt_insert[of k v m] by (auto simp: bt_wf_insert)

lemma body_wf_insert: "body_wf b \<Longrightarrow> json_wf v \<Longrightarrow> body_wf (hm_insert k v b)"
  using set_hm_insert[of k v b] by (auto simp: body_wf_def hmm.wf_ins)

record externs =
  regex_new :: "string \<Rightarrow> string + (string \<Rightarrow> bool)"
  json_display :: "json \<Rightarrow> string"
  json_to_vec :: "json_body \<Rightarrow> bytes option"
  json_value_from_slice :: "bytes \<Rightarrow> json option"
  json_map_from_slice :: "bytes \<Rightarrow> json_body option"

end
