(* ===== verification/Regexes.thy ===== *)
theory Regexes
  imports Rust_Strings
begin

section \<open>Anchored regular expressions\<close>

text \<open>
  The four constant patterns of \<open>policy.rs\<close> (\<open>domain_re\<close>, \<open>path_component_re\<close>,
  \<open>tag_re\<close>, \<open>sha256_digest_re\<close>) are anchored by \<open>^\<close> and \<open>$\<close> and use only
  character classes, sequences, alternatives and repetition, so each denotes a set of strings.
  This theory gives that fragment: its syntax, its language, and an executable matcher by
  derivatives that is proved to decide the language. Patterns that come from policy files at
  run time stay a parameter of the model.
\<close>

subsection \<open>Syntax and language\<close>

datatype rx =
    RNone
  | REps
  | RCls "(char \<times> char) list"
  | RAlt rx rx
  | RSeq rx rx
  | RStar rx

definition in_class :: "char \<Rightarrow> (char \<times> char) list \<Rightarrow> bool" where
  "in_class c rs \<longleftrightarrow> (\<exists>r\<in>set rs. fst r \<le> c \<and> c \<le> snd r)"

lemma in_class_Nil: "in_class c [] = False"
  by (simp add: in_class_def)

lemma in_class_Cons: "in_class c ((a, b) # rs) \<longleftrightarrow> a \<le> c \<and> c \<le> b \<or> in_class c rs"
  by (auto simp: in_class_def)

lemma char_singleton_range: "(d :: char) \<le> c \<and> c \<le> d \<longleftrightarrow> c = d"
  by auto

lemmas in_class_simps = in_class_Nil in_class_Cons char_singleton_range

inductive_set star_lang :: "string set \<Rightarrow> string set" for L where
  star_nil: "[] \<in> star_lang L"
| star_app: "u \<in> L \<Longrightarrow> v \<in> star_lang L \<Longrightarrow> u @ v \<in> star_lang L"

primrec lang :: "rx \<Rightarrow> string set" where
  "lang RNone = {}"
| "lang REps = {[]}"
| "lang (RCls rs) = {s. \<exists>c. s = [c] \<and> in_class c rs}"
| "lang (RAlt r q) = lang r \<union> lang q"
| "lang (RSeq r q) = {s. \<exists>u v. s = u @ v \<and> u \<in> lang r \<and> v \<in> lang q}"
| "lang (RStar r) = star_lang (lang r)"

definition RChr :: "char \<Rightarrow> rx" where "RChr c = RCls [(c, c)]"
definition ROpt :: "rx \<Rightarrow> rx" where "ROpt r = RAlt r REps"
definition RPlus :: "rx \<Rightarrow> rx" where "RPlus r = RSeq r (RStar r)"

primrec RRep :: "nat \<Rightarrow> rx \<Rightarrow> rx" where
  "RRep 0 r = REps"
| "RRep (Suc n) r = RSeq r (RRep n r)"

primrec RLit :: "string \<Rightarrow> rx" where
  "RLit [] = REps"
| "RLit (c # s) = RSeq (RChr c) (RLit s)"

subsection \<open>The matcher\<close>

primrec eps_ok :: "rx \<Rightarrow> bool" where
  "eps_ok RNone = False"
| "eps_ok REps = True"
| "eps_ok (RCls rs) = False"
| "eps_ok (RAlt r q) = (eps_ok r \<or> eps_ok q)"
| "eps_ok (RSeq r q) = (eps_ok r \<and> eps_ok q)"
| "eps_ok (RStar r) = True"

fun mk_seq :: "rx \<Rightarrow> rx \<Rightarrow> rx" where
  "mk_seq RNone q = RNone"
| "mk_seq REps q = q"
| "mk_seq r q = RSeq r q"

fun is_none :: "rx \<Rightarrow> bool" where
  "is_none RNone = True"
| "is_none _ = False"

definition mk_alt :: "rx \<Rightarrow> rx \<Rightarrow> rx" where
  "mk_alt r q = (if is_none r then q else if is_none q then r else if r = q then r else RAlt r q)"

primrec after_char :: "char \<Rightarrow> rx \<Rightarrow> rx" where
  "after_char c RNone = RNone"
| "after_char c REps = RNone"
| "after_char c (RCls rs) = (if in_class c rs then REps else RNone)"
| "after_char c (RAlt r q) = mk_alt (after_char c r) (after_char c q)"
| "after_char c (RSeq r q) =
     (if eps_ok r then mk_alt (mk_seq (after_char c r) q) (after_char c q)
      else mk_seq (after_char c r) q)"
| "after_char c (RStar r) = mk_seq (after_char c r) (RStar r)"

primrec is_match :: "rx \<Rightarrow> string \<Rightarrow> bool" where
  "is_match r [] = eps_ok r"
| "is_match r (c # s) = is_match (after_char c r) s"

lemma lang_mk_seq [simp]: "lang (mk_seq r q) = lang (RSeq r q)"
  by (cases r) auto

lemma lang_mk_alt [simp]: "lang (mk_alt r q) = lang (RAlt r q)"
  by (cases r; cases q) (auto simp: mk_alt_def)

lemma eps_ok_lang: "eps_ok r \<longleftrightarrow> [] \<in> lang r"
  by (induction r) (auto intro: star_lang.intros)

lemma star_lang_Cons:
  "c # s \<in> star_lang L \<longleftrightarrow> (\<exists>u v. s = u @ v \<and> c # u \<in> L \<and> v \<in> star_lang L)"
proof
  assume "c # s \<in> star_lang L"
  then show "\<exists>u v. s = u @ v \<and> c # u \<in> L \<and> v \<in> star_lang L"
  proof (induction "c # s" rule: star_lang.induct)
    case (star_app u v)
    then show ?case by (cases u) auto
  qed
next
  assume "\<exists>u v. s = u @ v \<and> c # u \<in> L \<and> v \<in> star_lang L"
  then show "c # s \<in> star_lang L"
    by (metis append_Cons star_app)
qed

lemma lang_after_char: "s \<in> lang (after_char c r) \<longleftrightarrow> c # s \<in> lang r"
proof (induction r arbitrary: s)
  case (RSeq r q)
  have "c # s \<in> lang (RSeq r q) \<longleftrightarrow>
    (\<exists>u v. s = u @ v \<and> c # u \<in> lang r \<and> v \<in> lang q) \<or> ([] \<in> lang r \<and> c # s \<in> lang q)"
    by (auto simp: Cons_eq_append_conv)
  then show ?case using RSeq by (auto simp: eps_ok_lang)
next
  case (RStar r)
  then show ?case by (auto simp: star_lang_Cons)
qed auto

theorem is_match_lang: "is_match r s \<longleftrightarrow> s \<in> lang r"
  by (induction s arbitrary: r) (auto simp: eps_ok_lang lang_after_char)

subsection \<open>Closed forms\<close>

lemma lang_RChr [simp]: "lang (RChr c) = {[c]}"
  by (auto simp: RChr_def in_class_def)

lemma lang_ROpt [simp]: "lang (ROpt r) = insert [] (lang r)"
  by (auto simp: ROpt_def)

lemma lang_RLit [simp]: "lang (RLit s) = {s}"
  by (induction s) auto

lemma star_lang_cls: "s \<in> star_lang {t. \<exists>c. t = [c] \<and> P c} \<longleftrightarrow> (\<forall>c\<in>set s. P c)"
proof (induction s)
  case Nil
  then show ?case by (simp add: star_nil)
next
  case (Cons c s)
  then show ?case by (auto simp: star_lang_Cons)
qed

lemma lang_star_cls [simp]: "lang (RStar (RCls rs)) = {s. \<forall>c\<in>set s. in_class c rs}"
  by (auto simp: star_lang_cls)

lemma in_lang_seq_cls: "s \<in> lang (RSeq (RCls rs) q) \<longleftrightarrow> (\<exists>c t. s = c # t \<and> in_class c rs \<and> t \<in> lang q)"
  by (cases s) (auto intro: exI [of _ "[c]" for c])

lemma lang_plus_cls [simp]: "lang (RPlus (RCls rs)) = {s. s \<noteq> [] \<and> (\<forall>c\<in>set s. in_class c rs)}"
proof (rule set_eqI)
  fix s
  show "s \<in> lang (RPlus (RCls rs)) \<longleftrightarrow> s \<in> {s. s \<noteq> [] \<and> (\<forall>c\<in>set s. in_class c rs)}"
    unfolding RPlus_def in_lang_seq_cls by (cases s) (simp_all add: star_lang_cls)
qed

lemma lang_rep_cls [simp]:
  "lang (RRep n (RCls rs)) = {s. length s = n \<and> (\<forall>c\<in>set s. in_class c rs)}"
proof (induction n)
  case 0
  then show ?case by auto
next
  case (Suc n)
  show ?case
  proof (rule set_eqI)
    fix s
    show "s \<in> lang (RRep (Suc n) (RCls rs)) \<longleftrightarrow> s \<in> {s. length s = Suc n \<and> (\<forall>c\<in>set s. in_class c rs)}"
      unfolding RRep.simps in_lang_seq_cls Suc.IH by (cases s) auto
  qed
qed

text \<open>What a string in the language is made of, for claims about characters and emptiness.\<close>

primrec rx_chars :: "rx \<Rightarrow> (char \<times> char) list" where
  "rx_chars RNone = []"
| "rx_chars REps = []"
| "rx_chars (RCls rs) = rs"
| "rx_chars (RAlt r q) = rx_chars r @ rx_chars q"
| "rx_chars (RSeq r q) = rx_chars r @ rx_chars q"
| "rx_chars (RStar r) = rx_chars r"

lemma star_lang_chars: "s \<in> star_lang L \<Longrightarrow> (\<And>u c. u \<in> L \<Longrightarrow> c \<in> set u \<Longrightarrow> P c) \<Longrightarrow> c \<in> set s \<Longrightarrow> P c"
  by (induction rule: star_lang.induct) auto

lemma in_class_append [simp]: "in_class c (rs @ qs) \<longleftrightarrow> in_class c rs \<or> in_class c qs"
  by (auto simp: in_class_def)

lemma lang_chars: "s \<in> lang r \<Longrightarrow> c \<in> set s \<Longrightarrow> in_class c (rx_chars r)"
proof (induction r arbitrary: s c)
  case (RStar r)
  then show ?case
    using star_lang_chars[of s "lang r" "\<lambda>c. in_class c (rx_chars r)" c] by auto
qed auto

lemma lang_nonempty_string: "s \<in> lang r \<Longrightarrow> \<not> eps_ok r \<Longrightarrow> s \<noteq> []"
  by (auto simp: eps_ok_lang)

end
