(* ===== verification/Image_Ref.thy ===== *)
theory Image_Ref
  imports Json Regexes
begin

section \<open>Image references (policy.rs)\<close>

text \<open>
  The parser, normaliser and prefix matcher for image references of \<open>src/rs/src/policy.rs\<close>
  (\<open>parse_image_ref\<close> to \<open>matches_image_prefix\<close>), with the four constant patterns
  translated into \<open>rx\<close> terms. The lemmas show what a successful parse guarantees, that
  Docker Hub's spellings of an image agree, and that prefix matching is exactly the prefix order
  on path components, so a policy prefix never matches part of a component.
\<close>

record image_ref =
  ir_name :: string
  ir_tag :: string
  ir_digest :: string

definition DEFAULT_REGISTRIES :: "string list" where
  "DEFAULT_REGISTRIES = [''docker.io'', ''index.docker.io'', ''registry-1.docker.io'']"

subsection \<open>The constant patterns\<close>

definition cls_alnum :: "(char \<times> char) list" where
  "cls_alnum = [(CHR ''A'', CHR ''Z''), (CHR ''a'', CHR ''z''), (CHR ''0'', CHR ''9'')]"

definition cls_lower_digit :: "(char \<times> char) list" where
  "cls_lower_digit = [(CHR ''a'', CHR ''z''), (CHR ''0'', CHR ''9'')]"

definition rx_host_label :: rx where
  "rx_host_label =
     RSeq (RCls cls_alnum)
       (ROpt (RSeq (RStar (RCls (cls_alnum @ [(CHR ''-'', CHR ''-'')]))) (RCls cls_alnum)))"

definition domain_re :: rx where
  "domain_re =
     RSeq rx_host_label
       (RSeq (RStar (RSeq (RChr (CHR ''.'')) rx_host_label))
         (ROpt (RSeq (RChr (CHR '':'')) (RPlus (RCls [(CHR ''0'', CHR ''9'')])))))"

definition path_component_re :: rx where
  "path_component_re =
     RSeq (RPlus (RCls cls_lower_digit))
       (RStar (RSeq
         (RAlt (RCls [(CHR ''.'', CHR ''.''), (CHR ''_'', CHR ''_'')])
           (RAlt (RLit ''__'') (RPlus (RChr (CHR ''-'')))))
         (RPlus (RCls cls_lower_digit))))"

definition tag_re :: rx where
  "tag_re =
     RSeq (RCls (cls_alnum @ [(CHR ''_'', CHR ''_'')]))
       (RStar (RCls (cls_alnum @ [(CHR ''_'', CHR ''_''), (CHR ''.'', CHR ''.''), (CHR ''-'', CHR ''-'')])))"

definition sha256_digest_re :: rx where
  "sha256_digest_re =
     RSeq (RLit ''sha256:'') (RRep 64 (RCls [(CHR ''a'', CHR ''f''), (CHR ''0'', CHR ''9'')]))"

subsection \<open>Parsing and normalising\<close>

text \<open>The first component of a name when it is a registry host, lower-cased, and the path.\<close>

definition split_domain :: "string \<Rightarrow> string option \<times> string" where
  "split_domain name =
     (case split_once (CHR ''/'') name of
        Some (first, path) \<Rightarrow>
          if CHR ''.'' \<in> set first \<or> CHR '':'' \<in> set first \<or> first = ''localhost''
          then (Some (to_ascii_lowercase first), path)
          else (None, name)
      | None \<Rightarrow> (None, name))"

definition domain_ok :: "string option \<Rightarrow> bool" where
  "domain_ok domain = (case domain of Some d \<Rightarrow> is_match domain_re d | None \<Rightarrow> True)"

definition path_ok :: "string \<Rightarrow> bool" where
  "path_ok path = list_all (is_match path_component_re) (split_on (CHR ''/'') path)"

definition drop_default_registry :: "string option \<Rightarrow> string option" where
  "drop_default_registry domain =
     (case domain of
        Some d \<Rightarrow> if List.member DEFAULT_REGISTRIES d then None else Some d
      | None \<Rightarrow> None)"

definition full_name :: "string option \<Rightarrow> string \<Rightarrow> string" where
  "full_name domain path =
     (case domain of
        Some d \<Rightarrow> d @ ''/'' @ path
      | None \<Rightarrow> (case strip_prefix ''library/'' path of
            Some official \<Rightarrow> if CHR ''/'' \<in> set official then path else official
          | None \<Rightarrow> path))"

definition at_most_255 :: "string \<Rightarrow> string option" where
  "at_most_255 full = (if length full > 255 then None else Some full)"

definition normalize_name :: "string \<Rightarrow> string option" where
  "normalize_name name =
     (case split_domain name of (domain, path) \<Rightarrow>
        if \<not> domain_ok domain then None
        else if \<not> path_ok path then None
        else at_most_255 (full_name (drop_default_registry domain) path))"

definition invalid_ref :: "string \<Rightarrow> string" where
  "invalid_ref r = fmt [''invalid image reference '', dquote, r, dquote]"

text \<open>
  The byte index just after the last slash, and the split of \<open>rest\<close> at the last colon
  after it: the name, and the tag when there is such a colon.
\<close>

definition after_slash :: "string \<Rightarrow> nat" where
  "after_slash rest = (case rfind (CHR ''/'') rest of Some i \<Rightarrow> i + 1 | None \<Rightarrow> 0)"

definition split_tag :: "string \<Rightarrow> nat \<Rightarrow> string \<times> string option" where
  "split_tag rest a =
     (case rfind (CHR '':'') (drop a rest) of
        Some i \<Rightarrow> (take (a + i) rest, Some (drop (a + i + 1) rest))
      | None \<Rightarrow> (rest, None))"

definition finish_ref :: "string \<Rightarrow> string \<Rightarrow> string \<times> string option \<Rightarrow> image_ref res" where
  "finish_ref reference digest nt =
     (case nt of (name, tag) \<Rightarrow>
        if (case tag of Some t \<Rightarrow> \<not> is_match tag_re t | None \<Rightarrow> False)
        then Inl (invalid_ref reference)
        else (case normalize_name name of
            None \<Rightarrow> Inl (invalid_ref reference)
          | Some n \<Rightarrow> Inr \<lparr>ir_name = n, ir_tag = unwrap_or tag [], ir_digest = digest\<rparr>))"

definition parse_image_ref :: "string \<Rightarrow> image_ref res" where
  "parse_image_ref reference =
     (case split_once (CHR ''@'') reference of
        Some (rest, digest) \<Rightarrow>
          if digest = [] then Inl (invalid_ref reference)
          else finish_ref reference digest (split_tag rest (after_slash rest))
      | None \<Rightarrow> finish_ref reference [] (split_tag reference (after_slash reference)))"

definition normalize_image_prefix :: "string \<Rightarrow> string res" where
  "normalize_image_prefix pfx =
     res_bind (parse_image_ref pfx) (\<lambda>r.
       if ir_tag r \<noteq> [] \<or> ir_digest r \<noteq> []
       then Inl (fmt [''image prefix '', dquote, pfx, dquote, '' has a tag or digest''])
       else Inr (ir_name r))"

definition byte_at :: "string \<Rightarrow> nat \<Rightarrow> char option" where
  "byte_at s i = (if i < length s then Some (s ! i) else None)"

definition matches_image_prefix :: "string \<Rightarrow> string list \<Rightarrow> bool" where
  "matches_image_prefix name pfxs =
     (\<exists>p\<in>set pfxs. name = p \<or>
        (starts_with name p \<and> byte_at name (length p) = Some (CHR ''/'')))"

subsection \<open>Characters of names\<close>

lemmas image_rx_defs =
  path_component_re_def domain_re_def rx_host_label_def tag_re_def cls_alnum_def cls_lower_digit_def
  RChr_def ROpt_def RPlus_def

lemma path_component_chars:
  assumes "is_match path_component_re w" "c \<in> set w"
  shows "c \<noteq> CHR ''/'' \<and> c \<noteq> CHR '':'' \<and> c \<noteq> CHR ''@'' \<and> \<not> is_ascii_uppercase c"
proof -
  have "in_class c (rx_chars path_component_re)"
    using assms lang_chars by (simp add: is_match_lang)
  then show ?thesis
    by (auto simp: image_rx_defs in_class_def less_eq_char_def is_ascii_uppercase_def)
qed

lemma domain_chars:
  assumes "is_match domain_re w" "c \<in> set w"
  shows "c \<noteq> CHR ''/'' \<and> c \<noteq> CHR ''@''"
proof -
  have "in_class c (rx_chars domain_re)"
    using assms lang_chars by (simp add: is_match_lang)
  then show ?thesis
    by (auto simp: image_rx_defs in_class_def less_eq_char_def)
qed

lemma tag_chars:
  assumes "is_match tag_re w" "c \<in> set w"
  shows "c \<noteq> CHR ''/'' \<and> c \<noteq> CHR ''@'' \<and> c \<noteq> CHR '':''"
proof -
  have "in_class c (rx_chars tag_re)"
    using assms lang_chars by (simp add: is_match_lang)
  then show ?thesis
    by (auto simp: image_rx_defs in_class_def less_eq_char_def)
qed

lemma path_component_nonempty: "is_match path_component_re w \<Longrightarrow> w \<noteq> []"
  by (auto simp: path_component_re_def RPlus_def)

lemma tag_nonempty: "is_match tag_re w \<Longrightarrow> w \<noteq> []"
  by (auto simp: tag_re_def)

lemma domain_nonempty: "is_match domain_re w \<Longrightarrow> w \<noteq> []"
  by (auto simp: domain_re_def rx_host_label_def)

lemma path_ok_chars:
  assumes "path_ok p" "c \<in> set p"
  shows "c \<noteq> CHR '':'' \<and> c \<noteq> CHR ''@'' \<and> \<not> is_ascii_uppercase c"
proof (cases "c = CHR ''/''")
  case True
  then show ?thesis by (simp add: is_ascii_uppercase_def less_eq_char_def)
next
  case False
  have "c \<in> set (join_with [CHR ''/''] (split_on (CHR ''/'') p))"
    using assms(2) by (simp only: join_split_on)
  moreover have "set (join_with [d] ws) \<subseteq> insert d (\<Union>(set ` set ws))" for d and ws :: "string list"
    by (induction "[d]" ws rule: join_with.induct) auto
  ultimately obtain w where "w \<in> set (split_on (CHR ''/'') p)" "c \<in> set w"
    using False by blast
  with assms(1) show ?thesis
    using path_component_chars by (auto simp: path_ok_def list_all_iff)
qed

lemma path_ok_nonempty: "path_ok p \<Longrightarrow> p \<noteq> []"
  using path_component_nonempty[of "[]"] by (auto simp: path_ok_def)

lemma path_ok_library: "path_ok (''library/'' @ p) \<Longrightarrow> path_ok p"
  using split_on_append_sep[of "CHR ''/''" "''library''" p] by (simp add: path_ok_def)

subsection \<open>What a successful parse guarantees\<close>

lemma split_domain_cases:
  obtains (host) first path where
      "split_domain name = (Some (to_ascii_lowercase first), path)"
      "name = first @ CHR ''/'' # path" "CHR ''/'' \<notin> set first"
      "CHR ''.'' \<in> set first \<or> CHR '':'' \<in> set first \<or> first = ''localhost''"
    | (plain) "split_domain name = (None, name)"
      "\<And>first path. name = first @ CHR ''/'' # path \<Longrightarrow> CHR ''/'' \<notin> set first \<Longrightarrow>
         CHR ''.'' \<notin> set first \<and> CHR '':'' \<notin> set first \<and> first \<noteq> ''localhost''"
proof (cases "split_once (CHR ''/'') name")
  case None
  then have "split_domain name = (None, name)" by (simp add: split_domain_def)
  moreover have "CHR ''/'' \<notin> set name" using None by (simp add: split_once_None)
  ultimately show thesis by (intro plain) auto
next
  case (Some fp)
  obtain first path where fp: "fp = (first, path)" by (cases fp)
  with Some have n: "name = first @ CHR ''/'' # path" "CHR ''/'' \<notin> set first"
    by (auto dest: split_once_SomeD)
  show thesis
  proof (cases "CHR ''.'' \<in> set first \<or> CHR '':'' \<in> set first \<or> first = ''localhost''")
    case True
    with Some fp have "split_domain name = (Some (to_ascii_lowercase first), path)"
      by (simp add: split_domain_def)
    with True n host show thesis by blast
  next
    case False
    with Some fp have p: "split_domain name = (None, name)"
      by (auto simp: split_domain_def)
    have "first' = first" if "name = first' @ CHR ''/'' # path'" "CHR ''/'' \<notin> set first'" for first' path'
    proof -
      have "split_once (CHR ''/'') name = Some (first', path')"
        using that by (simp add: split_once_Some)
      with Some fp show ?thesis by simp
    qed
    with False p plain show thesis by metis
  qed
qed

lemma normalize_name_parts:
  assumes "normalize_name name = Some n"
  obtains domain path where
    "split_domain name = (domain, path)" "domain_ok domain" "path_ok path"
    "n = full_name (drop_default_registry domain) path" "length n \<le> 255"
  using assms by (auto simp: normalize_name_def at_most_255_def split: prod.splits if_splits)

lemma domain_lowercase: "split_domain name = (Some d, p) \<Longrightarrow> to_ascii_lowercase d = d"
  by (cases name rule: split_domain_cases) auto

lemma full_name_cases:
  "full_name domain path \<in> {path} \<union> {w. path = ''library/'' @ w \<and> CHR ''/'' \<notin> set w}
     \<or> (\<exists>d. domain = Some d \<and> full_name domain path = d @ ''/'' @ path)"
  by (auto simp: full_name_def strip_prefix_Some split: option.splits)

lemma lowercase_no_upper: "to_ascii_lowercase d = d \<Longrightarrow> c \<in> set d \<Longrightarrow> \<not> is_ascii_uppercase c"
  by (metis (no_types, lifting) to_ascii_lowercase_def imageE list.set_map lowercase_not_upper)

text \<open>
  Every normalised name is non-empty, at most 255 bytes long, has no upper-case letter and no
  at-sign.
\<close>

lemma normalize_name_shape:
  assumes "normalize_name name = Some n"
  shows "n \<noteq> [] \<and> length n \<le> 255 \<and> (\<forall>c\<in>set n. \<not> is_ascii_uppercase c \<and> c \<noteq> CHR ''@'')"
proof -
  obtain domain path where *: "split_domain name = (domain, path)" "domain_ok domain" "path_ok path"
      "n = full_name (drop_default_registry domain) path" "length n \<le> 255"
    using assms by (rule normalize_name_parts)
  have lib: "n \<noteq> [] \<and> (\<forall>c\<in>set n. \<not> is_ascii_uppercase c \<and> c \<noteq> CHR ''@'')"
    if "path_ok n"
    using that path_ok_nonempty path_ok_chars by blast
  consider "n = path" | "path = ''library/'' @ n" | d where "domain = Some d" "n = d @ ''/'' @ path"
    using full_name_cases[of "drop_default_registry domain" path] *(4)
    by (auto simp: drop_default_registry_def split: option.splits if_splits)
  then show ?thesis
  proof cases
    case 1
    with * lib show ?thesis by simp
  next
    case 2
    have "path_ok n" using *(3) unfolding 2 by (rule path_ok_library)
    with * lib show ?thesis by blast
  next
    case 3
    then have "is_match domain_re d" "to_ascii_lowercase d = d"
      using * domain_lowercase by (auto simp: domain_ok_def)
    moreover have "\<not> is_ascii_uppercase (CHR ''/'')"
      by (simp add: is_ascii_uppercase_def less_eq_char_def)
    ultimately show ?thesis
      using 3 * path_ok_chars domain_chars lowercase_no_upper by auto
  qed
qed

lemma finish_ref_Inr:
  "finish_ref reference digest (name, tag) = Inr i \<longleftrightarrow>
     (\<exists>n. normalize_name name = Some n \<and> (\<forall>t. tag = Some t \<longrightarrow> is_match tag_re t) \<and>
        i = \<lparr>ir_name = n, ir_tag = unwrap_or tag [], ir_digest = digest\<rparr>)"
  by (auto simp: finish_ref_def split: option.splits)

lemma parse_image_ref_InrD:
  assumes "parse_image_ref r = Inr i"
  shows "\<exists>name. normalize_name name = Some (ir_name i) \<and>
     (ir_tag i = [] \<or> is_match tag_re (ir_tag i))"
proof -
  from assms obtain rest digest where
    "finish_ref r digest (split_tag rest (after_slash rest)) = Inr i"
    by (auto simp: parse_image_ref_def split: option.splits if_splits prod.splits)
  then show ?thesis
    by (cases "split_tag rest (after_slash rest)"; cases "snd (split_tag rest (after_slash rest))")
       (auto simp: finish_ref_Inr)
qed

subsection \<open>Prefix matching is the component-wise prefix order\<close>

lemma byte_at_prefix:
  "starts_with name p \<and> byte_at name (length p) = Some d \<longleftrightarrow> prefix (p @ [d]) name"
  by (auto simp: byte_at_def prefix_def nth_append split: if_splits)
     (metis Cons_nth_drop_Suc append_eq_conv_conj drop_append drop_eq_Nil linorder_not_le nth_append_length
       self_append_conv2 diff_self_eq_0 drop_all)

lemma matches_image_prefix_components:
  "matches_image_prefix name pfxs \<longleftrightarrow>
     (\<exists>p\<in>set pfxs. prefix (split_on (CHR ''/'') p) (split_on (CHR ''/'') name))"
  by (auto simp: matches_image_prefix_def prefix_split_on byte_at_prefix)

subsection \<open>Normal forms\<close>

text \<open>Docker Hub's hosts are transparent: naming one changes nothing for a path with no host.\<close>

lemma normalize_name_hub:
  assumes "d \<in> set DEFAULT_REGISTRIES" "fst (split_domain path) = None"
  shows "normalize_name (d @ ''/'' @ path) = normalize_name path"
proof -
  have d: "CHR ''/'' \<notin> set d" "CHR ''.'' \<in> set d" "to_ascii_lowercase d = d" "is_match domain_re d"
    using assms(1) by (auto simp: DEFAULT_REGISTRIES_def) (code_simp+)
  have "split_once (CHR ''/'') (d @ ''/'' @ path) = Some (d, path)"
    using d by (simp add: split_once_Some)
  then have "split_domain (d @ ''/'' @ path) = (Some d, path)"
    using d by (simp add: split_domain_def)
  moreover have "split_domain path = (None, path)"
    using assms(2) by (cases path rule: split_domain_cases) auto
  ultimately show ?thesis
    using d assms(1) by (simp add: normalize_name_def domain_ok_def drop_default_registry_def)
qed

text \<open>
  A normalised name is a fixed point of normalisation, unless dropping Docker Hub's host has
  exposed a first component that itself reads as a registry host that is invalid or is again a
  Docker Hub host.
\<close>

definition host_like_ok :: "string \<Rightarrow> bool" where
  "host_like_ok n =
     (case split_domain n of (Some d, _) \<Rightarrow> domain_ok (Some d) \<and> d \<notin> set DEFAULT_REGISTRIES
                           | (None, _) \<Rightarrow> True)"

lemma normalize_name_idem:
  assumes n: "normalize_name name = Some n" and h: "host_like_ok n"
  shows "normalize_name n = Some n"
proof -
  obtain domain path where *: "split_domain name = (domain, path)" "domain_ok domain" "path_ok path"
      "n = full_name (drop_default_registry domain) path" "length n \<le> 255"
    using n by (rule normalize_name_parts)
  have pathok: "normalize_name n = Some n"
    if p: "path_ok n" and full: "full_name None n = n"
  proof (cases n rule: split_domain_cases)
    case (host first q)
    have "to_ascii_lowercase first = first"
      using host p path_ok_chars by (intro lowercase_id) auto
    moreover have "path_ok q"
      using p host split_on_append_sep[of "CHR ''/''" first q] by (simp add: path_ok_def)
    ultimately show ?thesis
      using host h * by (simp add: normalize_name_def host_like_ok_def drop_default_registry_def
          full_name_def at_most_255_def)
  next
    case plain
    with p full * show ?thesis
      by (simp add: normalize_name_def domain_ok_def drop_default_registry_def at_most_255_def)
  qed
  consider (same) "n = path" "full_name None path = path"
    | (lib) "path = ''library/'' @ n" "CHR ''/'' \<notin> set n"
    | (dom) d where "domain = Some d" "d \<notin> set DEFAULT_REGISTRIES" "n = d @ ''/'' @ path"
    using *(4) by (auto simp: full_name_def drop_default_registry_def strip_prefix_Some
        split: option.splits if_splits)
  then show ?thesis
  proof cases
    case same
    with * pathok show ?thesis by simp
  next
    case lib
    then have "full_name None n = n"
      by (auto simp: full_name_def strip_prefix_Some split: option.splits)
    with lib * pathok path_ok_library show ?thesis by blast
  next
    case dom
    then have d: "CHR ''/'' \<notin> set d" "to_ascii_lowercase d = d" "is_match domain_re d"
      using * domain_chars domain_lowercase by (auto simp: domain_ok_def)
    have s: "split_once (CHR ''/'') n = Some (d, path)"
      using dom d by (simp add: split_once_Some)
    have "CHR ''.'' \<in> set d \<or> CHR '':'' \<in> set d \<or> d = ''localhost''"
      using *(1) dom(1)
      by (cases name rule: split_domain_cases)
         (auto simp: to_ascii_lowercase_def to_ascii_lowercase_char_def is_ascii_uppercase_def
            less_eq_char_def image_iff intro: bexI)
    then have "split_domain n = (Some d, path)"
      using s d by (simp add: split_domain_def)
    with dom d * show ?thesis
      by (simp add: normalize_name_def domain_ok_def drop_default_registry_def full_name_def at_most_255_def)
  qed
qed

subsection \<open>Printing and parsing\<close>

definition print_image_ref :: "image_ref \<Rightarrow> string" where
  "print_image_ref i =
     ir_name i @ (if ir_tag i = [] then [] else CHR '':'' # ir_tag i)
       @ (if ir_digest i = [] then [] else CHR ''@'' # ir_digest i)"

lemma rfind_append_none: "d \<notin> set b \<Longrightarrow> rfind d (a @ b) = rfind d a"
proof (induction a)
  case Nil
  then show ?case by (simp add: rfind_None)
next
  case (Cons c a)
  then show ?case by simp
qed

lemma after_slash_bound: "after_slash n \<le> length n"
  using rfind_Some[of "CHR ''/''" n] by (auto simp: after_slash_def split: option.splits)

lemma after_slash_append: "CHR ''/'' \<notin> set t \<Longrightarrow> after_slash (n @ t) = after_slash n"
  by (simp add: after_slash_def rfind_append_none)

lemma drop_after_slash_sep: "drop (after_slash (a @ CHR ''/'' # b)) (a @ CHR ''/'' # b) = drop (after_slash b) b"
proof -
  have "rfind d (a @ d # b) = Some (length a + (case rfind d b of None \<Rightarrow> 0 | Some i \<Rightarrow> Suc i))" for d
    by (induction a) (auto split: option.splits)
  then show ?thesis by (auto simp: after_slash_def split: option.splits)
qed

text \<open>A colon in a normalised name (a registry port) stands before its last slash.\<close>

lemma normalize_name_no_tag_colon:
  assumes "normalize_name name = Some n"
  shows "CHR '':'' \<notin> set (drop (after_slash n) n)"
proof -
  obtain domain path where *: "split_domain name = (domain, path)" "domain_ok domain" "path_ok path"
      "n = full_name (drop_default_registry domain) path" "length n \<le> 255"
    using assms by (rule normalize_name_parts)
  have nc: "CHR '':'' \<notin> set (drop k q)" if "path_ok q" for k q
    using path_ok_chars[OF that] set_drop_subset[of k q] by blast
  consider "n = path" | "path = ''library/'' @ n" | d where "n = d @ CHR ''/'' # path"
    using full_name_cases[of "drop_default_registry domain" path] *(4) by auto
  then show ?thesis
  proof cases
    case 1
    with * nc show ?thesis by simp
  next
    case 2
    have "path_ok n" using *(3) unfolding 2 by (rule path_ok_library)
    with nc show ?thesis by simp
  next
    case 3
    show ?thesis unfolding 3 drop_after_slash_sep using *(3) by (rule nc)
  qed
qed

lemma split_tag_print:
  assumes "CHR '':'' \<notin> set (drop (after_slash n) n)" "t = [] \<or> is_match tag_re t"
  shows "split_tag (n @ (if t = [] then [] else CHR '':'' # t)) (after_slash (n @ (if t = [] then [] else CHR '':'' # t)))
       = (n, if t = [] then None else Some t)"
proof (cases "t = []")
  case True
  with assms show ?thesis by (simp add: split_tag_def rfind_None [THEN iffD2])
next
  case False
  with assms have t: "CHR ''/'' \<notin> set t" "CHR '':'' \<notin> set t"
    using tag_chars by blast+
  then have a: "after_slash (n @ CHR '':'' # t) = after_slash n"
    by (simp add: after_slash_append)
  have d: "drop (after_slash n) (n @ CHR '':'' # t) = drop (after_slash n) n @ CHR '':'' # t"
    using after_slash_bound[of n] by simp
  have "rfind (CHR '':'') (drop (after_slash n) (n @ CHR '':'' # t)) = Some (length n - after_slash n)"
    unfolding d using t by (simp add: rfind_append_sep)
  with False after_slash_bound[of n] show ?thesis
    by (simp add: split_tag_def a)
qed

lemma parse_print_image_ref:
  assumes n: "normalize_name (ir_name i) = Some (ir_name i)"
    and t: "ir_tag i = [] \<or> is_match tag_re (ir_tag i)"
  shows "parse_image_ref (print_image_ref i) = Inr i"
proof -
  let ?rest = "ir_name i @ (if ir_tag i = [] then [] else CHR '':'' # ir_tag i)"
  have noat: "CHR ''@'' \<notin> set ?rest"
    using normalize_name_shape[OF n] t tag_chars by auto
  have fin: "finish_ref r (ir_digest i) (split_tag ?rest (after_slash ?rest)) = Inr i" for r
    unfolding split_tag_print[OF normalize_name_no_tag_colon[OF n] t]
    using n t by (cases i) (auto simp: finish_ref_Inr)
  show ?thesis
  proof (cases "ir_digest i = []")
    case True
    with fin[of "print_image_ref i"] noat show ?thesis
      by (simp add: parse_image_ref_def print_image_ref_def split_once_None [THEN iffD2])
  next
    case False
    then have "print_image_ref i = ?rest @ CHR ''@'' # ir_digest i"
      by (simp add: print_image_ref_def)
    then have "split_once (CHR ''@'') (print_image_ref i) = Some (?rest, ir_digest i)"
      using split_once_append[OF noat, of "ir_digest i"] by metis
    with fin False show ?thesis
      by (simp add: parse_image_ref_def)
  qed
qed

end
