(* ===== verification/Policy.thy ===== *)
theory Policy
  imports Image_Ref
begin

section \<open>Policies and the policy manager (policy.rs)\<close>

text \<open>
  The policy records, the load-time validation and the manager of \<open>src/rs/src/policy.rs\<close>.
  \<open>serde_yaml::from_str\<close> is a parameter (\<open>yaml_loader\<close>): given the custom
  deserialiser \<open>group_list\<close> of the source and a file's text, it returns a policy or an error
  text. The directory and the files are a record \<open>config_fs\<close>. A \<open>manager\<close> is the
  \<open>BTreeMap\<close> from service names to policies.
\<close>

subsection \<open>Data\<close>

record container_config =
  network_mode :: "string option"
  restart_policy :: "string option"
  security_options :: "string list option"
  cc_user :: "string option"
  log_driver :: "string option"
  log_options :: "(string, string) hashmap option"
  group_add :: "string list option"

record volume =
  host_path :: string
  container_path :: string
  read_write :: bool

record flag_rule =
  rule_flag :: string
  value_pattern :: string

record policy =
  service_name :: string
  container_names :: "string list option"
  user_id :: "string option"
  group_id :: "string option"
  allowed_image_prefixes :: "string list"
  image_tag_pattern :: "string option"
  image_digest_allowed :: bool
  container_config :: "container_config option"
  volumes :: "volume list option"
  ports :: "string list option"
  env_file :: "string option"
  allowed_cli_flags :: "string list option"
  flag_rules :: "flag_rule list option"
  denied_flags :: "string list option"

definition covered_names :: "policy \<Rightarrow> string list" where
  "covered_names p = (case container_names p of Some names \<Rightarrow> names | None \<Rightarrow> [service_name p])"

definition accepts_name :: "policy \<Rightarrow> string \<Rightarrow> bool" where
  "accepts_name p name = (case container_names p of Some names \<Rightarrow> List.member names name | None \<Rightarrow> True)"

fun valid_container_name :: "string \<Rightarrow> bool" where
  "valid_container_name [] = False"
| "valid_container_name (b # bytes) =
     (is_ascii_alphanumeric b \<and>
      list_all (\<lambda>b. is_ascii_alphanumeric b \<or> b = CHR ''_'' \<or> b = CHR ''.'' \<or> b = CHR ''-'') bytes)"

subsection \<open>Supplementary groups\<close>

datatype yaml_value = YString string | YOther

definition group_list :: "yaml_value list option \<Rightarrow> string list option res" where
  "group_list values =
     (case values of
        None \<Rightarrow> Inr None
      | Some vs \<Rightarrow>
          res_bind (map_res (\<lambda>v. case v of YString s \<Rightarrow> Inr s
              | YOther \<Rightarrow> Inl ''group_add entries must be strings (quote GIDs: '64190')'') vs)
            (\<lambda>gs. Inr (Some gs)))"

definition group_body_ok :: "string \<Rightarrow> bool" where
  "group_body_ok body =
     (case body of
        [] \<Rightarrow> False
      | b # bytes \<Rightarrow> (is_ascii_lowercase b \<or> b = CHR ''_'') \<and>
          list_all (\<lambda>b. is_ascii_lowercase b \<or> is_ascii_digit b \<or> b = CHR ''_'' \<or> b = CHR ''-'') bytes)"

definition valid_group_name :: "string \<Rightarrow> bool" where
  "valid_group_name name =
     (length name \<le> 32 \<and> group_body_ok (unwrap_or (strip_suffix ''$'' name) name))"

definition invalid_group :: "string \<Rightarrow> string \<Rightarrow> string" where
  "invalid_group file g = fmt [''policy file '', file, '': invalid group_add entry '', debug_str g,
     '' (want a decimal GID or a group name)'']"

definition root_group :: "string \<Rightarrow> string \<Rightarrow> string" where
  "root_group file g = fmt [''policy file '', file, '': group_add entry '', debug_str g,
     '' is the root group, which is not allowed'']"

definition group_key :: "string \<Rightarrow> string \<Rightarrow> string res" where
  "group_key file g =
     (if all_digits g then
        (case parse_u32 g of
           None \<Rightarrow> Inl (invalid_group file g)
         | Some gid \<Rightarrow> if gid = 0 then Inl (root_group file g)
                       else Inr (''gid:'' @ dec_nat (unat gid)))
      else if valid_group_name g then
        (if g = ''root'' then Inl (root_group file g) else Inr (''name:'' @ g))
      else Inl (invalid_group file g))"

primrec check_group_add_loop :: "string \<Rightarrow> string list \<Rightarrow> string list \<Rightarrow> check" where
  "check_group_add_loop file seen [] = Inr ()"
| "check_group_add_loop file seen (g # groups) =
     res_bind (group_key file g) (\<lambda>key.
       if List.member seen key
       then Inl (fmt [''policy file '', file, '': duplicate group_add entry '', debug_str g])
       else check_group_add_loop file (key # seen) groups)"

definition check_group_add :: "string \<Rightarrow> string list \<Rightarrow> check" where
  "check_group_add file groups = check_group_add_loop file [] groups"

subsection \<open>The manager\<close>

record manager =
  policies_by_name :: "(string, policy) btreemap"

definition from_map :: "(string, policy) hashmap \<Rightarrow> manager" where
  "from_map ps = \<lparr>policies_by_name = bt_collect ps\<rparr>"

abbreviation policies :: "manager \<Rightarrow> policy list" where
  "policies m \<equiv> bt_values (policies_by_name m)"

definition get_policy :: "manager \<Rightarrow> string \<Rightarrow> policy option" where
  "get_policy m name = bt_get (policies_by_name m) name"

definition matching_image :: "manager \<Rightarrow> string \<Rightarrow> policy list" where
  "matching_image m name = filter (\<lambda>p. matches_image_prefix name (allowed_image_prefixes p)) (policies m)"

definition get_by_image :: "manager \<Rightarrow> string \<Rightarrow> policy option" where
  "get_by_image m img =
     (case parse_image_ref img of
        Inl _ \<Rightarrow> None
      | Inr r \<Rightarrow> (case matching_image m (ir_name r) of [] \<Rightarrow> None | p # _ \<Rightarrow> Some p))"

definition select_among :: "string \<Rightarrow> string \<Rightarrow> policy list \<Rightarrow> policy list \<Rightarrow> policy res" where
  "select_among img name matching candidates =
     (if length candidates = 1 then Inr (hd candidates)
      else if matching = [] then Inl (fmt [''image '', img, '' not allowed by any policy''])
      else if candidates = [] \<and> name = [] then Inl (fmt [''image '', img, '' requires a container name''])
      else if candidates = [] then
        Inl (fmt [''container name '', name, '' not allowed for image '', img, '' by any policy''])
      else Inl (fmt [''ambiguous policy for image '', img, '' and name '', name, '': '', join_with '', '' (map service_name candidates)]))"

definition select_for_create :: "manager \<Rightarrow> string \<Rightarrow> string \<Rightarrow> policy res" where
  "select_for_create m img name =
     res_bind (parse_image_ref img) (\<lambda>r.
       select_among img name (matching_image m (ir_name r))
         (filter (\<lambda>p. accepts_name p name) (matching_image m (ir_name r))))"

definition covering :: "manager \<Rightarrow> string \<Rightarrow> policy list" where
  "covering m name = filter (\<lambda>p. List.member (covered_names p) name) (policies m)"

definition list_names :: "manager \<Rightarrow> string list" where
  "list_names m = bt_keys (policies_by_name m)"

subsection \<open>Conflicts between policies\<close>

definition prefixes_overlap :: "string \<Rightarrow> string \<Rightarrow> bool" where
  "prefixes_overlap pa pb =
     (pa = pb \<or> starts_with pa (pb @ ''/'') \<or> starts_with pb (pa @ ''/''))"

definition overlapping_prefixes :: "string list \<Rightarrow> string list \<Rightarrow> (string \<times> string) option" where
  "overlapping_prefixes a b = List.find (\<lambda>(pa, pb). prefixes_overlap pa pb) (List.product a b)"

definition shared_name :: "string list \<Rightarrow> string list \<Rightarrow> string option" where
  "shared_name an bn =
     (case filter (\<lambda>n. List.member bn n) an of [] \<Rightarrow> None | n # ns \<Rightarrow> Some (fold min ns n))"

definition conflict_reason :: "policy \<Rightarrow> policy \<Rightarrow> string option" where
  "conflict_reason a b =
     (case container_names a of
        None \<Rightarrow> Some (fmt [debug_str (service_name a), '' has no container_names''])
      | Some an \<Rightarrow> (case container_names b of
            None \<Rightarrow> Some (fmt [debug_str (service_name b), '' has no container_names''])
          | Some bn \<Rightarrow> map_option (\<lambda>s. fmt [''both accept container name '', debug_str s]) (shared_name an bn)))"

definition check_pair :: "(string, string) hashmap \<Rightarrow> policy \<Rightarrow> policy \<Rightarrow> check" where
  "check_pair file_of a b =
     (case overlapping_prefixes (allowed_image_prefixes a) (allowed_image_prefixes b) of
        None \<Rightarrow> Inr ()
      | Some (pa, pb) \<Rightarrow> (case conflict_reason a b of
            None \<Rightarrow> Inr ()
          | Some reason \<Rightarrow>
              Inl (fmt [''conflicting policies '', debug_str (service_name a), '' ('',
                unwrap_or (hm_get file_of (service_name a)) [], '') and '',
                debug_str (service_name b), '' ('',
                unwrap_or (hm_get file_of (service_name b)) [], ''): image prefixes '',
                debug_str pa, '' and '', debug_str pb, '' overlap and '', reason])))"

primrec check_conflicts_from :: "(string, string) hashmap \<Rightarrow> policy list \<Rightarrow> check" where
  "check_conflicts_from file_of [] = Inr ()"
| "check_conflicts_from file_of (a # rest) =
     res_bind (for_each (check_pair file_of a) rest) (\<lambda>_. check_conflicts_from file_of rest)"

definition check_conflicts :: "manager \<Rightarrow> (string, string) hashmap \<Rightarrow> check" where
  "check_conflicts m file_of = check_conflicts_from file_of (policies m)"

subsection \<open>Loading\<close>

datatype dir_result = DirNotFound | DirError string | DirEntries "string res list"

record config_fs =
  read_dir :: "string \<Rightarrow> dir_result"
  read_to_string :: "string \<Rightarrow> string res"

type_synonym yaml_loader =
  "(yaml_value list option \<Rightarrow> string list option res) \<Rightarrow> string \<Rightarrow> policy res"

definition path_extension :: "string \<Rightarrow> string option" where
  "path_extension f =
     (if f = ''..'' then None
      else (case rfind (CHR ''.'') f of
          None \<Rightarrow> None
        | Some i \<Rightarrow> if i = 0 then None else Some (drop (i + 1) f)))"

definition is_yaml :: "string \<Rightarrow> bool" where
  "is_yaml f = (path_extension f = Some ''yaml'' \<or> path_extension f = Some ''yml'')"

definition path_join :: "string \<Rightarrow> string \<Rightarrow> string" where
  "path_join dir f = (if dir = [] \<or> ends_with dir ''/'' then dir @ f else dir @ ''/'' @ f)"

definition check_container_names :: "string \<Rightarrow> policy \<Rightarrow> check" where
  "check_container_names file p =
     (case container_names p of
        None \<Rightarrow> Inr ()
      | Some names \<Rightarrow>
          if names = [] then Inl (fmt [''policy file '', file, '': container_names must not be empty''])
          else (case List.find (\<lambda>n. \<not> valid_container_name n) names of
              Some bad \<Rightarrow> Inl (fmt [''policy file '', file, '': invalid container name '', debug_str bad, '' in container_names''])
            | None \<Rightarrow> Inr ()))"

definition check_groups :: "string \<Rightarrow> policy \<Rightarrow> policy res" where
  "check_groups file p =
     (case container_config p of
        None \<Rightarrow> Inr p
      | Some cc \<Rightarrow>
          res_bind (check_group_add file (unwrap_or (group_add cc) [])) (\<lambda>_.
            Inr (if group_add cc = Some [] then p\<lparr>container_config := Some (cc\<lparr>group_add := None\<rparr>)\<rparr>
                 else p)))"

definition normalize_prefixes :: "string \<Rightarrow> string list \<Rightarrow> string list res" where
  "normalize_prefixes path pfxs =
     map_res (\<lambda>pfx. map_err (\<lambda>_. fmt [''policy file '', path,
         '' has an invalid allowed_image_prefixes entry '', dquote, pfx, dquote])
       (normalize_image_prefix pfx)) pfxs"

type_synonym load_state = "(string, policy) btreemap \<times> (string, string) hashmap"

definition load_file :: "yaml_loader \<Rightarrow> config_fs \<Rightarrow> string \<Rightarrow> string \<Rightarrow> load_state \<Rightarrow> load_state res" where
  "load_file yaml fs dir file st =
     res_bind (read_to_string fs (path_join dir file)) (\<lambda>data.
     res_bind (map_err (\<lambda>e. fmt [''policy file '', file, '': '', e]) (yaml group_list data)) (\<lambda>p0.
     if service_name p0 = [] then Inl ''missing service_name''
     else if allowed_image_prefixes p0 = [] then Inl ''missing allowed_image_prefixes''
     else
     res_bind (check_container_names file p0) (\<lambda>_.
     res_bind (check_groups file p0) (\<lambda>p.
     case hm_get (snd st) (service_name p) of
       Some prev \<Rightarrow> Inl (fmt [''policies in '', prev, '' and '', file, '' both use service_name '', debug_str (service_name p)])
     | None \<Rightarrow>
       res_bind (normalize_prefixes (path_join dir file) (allowed_image_prefixes p)) (\<lambda>pfxs.
         Inr (bt_insert (service_name p) (p\<lparr>allowed_image_prefixes := pfxs\<rparr>) (fst st),
              hm_insert (service_name p) file (snd st)))))))"

primrec load_files :: "yaml_loader \<Rightarrow> config_fs \<Rightarrow> string \<Rightarrow> string list \<Rightarrow> load_state \<Rightarrow> load_state res" where
  "load_files yaml fs dir [] st = Inr st"
| "load_files yaml fs dir (file # files) st =
     res_bind (load_file yaml fs dir file st) (load_files yaml fs dir files)"

definition new_manager :: "yaml_loader \<Rightarrow> config_fs \<Rightarrow> string \<Rightarrow> manager res" where
  "new_manager yaml fs dir =
     (case read_dir fs dir of
        DirNotFound \<Rightarrow> Inr \<lparr>policies_by_name = []\<rparr>
      | DirError e \<Rightarrow> Inl e
      | DirEntries entries \<Rightarrow>
          res_bind (map_res id entries) (\<lambda>files.
          res_bind (load_files yaml fs dir (sort (filter is_yaml files)) ([], [])) (\<lambda>st.
          res_bind (check_conflicts \<lparr>policies_by_name = fst st\<rparr> (snd st)) (\<lambda>_.
            Inr \<lparr>policies_by_name = fst st\<rparr>))))"

subsection \<open>Tags and digests\<close>

definition check_digest :: "policy \<Rightarrow> image_ref \<Rightarrow> check" where
  "check_digest p r =
     (if ir_digest r = [] then Inr ()
      else if length (ir_digest r) > 128 then Inl ''image tag/digest exceeds 128 characters''
      else if \<not> image_digest_allowed p then Inl (fmt [''image digests not allowed for service '', service_name p])
      else if \<not> is_match sha256_digest_re (ir_digest r) then Inl (fmt [''invalid digest format: '', ir_digest r])
      else Inr ())"

definition check_tag :: "externs \<Rightarrow> policy \<Rightarrow> image_ref \<Rightarrow> check" where
  "check_tag x p r =
     (if ir_tag r = [] then Inr ()
      else if length (ir_tag r) > 128 then Inl ''image tag/digest exceeds 128 characters''
      else (case image_tag_pattern p of
          None \<Rightarrow> Inr ()
        | Some pattern \<Rightarrow>
            res_bind (map_err (\<lambda>e. fmt [''invalid tag pattern regex: '', e]) (regex_new x pattern)) (\<lambda>re.
              if \<not> re (ir_tag r)
              then Inl (fmt [''image tag '', debug_str (ir_tag r), '' does not match pattern '', debug_str pattern])
              else Inr ())))"

definition check_image_tag :: "externs \<Rightarrow> policy \<Rightarrow> image_ref \<Rightarrow> check" where
  "check_image_tag x p r = res_bind (check_digest p r) (\<lambda>_. check_tag x p r)"

subsection \<open>Names: the byte loops and their documented patterns\<close>

definition container_name_rx :: rx where
  "container_name_rx =
     RSeq (RCls [(CHR ''a'', CHR ''z''), (CHR ''A'', CHR ''Z''), (CHR ''0'', CHR ''9'')])
       (RStar (RCls [(CHR ''a'', CHR ''z''), (CHR ''A'', CHR ''Z''), (CHR ''0'', CHR ''9''),
          (CHR ''_'', CHR ''_''), (CHR ''.'', CHR ''.''), (CHR ''-'', CHR ''-'')]))"

definition group_name_rx :: rx where
  "group_name_rx =
     RSeq (RCls [(CHR ''a'', CHR ''z''), (CHR ''_'', CHR ''_'')])
       (RSeq (RStar (RCls [(CHR ''a'', CHR ''z''), (CHR ''0'', CHR ''9''), (CHR ''_'', CHR ''_''), (CHR ''-'', CHR ''-'')]))
         (ROpt (RChr (CHR ''$''))))"

lemma container_classes:
  "in_class c [(CHR ''a'', CHR ''z''), (CHR ''A'', CHR ''Z''), (CHR ''0'', CHR ''9'')] \<longleftrightarrow>
     is_ascii_alphanumeric c"
  "in_class c [(CHR ''a'', CHR ''z''), (CHR ''A'', CHR ''Z''), (CHR ''0'', CHR ''9''),
      (CHR ''_'', CHR ''_''), (CHR ''.'', CHR ''.''), (CHR ''-'', CHR ''-'')] \<longleftrightarrow>
     is_ascii_alphanumeric c \<or> c = CHR ''_'' \<or> c = CHR ''.'' \<or> c = CHR ''-''"
  by (simp_all only: in_class_simps ascii_class_defs, blast+)

lemma valid_container_name_rx: "valid_container_name s \<longleftrightarrow> is_match container_name_rx s"
  unfolding is_match_lang container_name_rx_def in_lang_seq_cls lang_star_cls container_classes
  by (cases s) (auto simp: list_all_iff)

lemma group_classes:
  "in_class c [(CHR ''a'', CHR ''z''), (CHR ''_'', CHR ''_'')] \<longleftrightarrow> is_ascii_lowercase c \<or> c = CHR ''_''"
  "in_class c [(CHR ''a'', CHR ''z''), (CHR ''0'', CHR ''9''), (CHR ''_'', CHR ''_''), (CHR ''-'', CHR ''-'')] \<longleftrightarrow>
     is_ascii_lowercase c \<or> is_ascii_digit c \<or> c = CHR ''_'' \<or> c = CHR ''-''"
  by (simp_all only: in_class_simps ascii_class_defs, blast+)

lemma in_lang_star_cls_opt:
  "t \<in> lang (RSeq (RStar (RCls rs)) (ROpt (RChr d))) \<longleftrightarrow>
     (\<exists>u e. t = u @ e \<and> (\<forall>c\<in>set u. in_class c rs) \<and> (e = [] \<or> e = [d]))"
  by (auto simp: star_lang_cls)

lemma group_body_ok_Cons:
  "group_body_ok (b # w) \<longleftrightarrow> (is_ascii_lowercase b \<or> b = CHR ''_'') \<and>
     (\<forall>b\<in>set w. is_ascii_lowercase b \<or> is_ascii_digit b \<or> b = CHR ''_'' \<or> b = CHR ''-'')"
  by (simp add: group_body_ok_def list_all_iff)

lemma group_name_rx_lang:
  "is_match group_name_rx s \<longleftrightarrow> (\<exists>w e. s = w @ e \<and> (e = [] \<or> e = ''$'') \<and> group_body_ok w)"
proof
  assume "is_match group_name_rx s"
  then obtain b u e where "s = b # u @ e" "e = [] \<or> e = ''$''" "group_body_ok (b # u)"
    unfolding is_match_lang group_name_rx_def in_lang_seq_cls in_lang_star_cls_opt group_classes
      group_body_ok_Cons by blast
  then show "\<exists>w e. s = w @ e \<and> (e = [] \<or> e = ''$'') \<and> group_body_ok w"
    by (intro exI [of _ "b # u"] exI [of _ e]) simp
next
  assume "\<exists>w e. s = w @ e \<and> (e = [] \<or> e = ''$'') \<and> group_body_ok w"
  then obtain w e where *: "s = w @ e" "e = [] \<or> e = ''$''" "group_body_ok w" by blast
  then obtain b u where w: "w = b # u" by (cases w) (auto simp: group_body_ok_def)
  with * show "is_match group_name_rx s"
    unfolding is_match_lang group_name_rx_def in_lang_seq_cls in_lang_star_cls_opt group_classes
    by (auto simp: group_body_ok_Cons)
qed

lemma group_body_no_dollar: "group_body_ok w \<Longrightarrow> CHR ''$'' \<notin> set w"
  by (cases w) (auto simp: group_body_ok_def list_all_iff ascii_class_defs less_eq_char_def)

lemma valid_group_name_rx: "valid_group_name s \<longleftrightarrow> length s \<le> 32 \<and> is_match group_name_rx s"
proof (cases "strip_suffix ''$'' s")
  case None
  then have "\<not> suffix ''$'' s" by (auto simp: strip_suffix_def split: if_splits)
  with None show ?thesis
    by (auto simp: valid_group_name_def group_name_rx_lang suffix_def)
next
  case (Some r)
  then have s: "s = r @ ''$''" by (simp add: strip_suffix_Some)
  have "\<not> group_body_ok (r @ ''$'')" using group_body_no_dollar[of "r @ ''$''"] by auto
  then have "(\<exists>w e. s = w @ e \<and> (e = [] \<or> e = ''$'') \<and> group_body_ok w) \<longleftrightarrow> group_body_ok r"
    by (auto simp: s)
  with Some show ?thesis
    by (simp add: valid_group_name_def group_name_rx_lang)
qed

subsection \<open>Supplementary groups: what passes the check\<close>

text \<open>The group an entry names: a numeric GID by value, or a name.\<close>

definition group_ident :: "string \<Rightarrow> nat + string" where
  "group_ident g = (if all_digits g then Inl (dec_value g) else Inr g)"

definition group_entry_ok :: "string \<Rightarrow> bool" where
  "group_entry_ok g =
     (if all_digits g then 0 < dec_value g \<and> dec_value g < 2 ^ 32
      else valid_group_name g \<and> g \<noteq> ''root'')"

definition ident_key :: "nat + string \<Rightarrow> string" where
  "ident_key i = (case i of Inl n \<Rightarrow> ''gid:'' @ dec_nat n | Inr g \<Rightarrow> ''name:'' @ g)"

lemma ident_key_inj: "ident_key i = ident_key j \<Longrightarrow> i = j"
  by (auto simp: ident_key_def dest: dec_nat_inj split: sum.splits)

lemma ident_key_eq [simp]: "ident_key i = ident_key j \<longleftrightarrow> i = j"
  using ident_key_inj by blast

lemma of_nat_u32:
  assumes "n < 2 ^ 32"
  shows "unat (of_nat n :: 32 word) = n" "of_nat n = (0 :: 32 word) \<longleftrightarrow> n = 0"
proof -
  show u: "unat (of_nat n :: 32 word) = n"
    using assms by (simp add: unat_of_nat)
  show "of_nat n = (0 :: 32 word) \<longleftrightarrow> n = 0"
  proof
    assume "of_nat n = (0 :: 32 word)"
    with u have "n = unat (0 :: 32 word)" by simp
    then show "n = 0" by simp
  qed simp
qed

lemma group_key_digits:
  assumes "all_digits g"
  shows "group_key file g =
    (if dec_value g \<ge> 2 ^ 32 then Inl (invalid_group file g)
     else if dec_value g = 0 then Inl (root_group file g)
     else Inr (''gid:'' @ dec_nat (dec_value g)))"
proof (cases "dec_value g < 2 ^ 32")
  case True
  note w = of_nat_u32[OF True]
  have "parse_u32 g = Some (of_nat (dec_value g))"
    using True by (simp only: parse_u32_digits[OF assms] if_True)
  then have "group_key file g = (if of_nat (dec_value g) = (0 :: 32 word) then Inl (root_group file g)
      else Inr (''gid:'' @ dec_nat (unat (of_nat (dec_value g) :: 32 word))))"
    using assms by (simp only: group_key_def if_True option.case)
  with True show ?thesis by (simp only: w not_le [symmetric] if_False)
next
  case False
  then have "parse_u32 g = None"
    by (simp only: parse_u32_digits[OF assms] if_False)
  with assms False show ?thesis
    by (simp only: group_key_def if_True option.case not_less)
qed

lemma group_key_Inr:
  "group_key file g = Inr k \<longleftrightarrow> group_entry_ok g \<and> k = ident_key (group_ident g)"
proof (cases "all_digits g")
  case True
  then show ?thesis
    unfolding group_key_digits[OF True] group_entry_ok_def group_ident_def ident_key_def by auto
next
  case False
  then show ?thesis
    by (auto simp: group_key_def group_entry_ok_def group_ident_def ident_key_def)
qed

lemma check_group_add_loop_ok:
  "check_group_add_loop file seen gs = Inr u \<longleftrightarrow>
     (\<forall>g\<in>set gs. group_entry_ok g \<and> ident_key (group_ident g) \<notin> set seen) \<and>
     distinct (map group_ident gs)"
proof (induction gs arbitrary: seen)
  case Nil
  then show ?case by simp
next
  case (Cons g gs)
  then show ?case
    by (auto simp: group_key_Inr List.member_iff image_iff dest: ident_key_inj split: if_splits)
qed

lemma check_group_add_ok:
  "check_group_add file gs = Inr u \<longleftrightarrow> (\<forall>g\<in>set gs. group_entry_ok g) \<and> distinct (map group_ident gs)"
  by (simp add: check_group_add_def check_group_add_loop_ok)

subsection \<open>Selecting a policy\<close>

lemma accepts_name_iff: "accepts_name p n \<longleftrightarrow> container_names p = None \<or> (\<exists>ns. container_names p = Some ns \<and> n \<in> set ns)"
  by (auto simp: accepts_name_def List.member_iff split: option.splits)

lemma covering_iff: "p \<in> set (covering m n) \<longleftrightarrow> p \<in> set (policies m) \<and> n \<in> set (covered_names p)"
  by (auto simp: covering_def List.member_iff)

lemma matching_image_iff:
  "p \<in> set (matching_image m n) \<longleftrightarrow> p \<in> set (policies m) \<and> matches_image_prefix n (allowed_image_prefixes p)"
  by (auto simp: matching_image_def)

text \<open>The policies a create may use: their image prefixes match and they accept the name.\<close>

definition create_candidates :: "manager \<Rightarrow> string \<Rightarrow> string \<Rightarrow> policy list" where
  "create_candidates m image_name name =
     filter (\<lambda>p. matches_image_prefix image_name (allowed_image_prefixes p) \<and> accepts_name p name) (policies m)"

lemma filter_accepts_matching:
  "filter (\<lambda>p. accepts_name p name) (matching_image m n) = create_candidates m n name"
  by (simp add: matching_image_def create_candidates_def)

lemma select_among_Inr:
  "select_among img name ms cs = Inr p \<longleftrightarrow> cs = [p]"
  by (cases cs) (auto simp: select_among_def)

lemma select_for_create_Inr:
  "select_for_create m img name = Inr p \<longleftrightarrow>
     (\<exists>r. parse_image_ref img = Inr r \<and> create_candidates m (ir_name r) name = [p])"
  by (auto simp: select_for_create_def select_among_Inr filter_accepts_matching)

locale policy_selection =
  fixes all :: "'m \<Rightarrow> policy list"
    and select :: "'m \<Rightarrow> string \<Rightarrow> string \<Rightarrow> policy res"
    and cover :: "'m \<Rightarrow> string \<Rightarrow> policy list"
  assumes select_iff: "select m img name = Inr p \<longleftrightarrow>
      (\<exists>r. parse_image_ref img = Inr r \<and>
         filter (\<lambda>q. matches_image_prefix (ir_name r) (allowed_image_prefixes q) \<and> accepts_name q name) (all m) = [p])"
    and cover_iff: "p \<in> set (cover m n) \<longleftrightarrow> p \<in> set (all m) \<and> n \<in> set (covered_names p)"
begin

lemma select_parses: "select m img name = Inr p \<Longrightarrow> \<exists>r. parse_image_ref img = Inr r"
  by (auto simp: select_iff)

lemma select_sound:
  assumes "select m img name = Inr p" "parse_image_ref img = Inr r"
  shows "p \<in> set (all m) \<and> matches_image_prefix (ir_name r) (allowed_image_prefixes p) \<and> accepts_name p name"
proof -
  from assms have "p \<in> set (filter (\<lambda>q. matches_image_prefix (ir_name r) (allowed_image_prefixes q) \<and> accepts_name q name) (all m))"
    by (auto simp: select_iff)
  then show ?thesis by simp
qed

lemma select_only:
  assumes "select m img name = Inr p" "parse_image_ref img = Inr r"
    and "q \<in> set (all m)" "matches_image_prefix (ir_name r) (allowed_image_prefixes q)" "accepts_name q name"
  shows "q = p"
proof -
  from assms have "q \<in> set (filter (\<lambda>q. matches_image_prefix (ir_name r) (allowed_image_prefixes q) \<and> accepts_name q name) (all m))"
    by simp
  with assms(1,2) show ?thesis by (auto simp: select_iff)
qed

lemma cover_nonempty: "cover m n \<noteq> [] \<longleftrightarrow> (\<exists>p\<in>set (all m). n \<in> set (covered_names p))"
  by (metis cover_iff empty_iff empty_set ex_in_conv set_empty)

end

interpretation mgr: policy_selection policies select_for_create covering
  by unfold_locales (auto simp: select_for_create_Inr create_candidates_def covering_iff)

subsection \<open>A loaded manager is unambiguous\<close>

lemma prefixes_overlap_iff:
  "prefixes_overlap pa pb \<longleftrightarrow>
     prefix (split_on (CHR ''/'') pa) (split_on (CHR ''/'') pb) \<or>
     prefix (split_on (CHR ''/'') pb) (split_on (CHR ''/'') pa)"
  by (auto simp: prefixes_overlap_def prefix_split_on)

lemma overlapping_prefixes_None:
  "overlapping_prefixes a b = None \<longleftrightarrow> (\<forall>pa\<in>set a. \<forall>pb\<in>set b. \<not> prefixes_overlap pa pb)"
  by (auto simp: overlapping_prefixes_def find_None_all)

text \<open>Two policies whose prefixes both match one repository have overlapping prefixes.\<close>

lemma matches_overlap:
  assumes "matches_image_prefix n a" "matches_image_prefix n b"
  shows "overlapping_prefixes a b \<noteq> None"
proof -
  from assms obtain pa pb where
    "pa \<in> set a" "prefix (split_on (CHR ''/'') pa) (split_on (CHR ''/'') n)"
    "pb \<in> set b" "prefix (split_on (CHR ''/'') pb) (split_on (CHR ''/'') n)"
    by (auto simp: matches_image_prefix_components)
  then have "prefixes_overlap pa pb"
    using prefix_comparable by (auto simp: prefixes_overlap_iff)
  with \<open>pa \<in> set a\<close> \<open>pb \<in> set b\<close> show ?thesis
    by (auto simp: overlapping_prefixes_None)
qed

lemma shared_name_None: "shared_name an bn = None \<longleftrightarrow> set an \<inter> set bn = {}"
proof -
  have "shared_name an bn = None \<longleftrightarrow> filter (\<lambda>n. List.member bn n) an = []"
    by (simp add: shared_name_def split: list.splits)
  then show ?thesis by (auto simp: filter_empty_conv List.member_iff)
qed

lemma conflict_reason_None:
  "conflict_reason a b = None \<Longrightarrow> \<not> (accepts_name a n \<and> accepts_name b n)"
  by (auto simp: conflict_reason_def accepts_name_iff shared_name_None split: option.splits)

lemma check_pair_ok:
  assumes "check_pair file_of a b = Inr ()"
    and "matches_image_prefix n (allowed_image_prefixes a)" "accepts_name a c"
    and "matches_image_prefix n (allowed_image_prefixes b)" "accepts_name b c"
  shows False
proof -
  obtain pa pb where "overlapping_prefixes (allowed_image_prefixes a) (allowed_image_prefixes b) = Some (pa, pb)"
    using matches_overlap[OF assms(2,4)] by auto
  then have "conflict_reason a b = None"
    using assms(1) by (auto simp: check_pair_def split: option.splits)
  with assms(3,5) show False by (auto dest: conflict_reason_None)
qed

lemma check_conflicts_from_ok:
  "check_conflicts_from file_of ps = Inr u \<longleftrightarrow> sorted_wrt (\<lambda>a b. check_pair file_of a b = Inr ()) ps"
  by (induction ps) (auto simp: for_each_ok)

text \<open>
  The invariant of a manager built by \<open>Manager::new\<close>: the map is a sorted map keyed by
  service name, every policy passed the per-file checks, and no create has two candidates.
\<close>

definition policy_checked :: "policy \<Rightarrow> bool" where
  "policy_checked p \<longleftrightarrow>
     service_name p \<noteq> [] \<and> allowed_image_prefixes p \<noteq> [] \<and>
     (\<forall>pfx\<in>set (allowed_image_prefixes p). \<exists>raw. normalize_image_prefix raw = Inr pfx) \<and>
     (\<forall>ns. container_names p = Some ns \<longrightarrow> ns \<noteq> [] \<and> (\<forall>n\<in>set ns. valid_container_name n)) \<and>
     (\<forall>cc gs. container_config p = Some cc \<longrightarrow> group_add cc = Some gs \<longrightarrow>
        gs \<noteq> [] \<and> (\<forall>g\<in>set gs. group_entry_ok g) \<and> distinct (map group_ident gs))"

definition manager_checked :: "(string, policy) btreemap \<Rightarrow> bool" where
  "manager_checked ps \<longleftrightarrow> bt_wf ps \<and> (\<forall>kp\<in>set ps. service_name (snd kp) = fst kp \<and> policy_checked (snd kp))"

definition unambiguous :: "manager \<Rightarrow> bool" where
  "unambiguous m \<longleftrightarrow> (\<forall>n c. length (create_candidates m n c) \<le> 1)"

lemma check_container_names_ok:
  "check_container_names file p = Inr u \<longleftrightarrow>
     (\<forall>ns. container_names p = Some ns \<longrightarrow> ns \<noteq> [] \<and> (\<forall>n\<in>set ns. valid_container_name n))"
  by (auto simp: check_container_names_def find_None_all split: option.splits dest!: find_Some_in)

lemma check_groups_ok:
  assumes "check_groups file p = Inr q"
  shows "q = p \<lparr>container_config := container_config q\<rparr> \<and>
    (\<forall>cc gs. container_config q = Some cc \<longrightarrow> group_add cc = Some gs \<longrightarrow>
        gs \<noteq> [] \<and> (\<forall>g\<in>set gs. group_entry_ok g) \<and> distinct (map group_ident gs))"
  using assms by (cases p) (auto simp: check_groups_def check_group_add_ok split: option.splits if_splits)

lemma normalized_prefixes:
  assumes "normalize_prefixes path raw = Inr pfxs"
  shows "(raw \<noteq> [] \<longrightarrow> pfxs \<noteq> []) \<and> (\<forall>pfx\<in>set pfxs. \<exists>r. normalize_image_prefix r = Inr pfx)"
proof
  show "raw \<noteq> [] \<longrightarrow> pfxs \<noteq> []"
    using assms by (cases raw) (auto simp: normalize_prefixes_def)
  show "\<forall>pfx\<in>set pfxs. \<exists>r. normalize_image_prefix r = Inr pfx"
    using map_res_ok_set[OF assms[unfolded normalize_prefixes_def]] by auto
qed

lemma load_file_Inr:
  assumes "load_file yaml fs dir file st = Inr st'"
  obtains p0 p path pfxs where
    "service_name p0 \<noteq> []" "allowed_image_prefixes p0 \<noteq> []"
    "check_container_names file p0 = Inr ()" "check_groups file p0 = Inr p"
    "normalize_prefixes path (allowed_image_prefixes p) = Inr pfxs"
    "fst st' = bt_insert (service_name p) (p\<lparr>allowed_image_prefixes := pfxs\<rparr>) (fst st)"
  using assms by (auto simp: load_file_def split: if_splits option.splits)

lemma load_file_checked:
  assumes "load_file yaml fs dir file st = Inr st'" "manager_checked (fst st)"
  shows "manager_checked (fst st')"
  using assms(1)
proof (rule load_file_Inr)
  fix p0 p path pfxs
  assume *: "service_name p0 \<noteq> []" "allowed_image_prefixes p0 \<noteq> []"
    "check_container_names file p0 = Inr ()" "check_groups file p0 = Inr p"
    "normalize_prefixes path (allowed_image_prefixes p) = Inr pfxs"
    "fst st' = bt_insert (service_name p) (p\<lparr>allowed_image_prefixes := pfxs\<rparr>) (fst st)"
  let ?q = "p\<lparr>allowed_image_prefixes := pfxs\<rparr>"
  have same: "service_name p = service_name p0" "container_names p = container_names p0"
      "allowed_image_prefixes p = allowed_image_prefixes p0"
    using check_groups_ok[OF *(4)] by (cases p; cases p0; simp)+
  have "policy_checked ?q"
    using * normalized_prefixes[OF *(5)] check_groups_ok[OF *(4)]
    by (simp add: policy_checked_def same check_container_names_ok)
  then show ?thesis
    using assms(2) *(6) set_bt_insert[of "service_name p" ?q "fst st"]
    by (auto simp: manager_checked_def bt_wf_insert)
qed

lemma load_files_checked:
  "load_files yaml fs dir files st = Inr st' \<Longrightarrow> manager_checked (fst st) \<Longrightarrow> manager_checked (fst st')"
  by (induction files arbitrary: st) (auto dest: load_file_checked)

lemma new_manager_Inr:
  assumes "new_manager yaml fs dir = Inr m"
  shows "manager_checked (policies_by_name m) \<and> (\<exists>file_of. check_conflicts m file_of = Inr ())"
proof -
  have empty: "manager_checked []" by (simp add: manager_checked_def bt_wf_def)
  show ?thesis
    using assms load_files_checked[where st = "([], [])"] empty
    by (auto simp: new_manager_def check_conflicts_def split: dir_result.splits)
qed

lemma new_manager_unambiguous:
  assumes "new_manager yaml fs dir = Inr m"
  shows "unambiguous m"
  unfolding unambiguous_def create_candidates_def
proof (intro allI)
  fix n c
  obtain file_of where "sorted_wrt (\<lambda>a b. check_pair file_of a b = Inr ()) (policies m)"
    using new_manager_Inr[OF assms] by (auto simp: check_conflicts_def check_conflicts_from_ok)
  then show "length (filter (\<lambda>p. matches_image_prefix n (allowed_image_prefixes p) \<and> accepts_name p c) (policies m)) \<le> 1"
    by (rule filter_at_most_one) (auto dest: check_pair_ok)
qed

end
