(* ===== verification/Field_Checks.thy ===== *)
theory Field_Checks
  imports Policy
begin

section \<open>Field names and zero values (middleware.rs)\<close>

text \<open>
  The helpers the gates of \<open>src/rs/src/middleware.rs\<close> share: key folding as the daemon's JSON
  decoder does it, the check for case variants of field names, zero values, and the interface
  of a gate. \<open>decoded\<close> is the decoder's documented reading of an object (a key matches a
  field up to folding, and the last match wins); \<open>check_field_case_decoded\<close> shows that after
  the check this reading agrees with the exact lookup the gates use.
\<close>

subsection \<open>Definitions\<close>

fun fold_key :: "string \<Rightarrow> string" where
  "fold_key [] = []"
| "fold_key (a # s) =
     (if a = CHR 0xE2 \<and> prefix [CHR 0x84, CHR 0xAA] s then CHR ''k'' # fold_key (drop 2 s)
      else if a = CHR 0xC5 \<and> prefix [CHR 0xBF] s then CHR ''s'' # fold_key (drop 1 s)
      else to_ascii_lowercase_char a # fold_key s)"

definition sorted_keys :: "string list \<Rightarrow> string list" where
  "sorted_keys keys = sort keys"

definition sorted_entries :: "(string \<times> 'v) list \<Rightarrow> (string \<times> 'v) list" where
  "sorted_entries m = map (\<lambda>k. (k, the (map_of m k))) (sorted_keys (map fst m))"

definition check_key_case :: "string \<Rightarrow> policy \<Rightarrow> string \<Rightarrow> string \<Rightarrow> string \<Rightarrow> check" where
  "check_key_case pfx p key folded f =
     (if key \<noteq> f \<and> folded = fold_key f
      then Inl (fmt [pfx, key, '' is not allowed for service '', service_name p,
             '' (the daemon reads it as '', pfx, f, '')''])
      else Inr ())"

definition check_field_case :: "string \<Rightarrow> string list \<Rightarrow> string list \<Rightarrow> policy \<Rightarrow> check" where
  "check_field_case pfx keys flds p =
     for_each (\<lambda>key. for_each (check_key_case pfx p key (fold_key key)) flds) (sorted_keys keys)"

fun is_zero_value :: "json \<Rightarrow> bool" where
  "is_zero_value JNull = True"
| "is_zero_value (JBool b) = (\<not> b)"
| "is_zero_value (JNumber n) = (num_sgn n = 0)"
| "is_zero_value (JString s) = (s = [])"
| "is_zero_value (JArray a) = (a = [])"
| "is_zero_value (JObject m) = (m = [])"

fun is_null :: "json \<Rightarrow> bool" where
  "is_null JNull = True"
| "is_null _ = False"

subsection \<open>The gate interface\<close>

text \<open>
  A gate is a check of a policy and a body together with the set of bodies it lets through. The
  chain relies on nothing else.
\<close>

type_synonym gate_fun = "externs \<Rightarrow> policy \<Rightarrow> json_body \<Rightarrow> check"

locale gate =
  fixes gate_check :: gate_fun
    and admits :: "externs \<Rightarrow> policy \<Rightarrow> json_body \<Rightarrow> bool"
  assumes check_iff: "gate_check x p b = Inr () \<longleftrightarrow> admits x p b"
begin

lemma denied_iff: "(\<exists>e. gate_check x p b = Inl e) \<longleftrightarrow> \<not> admits x p b"
  using check_cases[of "gate_check x p b"] by (auto simp: check_iff [symmetric])

end

subsection \<open>Lemmas\<close>

lemma set_sorted_keys [simp]: "set (sorted_keys ks) = set ks"
  by (simp add: sorted_keys_def)

lemma set_sorted_entries:
  "(k, v) \<in> set (sorted_entries m) \<longleftrightarrow> map_of m k = Some v"
  by (auto simp: sorted_entries_def image_iff map_of_eq_None_iff)
     (metis map_of_eq_None_iff option.collapse option.distinct(1) option.sel weak_map_of_SomeI fst_conv imageE prod.collapse,
      metis image_iff fst_conv map_of_SomeD option.sel)

lemma ball_sorted_entries:
  "(\<forall>kv\<in>set (sorted_entries m). P kv) \<longleftrightarrow> (\<forall>k v. map_of m k = Some v \<longrightarrow> P (k, v))"
  using set_sorted_entries[of _ _ m] by (metis surj_pair)

lemma is_null_iff [simp]: "is_null v \<longleftrightarrow> v = JNull"
  by (cases v) auto

lemma fold_key_ascii: "\<forall>c\<in>set s. c \<noteq> CHR 0xE2 \<and> c \<noteq> CHR 0xC5 \<Longrightarrow> fold_key s = to_ascii_lowercase s"
  by (induction s) (auto simp: to_ascii_lowercase_def)

lemma check_field_case_ok:
  "check_field_case pfx keys flds p = Inr u \<longleftrightarrow>
     (\<forall>k\<in>set keys. \<forall>f\<in>set flds. fold_key k = fold_key f \<longrightarrow> k = f)"
  by (auto simp: check_field_case_def for_each_ok check_key_case_def)

definition decoded :: "(string \<times> json) list \<Rightarrow> string \<Rightarrow> json option" where
  "decoded m f = map_of (rev (map (\<lambda>(k, v). (fold_key k, v)) m)) (fold_key f)"

lemma decoded_exact:
  assumes "distinct (map fst m)" "\<forall>k\<in>set (map fst m). fold_key k = fold_key f \<longrightarrow> k = f"
  shows "decoded m f = map_of m f"
  using assms
proof (induction m)
  case Nil
  then show ?case by (simp add: decoded_def)
next
  case (Cons kv m)
  obtain k v where kv: "kv = (k, v)" by (cases kv)
  have IH: "decoded m f = map_of m f" using Cons by simp
  have step: "decoded (kv # m) f =
      (case decoded m f of Some w \<Rightarrow> Some w | None \<Rightarrow> if fold_key k = fold_key f then Some v else None)"
    by (auto simp: decoded_def kv map_add_def split: option.splits)
  show ?case
  proof (cases "k = f")
    case True
    with Cons.prems kv have "map_of m f = None" by (auto simp: map_of_eq_None_iff)
    with True IH step kv show ?thesis by simp
  next
    case False
    with Cons.prems kv have "fold_key k \<noteq> fold_key f" by auto
    with False IH step kv show ?thesis by (simp split: option.splits)
  qed
qed

lemma check_field_case_decoded:
  assumes "check_field_case pfx (map fst m) flds p = Inr ()" "distinct (map fst m)" "f \<in> set flds"
  shows "decoded m f = map_of m f"
  using assms by (intro decoded_exact) (auto simp: check_field_case_ok)

end
