(* ===== verification/Mount_Gate.thy ===== *)
theory Mount_Gate
  imports Field_Checks
begin

section \<open>MountSourceGate (middleware.rs)\<close>

text \<open>
  The gate over \<open>HostConfig.Binds\<close>, \<open>HostConfig.Mounts\<close> and the top-level
  \<open>Volumes\<close>. The specification side (\<open>bind_allowed\<close>, \<open>mount_allowed\<close>,
  \<open>mounts_admitted\<close>) says which entries a policy permits; the gate is shown to accept a
  body exactly when every entry is permitted.
\<close>

subsection \<open>Constants\<close>

definition BIND_MODES :: "string list" where
  "BIND_MODES = [''ro'', ''rw'', ''z'', ''Z'', ''nocopy'', ''private'', ''rprivate'']"

definition MOUNT_FIELDS :: "string list" where
  "MOUNT_FIELDS = [''Type'', ''Source'', ''Target'', ''ReadOnly'', ''Consistency'', ''BindOptions'',
     ''VolumeOptions'', ''ImageOptions'', ''TmpfsOptions'', ''ClusterOptions'']"

definition MOUNT_ANY_VALUE :: "string list" where
  "MOUNT_ANY_VALUE = [''Target'', ''Consistency'', ''TmpfsOptions'']"

definition BIND_OPTION_FIELDS :: "string list" where
  "BIND_OPTION_FIELDS = [''Propagation'', ''NonRecursive'', ''CreateMountpoint'',
     ''ReadOnlyNonRecursive'', ''ReadOnlyForceRecursive'']"

definition BIND_OPTION_ANY_VALUE :: "string list" where
  "BIND_OPTION_ANY_VALUE = [''NonRecursive'', ''CreateMountpoint'', ''ReadOnlyForceRecursive'']"

subsection \<open>Binds\<close>

definition find_volume :: "string \<Rightarrow> policy \<Rightarrow> volume option" where
  "find_volume hp p =
     (case volumes p of None \<Rightarrow> None | Some vs \<Rightarrow> List.find (\<lambda>v. host_path v = hp) vs)"

definition binds_not_list :: "policy \<Rightarrow> string" where
  "binds_not_list p = fmt [''HostConfig.Binds must be a list of strings for service '', service_name p]"

definition bind_opts :: "string list \<Rightarrow> string list" where
  "bind_opts parts =
     (if length parts = 3 \<and> parts ! 2 \<noteq> [] then split_on (CHR '','') (parts ! 2) else [])"

definition check_bind_opts :: "policy \<Rightarrow> string \<Rightarrow> volume \<Rightarrow> string list \<Rightarrow> check" where
  "check_bind_opts p hp vol opts =
     res_bind (for_each (\<lambda>opt.
         guard_res (List.member BIND_MODES opt)
           (fmt [''bind option '', debug_str opt, '' on volume mount '', debug_str hp,
              '' is not allowed for service '', service_name p])) opts)
       (\<lambda>_. if \<not> read_write vol \<and> (\<not> List.member opts ''ro'' \<or> List.member opts ''rw'')
             then Inl (fmt [''volume mount '', debug_str hp, '' must be read-only (:ro) for service '',
                    service_name p])
             else Inr ())"

definition check_bind_parts :: "policy \<Rightarrow> string \<Rightarrow> string list \<Rightarrow> check" where
  "check_bind_parts p bind_str parts =
     (if bind_str = [] \<or> length parts > 3
      then Inl (fmt [''bind '', debug_str bind_str, '' is not a valid bind for service '', service_name p])
      else res_bind (ok_or (find_volume (hd parts) p)
             (fmt [''volume mount '', debug_str (hd parts), '' is not in the whitelist for service '',
                service_name p]))
           (\<lambda>vol. check_bind_opts p (hd parts) vol (bind_opts parts)))"

definition check_bind :: "policy \<Rightarrow> json \<Rightarrow> check" where
  "check_bind p bind =
     res_bind (ok_or (as_str bind) (binds_not_list p))
       (\<lambda>bind_str. check_bind_parts p bind_str (split_on (CHR '':'') bind_str))"

definition check_binds :: "json option \<Rightarrow> policy \<Rightarrow> check" where
  "check_binds raw p =
     (case raw of
        None \<Rightarrow> Inr ()
      | Some r \<Rightarrow> if is_null r then Inr ()
          else res_bind (ok_or (as_array r) (binds_not_list p)) (\<lambda>binds. for_each (check_bind p) binds))"

subsection \<open>Mounts\<close>

definition check_propagation :: "externs \<Rightarrow> policy \<Rightarrow> json \<Rightarrow> check" where
  "check_propagation x p value =
     (case value of
        JNull \<Rightarrow> Inr ()
      | JString s \<Rightarrow>
          guard_res (s = [] \<or> s = ''private'' \<or> s = ''rprivate'')
            (fmt [''mount propagation '', debug_str s, '' is not allowed for service '', service_name p])
      | v \<Rightarrow> Inl (fmt [''mount propagation '', json_display x v, '' is not allowed for service '', service_name p]))"

definition check_bind_option :: "externs \<Rightarrow> policy \<Rightarrow> string \<times> json \<Rightarrow> check" where
  "check_bind_option x p kv =
     (if fst kv = ''Propagation'' then check_propagation x p (snd kv)
      else if List.member BIND_OPTION_ANY_VALUE (fst kv) then Inr ()
      else guard_res (is_zero_value (snd kv))
             (fmt [''HostConfig.Mounts.BindOptions.'', fst kv, '' is not allowed for service '', service_name p]))"

definition check_bind_options :: "externs \<Rightarrow> json \<Rightarrow> policy \<Rightarrow> check" where
  "check_bind_options x raw p =
     (if is_null raw then Inr ()
      else res_bind (ok_or (as_object raw)
             (fmt [''HostConfig.Mounts.BindOptions must be an object for service '', service_name p]))
        (\<lambda>opts. res_bind (check_field_case ''HostConfig.Mounts.BindOptions.'' (bt_keys opts) BIND_OPTION_FIELDS p)
          (\<lambda>_. for_each (check_bind_option x p) (sorted_entries opts))))"

definition check_mount_field :: "externs \<Rightarrow> policy \<Rightarrow> string \<times> json \<Rightarrow> check" where
  "check_mount_field x p kv =
     (if fst kv = ''Type'' \<or> fst kv = ''Source'' \<or> fst kv = ''ReadOnly'' then Inr ()
      else if fst kv = ''BindOptions'' then check_bind_options x (snd kv) p
      else if List.member MOUNT_ANY_VALUE (fst kv) then Inr ()
      else guard_res (is_zero_value (snd kv))
             (fmt [''HostConfig.Mounts.'', fst kv, '' is not allowed for service '', service_name p]))"

definition check_bind_mount :: "policy \<Rightarrow> string \<Rightarrow> bool \<Rightarrow> check" where
  "check_bind_mount p source read_only =
     res_bind (ok_or (find_volume source p)
         (fmt [''mount source '', debug_str source, '' is not in the whitelist for service '', service_name p]))
       (\<lambda>vol. guard_res (read_write vol \<or> read_only)
          (fmt [''mount of '', debug_str source, '' must be read-only (ReadOnly: true) for service '',
             service_name p]))"

definition mount_read_only :: "json_object \<Rightarrow> bool" where
  "mount_read_only mount = unwrap_or (Option.bind (bt_get mount ''ReadOnly'') as_bool) False"

definition source_zero :: "json_object \<Rightarrow> bool" where
  "source_zero mount = (case bt_get mount ''Source'' of None \<Rightarrow> True | Some v \<Rightarrow> is_zero_value v)"

definition check_mount_type :: "policy \<Rightarrow> json_object \<Rightarrow> string \<Rightarrow> check" where
  "check_mount_type p mount mount_type =
     (if mount_type = ''tmpfs'' then
        guard_res (source_zero mount)
          (fmt [''tmpfs mount must not have a Source for service '', service_name p])
      else if mount_type = ''bind'' then
        check_bind_mount p (get_str_or_empty mount ''Source'') (mount_read_only mount)
      else Inl (fmt [''mount type '', debug_str mount_type, '' is not allowed for service '', service_name p]))"

definition check_mount :: "externs \<Rightarrow> json_object \<Rightarrow> policy \<Rightarrow> check" where
  "check_mount x mount p =
     res_bind (check_field_case ''HostConfig.Mounts.'' (bt_keys mount) MOUNT_FIELDS p) (\<lambda>_.
     res_bind (for_each (check_mount_field x p) (sorted_entries mount)) (\<lambda>_.
       check_mount_type p mount (get_str_or_empty mount ''Type'')))"

definition check_mount_entry :: "externs \<Rightarrow> policy \<Rightarrow> json \<Rightarrow> check" where
  "check_mount_entry x p m =
     res_bind (ok_or (as_object m) (fmt [''HostConfig.Mounts entry must be an object for service '', service_name p]))
       (\<lambda>mount. check_mount x mount p)"

definition check_mounts :: "externs \<Rightarrow> json option \<Rightarrow> policy \<Rightarrow> check" where
  "check_mounts x raw p =
     (case raw of
        None \<Rightarrow> Inr ()
      | Some r \<Rightarrow> if is_null r then Inr ()
          else res_bind (ok_or (as_array r) (fmt [''HostConfig.Mounts must be a list for service '', service_name p]))
                 (\<lambda>mounts. for_each (check_mount_entry x p) mounts))"

subsection \<open>The gate\<close>

definition check_volume_keys :: "policy \<Rightarrow> json_object \<Rightarrow> check" where
  "check_volume_keys p body_volumes =
     for_each (\<lambda>hp. guard_res (find_volume hp p \<noteq> None)
         (fmt [''volume '', debug_str hp, '' is not in the whitelist for service '', service_name p]))
       (sorted_keys (bt_keys body_volumes))"

definition mount_source_gate :: gate_fun where
  "mount_source_gate x p body =
     res_bind
       (case get_object body ''HostConfig'' of
          None \<Rightarrow> Inr ()
        | Some hc \<Rightarrow> res_bind (check_binds (bt_get hc ''Binds'') p) (\<lambda>_.
                    check_mounts x (bt_get hc ''Mounts'') p))
       (\<lambda>_. case get_object body ''Volumes'' of
          None \<Rightarrow> Inr ()
        | Some vs \<Rightarrow> check_volume_keys p vs)"

subsection \<open>What the gate admits\<close>

definition bind_allowed :: "policy \<Rightarrow> string \<Rightarrow> bool" where
  "bind_allowed p s \<longleftrightarrow>
     s \<noteq> [] \<and> length (split_on (CHR '':'') s) \<le> 3 \<and>
     (\<exists>vol. find_volume (hd (split_on (CHR '':'') s)) p = Some vol \<and>
        set (bind_opts (split_on (CHR '':'') s)) \<subseteq> set BIND_MODES \<and>
        (\<not> read_write vol \<longrightarrow>
           ''ro'' \<in> set (bind_opts (split_on (CHR '':'') s)) \<and>
           ''rw'' \<notin> set (bind_opts (split_on (CHR '':'') s))))"

definition bind_options_allowed :: "json \<Rightarrow> bool" where
  "bind_options_allowed raw \<longleftrightarrow> raw = JNull \<or> (\<exists>opts. raw = JObject opts \<and>
     (\<forall>k\<in>set (bt_keys opts). \<forall>f\<in>set BIND_OPTION_FIELDS. fold_key k = fold_key f \<longrightarrow> k = f) \<and>
     (\<forall>k v. bt_get opts k = Some v \<longrightarrow>
        (if k = ''Propagation'' then v \<in> {JNull, JString [], JString ''private'', JString ''rprivate''}
         else k \<in> set BIND_OPTION_ANY_VALUE \<or> is_zero_value v)))"

definition mount_allowed :: "policy \<Rightarrow> json_object \<Rightarrow> bool" where
  "mount_allowed p mount \<longleftrightarrow>
     (\<forall>k\<in>set (bt_keys mount). \<forall>f\<in>set MOUNT_FIELDS. fold_key k = fold_key f \<longrightarrow> k = f) \<and>
     (\<forall>k v. bt_get mount k = Some v \<longrightarrow>
        k \<in> {''Type'', ''Source'', ''ReadOnly''} \<union> set MOUNT_ANY_VALUE \<or>
        (k = ''BindOptions'' \<and> bind_options_allowed v) \<or>
        (k \<noteq> ''BindOptions'' \<and> is_zero_value v)) \<and>
     ((bt_get mount ''Type'' = Some (JString ''tmpfs'') \<and> source_zero mount) \<or>
      (bt_get mount ''Type'' = Some (JString ''bind'') \<and>
        (\<exists>vol. find_volume (get_str_or_empty mount ''Source'') p = Some vol \<and>
           (read_write vol \<or> bt_get mount ''ReadOnly'' = Some (JBool True)))))"

definition mounts_admitted :: "externs \<Rightarrow> policy \<Rightarrow> json_body \<Rightarrow> bool" where
  "mounts_admitted x p body \<longleftrightarrow>
     (\<forall>hc. hm_get body ''HostConfig'' = Some (JObject hc) \<longrightarrow>
        (bt_get hc ''Binds'' \<in> {None, Some JNull} \<or>
           (\<exists>bs. bt_get hc ''Binds'' = Some (JArray bs) \<and> (\<forall>b\<in>set bs. \<exists>s. b = JString s \<and> bind_allowed p s))) \<and>
        (bt_get hc ''Mounts'' \<in> {None, Some JNull} \<or>
           (\<exists>ms. bt_get hc ''Mounts'' = Some (JArray ms) \<and> (\<forall>m\<in>set ms. \<exists>o'. m = JObject o' \<and> mount_allowed p o')))) \<and>
     (\<forall>vs k. hm_get body ''Volumes'' = Some (JObject vs) \<longrightarrow> k \<in> set (bt_keys vs) \<longrightarrow> find_volume k p \<noteq> None)"

lemma check_bind_opts_ok:
  "check_bind_opts p hp vol opts = Inr u \<longleftrightarrow>
     set opts \<subseteq> set BIND_MODES \<and> (\<not> read_write vol \<longrightarrow> ''ro'' \<in> set opts \<and> ''rw'' \<notin> set opts)"
  by (auto simp: check_bind_opts_def for_each_ok List.member_iff)

lemma check_bind_ok: "check_bind p b = Inr u \<longleftrightarrow> (\<exists>s. b = JString s \<and> bind_allowed p s)"
  by (auto simp: check_bind_def check_bind_parts_def check_bind_opts_ok bind_allowed_def)

lemma check_binds_ok:
  "check_binds raw p = Inr u \<longleftrightarrow> raw \<in> {None, Some JNull} \<or>
     (\<exists>bs. raw = Some (JArray bs) \<and> (\<forall>b\<in>set bs. \<exists>s. b = JString s \<and> bind_allowed p s))"
  by (cases raw) (auto simp: check_binds_def for_each_ok check_bind_ok)

lemma check_propagation_ok:
  "check_propagation x p v = Inr u \<longleftrightarrow> v \<in> {JNull, JString [], JString ''private'', JString ''rprivate''}"
  by (cases v) (auto simp: check_propagation_def)

lemma check_bind_option_ok:
  "check_bind_option x p (k, v) = Inr u \<longleftrightarrow>
     (if k = ''Propagation'' then v \<in> {JNull, JString [], JString ''private'', JString ''rprivate''}
      else k \<in> set BIND_OPTION_ANY_VALUE \<or> is_zero_value v)"
  by (simp add: check_bind_option_def check_propagation_ok List.member_iff)

lemma check_bind_options_ok: "check_bind_options x raw p = Inr u \<longleftrightarrow> bind_options_allowed raw"
  by (cases raw) (simp_all add: check_bind_options_def bind_options_allowed_def check_field_case_ok
      for_each_ok ball_sorted_entries check_bind_option_ok)

lemma check_mount_field_ok:
  "check_mount_field x p (k, v) = Inr u \<longleftrightarrow>
     k \<in> {''Type'', ''Source'', ''ReadOnly''} \<union> set MOUNT_ANY_VALUE \<or>
     (k = ''BindOptions'' \<and> bind_options_allowed v) \<or> (k \<noteq> ''BindOptions'' \<and> is_zero_value v)"
proof -
  have "''BindOptions'' \<notin> set MOUNT_ANY_VALUE" by (simp add: MOUNT_ANY_VALUE_def)
  then show ?thesis
    by (auto simp: check_mount_field_def check_bind_options_ok List.member_iff)
qed

lemma get_str_or_empty_eq: "s \<noteq> [] \<Longrightarrow> get_str_or_empty m k = s \<longleftrightarrow> bt_get m k = Some (JString s)"
  by (auto simp: get_str_or_empty_def unwrap_or_def bind_eq_Some_conv split: option.splits)

lemma mount_read_only_iff: "mount_read_only m \<longleftrightarrow> bt_get m ''ReadOnly'' = Some (JBool True)"
  by (auto simp: mount_read_only_def unwrap_or_def bind_eq_Some_conv split: option.splits)

lemma check_mount_type_ok:
  "check_mount_type p m (get_str_or_empty m ''Type'') = Inr u \<longleftrightarrow>
     (bt_get m ''Type'' = Some (JString ''tmpfs'') \<and> source_zero m) \<or>
     (bt_get m ''Type'' = Some (JString ''bind'') \<and>
        (\<exists>vol. find_volume (get_str_or_empty m ''Source'') p = Some vol \<and>
           (read_write vol \<or> bt_get m ''ReadOnly'' = Some (JBool True))))"
  by (auto simp: check_mount_type_def check_bind_mount_def get_str_or_empty_eq mount_read_only_iff)

lemma check_mount_ok: "check_mount x m p = Inr u \<longleftrightarrow> mount_allowed p m"
  by (auto simp: check_mount_def mount_allowed_def check_field_case_ok for_each_ok ball_sorted_entries
      check_mount_field_ok check_mount_type_ok)

lemma check_mounts_ok:
  "check_mounts x raw p = Inr u \<longleftrightarrow> raw \<in> {None, Some JNull} \<or>
     (\<exists>ms. raw = Some (JArray ms) \<and> (\<forall>m\<in>set ms. \<exists>o'. m = JObject o' \<and> mount_allowed p o'))"
  by (cases raw) (auto simp: check_mounts_def check_mount_entry_def for_each_ok check_mount_ok)

lemma mount_source_gate_ok: "mount_source_gate x p body = Inr u \<longleftrightarrow> mounts_admitted x p body"
  by (simp add: mount_source_gate_def mounts_admitted_def case_get_object_ok check_binds_ok check_mounts_ok
      check_volume_keys_def for_each_ok)
     blast

interpretation mount_gate: gate mount_source_gate mounts_admitted
  by unfold_locales (rule mount_source_gate_ok)

end
