(* ===== verification/HostConfig_Gate.thy ===== *)
theory HostConfig_Gate
  imports Field_Checks
begin

section \<open>HostConfigGate (middleware.rs)\<close>

text \<open>
  The default-deny check on \<open>HostConfig\<close>: the tables of field names, the rules for the
  fields that have their own, and the gate. \<open>value_allowed\<close> is the specification of one
  field's admissible values, \<open>host_config_admitted\<close> of a whole body.
\<close>

subsection \<open>Tables\<close>

definition HOST_CONFIG_FIELDS :: "string list" where
  "HOST_CONFIG_FIELDS = [''Binds'', ''ContainerIDFile'', ''LogConfig'', ''NetworkMode'', ''PortBindings'',
     ''RestartPolicy'', ''AutoRemove'', ''VolumeDriver'', ''VolumesFrom'', ''Mounts'',
     ''ConsoleSize'', ''Annotations'', ''CapAdd'', ''CapDrop'', ''CgroupnsMode'', ''Dns'',
     ''DnsOptions'', ''DnsSearch'', ''ExtraHosts'', ''GroupAdd'', ''IpcMode'', ''Cgroup'',
     ''Links'', ''OomScoreAdj'', ''PidMode'', ''Privileged'', ''PublishAllPorts'',
     ''ReadonlyRootfs'', ''SecurityOpt'', ''StorageOpt'', ''Tmpfs'', ''UTSMode'',
     ''UsernsMode'', ''ShmSize'', ''Sysctls'', ''Runtime'', ''Isolation'', ''MaskedPaths'',
     ''ReadonlyPaths'', ''Init'', ''Capabilities'', ''CpuShares'', ''Memory'',
     ''CgroupParent'', ''BlkioWeight'', ''BlkioWeightDevice'', ''BlkioDeviceReadBps'',
     ''BlkioDeviceWriteBps'', ''BlkioDeviceReadIOps'', ''BlkioDeviceWriteIOps'',
     ''CpuPeriod'', ''CpuQuota'', ''CpuRealtimePeriod'', ''CpuRealtimeRuntime'',
     ''CpusetCpus'', ''CpusetMems'', ''Devices'', ''DeviceCgroupRules'',
     ''DeviceRequests'', ''KernelMemory'', ''KernelMemoryTCP'', ''MemoryReservation'',
     ''MemorySwap'', ''MemorySwappiness'', ''NanoCpus'', ''OomKillDisable'', ''PidsLimit'',
     ''Ulimits'', ''CpuCount'', ''CpuPercent'', ''IOMaximumIOps'', ''IOMaximumBandwidth'']"

definition CREATE_BODY_FIELDS :: "string list" where
  "CREATE_BODY_FIELDS = [''Hostname'', ''Domainname'', ''User'', ''AttachStdin'', ''AttachStdout'',
     ''AttachStderr'', ''ExposedPorts'', ''Tty'', ''OpenStdin'', ''StdinOnce'', ''Env'',
     ''Cmd'', ''Healthcheck'', ''ArgsEscaped'', ''Image'', ''Volumes'', ''WorkingDir'',
     ''Entrypoint'', ''NetworkDisabled'', ''MacAddress'', ''OnBuild'', ''Labels'',
     ''StopSignal'', ''StopTimeout'', ''Shell'', ''HostConfig'', ''NetworkingConfig'']"

definition NETWORKING_CONFIG_FIELDS :: "string list" where
  "NETWORKING_CONFIG_FIELDS = [''EndpointsConfig'']"

definition HOST_CONFIG_ANY_VALUE :: "string list" where
  "HOST_CONFIG_ANY_VALUE = [''NetworkMode'', ''RestartPolicy'', ''LogConfig'', ''CapDrop'', ''ReadonlyRootfs'',
     ''Init'', ''AutoRemove'', ''ConsoleSize'', ''ShmSize'', ''PortBindings'',
     ''PublishAllPorts'', ''Dns'', ''DnsOptions'', ''DnsSearch'', ''ExtraHosts'',
     ''Tmpfs'', ''Ulimits'', ''Memory'', ''MemoryReservation'', ''MemorySwap'',
     ''MemorySwappiness'', ''NanoCpus'', ''CpuShares'', ''CpuPeriod'', ''CpuQuota'',
     ''CpusetCpus'', ''CpusetMems'', ''PidsLimit'', ''BlkioWeight'', ''ContainerIDFile'']"

definition host_config_modes :: "string \<Rightarrow> string list option" where
  "host_config_modes key =
     (if List.member [''PidMode'', ''UTSMode'', ''UsernsMode'', ''Cgroup''] key then Some []
      else if key = ''IpcMode'' then Some [''private'', ''shareable'', ''none'']
      else if key = ''CgroupnsMode'' then Some [''private'']
      else if key = ''Isolation'' then Some [''default'']
      else None)"

definition NO_NEW_PRIVILEGES :: "string list" where
  "NO_NEW_PRIVILEGES = [''no-new-privileges'', ''no-new-privileges:true'']"

subsection \<open>Fields with rules of their own\<close>

definition policy_groups :: "policy \<Rightarrow> string list option" where
  "policy_groups p = Option.bind (container_config p) group_add"

definition policy_opts :: "policy \<Rightarrow> string list option" where
  "policy_opts p = Option.bind (container_config p) security_options"

definition equals_forced_groups :: "json \<Rightarrow> policy \<Rightarrow> bool" where
  "equals_forced_groups value p =
     (case policy_groups p of
        None \<Rightarrow> False
      | Some forced \<Rightarrow> forced \<noteq> [] \<and>
          (case as_array value of
             None \<Rightarrow> False
           | Some vs \<Rightarrow> length vs = length forced \<and>
               list_all (\<lambda>(v, f). as_str v = Some f) (zip vs forced)))"

definition security_opt_allowed :: "policy \<Rightarrow> string \<Rightarrow> bool" where
  "security_opt_allowed p s =
     (List.member NO_NEW_PRIVILEGES s \<or>
      (case policy_opts p of None \<Rightarrow> False | Some opts \<Rightarrow> List.member opts s))"

definition check_security_opt_entry :: "externs \<Rightarrow> policy \<Rightarrow> json \<Rightarrow> check" where
  "check_security_opt_entry x p e =
     res_bind (ok_or (as_str e)
         (fmt [''HostConfig.SecurityOpt entry '', json_display x e, '' is not allowed for service '', service_name p]))
       (\<lambda>s. guard_res (security_opt_allowed p s)
         (fmt [''HostConfig.SecurityOpt entry '', debug_str s, '' is not allowed for service '', service_name p]))"

definition check_security_opt :: "externs \<Rightarrow> json \<Rightarrow> policy \<Rightarrow> check" where
  "check_security_opt x value p =
     (if is_null value then Inr ()
      else res_bind (ok_or (as_array value)
             (fmt [''HostConfig.SecurityOpt must be a list for service '', service_name p]))
           (\<lambda>entries. for_each (check_security_opt_entry x p) entries))"

definition check_mode :: "externs \<Rightarrow> string \<Rightarrow> json \<Rightarrow> string list \<Rightarrow> policy \<Rightarrow> check" where
  "check_mode x key value allowed p =
     (case value of
        JNull \<Rightarrow> Inr ()
      | JString s \<Rightarrow> guard_res (s = [] \<or> List.member allowed s)
          (fmt [''HostConfig.'', key, '' value '', debug_str s, '' is not allowed for service '', service_name p])
      | v \<Rightarrow> Inl (fmt [''HostConfig.'', key, '' value '', json_display x v, '' is not allowed for service '',
               service_name p]))"

definition oom_score_ok :: "json \<Rightarrow> bool" where
  "oom_score_ok value = (is_null value \<or> (case as_f64_sgn value of None \<Rightarrow> False | Some n \<Rightarrow> n \<ge> 0))"

subsection \<open>The gate\<close>

definition field_denied :: "policy \<Rightarrow> string \<Rightarrow> string" where
  "field_denied p key = fmt [''HostConfig.'', key, '' is not allowed for service '', service_name p]"

definition check_other_field :: "externs \<Rightarrow> policy \<Rightarrow> string \<Rightarrow> json \<Rightarrow> check" where
  "check_other_field x p key value =
     (case host_config_modes key of
        Some modes \<Rightarrow> check_mode x key value modes p
      | None \<Rightarrow> guard_res (is_zero_value value) (field_denied p key))"

definition check_host_config_field :: "externs \<Rightarrow> policy \<Rightarrow> string \<times> json \<Rightarrow> check" where
  "check_host_config_field x p kv =
     (if fst kv = ''Binds'' \<or> fst kv = ''Mounts'' then Inr ()
      else if List.member HOST_CONFIG_ANY_VALUE (fst kv) then Inr ()
      else if fst kv = ''MaskedPaths'' \<or> fst kv = ''ReadonlyPaths'' then
        guard_res (is_null (snd kv)) (field_denied p (fst kv))
      else if fst kv = ''SecurityOpt'' then check_security_opt x (snd kv) p
      else if fst kv = ''GroupAdd'' then
        guard_res (is_zero_value (snd kv) \<or> equals_forced_groups (snd kv) p) (field_denied p ''GroupAdd'')
      else if fst kv = ''OomScoreAdj'' then
        guard_res (oom_score_ok (snd kv))
          (fmt [''HostConfig.OomScoreAdj value '', json_display x (snd kv), '' is not allowed for service '',
             service_name p])
      else check_other_field x p (fst kv) (snd kv))"

definition check_host_config :: "externs \<Rightarrow> policy \<Rightarrow> json option \<Rightarrow> check" where
  "check_host_config x p raw =
     (case raw of
        None \<Rightarrow> Inr ()
      | Some r \<Rightarrow>
          if is_null r then Inr ()
          else res_bind (ok_or (as_object r) (fmt [''HostConfig must be an object for service '', service_name p]))
            (\<lambda>hc. res_bind (check_field_case ''HostConfig.'' (bt_keys hc) HOST_CONFIG_FIELDS p)
              (\<lambda>_. for_each (check_host_config_field x p) (sorted_entries hc))))"

definition host_config_gate :: gate_fun where
  "host_config_gate x p body =
     res_bind (check_field_case [] (hm_keys body) CREATE_BODY_FIELDS p) (\<lambda>_.
     res_bind
       (case get_object body ''NetworkingConfig'' of
          None \<Rightarrow> Inr ()
        | Some nc \<Rightarrow> check_field_case ''NetworkingConfig.'' (bt_keys nc) NETWORKING_CONFIG_FIELDS p)
       (\<lambda>_. check_host_config x p (hm_get body ''HostConfig'')))"

subsection \<open>What the gate admits\<close>

text \<open>No key folds to one of the names without being spelled like it.\<close>

definition exact_keys :: "string list \<Rightarrow> string list \<Rightarrow> bool" where
  "exact_keys keys flds \<longleftrightarrow> (\<forall>k\<in>set keys. \<forall>f\<in>set flds. fold_key k = fold_key f \<longrightarrow> k = f)"

definition value_allowed :: "policy \<Rightarrow> string \<Rightarrow> json \<Rightarrow> bool" where
  "value_allowed p key value \<longleftrightarrow>
     key \<in> {''Binds'', ''Mounts''} \<union> set HOST_CONFIG_ANY_VALUE \<or>
     (if key \<in> {''MaskedPaths'', ''ReadonlyPaths''} then value = JNull
      else if key = ''SecurityOpt'' then value = JNull \<or>
        (\<exists>es. value = JArray es \<and> (\<forall>e\<in>set es. \<exists>s. e = JString s \<and> security_opt_allowed p s))
      else if key = ''GroupAdd'' then is_zero_value value \<or>
        (\<exists>gs. policy_groups p = Some gs \<and> gs \<noteq> [] \<and> value = JArray (map JString gs))
      else if key = ''OomScoreAdj'' then value = JNull \<or> (\<exists>n. value = JNumber n \<and> num_sgn n \<ge> 0)
      else case host_config_modes key of
             Some modes \<Rightarrow> value = JNull \<or> (\<exists>s. value = JString s \<and> (s = [] \<or> s \<in> set modes))
           | None \<Rightarrow> is_zero_value value)"

definition host_config_admitted :: "externs \<Rightarrow> policy \<Rightarrow> json_body \<Rightarrow> bool" where
  "host_config_admitted x p body \<longleftrightarrow>
     exact_keys (hm_keys body) CREATE_BODY_FIELDS \<and>
     (\<forall>nc. hm_get body ''NetworkingConfig'' = Some (JObject nc) \<longrightarrow>
        exact_keys (bt_keys nc) NETWORKING_CONFIG_FIELDS) \<and>
     (hm_get body ''HostConfig'' \<in> {None, Some JNull} \<or>
      (\<exists>hc. hm_get body ''HostConfig'' = Some (JObject hc) \<and>
         exact_keys (bt_keys hc) HOST_CONFIG_FIELDS \<and>
         (\<forall>k v. bt_get hc k = Some v \<longrightarrow> value_allowed p k v)))"

lemma check_field_case_exact [gate_simps]:
  "check_field_case pfx keys flds p = Inr u \<longleftrightarrow> exact_keys keys flds"
  by (simp add: check_field_case_ok exact_keys_def)

lemma string_array_iff:
  "length vs = length fs \<and> list_all (\<lambda>(v, f). v = JString f) (zip vs fs) \<longleftrightarrow> vs = map JString fs"
proof (induction vs arbitrary: fs)
  case Nil
  then show ?case by auto
next
  case (Cons v vs)
  then show ?case by (cases fs) auto
qed

lemma equals_forced_groups_iff:
  "equals_forced_groups v p \<longleftrightarrow> (\<exists>gs. policy_groups p = Some gs \<and> gs \<noteq> [] \<and> v = JArray (map JString gs))"
  by (cases v) (auto simp: equals_forced_groups_def string_array_iff split: option.splits)

lemma check_security_opt_ok:
  "check_security_opt x v p = Inr u \<longleftrightarrow> v = JNull \<or>
     (\<exists>es. v = JArray es \<and> (\<forall>e\<in>set es. \<exists>s. e = JString s \<and> security_opt_allowed p s))"
  by (auto simp: check_security_opt_def check_security_opt_entry_def for_each_ok)

lemma check_mode_ok:
  "check_mode x k v modes p = Inr u \<longleftrightarrow> v = JNull \<or> (\<exists>s. v = JString s \<and> (s = [] \<or> s \<in> set modes))"
  by (cases v) (auto simp: check_mode_def List.member_iff)

lemma oom_score_ok_iff: "oom_score_ok v \<longleftrightarrow> v = JNull \<or> (\<exists>n. v = JNumber n \<and> num_sgn n \<ge> 0)"
  by (cases v) (auto simp: oom_score_ok_def)

lemma check_host_config_field_ok: "check_host_config_field x p (k, v) = Inr u \<longleftrightarrow> value_allowed p k v"
  by (simp add: check_host_config_field_def value_allowed_def check_security_opt_ok equals_forced_groups_iff
      oom_score_ok_iff check_other_field_def check_mode_ok List.member_iff split: option.split)

lemma check_host_config_ok:
  "check_host_config x p raw = Inr u \<longleftrightarrow> raw \<in> {None, Some JNull} \<or>
     (\<exists>hc. raw = Some (JObject hc) \<and> exact_keys (bt_keys hc) HOST_CONFIG_FIELDS \<and>
        (\<forall>k v. bt_get hc k = Some v \<longrightarrow> value_allowed p k v))"
  by (cases raw) (auto simp: check_host_config_def check_field_case_exact for_each_ok ball_sorted_entries
      check_host_config_field_ok)

lemma host_config_gate_ok: "host_config_gate x p body = Inr u \<longleftrightarrow> host_config_admitted x p body"
  by (simp add: host_config_gate_def host_config_admitted_def check_field_case_exact case_get_object_ok
      check_host_config_ok)

interpretation host_config: gate host_config_gate host_config_admitted
  by unfold_locales (rule host_config_gate_ok)

end
