(* ===== verification/Cmd_Gate.thy ===== *)
theory Cmd_Gate
  imports Field_Checks
begin

section \<open>RegistryGate, EnvFileGate and CmdGate (middleware.rs)\<close>

text \<open>
  The gates over \<open>Image\<close>, \<open>Env\<close> and \<open>Cmd\<close>. The \<open>while\<close> loop of CmdGate walks
  the argument list with an index that skips the value of a flag; here it is \<open>check_args\<close>, a
  recursion on the arguments that are left. \<open>flag_args\<close> is the reference reading of a
  command: the flags with the values the loop assigns to them.
\<close>

subsection \<open>RegistryGate\<close>

definition check_image :: "externs \<Rightarrow> policy \<Rightarrow> string \<Rightarrow> check" where
  "check_image x p img =
     res_bind (parse_image_ref img) (\<lambda>r.
       if \<not> matches_image_prefix (ir_name r) (allowed_image_prefixes p)
       then Inl (fmt [''image '', debug_str (ir_name r), '' is not in allowed prefixes''])
       else check_image_tag x p r)"

definition body_image :: "json_body \<Rightarrow> string" where
  "body_image body = unwrap_or (Option.bind (hm_get body ''Image'') as_str) []"

definition registry_gate :: gate_fun where
  "registry_gate x p body = (if body_image body = [] then Inr () else check_image x p (body_image body))"

subsection \<open>EnvFileGate\<close>

definition get_array :: "json_object \<Rightarrow> string \<Rightarrow> json list option" where
  "get_array m k = Option.bind (bt_get m k) as_array"

definition env_file_set :: "policy \<Rightarrow> string option" where
  "env_file_set p = (case env_file p of None \<Rightarrow> None | Some e \<Rightarrow> if e = [] then None else Some e)"

definition check_env :: "policy \<Rightarrow> string \<Rightarrow> string \<Rightarrow> json list option \<Rightarrow> check" where
  "check_env p place e env =
     (case env of
        None \<Rightarrow> Inr ()
      | Some vs \<Rightarrow> guard_res (vs = [])
          (fmt [''inline environment variables'', place, '' are not allowed for service '', service_name p,
             ''; use env_file: '', e]))"

definition env_file_gate :: gate_fun where
  "env_file_gate x p body =
     (case env_file_set p of
        None \<Rightarrow> Inr ()
      | Some e \<Rightarrow>
          res_bind (check_env p [] e (get_array body ''Env'')) (\<lambda>_.
            case get_object body ''HostConfig'' of
              None \<Rightarrow> Inr ()
            | Some hc \<Rightarrow> check_env p '' in HostConfig'' e (get_array hc ''Env'')))"

subsection \<open>CmdGate\<close>

definition charset_char :: "char \<Rightarrow> bool" where
  "charset_char c = (is_ascii_uppercase c \<or> is_ascii_lowercase c \<or> is_ascii_digit c \<or>
     List.member ''._=:/,-'' c)"

definition charset_check :: "string \<Rightarrow> bool" where
  "charset_check s = (length s \<le> 256 \<and> list_all charset_char s)"

definition cmd_arg :: "json \<Rightarrow> string" where
  "cmd_arg v = unwrap_or (as_str v) []"

definition check_denied :: "policy \<Rightarrow> string \<Rightarrow> check" where
  "check_denied p flag =
     (case denied_flags p of
        None \<Rightarrow> Inr ()
      | Some denied \<Rightarrow> guard_res (\<not> List.member denied flag)
          (fmt [''flag '', debug_str flag, '' is denied for service '', service_name p]))"

definition check_allowed :: "policy \<Rightarrow> string \<Rightarrow> check" where
  "check_allowed p flag =
     (case allowed_cli_flags p of
        None \<Rightarrow> Inr ()
      | Some allowed \<Rightarrow> guard_res (List.member allowed flag)
          (fmt [''flag '', debug_str flag, '' is not in the allowlist for service '', service_name p]))"

definition check_rule :: "externs \<Rightarrow> string \<Rightarrow> string \<Rightarrow> flag_rule \<Rightarrow> check" where
  "check_rule x flag value rule =
     (if rule_flag rule = flag then
        res_bind (map_err (\<lambda>e. fmt [''invalid flag rule regex: '', e]) (regex_new x (value_pattern rule))) (\<lambda>re.
          guard_res (re value)
            (fmt [''flag '', flag, '' value '', debug_str value, '' does not match pattern '',
               debug_str (value_pattern rule)]))
      else Inr ())"

definition check_value :: "externs \<Rightarrow> policy \<Rightarrow> string \<Rightarrow> string \<Rightarrow> check" where
  "check_value x p flag value =
     (if value = [] then Inr ()
      else (case flag_rules p of None \<Rightarrow> Inr () | Some rules \<Rightarrow> for_each (check_rule x flag value) rules))"

definition flag_name :: "string \<Rightarrow> string" where
  "flag_name arg = hd (split_on (CHR ''='') arg)"

text \<open>The flag's value, and whether the following argument is taken as the value.\<close>

definition takes_next :: "string \<Rightarrow> string list \<Rightarrow> bool" where
  "takes_next arg rest = (split_once (CHR ''='') arg = None \<and> rest \<noteq> [] \<and> \<not> starts_with (hd rest) ''-'')"

definition flag_value :: "string \<Rightarrow> string list \<Rightarrow> string" where
  "flag_value arg rest =
     (case split_once (CHR ''='') arg of
        Some (_, v) \<Rightarrow> v
      | None \<Rightarrow> if takes_next arg rest then hd rest else [])"

definition after_flag :: "string \<Rightarrow> string list \<Rightarrow> string list" where
  "after_flag arg rest = (if takes_next arg rest then tl rest else rest)"

lemma length_after_flag [termination_simp]: "length (after_flag arg rest) \<le> length rest"
  by (simp add: after_flag_def)

function check_args :: "externs \<Rightarrow> policy \<Rightarrow> string list \<Rightarrow> check" where
  "check_args x p [] = Inr ()"
| "check_args x p (arg # rest) =
     (if \<not> charset_check arg
      then Inl (fmt [''Cmd argument '', debug_str arg, '' contains invalid characters''])
      else if \<not> starts_with arg ''-'' then check_args x p rest
      else res_bind (check_denied p (flag_name arg)) (\<lambda>_.
           res_bind (check_allowed p (flag_name arg)) (\<lambda>_.
           res_bind (check_value x p (flag_name arg) (flag_value arg rest)) (\<lambda>_.
             check_args x p (after_flag arg rest)))))"
  by pat_completeness auto
termination
  by (relation "measure (\<lambda>(x, p, args). length args)") (auto simp: after_flag_def)

definition cmd_gate :: gate_fun where
  "cmd_gate x p body =
     (case get_array body ''Cmd'' of None \<Rightarrow> Inr () | Some cmd \<Rightarrow> check_args x p (map cmd_arg cmd))"

subsection \<open>What the gates admit\<close>

definition tag_allowed :: "externs \<Rightarrow> policy \<Rightarrow> string \<Rightarrow> bool" where
  "tag_allowed x p t \<longleftrightarrow> length t \<le> 128 \<and>
     (\<forall>pat. image_tag_pattern p = Some pat \<longrightarrow> (\<exists>re. regex_new x pat = Inr re \<and> re t))"

definition digest_allowed :: "policy \<Rightarrow> string \<Rightarrow> bool" where
  "digest_allowed p d \<longleftrightarrow> length d \<le> 128 \<and> image_digest_allowed p \<and> is_match sha256_digest_re d"

definition image_allowed :: "externs \<Rightarrow> policy \<Rightarrow> string \<Rightarrow> bool" where
  "image_allowed x p img \<longleftrightarrow> (\<exists>r. parse_image_ref img = Inr r \<and>
     matches_image_prefix (ir_name r) (allowed_image_prefixes p) \<and>
     (ir_digest r \<noteq> [] \<longrightarrow> digest_allowed p (ir_digest r)) \<and>
     (ir_tag r \<noteq> [] \<longrightarrow> tag_allowed x p (ir_tag r)))"

definition registry_admitted :: "externs \<Rightarrow> policy \<Rightarrow> json_body \<Rightarrow> bool" where
  "registry_admitted x p body \<longleftrightarrow>
     (\<forall>img. hm_get body ''Image'' = Some (JString img) \<longrightarrow> img \<noteq> [] \<longrightarrow> image_allowed x p img)"

definition env_admitted :: "externs \<Rightarrow> policy \<Rightarrow> json_body \<Rightarrow> bool" where
  "env_admitted x p body \<longleftrightarrow>
     (\<forall>e. env_file p = Some e \<longrightarrow> e \<noteq> [] \<longrightarrow>
        (\<forall>vs. hm_get body ''Env'' = Some (JArray vs) \<longrightarrow> vs = []) \<and>
        (\<forall>hc vs. hm_get body ''HostConfig'' = Some (JObject hc) \<longrightarrow>
           bt_get hc ''Env'' = Some (JArray vs) \<longrightarrow> vs = []))"

definition flag_allowed :: "policy \<Rightarrow> string \<Rightarrow> bool" where
  "flag_allowed p flag \<longleftrightarrow>
     (\<forall>denied. denied_flags p = Some denied \<longrightarrow> flag \<notin> set denied) \<and>
     (\<forall>allowed. allowed_cli_flags p = Some allowed \<longrightarrow> flag \<in> set allowed)"

definition value_matches :: "externs \<Rightarrow> policy \<Rightarrow> string \<Rightarrow> string \<Rightarrow> bool" where
  "value_matches x p flag value \<longleftrightarrow>
     (\<forall>rules rule. flag_rules p = Some rules \<longrightarrow> rule \<in> set rules \<longrightarrow> rule_flag rule = flag \<longrightarrow>
        (\<exists>re. regex_new x (value_pattern rule) = Inr re \<and> re value))"

function flag_args :: "string list \<Rightarrow> (string \<times> string) list" where
  "flag_args [] = []"
| "flag_args (arg # rest) =
     (if starts_with arg ''-'' then (flag_name arg, flag_value arg rest) # flag_args (after_flag arg rest)
      else flag_args rest)"
  by pat_completeness auto
termination
  by (relation "measure length") (auto simp: after_flag_def)

text \<open>The arguments that are not values given to a flag as a separate argument.\<close>

function own_args :: "string list \<Rightarrow> string list" where
  "own_args [] = []"
| "own_args (arg # rest) =
     arg # own_args (if starts_with arg ''-'' then after_flag arg rest else rest)"
  by pat_completeness auto
termination
  by (relation "measure length") (auto simp: after_flag_def)

definition args_allowed :: "externs \<Rightarrow> policy \<Rightarrow> string list \<Rightarrow> bool" where
  "args_allowed x p args \<longleftrightarrow>
     (\<forall>arg\<in>set (own_args args). charset_check arg) \<and>
     (\<forall>(flag, value)\<in>set (flag_args args). flag_allowed p flag \<and> (value \<noteq> [] \<longrightarrow> value_matches x p flag value))"

definition cmd_admitted :: "externs \<Rightarrow> policy \<Rightarrow> json_body \<Rightarrow> bool" where
  "cmd_admitted x p body \<longleftrightarrow>
     (\<forall>cmd. hm_get body ''Cmd'' = Some (JArray cmd) \<longrightarrow> args_allowed x p (map cmd_arg cmd))"

subsection \<open>The gates implement their specifications\<close>

lemma check_image_tag_ok:
  "check_image_tag x p r = Inr u \<longleftrightarrow>
     (ir_digest r \<noteq> [] \<longrightarrow> digest_allowed p (ir_digest r)) \<and> (ir_tag r \<noteq> [] \<longrightarrow> tag_allowed x p (ir_tag r))"
  by (auto simp: check_image_tag_def check_digest_def check_tag_def digest_allowed_def tag_allowed_def
      split: option.splits)

lemma check_image_ok: "check_image x p img = Inr u \<longleftrightarrow> image_allowed x p img"
  by (simp add: check_image_def image_allowed_def check_image_tag_ok)

lemma body_image_eq: "s \<noteq> [] \<Longrightarrow> body_image b = s \<longleftrightarrow> hm_get b ''Image'' = Some (JString s)"
  by (auto simp: body_image_def unwrap_or_def bind_eq_Some_conv split: option.splits)

lemma registry_gate_ok: "registry_gate x p body = Inr u \<longleftrightarrow> registry_admitted x p body"
proof (cases "body_image body = []")
  case True
  then have "hm_get body ''Image'' = Some (JString img) \<Longrightarrow> img = []" for img
    by (simp add: body_image_def)
  with True show ?thesis by (auto simp: registry_gate_def registry_admitted_def)
next
  case False
  then have "hm_get body ''Image'' = Some (JString (body_image body))"
    using body_image_eq[OF False, of body] by simp
  with False show ?thesis
    by (simp add: registry_gate_def registry_admitted_def check_image_ok)
qed

lemma check_env_ok: "check_env p place e (get_array m k) = Inr u \<longleftrightarrow> (\<forall>vs. bt_get m k = Some (JArray vs) \<longrightarrow> vs = [])"
  by (cases "bt_get m k") (auto simp: check_env_def get_array_def split: option.splits)

lemma env_file_gate_ok: "env_file_gate x p body = Inr u \<longleftrightarrow> env_admitted x p body"
  by (auto simp: env_file_gate_def env_admitted_def env_file_set_def check_env_ok case_get_object_ok
      split: option.splits)

lemma check_flag_ok:
  "check_denied p f = Inr u \<longleftrightarrow> (\<forall>denied. denied_flags p = Some denied \<longrightarrow> f \<notin> set denied)"
  "check_allowed p f = Inr u \<longleftrightarrow> (\<forall>allowed. allowed_cli_flags p = Some allowed \<longrightarrow> f \<in> set allowed)"
  by (auto simp: check_denied_def check_allowed_def List.member_iff split: option.splits)

lemma check_value_ok: "check_value x p f v = Inr u \<longleftrightarrow> (v \<noteq> [] \<longrightarrow> value_matches x p f v)"
  by (auto simp: check_value_def check_rule_def value_matches_def for_each_ok split: option.splits)

lemma check_args_ok: "check_args x p args = Inr u \<longleftrightarrow> args_allowed x p args"
proof (induction x p args rule: check_args.induct)
  case (1 x p)
  then show ?case by (simp add: args_allowed_def)
next
  case (2 x p arg rest)
  show ?case
  proof (cases "charset_check arg")
    case False
    then show ?thesis by (simp add: args_allowed_def)
  next
    case True
    with 2 show ?thesis
      by (cases "starts_with arg ''-''")
         (auto simp: args_allowed_def check_flag_ok check_value_ok flag_allowed_def)
  qed
qed

lemma cmd_gate_ok: "cmd_gate x p body = Inr u \<longleftrightarrow> cmd_admitted x p body"
  by (cases "hm_get body ''Cmd''")
     (auto simp: cmd_gate_def cmd_admitted_def get_array_def check_args_ok split: option.splits)

interpretation registry: gate registry_gate registry_admitted
  by unfold_locales (rule registry_gate_ok)

interpretation env_file: gate env_file_gate env_admitted
  by unfold_locales (rule env_file_gate_ok)

interpretation cmd: gate cmd_gate cmd_admitted
  by unfold_locales (rule cmd_gate_ok)

text \<open>
  No argument that starts with a dash escapes: it is never taken as a value, so its flag is among
  the flags that were checked and its characters were checked too.
\<close>

lemma dash_arg_examined:
  "arg \<in> set args \<Longrightarrow> starts_with arg ''-'' \<Longrightarrow>
     arg \<in> set (own_args args) \<and> flag_name arg \<in> fst ` set (flag_args args)"
proof (induction args rule: own_args.induct)
  case 1
  then show ?case by simp
next
  case (2 a rest)
  show ?case
  proof (cases "a = arg")
    case True
    with 2 show ?thesis by simp
  next
    case False
    have "arg \<in> set (if starts_with a ''-'' then after_flag a rest else rest)"
      using 2(2,3) False by (cases rest) (auto simp: after_flag_def takes_next_def)
    with 2 show ?thesis by (cases "starts_with a ''-''") auto
  qed
qed

lemma eq_flag_value:
  "f @ CHR ''='' # v \<in> set args \<Longrightarrow> starts_with f ''-'' \<Longrightarrow> CHR ''='' \<notin> set f \<Longrightarrow> (f, v) \<in> set (flag_args args)"
proof (induction args rule: flag_args.induct)
  case 1
  then show ?case by simp
next
  case (2 a rest)
  show ?case
  proof (cases "a = f @ CHR ''='' # v")
    case True
    with 2(4,5) show ?thesis
      by (auto simp: flag_name_def flag_value_def split_on_append_sep split_once_append prefix_append)
  next
    case False
    have "f @ CHR ''='' # v \<in> set (if starts_with a ''-'' then after_flag a rest else rest)"
      using 2(3,4) False by (cases rest) (auto simp: after_flag_def takes_next_def prefix_append)
    with 2 show ?thesis by (cases "starts_with a ''-''") auto
  qed
qed

end
