(* ===== verification/Network_Mutator.thy ===== *)
theory Network_Mutator
  imports Field_Checks
begin

section \<open>NetworkEndpointsGate and ContainerConfigMutator (middleware.rs)\<close>

text \<open>
  The mutator overwrites what the policy forces; the gate denies requests for networks the policy
  does not allow. \<open>forced_host_config\<close> lists the fields the mutator sets, as a reference
  for \<open>force_host_config\<close>, which inserts them one after the other as the code does.
\<close>

subsection \<open>Endpoints\<close>

definition forced_network_mode :: "policy \<Rightarrow> string option" where
  "forced_network_mode p =
     (case Option.bind (container_config p) network_mode of
        None \<Rightarrow> None
      | Some m \<Rightarrow> if m = [] then None else Some m)"

fun object_or_null :: "json option \<Rightarrow> unit + json_object option" where
  "object_or_null None = Inr None"
| "object_or_null (Some JNull) = Inr None"
| "object_or_null (Some (JObject m)) = Inr (Some m)"
| "object_or_null (Some _) = Inl ()"

definition endpoints_config :: "json_body \<Rightarrow> unit + json_object option" where
  "endpoints_config body =
     res_bind (object_or_null (hm_get body ''NetworkingConfig'')) (\<lambda>nc.
       case nc of
         None \<Rightarrow> Inr None
       | Some m \<Rightarrow> object_or_null (bt_get m ''EndpointsConfig''))"

definition detached_network_mode :: "string \<Rightarrow> bool" where
  "detached_network_mode mode = (mode = ''host'' \<or> mode = ''none'' \<or> starts_with mode ''container:'')"

definition foreign_endpoint :: "string \<Rightarrow> json_object \<Rightarrow> string option" where
  "foreign_endpoint mode eps = List.find (\<lambda>k. k \<noteq> ''default'' \<and> k \<noteq> mode) (bt_keys eps)"

definition check_endpoints :: "policy \<Rightarrow> string \<Rightarrow> json_object \<Rightarrow> check" where
  "check_endpoints p mode eps =
     (case foreign_endpoint mode eps of
        Some k \<Rightarrow> Inl (fmt [''network '', debug_str k, '' is not allowed for service '', service_name p,
            ''; policy forces network_mode '', mode])
      | None \<Rightarrow> Inr ())"

definition network_endpoints_gate :: gate_fun where
  "network_endpoints_gate x p body =
     (case forced_network_mode p of
        None \<Rightarrow> Inr ()
      | Some mode \<Rightarrow>
          (case endpoints_config body of
             Inl _ \<Rightarrow> Inl (fmt
               [''NetworkingConfig.EndpointsConfig must be a JSON object; policy forces network_mode '', mode])
           | Inr None \<Rightarrow> Inr ()
           | Inr (Some eps) \<Rightarrow> check_endpoints p mode eps))"

definition forced_endpoints :: "string \<Rightarrow> json_object \<Rightarrow> json_object" where
  "forced_endpoints mode eps =
     (if detached_network_mode mode then []
      else bt_insert mode
        (case bt_get eps mode of Some e \<Rightarrow> e | None \<Rightarrow> unwrap_or (bt_get eps ''default'') (JObject [])) [])"

fun object_or_empty :: "json option \<Rightarrow> json_object" where
  "object_or_empty (Some (JObject m)) = m"
| "object_or_empty _ = []"

definition set_endpoints :: "json_object \<Rightarrow> json_body \<Rightarrow> json_body" where
  "set_endpoints forced body =
     hm_insert ''NetworkingConfig''
       (JObject (bt_insert ''EndpointsConfig'' (JObject forced) (object_or_empty (hm_get body ''NetworkingConfig'')))) body"

definition force_endpoints :: "string \<Rightarrow> json_body \<Rightarrow> json_body" where
  "force_endpoints mode body =
     (case endpoints_config body of
        Inl _ \<Rightarrow> body
      | Inr eps \<Rightarrow>
          if foreign_endpoint mode (unwrap_or eps []) \<noteq> None then body
          else set_endpoints (forced_endpoints mode (unwrap_or eps [])) body)"

subsection \<open>The mutator\<close>

definition insert_opt :: "string \<Rightarrow> json option \<Rightarrow> json_object \<Rightarrow> json_object" where
  "insert_opt k v m = (case v of None \<Rightarrow> m | Some j \<Rightarrow> bt_insert k j m)"

definition forced_groups :: "container_config \<Rightarrow> string list option" where
  "forced_groups cc = (case group_add cc of None \<Rightarrow> None | Some g \<Rightarrow> if g = [] then None else Some g)"

definition log_config :: "container_config \<Rightarrow> string \<Rightarrow> json" where
  "log_config cc driver =
     JObject (bt_collect [(''Type'', JString driver),
       (''Config'', JObject (bt_collect (map (\<lambda>(k, v). (k, JString v)) (unwrap_or (log_options cc) []))))])"

definition json_strings :: "string list \<Rightarrow> json" where
  "json_strings ss = JArray (map JString ss)"

definition force_host_config :: "container_config \<Rightarrow> json_object \<Rightarrow> json_object" where
  "force_host_config cc hc =
     insert_opt ''GroupAdd'' (map_option json_strings (forced_groups cc))
     (insert_opt ''LogConfig'' (map_option (log_config cc) (log_driver cc))
     (insert_opt ''SecurityOpt'' (map_option json_strings (security_options cc))
     (insert_opt ''RestartPolicy'' (map_option (\<lambda>rp. JObject [(''Name'', JString rp)]) (restart_policy cc))
     (insert_opt ''NetworkMode'' (map_option JString (network_mode cc)) hc))))"

definition force_user :: "container_config \<Rightarrow> json_body \<Rightarrow> json_body" where
  "force_user cc body = (case cc_user cc of None \<Rightarrow> body | Some u \<Rightarrow> hm_insert ''User'' (JString u) body)"

definition force_config :: "policy \<Rightarrow> json_object \<Rightarrow> json_body \<Rightarrow> json_body" where
  "force_config p hc body =
     (case container_config p of
        None \<Rightarrow> hm_insert ''HostConfig'' (JObject hc) body
      | Some cc \<Rightarrow>
          (case forced_network_mode p of
             None \<Rightarrow> force_user cc (hm_insert ''HostConfig'' (JObject (force_host_config cc hc)) body)
           | Some mode \<Rightarrow> force_endpoints mode
               (force_user cc (hm_insert ''HostConfig'' (JObject (force_host_config cc hc)) body))))"

definition container_config_mutator :: "policy \<Rightarrow> json_body \<Rightarrow> json_body" where
  "container_config_mutator p body =
     (case object_or_null (hm_get body ''HostConfig'') of
        Inl _ \<Rightarrow> body
      | Inr hc \<Rightarrow> force_config p (bt_insert ''Privileged'' (JBool False) (unwrap_or hc [])) body)"

subsection \<open>The gate's specification\<close>

definition endpoints_admitted :: "externs \<Rightarrow> policy \<Rightarrow> json_body \<Rightarrow> bool" where
  "endpoints_admitted x p body \<longleftrightarrow>
     (\<forall>mode. forced_network_mode p = Some mode \<longrightarrow>
        hm_get body ''NetworkingConfig'' \<in> {None, Some JNull} \<or>
        (\<exists>nc. hm_get body ''NetworkingConfig'' = Some (JObject nc) \<and>
           (bt_get nc ''EndpointsConfig'' \<in> {None, Some JNull} \<or>
            (\<exists>eps. bt_get nc ''EndpointsConfig'' = Some (JObject eps) \<and>
               set (bt_keys eps) \<subseteq> {''default'', mode}))))"

lemma object_or_null_iff:
  "object_or_null v = Inr None \<longleftrightarrow> v \<in> {None, Some JNull}"
  "object_or_null v = Inr (Some m) \<longleftrightarrow> v = Some (JObject m)"
  by (cases v rule: object_or_null.cases; auto)+

lemma object_or_null_Inl:
  "object_or_null v = Inl e \<longleftrightarrow> (\<exists>w. v = Some w \<and> w \<noteq> JNull \<and> (\<forall>m. w \<noteq> JObject m))"
  by (cases v rule: object_or_null.cases) auto

lemma endpoints_config_iff:
  "endpoints_config b = Inr None \<longleftrightarrow> hm_get b ''NetworkingConfig'' \<in> {None, Some JNull} \<or>
     (\<exists>nc. hm_get b ''NetworkingConfig'' = Some (JObject nc) \<and> bt_get nc ''EndpointsConfig'' \<in> {None, Some JNull})"
  "endpoints_config b = Inr (Some eps) \<longleftrightarrow>
     (\<exists>nc. hm_get b ''NetworkingConfig'' = Some (JObject nc) \<and> bt_get nc ''EndpointsConfig'' = Some (JObject eps))"
  by (auto simp: endpoints_config_def object_or_null_iff split: option.splits)

lemma foreign_endpoint_None:
  "foreign_endpoint mode eps = None \<longleftrightarrow> set (bt_keys eps) \<subseteq> {''default'', mode}"
  by (auto simp: foreign_endpoint_def find_None_iff)

lemma check_endpoints_ok: "check_endpoints p mode eps = Inr u \<longleftrightarrow> set (bt_keys eps) \<subseteq> {''default'', mode}"
  unfolding foreign_endpoint_None [symmetric] by (simp add: check_endpoints_def split: option.split)

lemma endpoints_admitted_config:
  "endpoints_admitted x p b \<longleftrightarrow> (\<forall>mode. forced_network_mode p = Some mode \<longrightarrow>
     (\<exists>o'. endpoints_config b = Inr o' \<and> set (bt_keys (unwrap_or o' [])) \<subseteq> {''default'', mode}))"
  (is "_ \<longleftrightarrow> (\<forall>mode. _ \<longrightarrow> ?R mode)")
proof -
  have "?R mode \<longleftrightarrow> endpoints_config b = Inr None \<or>
      (\<exists>eps. endpoints_config b = Inr (Some eps) \<and> set (bt_keys eps) \<subseteq> {''default'', mode})" for mode
    by (metis list.set(1) empty_subsetI list.simps(8) not_None_eq unwrap_or_simps)
  then show ?thesis
    by (auto simp: endpoints_admitted_def endpoints_config_iff)
qed

lemma network_endpoints_gate_ok: "network_endpoints_gate x p body = Inr u \<longleftrightarrow> endpoints_admitted x p body"
  unfolding endpoints_admitted_config
  by (simp add: network_endpoints_gate_def check_endpoints_ok unwrap_or_def split: option.split sum.split)

interpretation network_endpoints: gate network_endpoints_gate endpoints_admitted
  by unfold_locales (rule network_endpoints_gate_ok)

subsection \<open>What the mutator forces\<close>

definition forced_host_config :: "policy \<Rightarrow> string \<Rightarrow> json option" where
  "forced_host_config p k =
     (if k = ''Privileged'' then Some (JBool False)
      else Option.bind (container_config p) (\<lambda>cc.
        if k = ''NetworkMode'' then map_option JString (network_mode cc)
        else if k = ''RestartPolicy'' then map_option (\<lambda>rp. JObject [(''Name'', JString rp)]) (restart_policy cc)
        else if k = ''SecurityOpt'' then map_option json_strings (security_options cc)
        else if k = ''LogConfig'' then map_option (log_config cc) (log_driver cc)
        else if k = ''GroupAdd'' then map_option json_strings (forced_groups cc)
        else None))"

lemma get_insert_opt: "bt_get (insert_opt k v m) k' = (if k' = k \<and> v \<noteq> None then v else bt_get m k')"
  by (simp add: insert_opt_def split: option.split)

lemma bt_wf_insert_opt: "bt_wf m \<Longrightarrow> bt_wf (insert_opt k v m)"
  by (simp add: insert_opt_def bt_wf_insert split: option.split)

lemma force_host_config_get:
  "container_config p = Some cc \<Longrightarrow>
   bt_get (force_host_config cc (bt_insert ''Privileged'' (JBool False) hc)) k =
     (case forced_host_config p k of Some v \<Rightarrow> Some v | None \<Rightarrow> bt_get hc k)"
  by (simp add: force_host_config_def get_insert_opt forced_host_config_def split: option.split)

lemma set_endpoints_get: "k \<noteq> ''NetworkingConfig'' \<Longrightarrow> hm_get (set_endpoints eps b) k = hm_get b k"
  by (simp add: set_endpoints_def)

lemma force_endpoints_get: "k \<noteq> ''NetworkingConfig'' \<Longrightarrow> hm_get (force_endpoints mode b) k = hm_get b k"
  by (simp add: force_endpoints_def set_endpoints_get split: sum.split)

lemma force_user_get: "k \<noteq> ''User'' \<Longrightarrow> hm_get (force_user cc b) k = hm_get b k"
  by (simp add: force_user_def split: option.split)

lemma force_config_host_config:
  "\<exists>hc'. hm_get (force_config p (bt_insert ''Privileged'' (JBool False) hc) b) ''HostConfig'' = Some (JObject hc') \<and>
     (\<forall>k. bt_get hc' k = (case forced_host_config p k of Some v \<Rightarrow> Some v | None \<Rightarrow> bt_get hc k))"
proof (cases "container_config p")
  case None
  then show ?thesis by (auto simp: force_config_def forced_host_config_def)
next
  case (Some cc)
  then show ?thesis
    by (auto simp: force_config_def force_endpoints_get force_user_get force_host_config_get [OF Some]
        split: option.splits)
qed

text \<open>
  After the mutator, \<open>HostConfig\<close> is an object whose forced fields hold the policy's values and
  whose other fields are the caller's. It is untouched when the caller sent something that is
  neither an object nor null.
\<close>

lemma mutator_host_config:
  assumes "hm_get b ''HostConfig'' \<in> {None, Some JNull} \<and> hc = [] \<or> hm_get b ''HostConfig'' = Some (JObject hc)"
  shows "\<exists>hc'. hm_get (container_config_mutator p b) ''HostConfig'' = Some (JObject hc') \<and>
     (\<forall>k. bt_get hc' k = (case forced_host_config p k of Some v \<Rightarrow> Some v | None \<Rightarrow> bt_get hc k))"
proof -
  from assms have "\<exists>o'. object_or_null (hm_get b ''HostConfig'') = Inr o' \<and> unwrap_or o' [] = hc"
    by (auto simp: object_or_null_iff)
  then show ?thesis
    using force_config_host_config[of p hc b] by (auto simp: container_config_mutator_def)
qed

text \<open>A field of the caller's \<open>HostConfig\<close>.\<close>

definition caller_field :: "json_body \<Rightarrow> string \<Rightarrow> json option" where
  "caller_field b k = (case hm_get b ''HostConfig'' of Some (JObject hc) \<Rightarrow> bt_get hc k | _ \<Rightarrow> None)"

lemma mutator_bad_host_config:
  assumes "hm_get b ''HostConfig'' = Some v" "v \<noteq> JNull" "\<And>m. v \<noteq> JObject m"
  shows "container_config_mutator p b = b"
proof -
  have "object_or_null (Some v) = Inl ()" using assms(2,3) by (cases v) auto
  with assms(1) show ?thesis by (simp add: container_config_mutator_def)
qed

lemma mutator_other_fields:
  "k \<notin> {''HostConfig'', ''User'', ''NetworkingConfig''} \<Longrightarrow> hm_get (container_config_mutator p b) k = hm_get b k"
  by (auto simp: container_config_mutator_def force_config_def force_endpoints_get force_user_get
      split: sum.split option.split)

lemma mutator_user:
  assumes "hm_get (container_config_mutator p b) ''HostConfig'' = Some (JObject hc)"
  shows "hm_get (container_config_mutator p b) ''User'' =
    (case Option.bind (container_config p) cc_user of Some u \<Rightarrow> Some (JString u) | None \<Rightarrow> hm_get b ''User'')"
proof (cases "object_or_null (hm_get b ''HostConfig'')")
  case (Inl e)
  then have "container_config_mutator p b = b" by (simp add: container_config_mutator_def)
  with assms Inl show ?thesis by simp
next
  case (Inr o')
  then show ?thesis
    by (auto simp: container_config_mutator_def force_config_def force_endpoints_get force_user_def
        split: option.splits)
qed

subsection \<open>The forced endpoints\<close>

definition endpoints_forced :: "string \<Rightarrow> json_body \<Rightarrow> bool" where
  "endpoints_forced mode b \<longleftrightarrow> (\<exists>nc eps. hm_get b ''NetworkingConfig'' = Some (JObject nc) \<and>
     bt_get nc ''EndpointsConfig'' = Some (JObject eps) \<and>
     bt_keys eps = (if detached_network_mode mode then [] else [mode]))"

lemma forced_endpoints_keys:
  "bt_keys (forced_endpoints mode eps) = (if detached_network_mode mode then [] else [mode])"
  by (simp add: forced_endpoints_def)

lemma forced_endpoints_idem: "forced_endpoints mode (forced_endpoints mode eps) = forced_endpoints mode eps"
  by (simp add: forced_endpoints_def)

lemma endpoints_config_set: "endpoints_config (set_endpoints eps b) = Inr (Some eps)"
  by (simp add: set_endpoints_def endpoints_config_def)

lemma force_endpoints_forced:
  assumes "endpoints_config b = Inr o'" "set (bt_keys (unwrap_or o' [])) \<subseteq> {''default'', mode}"
  shows "endpoints_forced mode (force_endpoints mode b)"
proof -
  have "force_endpoints mode b = set_endpoints (forced_endpoints mode (unwrap_or o' [])) b"
    using assms foreign_endpoint_None by (simp add: force_endpoints_def)
  then show ?thesis
    by (auto simp: endpoints_forced_def set_endpoints_def forced_endpoints_keys)
qed

text \<open>The mutator leaves a request the gate denies unchanged, so the gate decides on the caller's request.\<close>

lemma force_endpoints_denied:
  assumes "forced_network_mode p = Some mode" "\<not> endpoints_admitted x p b"
  shows "force_endpoints mode b = b"
  using assms by (auto simp: endpoints_admitted_config force_endpoints_def foreign_endpoint_None
      split: sum.split)

lemma endpoints_forced_admitted:
  assumes "forced_network_mode p = Some mode" "endpoints_admitted x p (force_endpoints mode b)"
  shows "endpoints_forced mode (force_endpoints mode b)"
proof (cases "endpoints_admitted x p b")
  case True
  with assms(1) obtain o' where "endpoints_config b = Inr o'" "set (bt_keys (unwrap_or o' [])) \<subseteq> {''default'', mode}"
    by (auto simp: endpoints_admitted_config)
  then show ?thesis by (rule force_endpoints_forced)
next
  case False
  with assms force_endpoints_denied[OF assms(1) False] show ?thesis by simp
qed

subsection \<open>Applying the mutator twice\<close>

lemma hm_insert_same: "hm_get m k = Some v \<Longrightarrow> hm_insert k v m = m"
  by (induction k v m rule: hm_insert.induct) auto

lemma set_endpoints_idem:
  assumes "bt_wf (object_or_empty (hm_get b ''NetworkingConfig''))"
  shows "set_endpoints eps (set_endpoints eps b) = set_endpoints eps b"
  using assms by (simp add: set_endpoints_def btm.ins_idem hm_insert_same)

lemma force_endpoints_idem:
  assumes "bt_wf (object_or_empty (hm_get b ''NetworkingConfig''))"
  shows "force_endpoints mode (force_endpoints mode b) = force_endpoints mode b"
proof (cases "endpoints_config b")
  case (Inl e)
  then show ?thesis by (simp add: force_endpoints_def)
next
  case (Inr o')
  show ?thesis
  proof (cases "foreign_endpoint mode (unwrap_or o' [])")
    case (Some k)
    with Inr show ?thesis by (simp add: force_endpoints_def)
  next
    case None
    define eps where "eps = forced_endpoints mode (unwrap_or o' [])"
    have b': "force_endpoints mode b = set_endpoints eps b"
      using Inr None by (simp add: force_endpoints_def eps_def)
    have "set (bt_keys eps) \<subseteq> {''default'', mode}"
      by (simp add: eps_def forced_endpoints_keys)
    then have "foreign_endpoint mode eps = None" by (simp add: foreign_endpoint_None)
    then have "force_endpoints mode (set_endpoints eps b) = set_endpoints (forced_endpoints mode eps) (set_endpoints eps b)"
      by (simp add: force_endpoints_def endpoints_config_set)
    also have "\<dots> = set_endpoints eps b"
      using assms by (simp add: eps_def forced_endpoints_idem set_endpoints_idem)
    finally show ?thesis by (simp add: b')
  qed
qed

lemma bt_wf_force_host_config: "bt_wf hc \<Longrightarrow> bt_wf (force_host_config cc hc)"
  by (simp add: force_host_config_def bt_wf_insert_opt)

lemma force_host_config_idem:
  fixes p :: policy and cc :: container_config
  assumes "bt_wf hc" "hc' = force_host_config cc (bt_insert ''Privileged'' (JBool False) hc)"
    and cc: "container_config p = Some cc"
  shows "force_host_config cc (bt_insert ''Privileged'' (JBool False) hc') = hc'"
  unfolding assms(2) using assms(1)
  by (intro bt_wf_ext) (simp_all add: bt_wf_force_host_config bt_wf_insert force_host_config_get [OF cc]
      split: option.split)

lemma force_user_same: "cc_user cc = Some u \<Longrightarrow> hm_get b ''User'' = Some (JString u) \<Longrightarrow> force_user cc b = b"
  by (simp add: force_user_def hm_insert_same)

lemma force_user_twice: "hm_get b' ''User'' = hm_get (force_user cc b) ''User'' \<Longrightarrow> force_user cc b' = b'"
  by (simp add: force_user_def hm_insert_same split: option.splits)

lemma force_config_idem:
  assumes "bt_wf hc" "bt_wf (object_or_empty (hm_get b ''NetworkingConfig''))"
    and b'_def: "b' = force_config p (bt_insert ''Privileged'' (JBool False) hc) b"
  shows "container_config_mutator p b' = b'"
proof (cases "container_config p")
  case None
  with assms(1) show ?thesis
    by (simp add: b'_def force_config_def container_config_mutator_def hm_insert_same btm.ins_idem)
next
  case (Some cc)
  define hc' where "hc' = force_host_config cc (bt_insert ''Privileged'' (JBool False) hc)"
  define c where "c = force_user cc (hm_insert ''HostConfig'' (JObject hc') b)"
  have nc: "bt_wf (object_or_empty (hm_get c ''NetworkingConfig''))"
    using assms(2) by (simp add: c_def force_user_get)
  have c: "hm_get c ''HostConfig'' = Some (JObject hc')"
    by (simp add: c_def force_user_get)
  have idem: "force_host_config cc (bt_insert ''Privileged'' (JBool False) hc') = hc'"
    using assms(1) hc'_def Some by (rule force_host_config_idem)
  show ?thesis
  proof (cases "forced_network_mode p")
    case None
    then have b': "b' = c" by (simp add: b'_def c_def hc'_def force_config_def Some)
    have "force_user cc c = c" by (rule force_user_twice) (simp add: c_def)
    then show ?thesis
      by (simp add: b' container_config_mutator_def c force_config_def Some None idem hm_insert_same)
  next
    case (Some mode)
    have b': "b' = force_endpoints mode c"
      by (simp add: b'_def c_def hc'_def force_config_def Some \<open>container_config p = Some cc\<close>)
    have u: "force_user cc b' = b'"
      by (rule force_user_twice [of _ _ "hm_insert ''HostConfig'' (JObject hc') b"])
         (simp add: b' force_endpoints_get, simp add: c_def)
    have h: "hm_get b' ''HostConfig'' = Some (JObject hc')"
      using c by (simp add: b' force_endpoints_get)
    have "container_config_mutator p b' = force_endpoints mode b'"
      by (simp add: container_config_mutator_def h force_config_def Some \<open>container_config p = Some cc\<close>
          idem hm_insert_same u)
    then show ?thesis by (simp add: b' force_endpoints_idem nc)
  qed
qed

lemma mutator_idem:
  assumes "body_wf b"
  shows "container_config_mutator p (container_config_mutator p b) = container_config_mutator p b"
proof (cases "object_or_null (hm_get b ''HostConfig'')")
  case (Inl e)
  then show ?thesis by (simp add: container_config_mutator_def)
next
  case (Inr o')
  have wf: "bt_wf m" if "hm_get b k = Some (JObject m)" for k m
    using body_wf_member[OF assms that] by simp
  have "bt_wf (unwrap_or o' [])"
    using wf Inr by (cases o') (auto simp: object_or_null_iff bt_wf_def)
  moreover have "bt_wf (object_or_empty (hm_get b ''NetworkingConfig''))"
    using wf by (cases "hm_get b ''NetworkingConfig''" rule: object_or_empty.cases) (auto simp: bt_wf_def)
  ultimately show ?thesis
    using Inr force_config_idem[of "unwrap_or o' []" b _ p] by (simp add: container_config_mutator_def)
qed

subsection \<open>The mutator keeps bodies well formed\<close>

lemma json_wf_empty: "json_wf (JObject [])"
  by (simp add: bt_wf_def)

lemma json_wf_strings: "json_wf (json_strings ss)"
  by (simp add: json_strings_def)

lemma json_wf_collect:
  assumes "\<forall>kv\<in>set m. json_wf (snd kv)"
  shows "json_wf (JObject (bt_collect m))"
proof -
  have "json_wf (JObject (fold (\<lambda>(k, v). bt_insert k v) m acc))" if "json_wf (JObject acc)" for acc
    using assms that
  proof (induction m arbitrary: acc)
    case Nil
    then show ?case by simp
  next
    case (Cons kv m)
    obtain k v where kv: "kv = (k, v)" by (cases kv)
    then have "json_wf (JObject (bt_insert k v acc))"
      using Cons.prems json_wf_insert[of acc v k] by (simp del: json_wf.simps)
    with Cons.IH[of "bt_insert k v acc"] Cons.prems(1) show ?case by (simp add: kv del: json_wf.simps)
  qed
  from this [of "[]"] show ?thesis by (simp add: bt_collect_def bt_wf_def)
qed

lemma json_wf_log_config: "json_wf (log_config cc d)"
proof -
  have "json_wf (JObject (bt_collect (map (\<lambda>(k, v). (k, JString v)) (unwrap_or (log_options cc) []))))"
    by (rule json_wf_collect) auto
  then show ?thesis unfolding log_config_def by (intro json_wf_collect) (simp del: json_wf.simps(2))
qed

lemma json_wf_insert_opt:
  "json_wf (JObject m) \<Longrightarrow> (\<And>j. v = Some j \<Longrightarrow> json_wf j) \<Longrightarrow> json_wf (JObject (insert_opt k v m))"
  unfolding insert_opt_def by (cases v) (simp_all add: json_wf_insert del: json_wf.simps)

lemma json_wf_force_host_config: "json_wf (JObject hc) \<Longrightarrow> json_wf (JObject (force_host_config cc hc))"
  unfolding force_host_config_def
  by (intro json_wf_insert_opt) (auto simp: json_wf_strings json_wf_log_config bt_wf_def)

lemma forced_endpoints_wf:
  assumes "json_wf (JObject eps)"
  shows "json_wf (JObject (forced_endpoints mode eps))"
proof -
  have "json_wf (case bt_get eps mode of Some e \<Rightarrow> e | None \<Rightarrow> unwrap_or (bt_get eps ''default'') (JObject []))"
    using json_wf_member[OF assms] by (auto simp: unwrap_or_def json_wf_empty simp del: json_wf.simps(2) split: option.split)
  then show ?thesis by (simp add: forced_endpoints_def bt_wf_def)
qed

lemma object_or_empty_wf: "body_wf b \<Longrightarrow> json_wf (JObject (object_or_empty (hm_get b k)))"
  using body_wf_member[of b k]
  by (cases "hm_get b k" rule: object_or_empty.cases) (simp_all add: json_wf_empty del: json_wf.simps(2))

lemma endpoints_config_wf:
  assumes "body_wf b" "endpoints_config b = Inr o'"
  shows "json_wf (JObject (unwrap_or o' []))"
proof (cases o')
  case None
  then show ?thesis by (simp add: bt_wf_def)
next
  case (Some eps)
  with assms(2) obtain nc where nc: "hm_get b ''NetworkingConfig'' = Some (JObject nc)"
    "bt_get nc ''EndpointsConfig'' = Some (JObject eps)" by (auto simp: endpoints_config_iff)
  have "json_wf (JObject nc)" by (rule body_wf_member[OF assms(1) nc(1)])
  from json_wf_member[OF this nc(2)] Some show ?thesis by simp
qed

lemma body_wf_force_endpoints:
  assumes "body_wf b"
  shows "body_wf (force_endpoints mode b)"
proof (cases "endpoints_config b")
  case (Inl e)
  with assms show ?thesis by (simp add: force_endpoints_def)
next
  case (Inr o')
  have "json_wf (JObject (forced_endpoints mode (unwrap_or o' [])))"
    by (rule forced_endpoints_wf) (rule endpoints_config_wf[OF assms Inr])
  then have "body_wf (set_endpoints (forced_endpoints mode (unwrap_or o' [])) b)"
    unfolding set_endpoints_def using assms object_or_empty_wf[OF assms] by (intro body_wf_insert json_wf_insert)
  with assms Inr show ?thesis by (simp add: force_endpoints_def)
qed

lemma body_wf_mutator:
  assumes "body_wf b"
  shows "body_wf (container_config_mutator p b)"
proof (cases "object_or_null (hm_get b ''HostConfig'')")
  case (Inl e)
  with assms show ?thesis by (simp add: container_config_mutator_def)
next
  case (Inr o')
  have "json_wf (JObject (unwrap_or o' []))"
    using Inr body_wf_member[OF assms, of "''HostConfig''"] by (cases o') (auto simp: object_or_null_iff bt_wf_def)
  then have hc: "json_wf (JObject (bt_insert ''Privileged'' (JBool False) (unwrap_or o' [])))"
    by (intro json_wf_insert) simp_all
  have user: "body_wf (force_user cc c)" if "body_wf c" for cc c
    using that by (simp add: force_user_def body_wf_insert split: option.split)
  from hc assms Inr show ?thesis
    by (auto simp: container_config_mutator_def force_config_def simp del: json_wf.simps
        intro!: body_wf_insert body_wf_force_endpoints user json_wf_force_host_config split: option.split)
qed

end
