(* ===== verification/Chain.thy ===== *)
theory Chain
  imports Mount_Gate HostConfig_Gate Cmd_Gate Network_Mutator
begin

section \<open>The middleware chain (middleware.rs)\<close>

text \<open>
  \<open>Chain::new\<close> and \<open>Chain::execute\<close>: the mutators run first, then the gates in order,
  and the first error denies. \<open>create_safe\<close> collects what a container-create body must
  satisfy; the locale \<open>gate_chain\<close> proves once, for a chain whose gates meet their
  specifications, that a body is allowed exactly when every gate admits the mutated body.
\<close>

record chain =
  gates :: "gate_fun list"
  mutators :: "(policy \<Rightarrow> json_body \<Rightarrow> json_body) list"

record gate_result =
  gr_allowed :: bool
  gr_reason :: string
  modified_body :: "bytes option"

definition chain_new :: chain where
  "chain_new =
     \<lparr>gates = [registry_gate, mount_source_gate, env_file_gate, host_config_gate, cmd_gate,
        network_endpoints_gate],
      mutators = [container_config_mutator]\<rparr>"

definition mutate_all :: "chain \<Rightarrow> policy \<Rightarrow> json_body \<Rightarrow> json_body" where
  "mutate_all c p body = fold (\<lambda>m. m p) (mutators c) body"

definition run_gates :: "externs \<Rightarrow> chain \<Rightarrow> policy \<Rightarrow> json_body \<Rightarrow> check" where
  "run_gates x c p body = for_each (\<lambda>g. g x p body) (gates c)"

definition gate_outcome :: "externs \<Rightarrow> json_body \<Rightarrow> check \<Rightarrow> gate_result" where
  "gate_outcome x body r =
     (case r of
        Inl reason \<Rightarrow> \<lparr>gr_allowed = False, gr_reason = reason, modified_body = None\<rparr>
      | Inr _ \<Rightarrow> \<lparr>gr_allowed = True, gr_reason = ''container create allowed'', modified_body = json_to_vec x body\<rparr>)"

definition execute_on :: "externs \<Rightarrow> chain \<Rightarrow> policy \<Rightarrow> json_body \<Rightarrow> gate_result" where
  "execute_on x c p body = gate_outcome x body (run_gates x c p body)"

definition execute :: "externs \<Rightarrow> chain \<Rightarrow> policy \<Rightarrow> json_body \<Rightarrow> gate_result" where
  "execute x c p body = execute_on x c p (mutate_all c p body)"

definition make_policy :: "string \<Rightarrow> string list \<Rightarrow> policy" where
  "make_policy name pfxs =
     \<lparr>service_name = name, container_names = None, user_id = None, group_id = None,
      allowed_image_prefixes = pfxs, image_tag_pattern = None, image_digest_allowed = False,
      container_config = None, volumes = None, ports = None, env_file = None,
      allowed_cli_flags = None, flag_rules = None, denied_flags = None\<rparr>"

definition body_from_json :: "json \<Rightarrow> json_body option" where
  "body_from_json j = as_object j"

subsection \<open>Chains of gates that meet their specifications\<close>

locale gate_chain =
  fixes chain :: chain
    and specs :: "(externs \<Rightarrow> policy \<Rightarrow> json_body \<Rightarrow> bool) list"
  assumes gates_meet_specs: "list_all2 (\<lambda>g s. gate g s) (gates chain) specs"
begin

lemma run_gates_ok: "run_gates x chain p b = Inr () \<longleftrightarrow> (\<forall>s\<in>set specs. s x p b)"
proof -
  have "(\<forall>g\<in>set gs. g x p b = Inr ()) \<longleftrightarrow> (\<forall>s\<in>set ss. s x p b)"
    if "list_all2 (\<lambda>g s. gate g s) gs ss" for gs ss
    using that by (induction rule: list_all2_induct) (auto simp: gate.check_iff)
  from this [OF gates_meet_specs] show ?thesis
    by (simp add: run_gates_def for_each_ok)
qed

lemma execute_allowed: "gr_allowed (execute x chain p b) \<longleftrightarrow> (\<forall>s\<in>set specs. s x p (mutate_all chain p b))"
  unfolding run_gates_ok [symmetric]
  by (auto simp: execute_def execute_on_def gate_outcome_def split: sum.splits)

lemma execute_body:
  "gr_allowed (execute x chain p b) \<Longrightarrow>
     modified_body (execute x chain p b) = json_to_vec x (mutate_all chain p b)"
  by (auto simp: execute_def execute_on_def gate_outcome_def split: sum.splits)

lemma execute_denied_body: "\<not> gr_allowed (execute x chain p b) \<Longrightarrow> modified_body (execute x chain p b) = None"
  by (auto simp: execute_def execute_on_def gate_outcome_def split: sum.splits)

text \<open>The reason of a denial is the message of the first gate that does not admit the body.\<close>

lemma execute_first_denial:
  assumes "\<not> gr_allowed (execute x chain p b)"
  shows "\<exists>pre g post. gates chain = pre @ g # post \<and>
    (\<forall>h\<in>set pre. h x p (mutate_all chain p b) = Inr ()) \<and>
    g x p (mutate_all chain p b) = Inl (gr_reason (execute x chain p b))"
proof -
  obtain e where e: "run_gates x chain p (mutate_all chain p b) = Inl e"
    using assms check_cases[of "run_gates x chain p (mutate_all chain p b)"]
    by (auto simp: execute_def execute_on_def gate_outcome_def)
  then have "gr_reason (execute x chain p b) = e"
    by (simp add: execute_def execute_on_def gate_outcome_def)
  with for_each_first_error[OF e [unfolded run_gates_def]] show ?thesis by blast
qed

end

definition gate_specs :: "(externs \<Rightarrow> policy \<Rightarrow> json_body \<Rightarrow> bool) list" where
  "gate_specs = [registry_admitted, mounts_admitted, env_admitted, host_config_admitted, cmd_admitted,
     endpoints_admitted]"

interpretation create_chain: gate_chain chain_new gate_specs
  by unfold_locales
     (simp add: chain_new_def gate_specs_def registry.gate_axioms mount_gate.gate_axioms env_file.gate_axioms
      host_config.gate_axioms cmd.gate_axioms network_endpoints.gate_axioms)

subsection \<open>What an allowed create satisfies\<close>

definition create_admitted :: "externs \<Rightarrow> policy \<Rightarrow> json_body \<Rightarrow> bool" where
  "create_admitted x p b \<longleftrightarrow>
     registry_admitted x p b \<and> mounts_admitted x p b \<and> env_admitted x p b \<and>
     host_config_admitted x p b \<and> cmd_admitted x p b \<and> endpoints_admitted x p b"

lemma mutate_all_new [simp]: "mutate_all chain_new p b = container_config_mutator p b"
  by (simp add: mutate_all_def chain_new_def)

lemma execute_new_allowed:
  "gr_allowed (execute x chain_new p b) \<longleftrightarrow> create_admitted x p (container_config_mutator p b)"
  by (simp add: create_chain.execute_allowed gate_specs_def create_admitted_def conj_ac)

text \<open>The mutated body of an allowed create always has an object as \<open>HostConfig\<close>.\<close>

lemma allowed_host_config:
  assumes "host_config_admitted x p (container_config_mutator p b)"
  shows "\<exists>hc. hm_get (container_config_mutator p b) ''HostConfig'' = Some (JObject hc) \<and>
     (\<forall>k v. forced_host_config p k = Some v \<longrightarrow> bt_get hc k = Some v) \<and>
     exact_keys (bt_keys hc) HOST_CONFIG_FIELDS \<and>
     (\<forall>k v. bt_get hc k = Some v \<longrightarrow> value_allowed p k v)"
proof (cases "object_or_null (hm_get b ''HostConfig'')")
  case (Inl e)
  then obtain v where v: "hm_get b ''HostConfig'' = Some v" "v \<noteq> JNull" "\<And>m. v \<noteq> JObject m"
    by (auto simp: object_or_null_Inl)
  then have "container_config_mutator p b = b" by (rule mutator_bad_host_config)
  with assms v show ?thesis by (auto simp: host_config_admitted_def)
next
  case (Inr o')
  then have "hm_get b ''HostConfig'' \<in> {None, Some JNull} \<and> unwrap_or o' [] = [] \<or>
      hm_get b ''HostConfig'' = Some (JObject (unwrap_or o' []))"
    by (cases o') (auto simp: object_or_null_iff)
  from mutator_host_config[OF this, of p] obtain hc where
    hc: "hm_get (container_config_mutator p b) ''HostConfig'' = Some (JObject hc)"
      "\<forall>k. bt_get hc k = (case forced_host_config p k of Some v \<Rightarrow> Some v | None \<Rightarrow> bt_get (unwrap_or o' []) k)"
    by blast
  with assms show ?thesis by (auto simp: host_config_admitted_def)
qed

text \<open>
  The daemon's reading of the forwarded \<open>HostConfig\<close>: for every field it knows, the value the
  gates saw.
\<close>

lemma exact_keys_decoded:
  "exact_keys (map fst m) flds \<Longrightarrow> distinct (map fst m) \<Longrightarrow> f \<in> set flds \<Longrightarrow> decoded m f = map_of m f"
  by (intro decoded_exact) (auto simp: exact_keys_def)

lemma body_wf_mutator_host_config:
  assumes "body_wf b" "hm_get (container_config_mutator p b) ''HostConfig'' = Some (JObject hc)"
  shows "distinct (bt_keys hc)"
proof (cases "object_or_null (hm_get b ''HostConfig'')")
  case (Inl e)
  with assms have "hm_get b ''HostConfig'' = Some (JObject hc)" by (simp add: container_config_mutator_def)
  with body_wf_member[OF assms(1)] show ?thesis by (fastforce simp: bt_wf_def strict_sorted_iff)
next
  case (Inr o')
  have wf: "bt_wf (unwrap_or o' [])"
    using Inr body_wf_member[OF assms(1), of "''HostConfig''"]
    by (cases o') (fastforce simp: object_or_null_iff bt_wf_def)+
  have "bt_wf hc"
    using assms(2) Inr wf
    by (auto simp: container_config_mutator_def force_config_def force_endpoints_get force_user_get
        bt_wf_force_host_config bt_wf_insert split: option.splits)
  then show ?thesis by (simp add: bt_wf_def strict_sorted_iff)
qed

text \<open>
  The daemon's reading of the whole body, in whatever order the \<open>HashMap\<close> is serialised: every
  field it knows is the one the gates saw, at the top level and in \<open>NetworkingConfig\<close>.
\<close>

lemma map_of_reordered:
  assumes "set m' = set m" "distinct (map fst m')" "distinct (map fst m)"
  shows "map_of m' = map_of m"
  using assms map_of_inject_set by blast

lemma exact_keys_decoded_reordered:
  assumes "exact_keys (map fst m) flds" "set m' = set m" "distinct (map fst m')" "distinct (map fst m)" "f \<in> set flds"
  shows "decoded m' f = map_of m f"
proof -
  have "set (map fst m') = set (map fst m)" using assms(2) by simp
  with assms(1) have "exact_keys (map fst m') flds" by (simp add: exact_keys_def)
  from exact_keys_decoded[OF this assms(3,5)] map_of_reordered[OF assms(2-4)] show ?thesis by simp
qed

lemma admitted_body_decoded:
  assumes "host_config_admitted x p b" "body_wf b" "set b' = set b" "distinct (map fst b')"
  shows "f \<in> set CREATE_BODY_FIELDS \<Longrightarrow> decoded b' f = hm_get b f"
    and "hm_get b ''NetworkingConfig'' = Some (JObject nc) \<Longrightarrow> f \<in> set NETWORKING_CONFIG_FIELDS \<Longrightarrow>
      decoded nc f = bt_get nc f"
proof -
  assume "f \<in> set CREATE_BODY_FIELDS"
  moreover have "exact_keys (map fst b) CREATE_BODY_FIELDS" using assms(1) by (simp add: host_config_admitted_def)
  moreover have "distinct (map fst b)" using assms(2) by (simp add: body_wf_def hm_wf_def)
  ultimately show "decoded b' f = hm_get b f" using exact_keys_decoded_reordered assms(3,4) by simp
next
  assume nc: "hm_get b ''NetworkingConfig'' = Some (JObject nc)" and f: "f \<in> set NETWORKING_CONFIG_FIELDS"
  have "distinct (bt_keys nc)" using body_wf_member[OF assms(2) nc] by (simp add: bt_wf_def strict_sorted_iff)
  moreover have "exact_keys (bt_keys nc) NETWORKING_CONFIG_FIELDS" using assms(1) nc by (simp add: host_config_admitted_def)
  ultimately show "decoded nc f = bt_get nc f" using f by (intro exact_keys_decoded)
qed

text \<open>With a forced network mode the mutated body comes from \<open>force_endpoints\<close>.\<close>

lemma mutator_endpoints:
  assumes "forced_network_mode p = Some mode" "hm_get (container_config_mutator p b) ''HostConfig'' = Some (JObject hc)"
  shows "\<exists>c. container_config_mutator p b = force_endpoints mode c"
proof (cases "object_or_null (hm_get b ''HostConfig'')")
  case (Inl e)
  then have "container_config_mutator p b = b" by (simp add: container_config_mutator_def)
  with assms(2) Inl show ?thesis by simp
next
  case (Inr o')
  from assms(1) obtain cc where "container_config p = Some cc"
    by (cases "container_config p") (auto simp: forced_network_mode_def)
  with Inr assms(1) show ?thesis by (auto simp: container_config_mutator_def force_config_def)
qed

text \<open>What the daemon reads in an admitted \<open>HostConfig\<close>.\<close>

definition host_config_safe :: "policy \<Rightarrow> json_object \<Rightarrow> bool" where
  "host_config_safe p hc \<longleftrightarrow>
     decoded hc ''Privileged'' = Some (JBool False) \<and>
     (\<forall>f\<in>set HOST_CONFIG_FIELDS. decoded hc f = bt_get hc f) \<and>
     (\<forall>k v. bt_get hc k = Some v \<longrightarrow> value_allowed p k v)"

definition create_safe :: "externs \<Rightarrow> policy \<Rightarrow> json_body \<Rightarrow> bool" where
  "create_safe x p b \<longleftrightarrow> create_admitted x p b \<and>
     (\<exists>hc. hm_get b ''HostConfig'' = Some (JObject hc) \<and> host_config_safe p hc)"

lemma create_admitted_safe:
  assumes "create_admitted x p (container_config_mutator p b)" "body_wf b"
  shows "create_safe x p (container_config_mutator p b)"
proof -
  have "host_config_admitted x p (container_config_mutator p b)"
    using assms(1) by (simp add: create_admitted_def)
  from allowed_host_config[OF this] obtain hc where
    hc: "hm_get (container_config_mutator p b) ''HostConfig'' = Some (JObject hc)"
      "\<forall>k v. forced_host_config p k = Some v \<longrightarrow> bt_get hc k = Some v"
      "exact_keys (bt_keys hc) HOST_CONFIG_FIELDS" "\<forall>k v. bt_get hc k = Some v \<longrightarrow> value_allowed p k v"
    by blast
  have dec: "decoded hc f = bt_get hc f" if "f \<in> set HOST_CONFIG_FIELDS" for f
    using hc(3) body_wf_mutator_host_config[OF assms(2) hc(1)] that by (rule exact_keys_decoded)
  have "''Privileged'' \<in> set HOST_CONFIG_FIELDS" by (simp add: HOST_CONFIG_FIELDS_def)
  moreover have "bt_get hc ''Privileged'' = Some (JBool False)"
    using hc(2) by (simp add: forced_host_config_def)
  ultimately have "decoded hc ''Privileged'' = Some (JBool False)"
    using dec by simp
  with hc dec assms(1) show ?thesis by (auto simp: create_safe_def host_config_safe_def)
qed

end
