(* ===== verification/Url_Encoding.thy ===== *)
theory Url_Encoding
  imports Rust_Maps
begin

section \<open>Percent encoding, queries and UTF-8 (proxy.rs, handler.rs)\<close>

text \<open>
  \<open>parse_query\<close> and \<open>query_unescape\<close> of \<open>src/rs/src/proxy.rs\<close> and
  \<open>path_escape\<close> of \<open>src/rs/src/handler.rs\<close>, over byte strings. The decoder ends with
  the standard library's \<open>String::from_utf8_lossy\<close>: every maximal piece that is not UTF-8
  becomes U+FFFD. Decoding an escaped string gives it back, and the lossy conversion is the
  identity exactly on UTF-8.
\<close>

subsection \<open>UTF-8\<close>

definition in_range :: "char \<Rightarrow> char \<Rightarrow> char \<Rightarrow> bool" where
  "in_range a b c = (a \<le> c \<and> c \<le> b)"

definition continuation :: "char \<Rightarrow> bool" where
  "continuation c = in_range (CHR 0x80) (CHR 0xBF) c"

text \<open>The length of the sequence a first byte starts, or 0.\<close>

definition utf8_width :: "char \<Rightarrow> nat" where
  "utf8_width b =
     (if b \<le> CHR 0x7F then 1
      else if in_range (CHR 0xC2) (CHR 0xDF) b then 2
      else if in_range (CHR 0xE0) (CHR 0xEF) b then 3
      else if in_range (CHR 0xF0) (CHR 0xF4) b then 4
      else 0)"

text \<open>The second byte of a sequence of three or four bytes: no overlong form, surrogate or value above 10FFFF.\<close>

definition second_ok :: "char \<Rightarrow> char \<Rightarrow> bool" where
  "second_ok b c =
     (if b = CHR 0xE0 then in_range (CHR 0xA0) (CHR 0xBF) c
      else if b = CHR 0xED then in_range (CHR 0x80) (CHR 0x9F) c
      else if b = CHR 0xF0 then in_range (CHR 0x90) (CHR 0xBF) c
      else if b = CHR 0xF4 then in_range (CHR 0x80) (CHR 0x8F) c
      else continuation c)"

text \<open>How many of the bytes after the first belong to the sequence, up to the given number.\<close>

fun good_tail :: "nat \<Rightarrow> string \<Rightarrow> nat" where
  "good_tail 0 s = 0"
| "good_tail (Suc n) [] = 0"
| "good_tail (Suc n) (c # s) = (if continuation c then Suc (good_tail n s) else 0)"

definition good_bytes :: "char \<Rightarrow> string \<Rightarrow> nat" where
  "good_bytes b s =
     (case s of
        [] \<Rightarrow> 0
      | c # s' \<Rightarrow> if utf8_width b > 1 \<and> second_ok b c then Suc (good_tail (utf8_width b - 2) s') else 0)"

definition REPLACEMENT :: string where
  "REPLACEMENT = [CHR 0xEF, CHR 0xBF, CHR 0xBD]"

function from_utf8_lossy :: "string \<Rightarrow> string" where
  "from_utf8_lossy [] = []"
| "from_utf8_lossy (b # s) =
     (if Suc (good_bytes b s) = utf8_width b
      then b # take (good_bytes b s) s @ from_utf8_lossy (drop (good_bytes b s) s)
      else REPLACEMENT @ from_utf8_lossy (drop (good_bytes b s) s))"
  by pat_completeness auto
termination
  by (relation "measure length") auto

function utf8_valid :: "string \<Rightarrow> bool" where
  "utf8_valid [] = True"
| "utf8_valid (b # s) = (Suc (good_bytes b s) = utf8_width b \<and> utf8_valid (drop (good_bytes b s) s))"
  by pat_completeness auto
termination
  by (relation "measure length") auto

subsection \<open>Escapes and queries\<close>

definition hex_value :: "char \<Rightarrow> nat option" where
  "hex_value c =
     (if is_ascii_digit c then Some (of_char c - 48)
      else if in_range (CHR ''a'') (CHR ''f'') c then Some (of_char c - 87)
      else if in_range (CHR ''A'') (CHR ''F'') c then Some (of_char c - 55)
      else None)"

definition hex_pair :: "char \<Rightarrow> char \<Rightarrow> char option" where
  "hex_pair h l =
     (case hex_value h of
        None \<Rightarrow> None
      | Some hi \<Rightarrow> (case hex_value l of None \<Rightarrow> None | Some lo \<Rightarrow> Some (char_of (hi * 16 + lo))))"

fun unescape_bytes :: "string \<Rightarrow> string option" where
  "unescape_bytes [] = Some []"
| "unescape_bytes (b # s) =
     (if b = CHR ''%'' then
        (if length s < 2 then None
         else (case hex_pair (s ! 0) (s ! 1) of
             None \<Rightarrow> None
           | Some c \<Rightarrow> map_option ((#) c) (unescape_bytes (drop 2 s))))
      else if b = CHR ''+'' then map_option ((#) (CHR '' '')) (unescape_bytes s)
      else map_option ((#) b) (unescape_bytes s))"

definition query_unescape :: "string \<Rightarrow> string option" where
  "query_unescape s = map_option from_utf8_lossy (unescape_bytes s)"

definition parse_pair :: "string \<times> string \<Rightarrow> (string \<times> string) option" where
  "parse_pair kv =
     (case query_unescape (fst kv) of
        None \<Rightarrow> None
      | Some k \<Rightarrow> map_option (Pair k) (query_unescape (snd kv)))"

fun parse_parts :: "string list \<Rightarrow> (string \<times> string) list option" where
  "parse_parts [] = Some []"
| "parse_parts (part # rest) =
     (if List.member part (CHR '';'') then None
      else if part = [] then parse_parts rest
      else (case parse_pair (unwrap_or (split_once (CHR ''='') part) (part, [])) of
          None \<Rightarrow> None
        | Some kv \<Rightarrow> map_option ((#) kv) (parse_parts rest)))"

definition parse_query :: "string \<Rightarrow> (string \<times> string) list option" where
  "parse_query raw = parse_parts (split_on (CHR ''&'') raw)"

definition unreserved :: "char \<Rightarrow> bool" where
  "unreserved b = (is_ascii_alphanumeric b \<or> List.member ''-._~'' b)"

definition escape_byte :: "char \<Rightarrow> string" where
  "escape_byte b = (if unreserved b then [b] else CHR ''%'' # hex02_upper b)"

definition path_escape :: "string \<Rightarrow> string" where
  "path_escape s = concat (map escape_byte s)"

subsection \<open>Decoding undoes escaping\<close>

lemma hex_value_upper: "d < 16 \<Longrightarrow> hex_value (hex_digit_upper d) = Some d"
proof -
  assume "d < 16"
  then have "d \<in> set [0..<16]" by simp
  moreover have "list_all (\<lambda>d. hex_value (hex_digit_upper d) = Some d) [0..<16]"
    by code_simp
  ultimately show ?thesis by (simp only: list_all_iff)
qed

lemma hex_digit_upper_unreserved: "d < 16 \<Longrightarrow> unreserved (hex_digit_upper d)"
proof -
  assume "d < 16"
  then have "d \<in> set [0..<16]" by simp
  moreover have "list_all (\<lambda>d. unreserved (hex_digit_upper d)) [0..<16]"
    by code_simp
  ultimately show ?thesis by (simp only: list_all_iff)
qed

lemma of_char_nibbles: "(of_char (c :: char) :: nat) div 16 < 16" "(of_char (c :: char) :: nat) mod 16 < 16"
  using nat_of_char_less_256[of c] by (simp_all add: less_mult_imp_div_less)

lemma hex_pair_hex02: "hex_pair (hex02_upper c ! 0) (hex02_upper c ! 1) = Some c"
proof -
  note d = of_char_nibbles[of c]
  have "hex02_upper c ! 0 = hex_digit_upper (of_char c div 16)" "hex02_upper c ! 1 = hex_digit_upper (of_char c mod 16)"
    by (simp_all add: hex02_upper_def)
  then show ?thesis
    unfolding hex_pair_def using hex_value_upper[OF d(1)] hex_value_upper[OF d(2)]
    by (simp add: div_mult_mod_eq)
qed

lemma unescape_escape_append: "unescape_bytes (path_escape s @ t) = map_option ((@) s) (unescape_bytes t)"
proof (induction s)
  case Nil
  then show ?case by (simp add: path_escape_def option.map_ident)
next
  case (Cons c s)
  have cat: "path_escape (c # s) @ t = escape_byte c @ path_escape s @ t" by (simp add: path_escape_def)
  show ?case
  proof (cases "unreserved c")
    case True
    then have "c \<noteq> CHR ''%''" "c \<noteq> CHR ''+''"
      by (auto simp: unreserved_def ascii_class_defs less_eq_char_def)
    with True Cons show ?thesis
      unfolding cat by (simp add: escape_byte_def option.map_comp comp_def)
  next
    case False
    have "hex02_upper c = [hex02_upper c ! 0, hex02_upper c ! 1]" by (simp add: hex02_upper_def)
    with False have "escape_byte c = CHR ''%'' # hex02_upper c ! 0 # hex02_upper c ! 1 # []"
      by (simp add: escape_byte_def)
    with Cons show ?thesis
      unfolding cat by (simp add: hex_pair_hex02 [simplified] option.map_comp comp_def eval_nat_numeral)
  qed
qed

lemma unescape_escape: "unescape_bytes (path_escape s) = Some s"
  using unescape_escape_append[of s "[]"] by simp

lemma path_escape_chars: "c \<in> set (path_escape s) \<Longrightarrow> unreserved c \<or> c = CHR ''%''"
proof -
  have h: "unreserved (hex_digit_upper (of_char b div 16))" "unreserved (hex_digit_upper (of_char b mod 16))" for b
    using of_char_nibbles[of b] by (auto intro!: hex_digit_upper_unreserved)
  assume "c \<in> set (path_escape s)"
  then obtain b where "c \<in> set (escape_byte b)" by (auto simp: path_escape_def)
  then show ?thesis
    using h[of b] by (auto simp: escape_byte_def hex02_upper_def split: if_splits)
qed

subsection \<open>The lossy conversion\<close>

lemma lossy_valid: "utf8_valid s \<Longrightarrow> from_utf8_lossy s = s"
  by (induction s rule: from_utf8_lossy.induct) auto

lemma utf8_width_ascii: "c \<le> CHR 0x7F \<Longrightarrow> utf8_width c = 1"
  by (simp add: utf8_width_def)

lemma good_bytes_ascii: "c \<le> CHR 0x7F \<Longrightarrow> good_bytes c s = 0"
  by (cases s) (simp_all add: good_bytes_def utf8_width_ascii)

lemma utf8_valid_ascii: "\<forall>c\<in>set s. c \<le> CHR 0x7F \<Longrightarrow> utf8_valid s"
  by (induction s) (auto simp: utf8_width_ascii good_bytes_ascii)

lemma good_tail_le: "good_tail n s \<le> n" "good_tail n s \<le> length s"
  by (induction n s rule: good_tail.induct) auto

lemma good_tail_take: "good_tail n s = n \<Longrightarrow> good_tail n (take n s @ t) = n"
  by (induction n s rule: good_tail.induct) (auto split: if_splits)

lemma good_bytes_take:
  assumes "Suc (good_bytes b s) = utf8_width b"
  shows "good_bytes b (take (good_bytes b s) s @ t) = good_bytes b s \<and> good_bytes b s \<le> length s"
proof (cases s)
  case Nil
  with assms have "utf8_width b = 1" by (simp add: good_bytes_def)
  with Nil show ?thesis by (cases t) (simp_all add: good_bytes_def)
next
  case (Cons c s')
  show ?thesis
  proof (cases "utf8_width b > 1 \<and> second_ok b c")
    case True
    with Cons assms have "good_tail (utf8_width b - 2) s' = utf8_width b - 2"
      by (simp add: good_bytes_def)
    with Cons True show ?thesis
      using good_tail_take[of "utf8_width b - 2" s' t] good_tail_le(2)[of "utf8_width b - 2" s']
      by (simp add: good_bytes_def)
  next
    case False
    with Cons assms have "utf8_width b = 1" by (auto simp: good_bytes_def)
    with Cons show ?thesis by (cases t) (simp_all add: good_bytes_def)
  qed
qed

lemma utf8_valid_replacement: "utf8_valid (REPLACEMENT @ s) = utf8_valid s"
proof -
  have g: "good_bytes (CHR 0xEF) (CHR 0xBF # CHR 0xBD # s) = 2" and w: "utf8_width (CHR 0xEF) = 3"
    by (simp_all add: good_bytes_def utf8_width_def second_ok_def continuation_def in_range_def numeral_eq_Suc
        less_eq_char_def)
  show ?thesis by (simp add: REPLACEMENT_def g w)
qed

lemma utf8_valid_lossy: "utf8_valid (from_utf8_lossy s)"
proof (induction s rule: from_utf8_lossy.induct)
  case 1
  then show ?case by simp
next
  case (2 b s)
  show ?case
  proof (cases "Suc (good_bytes b s) = utf8_width b")
    case True
    define t where "t = from_utf8_lossy (drop (good_bytes b s) s)"
    have "utf8_valid t" using 2(1)[OF True] by (simp add: t_def)
    with True good_bytes_take[OF True, of t] show ?thesis
      by (simp add: t_def [symmetric])
  next
    case False
    with 2(2)[OF False] show ?thesis by (simp add: utf8_valid_replacement)
  qed
qed

end
