(* ===== verification/Router.thy ===== *)
theory Router
  imports Policy Url_Encoding
begin

section \<open>The router (proxy.rs)\<close>

text \<open>
  \<open>src/rs/src/proxy.rs\<close>: the decision for one request. A router is its manager and the
  read-only switch; a route result is the record of the source with the prefix \<open>rr_\<close>. The
  checks on the path come first and in the order of the code, then the endpoints.
\<close>

subsection \<open>Data\<close>

datatype action = Deny | Allow | CreateContainer | ResolveContainer

record route_result =
  rr_action :: action
  rr_service :: "string option"
  rr_policy :: "policy option"
  rr_body :: "json_body option"
  rr_container :: "string option"
  rr_resolved_name :: "string option"
  rr_image :: "string option"
  rr_deny_msg :: "string option"

record router =
  router_manager :: manager
  router_readonly :: bool

definition new_router :: "manager \<Rightarrow> router" where
  "new_router m = \<lparr>router_manager = m, router_readonly = False\<rparr>"

definition with_readonly :: "router \<Rightarrow> bool \<Rightarrow> router" where
  "with_readonly r ro = r\<lparr>router_readonly := ro\<rparr>"

definition allow :: route_result where
  "allow = \<lparr>rr_action = Allow, rr_service = None, rr_policy = None, rr_body = None, rr_container = None,
     rr_resolved_name = None, rr_image = None, rr_deny_msg = None\<rparr>"

definition deny :: "string \<Rightarrow> route_result" where
  "deny msg = \<lparr>rr_action = Deny, rr_service = None, rr_policy = None, rr_body = None, rr_container = None,
     rr_resolved_name = None, rr_image = None, rr_deny_msg = Some msg\<rparr>"

subsection \<open>Paths\<close>

definition has_dot_segment :: "string \<Rightarrow> bool" where
  "has_dot_segment path = list_ex (\<lambda>s. s = ''.'' \<or> s = ''..'') (split_on (CHR ''/'') path)"

definition digits :: "string \<Rightarrow> nat \<Rightarrow> nat" where
  "digits bytes from = length (takeWhile is_ascii_digit (drop from bytes))"

definition version_end :: "string \<Rightarrow> nat option" where
  "version_end rest =
     (if digits rest 0 = 0 then None
      else if byte_at rest (digits rest 0) = Some (CHR ''.'') then
        (if digits rest (digits rest 0 + 1) = 0 then None
         else Some (digits rest 0 + 1 + digits rest (digits rest 0 + 1)))
      else Some (digits rest 0))"

definition strip_version_of :: "string \<Rightarrow> string \<Rightarrow> string" where
  "strip_version_of path rest =
     (case version_end rest of
        None \<Rightarrow> path
      | Some i \<Rightarrow> if byte_at rest i = Some (CHR ''/'') then drop i rest else path)"

definition strip_api_version :: "string \<Rightarrow> string" where
  "strip_api_version path =
     (case strip_prefix ''/v'' path of None \<Rightarrow> path | Some rest \<Rightarrow> strip_version_of path rest)"

text \<open>The segments of a path, without the empty one before a leading slash.\<close>

definition path_segs :: "string \<Rightarrow> string list" where
  "path_segs path = split_on (CHR ''/'') (unwrap_or (strip_prefix ''/'' path) path)"

definition is_exec_path :: "string \<Rightarrow> bool" where
  "is_exec_path path =
     (if hd (path_segs path) = ''exec'' then True
      else if hd (path_segs path) = ''containers'' then List.member (tl (path_segs path)) ''exec''
      else False)"

definition is_attach_path :: "string \<Rightarrow> bool" where
  "is_attach_path path = (hd (path_segs path) = ''containers'' \<and> List.member (tl (path_segs path)) ''attach'')"

definition container_seg :: "string list \<Rightarrow> string option" where
  "container_seg parts =
     (if length parts \<ge> 2 \<and> parts ! 0 = ''containers'' \<and> parts ! 1 \<noteq> [] \<and> parts ! 1 \<noteq> ''create'' \<and>
         parts ! 1 \<noteq> ''json'' \<and> parts ! 1 \<noteq> ''exec''
      then Some (parts ! 1) else None)"

definition extract_container_name :: "string \<Rightarrow> string option" where
  "extract_container_name path = container_seg (path_segs path)"

definition could_be_id :: "string \<Rightarrow> bool" where
  "could_be_id name =
     (name \<noteq> [] \<and> list_all (\<lambda>b. is_ascii_digit b \<or> (CHR ''a'' \<le> b \<and> b \<le> CHR ''f'')) name)"

subsection \<open>Query parameters\<close>

definition count_key :: "string \<Rightarrow> (string \<times> string) list \<Rightarrow> nat" where
  "count_key key params = length (filter (\<lambda>kv. fst kv = key) params)"

definition get_param :: "string \<Rightarrow> (string \<times> string) list \<Rightarrow> string option" where
  "get_param key params = map_option snd (List.find (\<lambda>kv. fst kv = key) params)"

definition name_without_slash :: "string \<Rightarrow> string" where
  "name_without_slash name = unwrap_or (strip_prefix ''/'' name) name"

definition checked_name :: "string \<Rightarrow> string res" where
  "checked_name name =
     (if name \<noteq> [] \<and> \<not> valid_container_name name then Inl ''invalid container name'' else Inr name)"

definition create_name :: "string \<Rightarrow> string res" where
  "create_name query =
     res_bind (ok_or (parse_query query) ''invalid query string'') (\<lambda>params.
       if count_key ''name'' params > 1 then Inl ''duplicate name query parameter''
       else checked_name (name_without_slash (unwrap_or (get_param ''name'' params) [])))"

subsection \<open>Endpoints\<close>

definition create_result :: "json_body \<Rightarrow> string \<Rightarrow> string \<Rightarrow> policy \<Rightarrow> route_result" where
  "create_result body img name p =
     \<lparr>rr_action = CreateContainer, rr_service = Some (service_name p), rr_policy = Some p, rr_body = Some body,
      rr_container = (if name = [] then None else Some name), rr_resolved_name = None, rr_image = Some img,
      rr_deny_msg = None\<rparr>"

definition result_or_deny :: "route_result res \<Rightarrow> route_result" where
  "result_or_deny r = (case r of Inl msg \<Rightarrow> deny msg | Inr res \<Rightarrow> res)"

definition route_create_image :: "manager \<Rightarrow> json_body \<Rightarrow> string \<Rightarrow> string \<Rightarrow> route_result res" where
  "route_create_image m body query img =
     (if img = [] then Inl ''image field is required''
      else res_bind (parse_image_ref img) (\<lambda>_.
           res_bind (create_name query) (\<lambda>name.
           res_bind (select_for_create m img name) (\<lambda>p.
             Inr (create_result body img name p)))))"

definition route_create :: "router \<Rightarrow> json_body option \<Rightarrow> string \<Rightarrow> route_result" where
  "route_create r body query =
     (case body of
        None \<Rightarrow> deny ''empty request body''
      | Some b \<Rightarrow>
          if b = [] then deny ''empty request body''
          else result_or_deny (route_create_image (router_manager r) b query
                 (unwrap_or (Option.bind (hm_get b ''Image'') as_str) [])))"

definition allow_container :: "policy \<Rightarrow> string \<Rightarrow> route_result" where
  "allow_container p name =
     \<lparr>rr_action = Allow, rr_service = Some (service_name p), rr_policy = Some p, rr_body = None,
      rr_container = Some name, rr_resolved_name = None, rr_image = None, rr_deny_msg = None\<rparr>"

definition resolve_result :: "string \<Rightarrow> route_result" where
  "resolve_result name =
     \<lparr>rr_action = ResolveContainer, rr_service = None, rr_policy = None, rr_body = None,
      rr_container = Some name, rr_resolved_name = None, rr_image = None, rr_deny_msg = None\<rparr>"

definition by_name_among :: "string \<Rightarrow> policy list \<Rightarrow> route_result" where
  "by_name_among name cov =
     (if length cov = 1 \<and> \<not> could_be_id name then allow_container (hd cov) name else resolve_result name)"

definition route_by_name :: "router \<Rightarrow> string \<Rightarrow> route_result" where
  "route_by_name r name = by_name_among name (covering (router_manager r) name)"

definition LIFECYCLE :: "string list" where
  "LIFECYCLE = [''/start'', ''/stop'', ''/restart'', ''/kill'', ''/wait'', ''/pause'', ''/unpause'']"

definition not_allowed :: "string \<Rightarrow> string \<Rightarrow> route_result" where
  "not_allowed mth path = deny (fmt [''endpoint '', mth, '' '', path, '' is not allowed''])"

definition route_container :: "router \<Rightarrow> string \<Rightarrow> string \<Rightarrow> string \<Rightarrow> route_result" where
  "route_container r mth path name =
     (if list_ex (ends_with path) LIFECYCLE \<and> mth = ''POST'' then route_by_name r name
      else if ends_with path ''/rename'' \<and> mth = ''POST'' then deny ''rename is not allowed''
      else if ends_with path ''/update'' \<and> mth = ''POST'' then deny ''update is not allowed''
      else if mth = ''DELETE'' then route_by_name r name
      else if mth = ''GET'' \<or> mth = ''HEAD'' then allow
      else not_allowed mth path)"

subsection \<open>Image pull\<close>

definition pull_allowed :: "policy \<Rightarrow> string \<Rightarrow> route_result" where
  "pull_allowed p from_image =
     \<lparr>rr_action = Allow, rr_service = Some (service_name p), rr_policy = None, rr_body = None,
      rr_container = None, rr_resolved_name = None, rr_image = Some from_image, rr_deny_msg = None\<rparr>"

primrec first_accepting :: "externs \<Rightarrow> image_ref \<Rightarrow> string option \<Rightarrow> policy list \<Rightarrow> policy res" where
  "first_accepting x r first_err [] = Inl (unwrap_or first_err [])"
| "first_accepting x r first_err (p # ps) =
     (case check_image_tag x p r of
        Inr _ \<Rightarrow> Inr p
      | Inl msg \<Rightarrow> first_accepting x r (Some (unwrap_or first_err msg)) ps)"

definition pull_tag_sep :: "string \<Rightarrow> char" where
  "pull_tag_sep tag = (if List.member tag (CHR '':'') then CHR ''@'' else CHR '':'')"

definition pull_ref :: "string \<Rightarrow> string \<Rightarrow> image_ref \<Rightarrow> image_ref res" where
  "pull_ref from_image tag r =
     (if tag = [] then Inr r
      else if ir_tag r \<noteq> [] \<or> ir_digest r \<noteq> [] then
        Inl (fmt [''fromImage '', from_image,
          '' already has a tag or digest; the tag query parameter is ambiguous''])
      else parse_image_ref (from_image @ pull_tag_sep tag # tag))"

definition pull_select :: "externs \<Rightarrow> manager \<Rightarrow> string \<Rightarrow> image_ref \<Rightarrow> route_result res" where
  "pull_select x m from_image r =
     (if ir_tag r = [] \<and> ir_digest r = []
      then Inl ''image pull without a tag or digest pulls every tag and is not allowed''
      else if matching_image m (ir_name r) = []
      then Inl (fmt [''image '', from_image, '' not allowed by any policy''])
      else res_bind (first_accepting x r None (matching_image m (ir_name r)))
             (\<lambda>p. Inr (pull_allowed p from_image)))"

definition pull_image :: "externs \<Rightarrow> manager \<Rightarrow> string \<Rightarrow> string \<Rightarrow> route_result res" where
  "pull_image x m from_image tag =
     (if from_image = [] then Inl ''fromImage query parameter is required for image pull''
      else res_bind (parse_image_ref from_image) (\<lambda>r0.
           res_bind (pull_ref from_image tag r0) (pull_select x m from_image)))"

definition pull_params :: "externs \<Rightarrow> manager \<Rightarrow> (string \<times> string) list \<Rightarrow> route_result res" where
  "pull_params x m params =
     res_bind (for_each (\<lambda>key. guard_res (count_key key params \<le> 1)
         (fmt [''duplicate '', key, '' query parameter''])) [''fromImage'', ''tag'', ''fromSrc'']) (\<lambda>_.
       if get_param ''fromSrc'' params \<noteq> None then Inl ''image import (fromSrc) is not allowed''
       else pull_image x m (unwrap_or (get_param ''fromImage'' params) [])
              (unwrap_or (get_param ''tag'' params) []))"

definition route_image_pull :: "externs \<Rightarrow> router \<Rightarrow> string \<Rightarrow> bool \<Rightarrow> route_result" where
  "route_image_pull x r raw_query has_body =
     (if has_body then deny ''image pull must not have a request body''
      else result_or_deny (res_bind (ok_or (parse_query raw_query) ''invalid query string'')
             (pull_params x (router_manager r))))"

subsection \<open>The decision\<close>

definition path_check :: "string \<Rightarrow> check" where
  "path_check path =
     (if List.member path (CHR ''%'') then Inl ''percent-encoded path not allowed''
      else if str_contains ''//'' path then Inl ''empty path segment not allowed''
      else if has_dot_segment path then Inl ''dot path segment not allowed''
      else Inr ())"

definition denied_endpoint :: "string \<Rightarrow> check" where
  "denied_endpoint path =
     (if starts_with path ''/auth'' then Inl ''auth endpoint is not allowed''
      else if is_exec_path path then Inl ''exec is not allowed''
      else if is_attach_path path then Inl ''attach is not allowed''
      else if starts_with path ''/build'' then Inl ''build is not allowed''
      else if starts_with path ''/commit'' then Inl ''commit is not allowed''
      else Inr ())"

definition route_endpoint ::
  "externs \<Rightarrow> router \<Rightarrow> string \<Rightarrow> string \<Rightarrow> string \<Rightarrow> bool \<Rightarrow> json_body option \<Rightarrow> route_result" where
  "route_endpoint x r mth path query has_body body =
     (if mth = ''POST'' \<and> path = ''/containers/create'' then route_create r body query
      else (case extract_container_name path of
          Some name \<Rightarrow> route_container r mth path name
        | None \<Rightarrow>
            if mth = ''POST'' \<and> path = ''/images/create'' then route_image_pull x r query has_body
            else if mth = ''GET'' \<or> mth = ''HEAD'' then allow
            else not_allowed mth path))"

definition route_path ::
  "externs \<Rightarrow> router \<Rightarrow> string \<Rightarrow> string \<Rightarrow> string \<Rightarrow> bool \<Rightarrow> json_body option \<Rightarrow> route_result" where
  "route_path x r mth path query has_body body =
     result_or_deny (res_bind (path_check path) (\<lambda>_.
       res_bind (denied_endpoint (strip_api_version path)) (\<lambda>_.
         Inr (route_endpoint x r mth (strip_api_version path) query has_body body))))"

definition split_target :: "string \<Rightarrow> string \<times> string" where
  "split_target target = unwrap_or (split_once (CHR ''?'') target) (target, [])"

definition route_request ::
  "externs \<Rightarrow> router \<Rightarrow> string \<Rightarrow> string \<Rightarrow> bool \<Rightarrow> json_body option \<Rightarrow> route_result" where
  "route_request x r mth target has_body body =
     (if router_readonly r \<and> mth \<noteq> ''GET'' \<and> mth \<noteq> ''HEAD''
      then deny (fmt [''read-only mode: '', mth, '' requests are not allowed''])
      else route_path x r mth (fst (split_target target)) (snd (split_target target)) has_body body)"

definition route :: "externs \<Rightarrow> router \<Rightarrow> string \<Rightarrow> string \<Rightarrow> json_body option \<Rightarrow> route_result" where
  "route x r mth target body = route_request x r mth target (body \<noteq> None) body"

subsection \<open>What the router lets through\<close>

definition target_path :: "string \<Rightarrow> string" where
  "target_path target = fst (split_target target)"

definition target_query :: "string \<Rightarrow> string" where
  "target_query target = snd (split_target target)"

definition api_path :: "string \<Rightarrow> string" where
  "api_path target = strip_api_version (target_path target)"

text \<open>A path the daemon reads as it is written: no escape, no empty inner segment, no dot segment.\<close>

definition plain_path :: "string \<Rightarrow> bool" where
  "plain_path path \<longleftrightarrow> CHR ''%'' \<notin> set path \<and> \<not> str_contains ''//'' path \<and>
     {''.'', ''..''} \<inter> set (split_on (CHR ''/'') path) = {}"

definition denied_path :: "string \<Rightarrow> bool" where
  "denied_path path \<longleftrightarrow>
     starts_with path ''/auth'' \<or> starts_with path ''/build'' \<or> starts_with path ''/commit'' \<or>
     hd (path_segs path) = ''exec'' \<or>
     (hd (path_segs path) = ''containers'' \<and> {''exec'', ''attach''} \<inter> set (tl (path_segs path)) \<noteq> {})"

definition container_write :: "string \<Rightarrow> string \<Rightarrow> bool" where
  "container_write mth path \<longleftrightarrow> mth = ''DELETE'' \<or> (mth = ''POST'' \<and> (\<exists>s\<in>set LIFECYCLE. ends_with path s))"

text \<open>The query of a pull that a policy accepts: the reference, complete with tag or digest, and the policy.\<close>

definition pull_accepted :: "externs \<Rightarrow> manager \<Rightarrow> string \<Rightarrow> string \<Rightarrow> policy \<Rightarrow> bool" where
  "pull_accepted x m query from_image p \<longleftrightarrow>
     (\<exists>params tag r r0. parse_query query = Some params \<and>
        count_key ''fromImage'' params \<le> 1 \<and> count_key ''tag'' params \<le> 1 \<and>
        get_param ''fromSrc'' params = None \<and> get_param ''fromImage'' params = Some from_image \<and>
        tag = unwrap_or (get_param ''tag'' params) [] \<and>
        parse_image_ref from_image = Inr r0 \<and>
        (if tag = [] then r = r0
         else ir_tag r0 = [] \<and> ir_digest r0 = [] \<and> parse_image_ref (from_image @ pull_tag_sep tag # tag) = Inr r) \<and>
        (ir_tag r \<noteq> [] \<or> ir_digest r \<noteq> []) \<and>
        p \<in> set (policies m) \<and> matches_image_prefix (ir_name r) (allowed_image_prefixes p) \<and>
        check_image_tag x p r = Inr ())"

lemma result_simps [simp, route_simps]:
  "rr_action (deny msg) = Deny" "rr_action allow = Allow" "rr_action (not_allowed mth path) = Deny"
  "rr_action (create_result b img name p) = CreateContainer" "rr_action (allow_container p name) = Allow"
  "rr_action (resolve_result name) = ResolveContainer" "rr_action (pull_allowed p img) = Allow"
  by (simp_all add: deny_def allow_def not_allowed_def create_result_def allow_container_def resolve_result_def
      pull_allowed_def)

lemma result_or_deny_not_Deny:
  "rr_action (result_or_deny r) \<noteq> Deny \<longleftrightarrow> (\<exists>res. r = Inr res \<and> rr_action res \<noteq> Deny)"
  by (auto simp: result_or_deny_def split: sum.splits)

lemma path_check_ok: "path_check path = Inr u \<longleftrightarrow> plain_path path"
  by (auto simp: path_check_def plain_path_def has_dot_segment_def list_ex_iff List.member_iff)

lemma denied_endpoint_ok: "denied_endpoint path = Inr u \<longleftrightarrow> \<not> denied_path path"
  by (auto simp: denied_endpoint_def denied_path_def is_exec_path_def is_attach_path_def List.member_iff)

lemma route_passes:
  assumes "rr_action (route_request x r mth target hb body) \<noteq> Deny"
  shows "(router_readonly r \<longrightarrow> mth \<in> {''GET'', ''HEAD''}) \<and> plain_path (target_path target) \<and>
    \<not> denied_path (api_path target) \<and>
    route_request x r mth target hb body =
      route_endpoint x r mth (api_path target) (target_query target) hb body"
proof -
  have ro: "router_readonly r \<longrightarrow> mth \<in> {''GET'', ''HEAD''}"
    using assms by (auto simp: route_request_def split: if_splits)
  then have rp: "route_request x r mth target hb body =
      route_path x r mth (target_path target) (target_query target) hb body"
    by (auto simp: route_request_def target_path_def target_query_def)
  from assms [unfolded rp route_path_def result_or_deny_not_Deny]
  have "plain_path (target_path target) \<and> \<not> denied_path (api_path target)"
    by (simp add: path_check_ok denied_endpoint_ok api_path_def)
  with ro rp show ?thesis
    by (simp add: route_path_def result_or_deny_def path_check_ok [symmetric, where u = "()"]
        denied_endpoint_ok [symmetric, where u = "()"] api_path_def)
qed

lemma route_by_name_cases:
  "(length (covering (router_manager r) name) \<noteq> 1 \<or> could_be_id name) \<and> route_by_name r name = resolve_result name \<or>
   (\<exists>p. covering (router_manager r) name = [p] \<and> \<not> could_be_id name \<and> route_by_name r name = allow_container p name)"
  by (auto simp: route_by_name_def by_name_among_def length_Suc_conv)

lemma covering_single:
  "covering m name = [p] \<Longrightarrow> p \<in> set (policies m) \<and> name \<in> set (covered_names p)"
proof -
  assume "covering m name = [p]"
  then have "p \<in> set (covering m name)" by simp
  then show ?thesis by (auto simp: covering_def List.member_iff)
qed

lemma first_accepting_Inr:
  "first_accepting x r e ps = Inr p \<Longrightarrow> p \<in> set ps \<and> check_image_tag x p r = Inr ()"
  by (induction ps arbitrary: e) (auto split: sum.splits)

text \<open>A pull is denied for its tag only when no matching policy accepts it.\<close>

lemma first_accepting_Inl:
  "first_accepting x r e ps = Inl msg \<Longrightarrow> p \<in> set ps \<Longrightarrow> check_image_tag x p r \<noteq> Inr ()"
  by (induction ps arbitrary: e) (auto split: sum.splits)

lemma pull_ref_Inr:
  "pull_ref from_image tag r0 = Inr r \<longleftrightarrow>
     (if tag = [] then r = r0
      else ir_tag r0 = [] \<and> ir_digest r0 = [] \<and> parse_image_ref (from_image @ pull_tag_sep tag # tag) = Inr r)"
  by (auto simp: pull_ref_def)

lemma pull_select_Inr:
  "pull_select x m from_image r = Inr res \<Longrightarrow>
     (ir_tag r \<noteq> [] \<or> ir_digest r \<noteq> []) \<and> (\<exists>p. res = pull_allowed p from_image \<and>
       p \<in> set (policies m) \<and> matches_image_prefix (ir_name r) (allowed_image_prefixes p) \<and>
       check_image_tag x p r = Inr ())"
  by (auto simp: pull_select_def matching_image_def dest!: first_accepting_Inr split: if_splits)

lemma pull_image_Inr:
  assumes "pull_image x m from_image tag = Inr res"
  shows "from_image \<noteq> [] \<and> (\<exists>r r0 p. res = pull_allowed p from_image \<and> parse_image_ref from_image = Inr r0 \<and>
        (if tag = [] then r = r0
         else ir_tag r0 = [] \<and> ir_digest r0 = [] \<and> parse_image_ref (from_image @ pull_tag_sep tag # tag) = Inr r) \<and>
        (ir_tag r \<noteq> [] \<or> ir_digest r \<noteq> []) \<and>
        p \<in> set (policies m) \<and> matches_image_prefix (ir_name r) (allowed_image_prefixes p) \<and>
        check_image_tag x p r = Inr ())"
proof -
  from assms obtain r0 r where "from_image \<noteq> []" "parse_image_ref from_image = Inr r0"
    "pull_ref from_image tag r0 = Inr r" "pull_select x m from_image r = Inr res"
    by (auto simp: pull_image_def split: if_splits)
  then show ?thesis
    using pull_select_Inr[of x m from_image r res] unfolding pull_ref_Inr by blast
qed

lemma unwrap_or_nonempty: "unwrap_or v [] \<noteq> [] \<Longrightarrow> v = Some (unwrap_or v [])"
  by (cases v) auto

lemma route_image_pull_Allow:
  assumes "rr_action (route_image_pull x r query hb) \<noteq> Deny"
  shows "\<not> hb \<and> (\<exists>p img. route_image_pull x r query hb = pull_allowed p img \<and>
     pull_accepted x (router_manager r) query img p)"
proof -
  from assms have hb: "\<not> hb" by (auto simp: route_image_pull_def)
  with assms obtain params res where q: "parse_query query = Some params"
    "pull_params x (router_manager r) params = Inr res" "route_image_pull x r query hb = res"
    by (auto simp: route_image_pull_def result_or_deny_def split: sum.splits)
  define img where "img = unwrap_or (get_param ''fromImage'' params) []"
  have c: "count_key ''fromImage'' params \<le> 1" "count_key ''tag'' params \<le> 1" "get_param ''fromSrc'' params = None"
    "pull_image x (router_manager r) img (unwrap_or (get_param ''tag'' params) []) = Inr res"
    using q(2) by (auto simp: pull_params_def img_def split: if_splits)
  note i = pull_image_Inr[OF c(4)]
  then have "get_param ''fromImage'' params = Some img"
    unfolding img_def by (intro unwrap_or_nonempty) simp
  with c i q hb show ?thesis unfolding pull_accepted_def by blast
qed

lemma route_create_Create:
  assumes "rr_action (route_create r body query) \<noteq> Deny"
  shows "\<exists>b img name p. body = Some b \<and> hm_get b ''Image'' = Some (JString img) \<and> create_name query = Inr name \<and>
    select_for_create (router_manager r) img name = Inr p \<and> route_create r body query = create_result b img name p"
proof (cases body)
  case None
  with assms show ?thesis by (simp add: route_create_def)
next
  case (Some b)
  define img where "img = unwrap_or (Option.bind (hm_get b ''Image'') as_str) []"
  have "b \<noteq> []" using assms Some by (auto simp: route_create_def)
  with assms Some obtain res where res: "route_create_image (router_manager r) b query img = Inr res"
    "route_create r body query = res"
    by (auto simp: route_create_def result_or_deny_def img_def split: sum.splits)
  then have "img \<noteq> []" by (auto simp: route_create_image_def)
  then have "hm_get b ''Image'' = Some (JString img)"
    by (cases "hm_get b ''Image''") (auto simp: img_def unwrap_or_def split: option.splits)
  with res Some show ?thesis by (auto simp: route_create_image_def split: if_splits)
qed

text \<open>The complete case analysis of a request that is not denied.\<close>

lemma route_endpoint_cases:
  assumes "rr_action (route_endpoint x r mth path query hb body) \<noteq> Deny"
  obtains
    (get) "mth \<in> {''GET'', ''HEAD''}" "route_endpoint x r mth path query hb body = allow"
  | (create) b img name p where "mth = ''POST''" "path = ''/containers/create''" "body = Some b"
      "hm_get b ''Image'' = Some (JString img)" "create_name query = Inr name"
      "select_for_create (router_manager r) img name = Inr p"
      "route_endpoint x r mth path query hb body = create_result b img name p"
  | (covered) name p where "extract_container_name path = Some name" "container_write mth path"
      "covering (router_manager r) name = [p]" "\<not> could_be_id name"
      "route_endpoint x r mth path query hb body = allow_container p name"
  | (resolve) name where "extract_container_name path = Some name" "container_write mth path"
      "route_endpoint x r mth path query hb body = resolve_result name"
      "length (covering (router_manager r) name) \<noteq> 1 \<or> could_be_id name"
  | (pull) img p where "mth = ''POST''" "path = ''/images/create''" "\<not> hb"
      "pull_accepted x (router_manager r) query img p"
      "route_endpoint x r mth path query hb body = pull_allowed p img"
proof (cases "mth = ''POST'' \<and> path = ''/containers/create''")
  case True
  then have e: "route_endpoint x r mth path query hb body = route_create r body query"
    by (simp add: route_endpoint_def)
  with route_create_Create[of r body query] assms True create show ?thesis by metis
next
  case F: False
  show ?thesis
  proof (cases "extract_container_name path")
    case (Some name)
    with F have e: "route_endpoint x r mth path query hb body = route_container r mth path name"
      by (auto simp: route_endpoint_def)
    show ?thesis
    proof (cases "container_write mth path \<and> route_container r mth path name = route_by_name r name")
      case True
      with e Some route_by_name_cases[of r name] covered resolve show ?thesis by metis
    next
      case False
      then have "mth \<in> {''GET'', ''HEAD''} \<and> route_container r mth path name = allow"
        using assms by (auto simp: e route_container_def container_write_def list_ex_iff split: if_splits)
      with e get show ?thesis by simp
    qed
  next
    case None
    show ?thesis
    proof (cases "mth = ''POST'' \<and> path = ''/images/create''")
      case True
      with F None have "route_endpoint x r mth path query hb body = route_image_pull x r query hb"
        by (auto simp: route_endpoint_def)
      with route_image_pull_Allow[of x r query hb] assms True pull show ?thesis by metis
    next
      case False
      with F None assms have "mth \<in> {''GET'', ''HEAD''} \<and> route_endpoint x r mth path query hb body = allow"
        by (auto simp: route_endpoint_def split: if_splits)
      with get show ?thesis by simp
    qed
  qed
qed

end
