(* ===== verification/Audit_Log.thy ===== *)
theory Audit_Log
  imports Json
begin

section \<open>The audit log (audit.rs)\<close>

text \<open>
  \<open>AuditLogger\<close> of \<open>src/rs/src/audit.rs\<close>. The state is the sequence of entries logged and
  the text of the open file, which is the log or, where that cannot be opened, what was given to
  \<open>/dev/null\<close>. The clock, the random generator and the outcome of each write are
  parameters (\<open>audit_env\<close>), indexed by the number of entries logged before. A write may fail after
  some bytes of its line (\<open>av_write_error\<close>); the error is ignored, as in the code. The mutex is taken for one write, so the entries of concurrent requests
  appear one after the other, which the sequence expresses.
\<close>

record audit_entry =
  ae_timestamp :: string
  ae_request_id :: string
  ae_decision :: string
  ae_method :: string
  ae_uri :: string
  ae_reason :: string

record audit_log =
  al_entries :: "audit_entry list"
  al_file :: string

record audit_env =
  av_open :: "string \<Rightarrow> string res"
  av_now :: "nat \<Rightarrow> string"
  av_random :: "nat \<Rightarrow> bytes"
  av_write_error :: "nat \<Rightarrow> nat option"

definition audit_open :: "audit_env \<Rightarrow> string \<Rightarrow> audit_log res" where
  "audit_open v path = res_bind (av_open v path) (\<lambda>text. Inr \<lparr>al_entries = [], al_file = text\<rparr>)"

text \<open>The logger on \<open>/dev/null\<close>; \<open>None\<close> is the panic of \<open>expect\<close>.\<close>

definition audit_nop :: "audit_env \<Rightarrow> audit_log option" where
  "audit_nop v = (case audit_open v ''/dev/null'' of Inl _ \<Rightarrow> None | Inr l \<Rightarrow> Some l)"

definition request_id :: "bytes \<Rightarrow> string" where
  "request_id bytes = concat (map hex02 bytes)"

definition entry_json :: "audit_entry \<Rightarrow> json" where
  "entry_json a = JObject (bt_collect
     [(''timestamp'', JString (ae_timestamp a)), (''request_id'', JString (ae_request_id a)),
      (''decision'', JString (ae_decision a)), (''method'', JString (ae_method a)),
      (''uri'', JString (ae_uri a)), (''reason'', JString (ae_reason a))])"

definition append_entry :: "externs \<Rightarrow> audit_env \<Rightarrow> audit_log \<Rightarrow> audit_entry \<Rightarrow> audit_log" where
  "append_entry x v l a =
     \<lparr>al_entries = al_entries l @ [a],
      al_file = al_file l @ (case av_write_error v (length (al_entries l)) of
          None \<Rightarrow> json_display x (entry_json a) @ [CHR 0x0A]
        | Some k \<Rightarrow> take k (json_display x (entry_json a) @ [CHR 0x0A]))\<rparr>"

definition audit_write ::
  "externs \<Rightarrow> audit_env \<Rightarrow> audit_log \<Rightarrow> string \<Rightarrow> string \<Rightarrow> string \<Rightarrow> string \<Rightarrow> audit_log" where
  "audit_write x v l decision mth uri reason =
     append_entry x v l
       \<lparr>ae_timestamp = av_now v (length (al_entries l)),
        ae_request_id = request_id (av_random v (length (al_entries l))),
        ae_decision = decision, ae_method = mth, ae_uri = uri, ae_reason = reason\<rparr>"

definition audit_allow :: "externs \<Rightarrow> audit_env \<Rightarrow> audit_log \<Rightarrow> string \<Rightarrow> string \<Rightarrow> audit_log" where
  "audit_allow x v l mth uri = audit_write x v l ''ALLOW'' mth uri []"

definition audit_allow_reason :: "externs \<Rightarrow> audit_env \<Rightarrow> audit_log \<Rightarrow> string \<Rightarrow> string \<Rightarrow> string \<Rightarrow> audit_log" where
  "audit_allow_reason x v l mth uri reason = audit_write x v l ''ALLOW'' mth uri reason"

definition audit_deny :: "externs \<Rightarrow> audit_env \<Rightarrow> audit_log \<Rightarrow> string \<Rightarrow> string \<Rightarrow> string \<Rightarrow> audit_log" where
  "audit_deny x v l mth uri reason = audit_write x v l ''DENY'' mth uri reason"

subsection \<open>The file holds the entries\<close>

definition audit_line :: "externs \<Rightarrow> audit_entry \<Rightarrow> string" where
  "audit_line x a = json_display x (entry_json a) @ [CHR 0x0A]"

text \<open>What a sequence of entries, the first of them number \<open>n\<close>, leaves in the file: their lines, cut where a write failed.\<close>

fun written :: "externs \<Rightarrow> audit_env \<Rightarrow> nat \<Rightarrow> audit_entry list \<Rightarrow> string" where
  "written x v n [] = []"
| "written x v n (a # as) =
     (case av_write_error v n of None \<Rightarrow> audit_line x a | Some k \<Rightarrow> take k (audit_line x a)) @ written x v (Suc n) as"

lemma written_append: "written x v n (as @ bs) = written x v n as @ written x v (n + length as) bs"
  by (induction as arbitrary: n) simp_all

lemma written_all: "(\<And>k. av_write_error v k = None) \<Longrightarrow> written x v n as = concat (map (audit_line x) as)"
  by (induction as arbitrary: n) simp_all

text \<open>A log is only added to: decisions to the entries, and what is written of them to the file.\<close>

definition logs :: "externs \<Rightarrow> audit_env \<Rightarrow> audit_log \<Rightarrow> audit_log \<Rightarrow> bool" where
  "logs x v l l' \<longleftrightarrow> (\<exists>new. al_entries l' = al_entries l @ new \<and>
     al_file l' = al_file l @ written x v (length (al_entries l)) new \<and>
     list_all (\<lambda>a. ae_decision a \<in> {''ALLOW'', ''DENY''}) new)"

lemma logs_refl [simp]: "logs x v l l"
  by (simp add: logs_def)

lemma logs_trans [trans]: "logs x v l l' \<Longrightarrow> logs x v l' l'' \<Longrightarrow> logs x v l l''"
  unfolding logs_def by (elim exE) (auto simp: written_append intro!: exI [of _ "_ @ _"])

lemma logs_append: "ae_decision a \<in> {''ALLOW'', ''DENY''} \<Longrightarrow> logs x v l (append_entry x v l a)"
  unfolding logs_def append_entry_def by (rule exI [of _ "[a]"]) (simp add: audit_line_def split: option.split)

lemma logs_decision [simp]:
  "logs x v l (audit_allow x v l mth uri)" "logs x v l (audit_allow_reason x v l mth uri reason)"
  "logs x v l (audit_deny x v l mth uri reason)"
  by (simp_all add: audit_allow_def audit_allow_reason_def audit_deny_def audit_write_def logs_append)

lemma audit_write_entries:
  "\<exists>a. al_entries (audit_write x v l d mth uri reason) = al_entries l @ [a] \<and>
     ae_decision a = d \<and> ae_method a = mth \<and> ae_uri a = uri \<and> ae_reason a = reason"
  by (simp add: audit_write_def append_entry_def)

lemma entry_json_fields:
  "\<exists>m. entry_json a = JObject m \<and> bt_wf m \<and>
     bt_get m = [''timestamp'' \<mapsto> JString (ae_timestamp a), ''request_id'' \<mapsto> JString (ae_request_id a),
       ''decision'' \<mapsto> JString (ae_decision a), ''method'' \<mapsto> JString (ae_method a),
       ''uri'' \<mapsto> JString (ae_uri a), ''reason'' \<mapsto> JString (ae_reason a)]"
  unfolding entry_json_def
  by (intro exI conjI) (rule refl, rule bt_wf_collect, simp add: bt_collect_def fun_eq_iff)

lemma hex_digit_inj:
  assumes "d < 16" "e < 16" "hex_digit d = hex_digit e"
  shows "d = e"
proof -
  have "distinct (map hex_digit [0..<16])" by code_simp
  then have "inj_on hex_digit (set [0..<16])" by (simp add: distinct_map)
  with assms show ?thesis by (auto dest: inj_onD)
qed

lemma hex02_inj: "hex02 a = hex02 b \<Longrightarrow> a = b"
proof -
  assume "hex02 a = hex02 b"
  then have "hex_digit (of_char a div 16) = hex_digit (of_char b div 16)"
    "hex_digit (of_char a mod 16) = hex_digit (of_char b mod 16)" by (simp_all add: hex02_def)
  moreover have "(of_char c :: nat) div 16 < 16" for c :: char
    using nat_of_char_less_256[of c] by (simp add: less_mult_imp_div_less)
  ultimately have "(of_char a :: nat) div 16 = of_char b div 16" "(of_char a :: nat) mod 16 = of_char b mod 16"
    by (auto intro: hex_digit_inj)
  then have "(of_char a :: nat) = of_char b" by (metis div_mult_mod_eq)
  then show ?thesis by simp
qed

lemma length_request_id: "length (request_id bs) = 2 * length bs"
  by (induction bs) (simp_all add: request_id_def hex02_def)

text \<open>Different random bytes give different request ids.\<close>

lemma request_id_inj: "length a = length b \<Longrightarrow> request_id a = request_id b \<Longrightarrow> a = b"
proof (induction a b rule: list_induct2)
  case Nil
  then show ?case by simp
next
  case (Cons x a y b)
  have "hex02 x @ request_id a = hex02 y @ request_id b"
    using Cons.prems by (simp add: request_id_def)
  then have "hex02 x = hex02 y \<and> request_id a = request_id b"
    by (simp add: hex02_def)
  with Cons.IH show ?case by (auto dest: hex02_inj)
qed

end
