(* ===== verification/Transport.thy ===== *)
theory Transport
  imports Json
begin

section \<open>Input/output errors, HTTP messages and the transport (transport.rs)\<close>

text \<open>
  \<open>std::io::Error\<close>, the requests and responses of the \<open>http\<close> crate as records, and
  \<open>UnixSocketTransport::forward\<close> of \<open>src/rs/src/transport.rs\<close>. A \<open>transport\<close> maps the
  requests sent so far and a request to its result: the daemon is a parameter, and it may answer
  the same request differently later. The URI of a request is given by what the code asks of the
  crate: its text, its path and its path with query.
\<close>

datatype error_kind = NotFound | PermissionDenied | AddrInUse | AlreadyExists | OtherKind string

record io_error =
  io_kind :: error_kind
  raw_os_error :: "int option"
  io_text :: string

definition new_io_error :: "error_kind \<Rightarrow> string \<Rightarrow> io_error" where
  "new_io_error k msg = \<lparr>io_kind = k, raw_os_error = None, io_text = msg\<rparr>"

record uri =
  uri_text :: string
  uri_path :: string
  uri_path_and_query :: "string option"

record http_request =
  rq_method :: string
  rq_uri :: string
  rq_version :: nat
  rq_headers :: "(string \<times> bytes) list"
  rq_body :: bytes

record http_response =
  rs_status :: nat
  rs_headers :: "(string \<times> bytes) list"
  rs_body :: bytes

datatype transport_error = SocketPermission io_error | OtherError string

fun display_transport_error :: "transport_error \<Rightarrow> string" where
  "display_transport_error (SocketPermission e) = fmt [''permission denied on Docker socket: '', io_text e]"
| "display_transport_error (OtherError e) = fmt [''proxy error: '', e]"

type_synonym transport = "http_request list \<Rightarrow> http_request \<Rightarrow> transport_error + http_response"

definition map_connect_error :: "io_error \<Rightarrow> transport_error" where
  "map_connect_error e =
     (if io_kind e = PermissionDenied then SocketPermission e else OtherError (io_text e))"

text \<open>The steps of one exchange with the daemon's socket.\<close>

record docker_socket =
  sk_connect :: "string \<Rightarrow> io_error + unit"
  sk_handshake :: "string + unit"
  sk_send :: "http_request \<Rightarrow> string + http_response"
  sk_collect :: "http_response \<Rightarrow> string + bytes"

definition unix_socket_transport :: "(http_request list \<Rightarrow> docker_socket) \<Rightarrow> string \<Rightarrow> transport" where
  "unix_socket_transport world docker_host sent req =
     res_bind (map_err map_connect_error (sk_connect (world sent) docker_host)) (\<lambda>_.
     res_bind (map_err OtherError (sk_handshake (world sent))) (\<lambda>_.
     res_bind (map_err OtherError (sk_send (world sent) req)) (\<lambda>resp.
     res_bind (map_err OtherError (sk_collect (world sent) resp)) (\<lambda>bytes.
       Inr (resp\<lparr>rs_body := bytes\<rparr>)))))"

text \<open>A socket permission error is reported exactly when connecting fails for lack of permission.\<close>

lemma transport_permission:
  "unix_socket_transport w host sent req = Inl (SocketPermission e) \<longleftrightarrow>
     sk_connect (w sent) host = Inl e \<and> io_kind e = PermissionDenied"
  by (auto simp: unix_socket_transport_def map_connect_error_def map_err_def res_bind_def
      split: sum.splits if_splits)

text \<open>The response keeps the daemon's status and headers.\<close>

lemma transport_response:
  "unix_socket_transport w host sent req = Inr resp \<Longrightarrow>
     \<exists>r. sk_send (w sent) req = Inr r \<and> rs_status resp = rs_status r \<and> rs_headers resp = rs_headers r \<and>
       sk_collect (w sent) r = Inr (rs_body resp)"
  by (auto simp: unix_socket_transport_def)

end
