(* ===== verification/Handler.thy ===== *)
theory Handler
  imports Chain Router Audit_Log Transport
begin

section \<open>The request handler (handler.rs)\<close>

text \<open>
  \<open>Handler::handle\<close> of \<open>src/rs/src/handler.rs\<close> as a function of a state: the audit log and
  the requests given to \<open>Transport::forward\<close>. Every early return of the source is a branch.
  \<open>Panicked\<close> is the \<open>unwrap\<close> of the request builder, which fails when the \<open>http\<close>
  crate does not parse the URI's own text again (\<open>he_uri_error\<close>). Trace messages are left
  out. Collecting a response held in memory cannot fail, so that branch of
  \<open>resolve_container\<close> has no counterpart.
\<close>

record incoming =
  in_method :: string
  in_uri :: uri
  in_version :: nat
  in_headers :: "(string \<times> bytes) list"
  in_body :: "string + bytes"

record handler_env =
  he_externs :: externs
  he_audit :: audit_env
  he_uri_error :: "string \<Rightarrow> string option"

record handler =
  h_router :: router
  h_chain :: chain
  h_transport :: transport

record handler_state =
  hs_audit :: audit_log
  hs_sent :: "http_request list"

datatype outcome = Responded http_response | Panicked

definition new_handler :: "router \<Rightarrow> chain \<Rightarrow> transport \<Rightarrow> handler" where
  "new_handler r c t = \<lparr>h_router = r, h_chain = c, h_transport = t\<rparr>"

subsection \<open>Helpers\<close>

definition upgrade_token :: "string \<Rightarrow> bool" where
  "upgrade_token tok = eq_ignore_ascii_case (trim_ascii tok) ''upgrade''"

definition is_upgrade_request :: "(string \<times> bytes) list \<Rightarrow> bool" where
  "is_upgrade_request headers =
     (list_ex (\<lambda>h. fst h = ''upgrade'') headers \<or>
      list_ex (\<lambda>h. fst h = ''connection'' \<and> list_ex upgrade_token (split_on (CHR '','') (snd h))) headers)"

definition target_of :: "uri \<Rightarrow> string" where
  "target_of u = unwrap_or (uri_path_and_query u) (uri_path u)"

definition parse_body :: "externs \<Rightarrow> bytes \<Rightarrow> json_body option" where
  "parse_body x body =
     (if body \<noteq> [] \<and> json_value_from_slice x body \<noteq> None then json_map_from_slice x body else None)"

definition respond :: "nat \<Rightarrow> string \<Rightarrow> http_response" where
  "respond status msg = \<lparr>rs_status = status, rs_headers = [], rs_body = msg\<rparr>"

fun header_insert :: "string \<Rightarrow> bytes \<Rightarrow> (string \<times> bytes) list \<Rightarrow> (string \<times> bytes) list" where
  "header_insert k v [] = [(k, v)]"
| "header_insert k v ((l, w) # hs) =
     (if l = k then (k, v) # filter (\<lambda>h. fst h \<noteq> k) hs else (l, w) # header_insert k v hs)"

definition send :: "handler \<Rightarrow> handler_state \<Rightarrow> http_request \<Rightarrow> (transport_error + http_response) \<times> handler_state" where
  "send h st req = (h_transport h (hs_sent st) req, st\<lparr>hs_sent := hs_sent st @ [req]\<rparr>)"

definition refuse :: "handler_env \<Rightarrow> handler_state \<Rightarrow> string \<Rightarrow> string \<Rightarrow> string \<Rightarrow> string \<Rightarrow> outcome \<times> handler_state" where
  "refuse e st mth uri reason msg =
     (Responded (respond 403 msg),
      st\<lparr>hs_audit := audit_deny (he_externs e) (he_audit e) (hs_audit st) mth uri reason\<rparr>)"

subsection \<open>Resolving a container\<close>

definition deny_result :: "string \<Rightarrow> route_result" where
  "deny_result msg = \<lparr>rr_action = Deny, rr_service = None, rr_policy = None, rr_body = None, rr_container = None,
     rr_resolved_name = None, rr_image = None, rr_deny_msg = Some msg\<rparr>"

definition not_managed :: "string \<Rightarrow> string option \<Rightarrow> route_result" where
  "not_managed cid resolved =
     (deny_result (fmt [''container '', cid, '' is not managed by any policy'']))\<lparr>rr_resolved_name := resolved\<rparr>"

definition cannot_resolve :: "string \<Rightarrow> string \<Rightarrow> route_result" where
  "cannot_resolve cid reason = deny_result (fmt [''cannot resolve container '', cid, '': '', reason])"

definition inspect_uri :: "string \<Rightarrow> string" where
  "inspect_uri cid = fmt [''/containers/'', path_escape cid, ''/json'']"

definition inspect_request :: "string \<Rightarrow> http_request" where
  "inspect_request cid =
     \<lparr>rq_method = ''GET'', rq_uri = inspect_uri cid, rq_version = 11, rq_headers = [(''host'', ''docker'')], rq_body = []\<rparr>"

definition inspect_name :: "externs \<Rightarrow> bytes \<Rightarrow> string" where
  "inspect_name x body =
     unwrap_or (Option.bind (json_value_from_slice x body) (\<lambda>v.
       Option.bind (as_object v) (\<lambda>m. Option.bind (bt_get m ''Name'') as_str))) []"

definition resolved :: "string \<Rightarrow> string \<Rightarrow> policy list \<Rightarrow> route_result" where
  "resolved cid name cov =
     (if cov = [] then not_managed cid (Some name)
      else \<lparr>rr_action = Allow,
        rr_service = (if length cov = 1 then Some (service_name (hd cov)) else None),
        rr_policy = (if length cov = 1 then Some (hd cov) else None),
        rr_body = None, rr_container = Some cid, rr_resolved_name = Some name, rr_image = None, rr_deny_msg = None\<rparr>)"

definition resolve_name :: "manager \<Rightarrow> string \<Rightarrow> string \<Rightarrow> route_result" where
  "resolve_name m cid name =
     (if name = [] then cannot_resolve cid ''unreadable inspect response''
      else resolved cid (name_without_slash name) (covering m (name_without_slash name)))"

definition resolve_response :: "externs \<Rightarrow> manager \<Rightarrow> string \<Rightarrow> transport_error + http_response \<Rightarrow> route_result" where
  "resolve_response x m cid r =
     (case r of
        Inl err \<Rightarrow> cannot_resolve cid (display_transport_error err)
      | Inr resp \<Rightarrow>
          if rs_status resp = 200 then resolve_name m cid (inspect_name x (rs_body resp))
          else if rs_status resp = 404 then not_managed cid None
          else cannot_resolve cid (fmt [''daemon returned '', dec_nat (rs_status resp)]))"

definition resolve_container :: "handler_env \<Rightarrow> handler \<Rightarrow> handler_state \<Rightarrow> string \<Rightarrow> route_result \<times> handler_state" where
  "resolve_container e h st cid =
     (case he_uri_error e (inspect_uri cid) of
        Some err \<Rightarrow> (cannot_resolve cid err, st)
      | None \<Rightarrow>
          (resolve_response (he_externs e) (router_manager (h_router h)) cid (fst (send h st (inspect_request cid))),
           snd (send h st (inspect_request cid))))"

definition resolve_route :: "handler_env \<Rightarrow> handler \<Rightarrow> handler_state \<Rightarrow> route_result \<Rightarrow> route_result \<times> handler_state" where
  "resolve_route e h st r =
     (if rr_action r = ResolveContainer then resolve_container e h st (unwrap_or (rr_container r) []) else (r, st))"

subsection \<open>Forwarding\<close>

definition forwarded :: "incoming \<Rightarrow> bytes \<Rightarrow> http_request" where
  "forwarded rq body =
     \<lparr>rq_method = in_method rq, rq_uri = uri_text (in_uri rq), rq_version = in_version rq,
      rq_headers = header_insert ''content-length'' (dec_nat (length body)) (in_headers rq), rq_body = body\<rparr>"

definition reply :: "transport_error + http_response \<Rightarrow> http_response" where
  "reply r =
     (case r of
        Inr resp \<Rightarrow> resp
      | Inl (SocketPermission _) \<Rightarrow> respond 403 ''permission denied on Docker socket''
      | Inl err \<Rightarrow> respond 502 (fmt [''proxy error: '', display_transport_error err]))"

definition log_allowed :: "handler_env \<Rightarrow> handler_state \<Rightarrow> incoming \<Rightarrow> route_result \<Rightarrow> handler_state" where
  "log_allowed e st rq r =
     st\<lparr>hs_audit :=
       (case rr_resolved_name r of
          Some name \<Rightarrow> audit_allow_reason (he_externs e) (he_audit e) (hs_audit st) (in_method rq)
            (target_of (in_uri rq))
            (fmt [''container '', unwrap_or (rr_container r) [], '' resolved to '', name])
        | None \<Rightarrow> audit_allow (he_externs e) (he_audit e) (hs_audit st) (in_method rq) (target_of (in_uri rq)))\<rparr>"

definition transmit :: "handler_env \<Rightarrow> handler \<Rightarrow> incoming \<Rightarrow> bytes \<Rightarrow> handler_state \<Rightarrow> outcome \<times> handler_state" where
  "transmit e h rq body st =
     (case he_uri_error e (uri_text (in_uri rq)) of
        Some _ \<Rightarrow> (Panicked, st)
      | None \<Rightarrow> (Responded (reply (fst (send h st (forwarded rq body)))), snd (send h st (forwarded rq body))))"

definition forward_allowed ::
  "handler_env \<Rightarrow> handler \<Rightarrow> handler_state \<Rightarrow> incoming \<Rightarrow> route_result \<Rightarrow> bytes \<Rightarrow> outcome \<times> handler_state" where
  "forward_allowed e h st rq r body = transmit e h rq body (log_allowed e st rq r)"

definition after_chain ::
  "handler_env \<Rightarrow> handler \<Rightarrow> handler_state \<Rightarrow> incoming \<Rightarrow> route_result \<Rightarrow> bytes \<Rightarrow> gate_result \<Rightarrow> outcome \<times> handler_state" where
  "after_chain e h st rq r body res =
     (if \<not> gr_allowed res
      then refuse e st (in_method rq) (target_of (in_uri rq)) (gr_reason res) (gr_reason res)
      else forward_allowed e h st rq r (unwrap_or (modified_body res) body))"

definition deny_reason :: "route_result \<Rightarrow> string" where
  "deny_reason r =
     (case rr_resolved_name r of
        Some name \<Rightarrow> fmt [unwrap_or (rr_deny_msg r) [], '' (resolved to '', name, '')'']
      | None \<Rightarrow> unwrap_or (rr_deny_msg r) [])"

definition dispatch ::
  "handler_env \<Rightarrow> handler \<Rightarrow> incoming \<Rightarrow> bytes \<Rightarrow> route_result \<times> handler_state \<Rightarrow> outcome \<times> handler_state" where
  "dispatch e h rq body rst =
     (if rr_action (fst rst) = Deny
      then refuse e (snd rst) (in_method rq) (target_of (in_uri rq)) (deny_reason (fst rst))
             (unwrap_or (rr_deny_msg (fst rst)) [])
      else if rr_action (fst rst) = CreateContainer then
        (case rr_policy (fst rst) of
           None \<Rightarrow> forward_allowed e h (snd rst) rq (fst rst) body
         | Some p \<Rightarrow> (case rr_body (fst rst) of
               None \<Rightarrow> forward_allowed e h (snd rst) rq (fst rst) body
             | Some b \<Rightarrow> after_chain e h (snd rst) rq (fst rst) body (execute (he_externs e) (h_chain h) p b)))
      else forward_allowed e h (snd rst) rq (fst rst) body)"

definition handle_body :: "handler_env \<Rightarrow> handler \<Rightarrow> handler_state \<Rightarrow> incoming \<Rightarrow> bytes \<Rightarrow> outcome \<times> handler_state" where
  "handle_body e h st rq body =
     dispatch e h rq body (resolve_route e h st
       (route_request (he_externs e) (h_router h) (in_method rq) (target_of (in_uri rq)) (body \<noteq> [])
          (parse_body (he_externs e) body)))"

definition handle :: "handler_env \<Rightarrow> handler \<Rightarrow> handler_state \<Rightarrow> incoming \<Rightarrow> outcome \<times> handler_state" where
  "handle e h st rq =
     (if in_method rq = ''CONNECT''
      then refuse e st (in_method rq) (uri_text (in_uri rq)) ''CONNECT is not allowed'' ''CONNECT is not allowed''
      else if is_upgrade_request (in_headers rq)
      then refuse e st (in_method rq) (target_of (in_uri rq)) ''protocol upgrade not allowed''
             ''protocol upgrade not allowed''
      else (case in_body rq of
          Inl _ \<Rightarrow> (Responded (respond 400 ''failed to read request body''), st)
        | Inr body \<Rightarrow> handle_body e h st rq body))"

subsection \<open>When a request may be forwarded\<close>

text \<open>
  \<open>managed\<close>: the container a request names is one a policy covers, by its name or by the
  daemon's answer to an inspection. \<open>permitted\<close>: the reasons for which a request may reach the
  daemon, with the body that is sent, given which containers are managed; \<open>justified\<close> takes the
  answer that the daemon gives in the state \<open>st\<close>. \<open>inspected\<close>: the state after the handler may
  have asked the daemon which container is meant.
\<close>

definition named_managed :: "handler \<Rightarrow> string \<Rightarrow> bool" where
  "named_managed h name \<longleftrightarrow> (\<exists>p. covering (router_manager (h_router h)) name = [p]) \<and> \<not> could_be_id name"

definition answer_managed :: "handler_env \<Rightarrow> handler \<Rightarrow> transport_error + http_response \<Rightarrow> bool" where
  "answer_managed e h r \<longleftrightarrow>
     (\<exists>resp. r = Inr resp \<and> rs_status resp = 200 \<and> inspect_name (he_externs e) (rs_body resp) \<noteq> [] \<and>
        covering (router_manager (h_router h))
          (name_without_slash (inspect_name (he_externs e) (rs_body resp))) \<noteq> [])"

definition managed :: "handler_env \<Rightarrow> handler \<Rightarrow> handler_state \<Rightarrow> string \<Rightarrow> bool" where
  "managed e h st name \<longleftrightarrow>
     named_managed h name \<or> answer_managed e h (h_transport h (hs_sent st) (inspect_request name))"

definition create_justified :: "handler_env \<Rightarrow> handler \<Rightarrow> string \<Rightarrow> bytes \<Rightarrow> bytes \<Rightarrow> bool" where
  "create_justified e h query body body' \<longleftrightarrow>
     (\<exists>b img name p. parse_body (he_externs e) body = Some b \<and> hm_get b ''Image'' = Some (JString img) \<and>
        create_name query = Inr name \<and> select_for_create (router_manager (h_router h)) img name = Inr p \<and>
        gr_allowed (execute (he_externs e) (h_chain h) p b) \<and>
        body' = unwrap_or (modified_body (execute (he_externs e) (h_chain h) p b)) body)"

definition permitted ::
  "handler_env \<Rightarrow> handler \<Rightarrow> (string \<Rightarrow> bool) \<Rightarrow> string \<Rightarrow> string \<Rightarrow> bytes \<Rightarrow> bytes \<Rightarrow> bool" where
  "permitted e h ok mth target body body' \<longleftrightarrow>
     mth \<in> {''GET'', ''HEAD''} \<and> body' = body \<or>
     mth = ''POST'' \<and> api_path target = ''/containers/create'' \<and>
       create_justified e h (target_query target) body body' \<or>
     mth = ''POST'' \<and> api_path target = ''/images/create'' \<and> body = [] \<and> body' = [] \<and>
       (\<exists>img p. pull_accepted (he_externs e) (router_manager (h_router h)) (target_query target) img p) \<or>
     container_write mth (api_path target) \<and> body' = body \<and>
       (\<exists>name. extract_container_name (api_path target) = Some name \<and> ok name)"

definition justified :: "handler_env \<Rightarrow> handler \<Rightarrow> handler_state \<Rightarrow> string \<Rightarrow> string \<Rightarrow> bytes \<Rightarrow> bytes \<Rightarrow> bool" where
  "justified e h st = permitted e h (managed e h st)"

lemmas justified_defs = justified_def permitted_def

lemmas managed_defs = managed_def named_managed_def answer_managed_def

lemma permitted_mono:
  "permitted e h ok mth target body body' \<Longrightarrow> (\<And>name. ok name \<Longrightarrow> ok' name) \<Longrightarrow> permitted e h ok' mth target body body'"
  unfolding permitted_def by blast

definition inspected :: "handler \<Rightarrow> handler_state \<Rightarrow> string \<Rightarrow> string \<Rightarrow> handler_state \<Rightarrow> bool" where
  "inspected h st mth target st' \<longleftrightarrow> st' = st \<or>
     (\<exists>name. \<not> router_readonly (h_router h) \<and> plain_path (target_path target) \<and> \<not> denied_path (api_path target) \<and>
        extract_container_name (api_path target) = Some name \<and> container_write mth (api_path target) \<and>
        st' = st\<lparr>hs_sent := hs_sent st @ [inspect_request name]\<rparr>)"

lemma resolve_container_state:
  "snd (resolve_container e h st cid) = st \<or>
   snd (resolve_container e h st cid) = st\<lparr>hs_sent := hs_sent st @ [inspect_request cid]\<rparr>"
  by (simp add: resolve_container_def send_def split: option.split)

lemma deny_result_action [simp]:
  "rr_action (deny_result msg) = Deny" "rr_action (not_managed cid n) = Deny" "rr_action (cannot_resolve cid m) = Deny"
  by (simp_all add: deny_result_def not_managed_def cannot_resolve_def)

lemma resolved_action: "rr_action (resolved cid name cov) = (if cov = [] then Deny else Allow)"
  by (simp add: resolved_def)

lemma resolve_response_action:
  "rr_action (resolve_response x m cid r) \<in> {Deny, Allow} \<and>
   (rr_action (resolve_response x m cid r) \<noteq> Deny \<longrightarrow>
     (\<exists>resp. r = Inr resp \<and> rs_status resp = 200 \<and> inspect_name x (rs_body resp) \<noteq> [] \<and>
        covering m (name_without_slash (inspect_name x (rs_body resp))) \<noteq> []))"
  by (cases r) (auto simp: resolve_response_def resolve_name_def resolved_action)

lemma resolve_container_managed:
  "rr_action (fst (resolve_container e h st cid)) \<in> {Deny, Allow} \<and>
   (rr_action (fst (resolve_container e h st cid)) \<noteq> Deny \<longrightarrow> managed e h st cid)"
proof (cases "he_uri_error e (inspect_uri cid)")
  case None
  then show ?thesis
    using resolve_response_action[of "he_externs e" "router_manager (h_router h)" cid
        "h_transport h (hs_sent st) (inspect_request cid)"]
    by (auto simp: resolve_container_def send_def managed_defs)
next
  case (Some err)
  then show ?thesis by (simp add: resolve_container_def)
qed

text \<open>The checks a request has passed when it is routed to an endpoint.\<close>

definition passes :: "handler \<Rightarrow> incoming \<Rightarrow> bytes \<Rightarrow> bool" where
  "passes h rq body \<longleftrightarrow> in_body rq = Inr body \<and> in_method rq \<noteq> ''CONNECT'' \<and>
     \<not> is_upgrade_request (in_headers rq) \<and>
     (router_readonly (h_router h) \<longrightarrow> in_method rq \<in> {''GET'', ''HEAD''}) \<and>
     plain_path (target_path (target_of (in_uri rq))) \<and> \<not> denied_path (api_path (target_of (in_uri rq)))"

text \<open>The three ways \<open>handle\<close> ends: a refusal, an unreadable body, or a justified forward.\<close>

definition handled :: "handler_env \<Rightarrow> handler \<Rightarrow> handler_state \<Rightarrow> incoming \<Rightarrow> outcome \<times> handler_state \<Rightarrow> bool" where
  "handled e h st rq res \<longleftrightarrow>
     (\<exists>st' uri reason msg. inspected h st (in_method rq) (target_of (in_uri rq)) st' \<and>
        res = refuse e st' (in_method rq) uri reason msg) \<or>
     (\<exists>err. in_body rq = Inl err \<and> res = (Responded (respond 400 ''failed to read request body''), st)) \<or>
     (\<exists>st' r body body'. inspected h st (in_method rq) (target_of (in_uri rq)) st' \<and> passes h rq body \<and>
        justified e h st (in_method rq) (target_of (in_uri rq)) body body' \<and>
        res = forward_allowed e h st' rq r body')"

lemma handled_refuse:
  "inspected h st (in_method rq) (target_of (in_uri rq)) st' \<Longrightarrow>
     handled e h st rq (refuse e st' (in_method rq) uri reason msg)"
  unfolding handled_def by blast

lemma handled_forward:
  "passes h rq body \<Longrightarrow> inspected h st (in_method rq) (target_of (in_uri rq)) st' \<Longrightarrow>
     justified e h st (in_method rq) (target_of (in_uri rq)) body body' \<Longrightarrow>
     handled e h st rq (forward_allowed e h st' rq r body')"
  unfolding handled_def by blast

lemma inspected_refl: "inspected h st mth target st"
  by (simp add: inspected_def)

lemma dispatch_refuse:
  "rr_action (fst rst) = Deny \<Longrightarrow> inspected h st (in_method rq) (target_of (in_uri rq)) (snd rst) \<Longrightarrow>
     handled e h st rq (dispatch e h rq body rst)"
  by (simp add: dispatch_def handled_refuse)

lemma dispatch_plain:
  "rr_action (fst rst) = Allow \<Longrightarrow> dispatch e h rq body rst = forward_allowed e h (snd rst) rq (fst rst) body"
  by (simp add: dispatch_def)

lemma handled_allow:
  "passes h rq body \<Longrightarrow> inspected h st (in_method rq) (target_of (in_uri rq)) (snd rst) \<Longrightarrow>
     justified e h st (in_method rq) (target_of (in_uri rq)) body body \<Longrightarrow> rr_action (fst rst) = Allow \<Longrightarrow>
     handled e h st rq (dispatch e h rq body rst)"
  by (simp add: dispatch_plain handled_forward)

lemma handled_create:
  assumes "passes h rq body" "in_method rq = ''POST''" "api_path (target_of (in_uri rq)) = ''/containers/create''"
    "parse_body (he_externs e) body = Some b" "hm_get b ''Image'' = Some (JString img)"
    "create_name (target_query (target_of (in_uri rq))) = Inr name"
    "select_for_create (router_manager (h_router h)) img name = Inr p"
  shows "handled e h st rq (dispatch e h rq body (create_result b img name p, st))"
proof -
  have d: "dispatch e h rq body (create_result b img name p, st) =
      after_chain e h st rq (create_result b img name p) body (execute (he_externs e) (h_chain h) p b)"
    by (simp add: dispatch_def create_result_def)
  show ?thesis
  proof (cases "gr_allowed (execute (he_externs e) (h_chain h) p b)")
    case True
    with assms have "justified e h st (in_method rq) (target_of (in_uri rq)) body
        (unwrap_or (modified_body (execute (he_externs e) (h_chain h) p b)) body)"
      unfolding justified_defs create_justified_def by blast
    with True show ?thesis
      unfolding d after_chain_def by (simp add: handled_forward [OF assms(1) inspected_refl])
  next
    case False
    then show ?thesis unfolding d after_chain_def by (simp add: handled_refuse inspected_refl)
  qed
qed

lemma handled_resolve:
  assumes "passes h rq body" "extract_container_name (api_path (target_of (in_uri rq))) = Some name"
    "container_write (in_method rq) (api_path (target_of (in_uri rq)))"
  shows "handled e h st rq (dispatch e h rq body (resolve_container e h st name))"
proof -
  have "\<not> router_readonly (h_router h)"
    using assms(1,3) by (auto simp: passes_def container_write_def)
  then have ins: "inspected h st (in_method rq) (target_of (in_uri rq)) (snd (resolve_container e h st name))"
    using assms resolve_container_state[of e h st name] unfolding inspected_def passes_def by blast
  show ?thesis
  proof (cases "rr_action (fst (resolve_container e h st name)) = Deny")
    case True
    with ins show ?thesis by (simp add: dispatch_refuse)
  next
    case False
    then have "rr_action (fst (resolve_container e h st name)) = Allow" "managed e h st name"
      using resolve_container_managed[of e h st name] by auto
    moreover from this have "justified e h st (in_method rq) (target_of (in_uri rq)) body body"
      using assms unfolding justified_defs by blast
    ultimately show ?thesis using assms(1) ins by (simp add: handled_allow)
  qed
qed

lemma resolve_route_id: "rr_action r \<noteq> ResolveContainer \<Longrightarrow> resolve_route e h st r = (r, st)"
  by (simp add: resolve_route_def)

lemma resolve_route_resolve: "resolve_route e h st (resolve_result name) = resolve_container e h st name"
  by (simp add: resolve_route_def resolve_result_def)

lemma handle_endpoint_handled:
  assumes "passes h rq body"
    and r: "r = route_endpoint (he_externs e) (h_router h) (in_method rq) (api_path (target_of (in_uri rq)))
      (target_query (target_of (in_uri rq))) (body \<noteq> []) (parse_body (he_externs e) body)"
    and "rr_action r \<noteq> Deny"
  shows "handled e h st rq (dispatch e h rq body (resolve_route e h st r))"
  using assms(3) [unfolded r]
proof (cases rule: route_endpoint_cases)
  case get
  then show ?thesis
    unfolding r using assms(1) by (simp add: resolve_route_id handled_allow inspected_refl justified_defs)
next
  case (create b img name p)
  from handled_create[OF assms(1) create(1-6)] show ?thesis
    unfolding r create(7) by (simp add: resolve_route_id)
next
  case (covered name p)
  then have "justified e h st (in_method rq) (target_of (in_uri rq)) body body"
    unfolding justified_defs managed_defs by blast
  then show ?thesis
    unfolding r covered(5) using assms(1) by (simp add: resolve_route_id handled_allow inspected_refl)
next
  case (resolve name)
  then show ?thesis
    unfolding r resolve(3) using assms(1) by (simp add: resolve_route_resolve handled_resolve)
next
  case (pull img p)
  then have "justified e h st (in_method rq) (target_of (in_uri rq)) body body"
    unfolding justified_defs by blast
  then show ?thesis
    unfolding r pull(5) using assms(1) by (simp add: resolve_route_id handled_allow inspected_refl)
qed

lemma handle_body_handled:
  assumes "in_body rq = Inr body" "in_method rq \<noteq> ''CONNECT''" "\<not> is_upgrade_request (in_headers rq)"
  shows "handled e h st rq (handle_body e h st rq body)"
proof -
  define r where "r = route_request (he_externs e) (h_router h) (in_method rq) (target_of (in_uri rq)) (body \<noteq> [])
    (parse_body (he_externs e) body)"
  have hb: "handle_body e h st rq body = dispatch e h rq body (resolve_route e h st r)"
    by (simp add: handle_body_def r_def)
  show ?thesis
  proof (cases "rr_action r = Deny")
    case True
    then show ?thesis unfolding hb by (simp add: resolve_route_id dispatch_refuse inspected_refl)
  next
    case False
    note pass = route_passes[OF False [unfolded r_def], folded r_def]
    with assms have "passes h rq body" by (simp add: passes_def)
    with pass False show ?thesis unfolding hb by (intro handle_endpoint_handled) auto
  qed
qed

lemma handle_handled: "handled e h st rq (handle e h st rq)"
proof (cases "in_method rq = ''CONNECT'' \<or> is_upgrade_request (in_headers rq)")
  case True
  then have "\<exists>uri reason. handle e h st rq = refuse e st (in_method rq) uri reason reason"
    unfolding handle_def by auto
  then show ?thesis using handled_refuse[OF inspected_refl] by metis
next
  case False
  show ?thesis
  proof (cases "in_body rq")
    case (Inl err)
    with False show ?thesis by (auto simp: handle_def handled_def)
  next
    case (Inr body)
    with False show ?thesis by (auto simp: handle_def intro!: handle_body_handled)
  qed
qed

subsection \<open>Effects on the daemon and on the audit log\<close>

definition inspection :: "handler \<Rightarrow> incoming \<Rightarrow> http_request list \<Rightarrow> bool" where
  "inspection h rq ins \<longleftrightarrow> ins = [] \<or>
     (\<exists>name. \<not> router_readonly (h_router h) \<and> plain_path (target_path (target_of (in_uri rq))) \<and>
        \<not> denied_path (api_path (target_of (in_uri rq))) \<and>
        extract_container_name (api_path (target_of (in_uri rq))) = Some name \<and>
        container_write (in_method rq) (api_path (target_of (in_uri rq))) \<and> ins = [inspect_request name])"

definition logged :: "handler_state \<Rightarrow> handler_state \<Rightarrow> string \<Rightarrow> string \<Rightarrow> bool" where
  "logged st st' decision mth \<longleftrightarrow> (\<exists>a. al_entries (hs_audit st') = al_entries (hs_audit st) @ [a] \<and>
     ae_decision a = decision \<and> ae_method a = mth)"

lemma inspected_effect:
  "inspected h st (in_method rq) (target_of (in_uri rq)) st' \<Longrightarrow>
     hs_audit st' = hs_audit st \<and> (\<exists>ins. inspection h rq ins \<and> hs_sent st' = hs_sent st @ ins)"
  by (auto simp: inspected_def inspection_def)

lemma refuse_effect:
  "fst (refuse e st mth uri reason msg) = Responded (respond 403 msg)"
  "hs_sent (snd (refuse e st mth uri reason msg)) = hs_sent st"
  "logged st (snd (refuse e st mth uri reason msg)) ''DENY'' mth"
  by (simp_all add: refuse_def logged_def audit_deny_def audit_write_def append_entry_def)

lemma log_allowed_effect:
  "hs_sent (log_allowed e st rq r) = hs_sent st" "logged st (log_allowed e st rq r) ''ALLOW'' (in_method rq)"
  by (simp_all add: log_allowed_def logged_def audit_allow_def audit_allow_reason_def audit_write_def
      append_entry_def split: option.split)

lemma forward_allowed_effect:
  "logged st (snd (forward_allowed e h st rq r body)) ''ALLOW'' (in_method rq)"
  "(fst (forward_allowed e h st rq r body) = Panicked \<and> he_uri_error e (uri_text (in_uri rq)) \<noteq> None \<and>
      hs_sent (snd (forward_allowed e h st rq r body)) = hs_sent st) \<or>
   (fst (forward_allowed e h st rq r body) = Responded (reply (h_transport h (hs_sent st) (forwarded rq body))) \<and>
      hs_sent (snd (forward_allowed e h st rq r body)) = hs_sent st @ [forwarded rq body])"
  using log_allowed_effect[where e = e and st = st and rq = rq and r = r]
  by (auto simp: forward_allowed_def transmit_def send_def logged_def split: option.splits)

lemma logged_inspected: "hs_audit st' = hs_audit st \<Longrightarrow> logged st' st'' d m \<Longrightarrow> logged st st'' d m"
  by (simp add: logged_def)

definition handle_result :: "handler_env \<Rightarrow> handler \<Rightarrow> handler_state \<Rightarrow> incoming \<Rightarrow> outcome \<Rightarrow> handler_state \<Rightarrow> bool" where
  "handle_result e h st rq out st' \<longleftrightarrow>
     (\<exists>err. in_body rq = Inl err \<and> out = Responded (respond 400 ''failed to read request body'') \<and> st' = st) \<or>
     (\<exists>msg ins. out = Responded (respond 403 msg) \<and> logged st st' ''DENY'' (in_method rq) \<and>
        inspection h rq ins \<and> hs_sent st' = hs_sent st @ ins) \<or>
     (\<exists>ins body body'. logged st st' ''ALLOW'' (in_method rq) \<and> inspection h rq ins \<and> passes h rq body \<and>
        justified e h st (in_method rq) (target_of (in_uri rq)) body body' \<and>
        (out = Panicked \<and> he_uri_error e (uri_text (in_uri rq)) \<noteq> None \<and> hs_sent st' = hs_sent st @ ins \<or>
         out = Responded (reply (h_transport h (hs_sent st @ ins) (forwarded rq body'))) \<and>
           hs_sent st' = hs_sent st @ ins @ [forwarded rq body']))"

lemma handled_result:
  assumes "handled e h st rq res"
  shows "handle_result e h st rq (fst res) (snd res)"
  using assms unfolding handled_def
proof (elim disjE exE conjE)
  fix st' uri reason msg
  assume i: "inspected h st (in_method rq) (target_of (in_uri rq)) st'"
    and res: "res = refuse e st' (in_method rq) uri reason msg"
  from inspected_effect[OF i] obtain ins where "hs_audit st' = hs_audit st" "inspection h rq ins" "hs_sent st' = hs_sent st @ ins"
    by blast
  then show ?thesis
    unfolding handle_result_def res refuse_effect(1,2) using refuse_effect(3) logged_inspected by metis
next
  fix err
  assume "in_body rq = Inl err" "res = (Responded (respond 400 ''failed to read request body''), st)"
  then show ?thesis unfolding handle_result_def by simp
next
  fix st' r body body'
  assume i: "inspected h st (in_method rq) (target_of (in_uri rq)) st'" and p: "passes h rq body"
    and j: "justified e h st (in_method rq) (target_of (in_uri rq)) body body'"
    and res: "res = forward_allowed e h st' rq r body'"
  from inspected_effect[OF i] obtain ins where ins: "hs_audit st' = hs_audit st" "inspection h rq ins" "hs_sent st' = hs_sent st @ ins"
    by blast
  have "logged st (snd res) ''ALLOW'' (in_method rq)"
    unfolding res using forward_allowed_effect(1) logged_inspected[OF ins(1)] by blast
  moreover have "fst res = Panicked \<and> he_uri_error e (uri_text (in_uri rq)) \<noteq> None \<and> hs_sent (snd res) = hs_sent st @ ins \<or>
     fst res = Responded (reply (h_transport h (hs_sent st @ ins) (forwarded rq body'))) \<and>
       hs_sent (snd res) = hs_sent st @ ins @ [forwarded rq body']"
    using forward_allowed_effect(2)[of e h st' rq r body'] ins(3) unfolding res by simp
  ultimately show ?thesis using ins(2) p j unfolding handle_result_def by blast
qed

lemma handle_results: "handle_result e h st rq (fst (handle e h st rq)) (snd (handle e h st rq))"
  by (rule handled_result) (rule handle_handled)

text \<open>A sequence of requests, one after the other.\<close>

definition serve_all :: "handler_env \<Rightarrow> handler \<Rightarrow> handler_state \<Rightarrow> incoming list \<Rightarrow> handler_state" where
  "serve_all e h st rqs = foldl (\<lambda>st rq. snd (handle e h st rq)) st rqs"

end
