(* ===== verification/Stages.thy ===== *)
theory Stages
  imports Handler "HOL-Library.Sublist"
begin

section \<open>The handler as a coroutine (handler.rs)\<close>

text \<open>
  \<open>Handler::handle\<close> of \<open>src/rs/src/handler.rs\<close> is an \<open>async fn\<close>: it gives up control at
  each \<open>await\<close>, other requests run in between, and it is dropped there when its connection
  goes away. A \<open>stage\<close> is where it stands: before its first poll, reading the body, waiting for
  an inspection or for the forward (before the request is on the wire and after the answer is there),
  or finished. \<open>resume\<close> runs it to the next stage. Run to the end on its own it is \<open>handle\<close>
  (\<open>resumes_handle\<close>); what it may send, and that it logs before it sends, is shown stage by stage,
  so it holds for every interleaving and every cancellation.
\<close>

subsection \<open>Stages\<close>

datatype stage =
    Arrived
  | ReadingBody
  | AwaitInspect bytes string
  | GotInspect bytes string "transport_error + http_response"
  | AwaitForward http_request
  | GotForward "transport_error + http_response"
  | Replied outcome

definition replied :: "outcome \<times> handler_state \<Rightarrow> stage \<times> handler_state" where
  "replied res = (Replied (fst res), snd res)"

definition forward_stage ::
  "handler_env \<Rightarrow> handler_state \<Rightarrow> incoming \<Rightarrow> route_result \<Rightarrow> bytes \<Rightarrow> stage \<times> handler_state" where
  "forward_stage e st rq r body =
     (case he_uri_error e (uri_text (in_uri rq)) of
        Some _ \<Rightarrow> (Replied Panicked, log_allowed e st rq r)
      | None \<Rightarrow> (AwaitForward (forwarded rq body), log_allowed e st rq r))"

definition chain_stage ::
  "handler_env \<Rightarrow> handler_state \<Rightarrow> incoming \<Rightarrow> route_result \<Rightarrow> bytes \<Rightarrow> gate_result \<Rightarrow> stage \<times> handler_state" where
  "chain_stage e st rq r body res =
     (if \<not> gr_allowed res
      then replied (refuse e st (in_method rq) (target_of (in_uri rq)) (gr_reason res) (gr_reason res))
      else forward_stage e st rq r (unwrap_or (modified_body res) body))"

definition decide ::
  "handler_env \<Rightarrow> handler \<Rightarrow> incoming \<Rightarrow> bytes \<Rightarrow> route_result \<Rightarrow> handler_state \<Rightarrow> stage \<times> handler_state" where
  "decide e h rq body r st =
     (if rr_action r = Deny
      then replied (refuse e st (in_method rq) (target_of (in_uri rq)) (deny_reason r) (unwrap_or (rr_deny_msg r) []))
      else if rr_action r = CreateContainer then
        (case rr_policy r of
           None \<Rightarrow> forward_stage e st rq r body
         | Some p \<Rightarrow> (case rr_body r of
               None \<Rightarrow> forward_stage e st rq r body
             | Some b \<Rightarrow> chain_stage e st rq r body (execute (he_externs e) (h_chain h) p b)))
      else forward_stage e st rq r body)"

definition resolve_stage ::
  "handler_env \<Rightarrow> handler \<Rightarrow> incoming \<Rightarrow> bytes \<Rightarrow> string \<Rightarrow> handler_state \<Rightarrow> stage \<times> handler_state" where
  "resolve_stage e h rq body cid st =
     (case he_uri_error e (inspect_uri cid) of
        Some err \<Rightarrow> decide e h rq body (cannot_resolve cid err) st
      | None \<Rightarrow> (AwaitInspect body cid, st))"

definition route_stage ::
  "handler_env \<Rightarrow> handler \<Rightarrow> incoming \<Rightarrow> bytes \<Rightarrow> route_result \<Rightarrow> handler_state \<Rightarrow> stage \<times> handler_state" where
  "route_stage e h rq body r st =
     (if rr_action r = ResolveContainer then resolve_stage e h rq body (unwrap_or (rr_container r) []) st
      else decide e h rq body r st)"

fun resume :: "handler_env \<Rightarrow> handler \<Rightarrow> incoming \<Rightarrow> stage \<Rightarrow> handler_state \<Rightarrow> stage \<times> handler_state" where
  "resume e h rq Arrived st =
     (if in_method rq = ''CONNECT''
      then replied (refuse e st (in_method rq) (uri_text (in_uri rq)) ''CONNECT is not allowed'' ''CONNECT is not allowed'')
      else if is_upgrade_request (in_headers rq)
      then replied (refuse e st (in_method rq) (target_of (in_uri rq)) ''protocol upgrade not allowed''
             ''protocol upgrade not allowed'')
      else (ReadingBody, st))"
| "resume e h rq ReadingBody st =
     (case in_body rq of
        Inl _ \<Rightarrow> (Replied (Responded (respond 400 ''failed to read request body'')), st)
      | Inr body \<Rightarrow> route_stage e h rq body
          (route_request (he_externs e) (h_router h) (in_method rq) (target_of (in_uri rq)) (body \<noteq> [])
             (parse_body (he_externs e) body)) st)"
| "resume e h rq (AwaitInspect body cid) st =
     (GotInspect body cid (fst (send h st (inspect_request cid))), snd (send h st (inspect_request cid)))"
| "resume e h rq (GotInspect body cid r) st =
     decide e h rq body (resolve_response (he_externs e) (router_manager (h_router h)) cid r) st"
| "resume e h rq (AwaitForward req) st = (GotForward (fst (send h st req)), snd (send h st req))"
| "resume e h rq (GotForward r) st = (Replied (Responded (reply r)), st)"
| "resume e h rq (Replied out) st = (Replied out, st)"

subsection \<open>Run to the end it is the handler\<close>

primrec resumes :: "handler_env \<Rightarrow> handler \<Rightarrow> incoming \<Rightarrow> nat \<Rightarrow> stage \<times> handler_state \<Rightarrow> stage \<times> handler_state" where
  "resumes e h rq 0 ss = ss"
| "resumes e h rq (Suc n) ss = resumes e h rq n (resume e h rq (fst ss) (snd ss))"

lemma resumes_replied: "resumes e h rq n (Replied out, st) = (Replied out, st)"
  by (induction n) simp_all

lemma resumes_replied_pair: "resumes e h rq n (replied res) = replied res"
  by (simp add: replied_def resumes_replied)

lemma resumes_forward_stage: "resumes e h rq (2 + n) (forward_stage e st rq r body) = replied (forward_allowed e h st rq r body)"
  by (simp add: forward_stage_def forward_allowed_def transmit_def replied_def resumes_replied split: option.split)

lemma resumes_chain_stage:
  "resumes e h rq (2 + n) (chain_stage e st rq r body res) = replied (after_chain e h st rq r body res)"
  unfolding chain_stage_def after_chain_def
  by (simp del: add_2_eq_Suc add: resumes_forward_stage resumes_replied_pair)

lemma resumes_decide: "resumes e h rq (2 + n) (decide e h rq body r st) = replied (dispatch e h rq body (r, st))"
  unfolding decide_def dispatch_def
  by (simp del: add_2_eq_Suc add: resumes_forward_stage resumes_chain_stage resumes_replied_pair split: option.split)

lemma resumes_resolve_stage:
  "resumes e h rq (4 + n) (resolve_stage e h rq body cid st) = replied (dispatch e h rq body (resolve_container e h st cid))"
proof (cases "he_uri_error e (inspect_uri cid)")
  case None
  have "resumes e h rq (4 + n) (AwaitInspect body cid, st) =
      resumes e h rq (2 + n) (decide e h rq body (resolve_response (he_externs e) (router_manager (h_router h)) cid
        (fst (send h st (inspect_request cid)))) (snd (send h st (inspect_request cid))))"
    by (simp add: numeral_eq_Suc)
  with None show ?thesis by (simp add: resolve_stage_def resolve_container_def resumes_decide del: add_2_eq_Suc)
next
  case (Some err)
  then show ?thesis
    using resumes_decide[of e h rq "2 + n"] by (simp add: resolve_stage_def resolve_container_def del: add_2_eq_Suc)
qed

lemma resumes_route_stage:
  "resumes e h rq (4 + n) (route_stage e h rq body r st) = replied (dispatch e h rq body (resolve_route e h st r))"
  using resumes_resolve_stage[of e h rq n body "unwrap_or (rr_container r) []" st] resumes_decide[of e h rq "2 + n" body r st]
  by (simp add: route_stage_def resolve_route_def del: add_2_eq_Suc)

text \<open>Six polls are enough for every request.\<close>

lemma resumes_handle: "resumes e h rq (6 + n) (Arrived, st) = replied (handle e h st rq)"
proof (cases "in_method rq = ''CONNECT'' \<or> is_upgrade_request (in_headers rq)")
  case True
  then have "resume e h rq Arrived st = replied (handle e h st rq)" by (auto simp: handle_def)
  then show ?thesis using resumes_replied_pair[of e h rq "5 + n"] by (simp add: eval_nat_numeral)
next
  case False
  have "resumes e h rq (6 + n) (Arrived, st) = resumes e h rq (4 + n) (resume e h rq ReadingBody st)"
    using False by (simp add: numeral_eq_Suc)
  then show ?thesis
    using False by (cases "in_body rq")
      (simp_all add: handle_def handle_body_def resumes_route_stage resumes_replied, simp add: replied_def)
qed

subsection \<open>What a stage may send\<close>

definition write_checked :: "handler \<Rightarrow> incoming \<Rightarrow> bytes \<Rightarrow> string \<Rightarrow> bool" where
  "write_checked h rq body cid \<longleftrightarrow> passes h rq body \<and>
     extract_container_name (api_path (target_of (in_uri rq))) = Some cid \<and>
     container_write (in_method rq) (api_path (target_of (in_uri rq)))"

text \<open>
  \<open>managed_in\<close>: the container is managed by its name, or by the answer to an inspection that is
  among the requests \<open>sent\<close> so far, the very answer the daemon gave then.
\<close>

definition managed_in :: "handler_env \<Rightarrow> handler \<Rightarrow> http_request list \<Rightarrow> string \<Rightarrow> bool" where
  "managed_in e h sent name \<longleftrightarrow> named_managed h name \<or>
     (\<exists>pre. prefix (pre @ [inspect_request name]) sent \<and> answer_managed e h (h_transport h pre (inspect_request name)))"

definition may_forward :: "handler_env \<Rightarrow> handler \<Rightarrow> http_request list \<Rightarrow> incoming \<Rightarrow> bytes \<Rightarrow> bytes \<Rightarrow> bool" where
  "may_forward e h sent rq body body' \<longleftrightarrow> passes h rq body \<and>
     permitted e h (managed_in e h sent) (in_method rq) (target_of (in_uri rq)) body body'"

fun stage_ok :: "handler_env \<Rightarrow> handler \<Rightarrow> http_request list \<Rightarrow> incoming \<Rightarrow> stage \<Rightarrow> bool" where
  "stage_ok e h sent rq Arrived \<longleftrightarrow> True"
| "stage_ok e h sent rq ReadingBody \<longleftrightarrow> in_method rq \<noteq> ''CONNECT'' \<and> \<not> is_upgrade_request (in_headers rq)"
| "stage_ok e h sent rq (AwaitInspect body cid) \<longleftrightarrow> write_checked h rq body cid"
| "stage_ok e h sent rq (GotInspect body cid r) \<longleftrightarrow> write_checked h rq body cid \<and>
     (\<exists>pre. prefix (pre @ [inspect_request cid]) sent \<and> r = h_transport h pre (inspect_request cid))"
| "stage_ok e h sent rq (AwaitForward req) \<longleftrightarrow>
     (\<exists>body body'. may_forward e h sent rq body body' \<and> req = forwarded rq body')"
| "stage_ok e h sent rq (GotForward r) \<longleftrightarrow> True"
| "stage_ok e h sent rq (Replied out) \<longleftrightarrow> True"

text \<open>More requests on the wire take no justification away.\<close>

lemma managed_in_mono: "managed_in e h sent name \<Longrightarrow> prefix sent sent' \<Longrightarrow> managed_in e h sent' name"
  unfolding managed_in_def by (blast intro: prefix_order.trans)

lemma may_forward_mono: "may_forward e h sent rq body body' \<Longrightarrow> prefix sent sent' \<Longrightarrow> may_forward e h sent' rq body body'"
  unfolding may_forward_def by (blast intro: permitted_mono managed_in_mono)

lemma stage_ok_mono: "stage_ok e h sent rq stg \<Longrightarrow> prefix sent sent' \<Longrightarrow> stage_ok e h sent' rq stg"
  by (cases stg) (simp_all, blast intro: prefix_order.trans, blast intro: may_forward_mono)

lemma replied_ok [simp]: "stage_ok e h sent rq (fst (replied res))"
  by (simp add: replied_def)

lemma forward_stage_ok:
  "may_forward e h sent rq body body' \<Longrightarrow> stage_ok e h sent rq (fst (forward_stage e st rq r body'))"
  by (auto simp: forward_stage_def split: option.split)

lemma decide_allow_ok:
  "rr_action r \<in> {Deny, Allow} \<Longrightarrow> (rr_action r \<noteq> Deny \<Longrightarrow> may_forward e h sent rq body body) \<Longrightarrow>
     stage_ok e h sent rq (fst (decide e h rq body r st))"
  by (auto simp: decide_def forward_stage_ok)

lemma decide_create_ok:
  assumes "passes h rq body" "in_method rq = ''POST''" "api_path (target_of (in_uri rq)) = ''/containers/create''"
    "parse_body (he_externs e) body = Some b" "hm_get b ''Image'' = Some (JString img)"
    "create_name (target_query (target_of (in_uri rq))) = Inr name"
    "select_for_create (router_manager (h_router h)) img name = Inr p"
  shows "stage_ok e h sent rq (fst (decide e h rq body (create_result b img name p) st))"
proof -
  define res where "res = execute (he_externs e) (h_chain h) p b"
  have "may_forward e h sent rq body (unwrap_or (modified_body res) body)" if "gr_allowed res"
    using assms that unfolding may_forward_def permitted_def create_justified_def res_def by blast
  then have "stage_ok e h sent rq (fst (chain_stage e st rq (create_result b img name p) body res))"
    by (auto simp: chain_stage_def intro: forward_stage_ok)
  then show ?thesis by (simp add: decide_def create_result_def res_def)
qed

lemma inspected_may_forward:
  assumes "write_checked h rq body cid" "prefix (pre @ [inspect_request cid]) sent"
    "r = h_transport h pre (inspect_request cid)"
    "rr_action (resolve_response (he_externs e) (router_manager (h_router h)) cid r) \<noteq> Deny"
  shows "may_forward e h sent rq body body"
proof -
  have "answer_managed e h r"
    using resolve_response_action[of "he_externs e" "router_manager (h_router h)" cid r] assms(4)
    by (auto simp: answer_managed_def)
  with assms(1-3) show ?thesis unfolding may_forward_def write_checked_def permitted_def managed_in_def by blast
qed

lemma route_stage_ok:
  assumes "passes h rq body"
    and r: "r = route_endpoint (he_externs e) (h_router h) (in_method rq) (api_path (target_of (in_uri rq)))
      (target_query (target_of (in_uri rq))) (body \<noteq> []) (parse_body (he_externs e) body)"
    and "rr_action r \<noteq> Deny"
  shows "stage_ok e h sent rq (fst (route_stage e h rq body r st))"
  using assms(3) [unfolded r]
proof (cases rule: route_endpoint_cases)
  case get
  then show ?thesis
    unfolding r using assms(1)
    by (auto simp: route_stage_def may_forward_def permitted_def intro!: decide_allow_ok)
next
  case (create b img name p)
  from decide_create_ok[OF assms(1) create(1-6)] show ?thesis
    unfolding r create(7) by (simp add: route_stage_def)
next
  case (covered name p)
  then have "may_forward e h sent rq body body"
    using assms(1) unfolding may_forward_def permitted_def managed_in_def named_managed_def by blast
  then show ?thesis
    unfolding r covered(5) by (auto simp: route_stage_def intro!: decide_allow_ok)
next
  case (resolve name)
  then have "write_checked h rq body name" using assms(1) by (simp add: write_checked_def)
  then show ?thesis
    unfolding r resolve(3)
    by (auto simp: route_stage_def resolve_result_def resolve_stage_def split: option.split intro!: decide_allow_ok)
next
  case (pull img p)
  then have "may_forward e h sent rq body body"
    using assms(1) unfolding may_forward_def permitted_def by blast
  then show ?thesis
    unfolding r pull(5) by (auto simp: route_stage_def intro!: decide_allow_ok)
qed

lemma body_stage_ok:
  assumes "in_body rq = Inr body" "in_method rq \<noteq> ''CONNECT''" "\<not> is_upgrade_request (in_headers rq)"
  shows "stage_ok e h sent rq (fst (resume e h rq ReadingBody st))"
proof -
  define r where "r = route_request (he_externs e) (h_router h) (in_method rq) (target_of (in_uri rq)) (body \<noteq> [])
    (parse_body (he_externs e) body)"
  have "stage_ok e h sent rq (fst (route_stage e h rq body r st))"
  proof (cases "rr_action r = Deny")
    case True
    then show ?thesis by (simp add: route_stage_def decide_def)
  next
    case False
    note pass = route_passes[OF False [unfolded r_def], folded r_def]
    with assms have "passes h rq body" by (simp add: passes_def)
    with pass False show ?thesis by (intro route_stage_ok) auto
  qed
  with assms(1) show ?thesis by (simp add: r_def)
qed

subsection \<open>Effects of a stage\<close>

lemma refuse_sent: "hs_sent (snd (replied (refuse e st m u r t))) = hs_sent st"
  by (simp add: replied_def refuse_def)

lemma forward_stage_sent: "hs_sent (snd (forward_stage e st rq r body)) = hs_sent st"
  by (simp add: forward_stage_def log_allowed_effect split: option.split)

lemma decide_sent: "hs_sent (snd (decide e h rq body r st)) = hs_sent st"
  by (simp add: decide_def chain_stage_def refuse_sent forward_stage_sent split: option.split)

fun stage_sends :: "stage \<Rightarrow> http_request list" where
  "stage_sends (AwaitInspect body cid) = [inspect_request cid]"
| "stage_sends (AwaitForward req) = [req]"
| "stage_sends _ = []"

lemma resume_sent: "hs_sent (snd (resume e h rq stg st)) = hs_sent st @ stage_sends stg"
  by (cases stg) (auto simp: refuse_sent decide_sent send_def route_stage_def resolve_stage_def
      split: sum.split option.split)

lemma resume_ok:
  assumes "stage_ok e h (hs_sent st) rq stg"
  shows "stage_ok e h (hs_sent (snd (resume e h rq stg st))) rq (fst (resume e h rq stg st))"
proof -
  have "stage_ok e h (hs_sent st) rq (fst (resume e h rq stg st)) \<or> (\<exists>body cid. stg = AwaitInspect body cid)"
  proof (cases stg)
    case ReadingBody
    with assms body_stage_ok[of rq _ e h "hs_sent st" st] show ?thesis by (cases "in_body rq") auto
  next
    case (GotInspect body cid r)
    define rr where "rr = resolve_response (he_externs e) (router_manager (h_router h)) cid r"
    from GotInspect assms obtain pre where "write_checked h rq body cid"
      "prefix (pre @ [inspect_request cid]) (hs_sent st)" "r = h_transport h pre (inspect_request cid)" by auto
    from inspected_may_forward[OF this, of e] have "rr_action rr \<noteq> Deny \<Longrightarrow> may_forward e h (hs_sent st) rq body body"
      by (simp add: rr_def)
    moreover have "rr_action rr \<in> {Deny, Allow}"
      unfolding rr_def using resolve_response_action by blast
    ultimately have "stage_ok e h (hs_sent st) rq (fst (decide e h rq body rr st))" by (intro decide_allow_ok)
    with GotInspect show ?thesis by (simp add: rr_def)
  qed (use assms in \<open>auto simp: send_def\<close>)
  then show ?thesis
  proof (elim disjE exE)
    assume "stage_ok e h (hs_sent st) rq (fst (resume e h rq stg st))"
    then show ?thesis by (rule stage_ok_mono) (simp add: resume_sent)
  qed (use assms in \<open>auto simp: send_def\<close>)
qed

text \<open>
  What goes out is accounted for: an inspection of the container that the write of a client names, or
  a client's request that may be forwarded after what was \<open>sent\<close> before it.
\<close>

definition accounted ::
  "handler_env \<Rightarrow> handler \<Rightarrow> incoming set \<Rightarrow> http_request list \<Rightarrow> http_request \<Rightarrow> bool" where
  "accounted e h rqs sent r \<longleftrightarrow> (\<exists>rq\<in>rqs. (\<exists>body cid. write_checked h rq body cid \<and> r = inspect_request cid) \<or>
     (\<exists>body body'. may_forward e h sent rq body body' \<and> r = forwarded rq body'))"

lemma stage_sends_accounted:
  "stage_ok e h sent rq stg \<Longrightarrow> rq \<in> rqs \<Longrightarrow> r \<in> set (stage_sends stg) \<Longrightarrow> accounted e h rqs sent r"
  by (cases stg) (simp_all add: accounted_def, blast+)

lemma accounted_readonly:
  assumes "accounted e h rqs sent r" "router_readonly (h_router h)"
  shows "rq_method r \<in> {''GET'', ''HEAD''}"
  using assms by (auto simp: accounted_def write_checked_def may_forward_def passes_def container_write_def forwarded_def)

text \<open>A create that may be forwarded carries a body that is safe as the daemon reads it.\<close>

lemma create_justified_safe:
  assumes "create_justified e h query body body'" "h_chain h = chain_new"
    and "\<And>b. json_to_vec (he_externs e) b \<noteq> None"
    and "\<And>bs b. json_map_from_slice (he_externs e) bs = Some b \<Longrightarrow> body_wf b"
  shows "\<exists>p b. p \<in> set (policies (router_manager (h_router h))) \<and> json_to_vec (he_externs e) b = Some body' \<and>
    create_safe (he_externs e) p b"
proof -
  obtain b img name p where c: "parse_body (he_externs e) body = Some b"
    "select_for_create (router_manager (h_router h)) img name = Inr p"
    "gr_allowed (execute (he_externs e) chain_new p b)"
    "body' = unwrap_or (modified_body (execute (he_externs e) chain_new p b)) body"
    using assms(1,2) by (auto simp: create_justified_def)
  have wf: "body_wf b" using c(1) assms(4) by (auto simp: parse_body_def split: if_splits)
  obtain bytes where v: "json_to_vec (he_externs e) (container_config_mutator p b) = Some bytes"
    using assms(3) by blast
  with c(3,4) create_chain.execute_body[OF c(3)] have "body' = bytes" by simp
  moreover have "create_safe (he_externs e) p (container_config_mutator p b)"
    using c(3) wf by (intro create_admitted_safe) (simp_all add: execute_new_allowed)
  moreover have "p \<in> set (policies (router_manager (h_router h)))"
    using c(2) mgr.select_parses mgr.select_sound by blast
  ultimately show ?thesis using v by blast
qed

lemma may_forward_create:
  assumes "may_forward e h sent rq body body'" "in_method rq = ''POST''"
    "api_path (target_of (in_uri rq)) = ''/containers/create''"
  shows "create_justified e h (target_query (target_of (in_uri rq))) body body'"
proof -
  have "\<not> container_write ''POST'' ''/containers/create''" by code_simp
  with assms show ?thesis by (auto simp: may_forward_def permitted_def)
qed

subsection \<open>Logged before sent\<close>

text \<open>A forwarded request carries a length, an inspection does not.\<close>

definition carries_length :: "http_request \<Rightarrow> bool" where
  "carries_length r \<longleftrightarrow> ''content-length'' \<in> fst ` set (rq_headers r)"

definition forwards :: "handler_state \<Rightarrow> nat" where
  "forwards st = length (filter carries_length (hs_sent st))"

definition allows :: "handler_state \<Rightarrow> nat" where
  "allows st = length (filter (\<lambda>a. ae_decision a = ''ALLOW'') (al_entries (hs_audit st)))"

fun due :: "stage \<Rightarrow> nat" where
  "due (AwaitForward req) = 1"
| "due _ = 0"

lemma header_insert_key: "k \<in> fst ` set (header_insert k v hs)"
  by (induction hs rule: header_insert.induct) auto

lemma forwarded_carries: "carries_length (forwarded rq body)"
  by (simp add: carries_length_def forwarded_def header_insert_key)

lemma inspect_carries: "\<not> carries_length (inspect_request cid)"
  by (simp add: carries_length_def inspect_request_def)

lemma allows_refuse: "allows (snd (replied (refuse e st m u r t))) = allows st"
  by (simp add: replied_def refuse_def allows_def audit_deny_def audit_write_def append_entry_def)

lemma allows_log: "allows (log_allowed e st rq r) = allows st + 1"
  by (simp add: log_allowed_def allows_def audit_allow_def audit_allow_reason_def audit_write_def append_entry_def
      split: option.split)

lemma allows_send [simp]: "allows (snd (send h st req)) = allows st"
  by (simp add: send_def allows_def)

lemma forward_stage_due: "due (fst (forward_stage e st rq r body)) + allows st \<le> allows (snd (forward_stage e st rq r body))"
  by (simp add: forward_stage_def allows_log split: option.split)

lemma refuse_due: "due (fst (replied res)) = 0"
  by (simp add: replied_def)

lemma decide_due: "due (fst (decide e h rq body r st)) + allows st \<le> allows (snd (decide e h rq body r st))"
  by (simp add: decide_def chain_stage_def allows_refuse refuse_due forward_stage_due split: option.split)

lemma resume_allows: "due (fst (resume e h rq stg st)) + allows st \<le> allows (snd (resume e h rq stg st))"
  by (cases stg) (auto simp: refuse_due allows_refuse decide_due route_stage_def resolve_stage_def
      split: sum.split option.split)

lemma stage_sends_due: "stage_ok e h sent rq stg \<Longrightarrow> length (filter carries_length (stage_sends stg)) = due stg"
  by (cases stg) (auto simp: inspect_carries forwarded_carries)

lemma resume_logged:
  assumes "stage_ok e h sent rq stg"
  shows "forwards (snd (resume e h rq stg st)) + due (fst (resume e h rq stg st)) + allows st \<le>
    forwards st + due stg + allows (snd (resume e h rq stg st))"
  using resume_allows[of e h rq stg st] stage_sends_due[OF assms] by (simp add: forwards_def resume_sent)

text \<open>The log is only added to, and its file gets what is written of the new entries.\<close>

definition logs_more :: "handler_env \<Rightarrow> handler_state \<Rightarrow> handler_state \<Rightarrow> bool" where
  "logs_more e st st' \<longleftrightarrow> logs (he_externs e) (he_audit e) (hs_audit st) (hs_audit st')"

lemma logs_more_effects:
  "logs_more e st st" "logs_more e st (snd (replied (refuse e st m u r t)))" "logs_more e st (log_allowed e st rq rt)"
  "logs_more e st (snd (send h st req))"
  by (simp_all add: logs_more_def replied_def refuse_def log_allowed_def send_def split: option.split)

lemma decide_logs: "logs_more e st (snd (decide e h rq body r st))"
  by (simp add: decide_def chain_stage_def forward_stage_def logs_more_effects split: option.split)

lemma resume_logs: "logs_more e st (snd (resume e h rq stg st))"
  by (cases stg) (simp_all add: logs_more_effects decide_logs route_stage_def resolve_stage_def split: sum.split option.split)

subsection \<open>A request ends\<close>

fun stage_rank :: "stage \<Rightarrow> nat" where
  "stage_rank Arrived = 6"
| "stage_rank ReadingBody = 5"
| "stage_rank (AwaitInspect body cid) = 4"
| "stage_rank (GotInspect body cid r) = 3"
| "stage_rank (AwaitForward req) = 2"
| "stage_rank (GotForward r) = 1"
| "stage_rank (Replied out) = 0"

lemma forward_stage_rank: "stage_rank (fst (forward_stage e st rq r body)) \<le> 2"
  by (simp add: forward_stage_def split: option.split)

lemma decide_rank: "stage_rank (fst (decide e h rq body r st)) < 3"
proof -
  have "stage_rank (fst (decide e h rq body r st)) \<le> 2"
    by (simp add: decide_def chain_stage_def forward_stage_rank replied_def split: option.split)
  then show ?thesis by simp
qed

lemma route_stage_rank: "stage_rank (fst (route_stage e h rq body r st)) < 5"
proof -
  have "stage_rank (fst (decide e h rq body r st)) < 5" for r
    using decide_rank[of e h rq body r st] by linarith
  then show ?thesis by (simp add: route_stage_def resolve_stage_def split: option.split)
qed

lemma resume_rank: "stage_rank stg \<noteq> 0 \<Longrightarrow> stage_rank (fst (resume e h rq stg st)) < stage_rank stg"
  by (cases stg) (auto simp: replied_def decide_rank route_stage_rank split: sum.split)

text \<open>A request is sent on at most once: only before it waits for the answer.\<close>

definition pending :: "stage \<Rightarrow> nat" where
  "pending stg = (if 2 \<le> stage_rank stg then 1 else 0)"

lemma resume_pending:
  assumes "stage_ok e h sent rq stg"
  shows "forwards (snd (resume e h rq stg st)) + pending (fst (resume e h rq stg st)) \<le> forwards st + pending stg"
proof -
  have "pending (fst (resume e h rq stg st)) + due stg \<le> pending stg"
  proof (cases "stage_rank stg = 0")
    case True
    then show ?thesis by (cases stg) (simp_all add: pending_def)
  next
    case False
    then show ?thesis
      using resume_rank[OF False, of e h rq st] by (cases stg) (simp_all add: pending_def)
  qed
  then show ?thesis using stage_sends_due[OF assms] by (simp add: forwards_def resume_sent)
qed

end
