(* ===== verification/Listener.thy ===== *)
theory Listener
  imports Transport "HOL-Library.Word"
begin

unbundle bit_operations_syntax

section \<open>The listening socket (main.rs)\<close>

text \<open>
  The start-up half of \<open>src/rs/src/main.rs\<close>: validation of the addresses, the choice of the
  socket's group, the single-instance lock, clearing the socket path, and bind with ownership and
  mode. System calls work on a record \<open>os\<close> (files, umask, locks); each may fail with any
  error (\<open>w_fault\<close>, indexed by the number of calls made before), and \<open>os_hist\<close> records
  the files after every call, so a property can speak of every moment in between. The world
  record holds the process id, its group, the group database and what a connection attempt to a
  socket returns. A fallible operation is a function from \<open>os\<close> to a result and the new
  \<open>os\<close>, and \<open>io_bind\<close> is the \<open>?\<close> operator on them.
\<close>

subsection \<open>The operating system\<close>

datatype file_kind = SocketFile | RegularFile | DirectoryFile | SymlinkFile

type_synonym mode_t = "32 word"

record inode =
  ino_kind :: file_kind
  ino_mode :: mode_t
  ino_gid :: "32 word"

record os =
  os_files :: "string \<Rightarrow> inode option"
  os_umask :: mode_t
  os_locks :: "string \<Rightarrow> nat option"
  os_clock :: nat
  os_hist :: "(string \<Rightarrow> inode option) list"

datatype probe = ConnectOk | ConnectErr io_error | ProbeTimeout | ProbeDisconnected

datatype group_lookup = GroupFound "32 word" | NoGroup | LookupFailed string

record world =
  w_pid :: nat
  w_egid :: "32 word"
  w_fault :: "nat \<Rightarrow> io_error option"
  w_probe :: "nat \<Rightarrow> string \<Rightarrow> probe"
  w_getgrnam :: "string \<Rightarrow> group_lookup"
  w_debug_file_type :: "file_kind \<Rightarrow> string"

type_synonym 'a io = "os \<Rightarrow> (io_error + 'a) \<times> os"

definition io_bind :: "'a io \<Rightarrow> ('a \<Rightarrow> 'b io) \<Rightarrow> 'b io" where
  "io_bind m f s = (case fst (m s) of Inl e \<Rightarrow> (Inl e, snd (m s)) | Inr x \<Rightarrow> f x (snd (m s)))"

definition io_fail :: "io_error \<Rightarrow> 'a io" where
  "io_fail e s = (Inl e, s)"

definition io_ok :: "'a \<Rightarrow> 'a io" where
  "io_ok x s = (Inr x, s)"

definition io_map_err :: "(io_error \<Rightarrow> io_error) \<Rightarrow> 'a io \<Rightarrow> 'a io" where
  "io_map_err f m s = (map_err f (fst (m s)), snd (m s))"

definition tick :: "os \<Rightarrow> os" where
  "tick s = s\<lparr>os_clock := Suc (os_clock s), os_hist := os_hist s @ [os_files s]\<rparr>"

definition syscall :: "world \<Rightarrow> 'a io \<Rightarrow> 'a io" where
  "syscall w op s =
     (case w_fault w (os_clock s) of
        Some e \<Rightarrow> (Inl e, tick s)
      | None \<Rightarrow> (fst (op s), tick (snd (op s))))"

definition EPERM :: int where "EPERM = 1"
definition EWOULDBLOCK :: int where "EWOULDBLOCK = 11"
definition ELOOP :: int where "ELOOP = 40"
definition ECONNREFUSED :: int where "ECONNREFUSED = 111"

definition os_err :: "error_kind \<Rightarrow> int \<Rightarrow> io_error" where
  "os_err k n = \<lparr>io_kind = k, raw_os_error = Some n, io_text = []\<rparr>"

definition sys_open_lock :: "world \<Rightarrow> string \<Rightarrow> mode_t \<Rightarrow> unit io" where
  "sys_open_lock w path mode s =
     (case os_files s path of
        None \<Rightarrow> (Inr (), s\<lparr>os_files := (os_files s)(path := Some
            \<lparr>ino_kind = RegularFile, ino_mode = mode AND NOT (os_umask s), ino_gid = w_egid w\<rparr>)\<rparr>)
      | Some i \<Rightarrow> if ino_kind i = SymlinkFile then (Inl (os_err (OtherKind ''FilesystemLoop'') ELOOP), s)
                  else (Inr (), s))"

definition sys_flock :: "nat \<Rightarrow> string \<Rightarrow> unit io" where
  "sys_flock pid path s =
     (case os_locks s path of
        None \<Rightarrow> (Inr (), s\<lparr>os_locks := (os_locks s)(path := Some pid)\<rparr>)
      | Some _ \<Rightarrow> (Inl (os_err (OtherKind ''WouldBlock'') EWOULDBLOCK), s))"

definition sys_lstat :: "string \<Rightarrow> inode io" where
  "sys_lstat path s = (case os_files s path of None \<Rightarrow> (Inl (os_err NotFound 2), s) | Some i \<Rightarrow> (Inr i, s))"

definition sys_unlink :: "string \<Rightarrow> unit io" where
  "sys_unlink path s =
     (case os_files s path of
        None \<Rightarrow> (Inl (os_err NotFound 2), s)
      | Some _ \<Rightarrow> (Inr (), s\<lparr>os_files := (os_files s)(path := None)\<rparr>))"

definition sys_bind :: "world \<Rightarrow> string \<Rightarrow> unit io" where
  "sys_bind w path s =
     (case os_files s path of
        Some _ \<Rightarrow> (Inl (os_err AddrInUse 98), s)
      | None \<Rightarrow> (Inr (), s\<lparr>os_files := (os_files s)(path := Some
            \<lparr>ino_kind = SocketFile, ino_mode = 511 AND NOT (os_umask s), ino_gid = w_egid w\<rparr>)\<rparr>))"

text \<open>A group of all ones leaves the group as it is.\<close>

definition sys_chown :: "string \<Rightarrow> 32 word \<Rightarrow> unit io" where
  "sys_chown path gid s =
     (case os_files s path of
        None \<Rightarrow> (Inl (os_err NotFound 2), s)
      | Some i \<Rightarrow> (Inr (), s\<lparr>os_files := (os_files s)(path := Some
            (i\<lparr>ino_gid := (if gid = - 1 then ino_gid i else gid)\<rparr>))\<rparr>))"

definition sys_chmod :: "string \<Rightarrow> mode_t \<Rightarrow> unit io" where
  "sys_chmod path mode s =
     (case os_files s path of
        None \<Rightarrow> (Inl (os_err NotFound 2), s)
      | Some i \<Rightarrow> (Inr (), s\<lparr>os_files := (os_files s)(path := Some (i\<lparr>ino_mode := mode\<rparr>))\<rparr>))"

subsection \<open>Constants and options\<close>

definition SOCKET_MODE :: mode_t where "SOCKET_MODE = 432"
definition BIND_UMASK :: mode_t where "BIND_UMASK = 127"
definition LOCK_MODE :: mode_t where "LOCK_MODE = 384"
definition MAX_SOCKET_GID :: "32 word" where "MAX_SOCKET_GID = - 2"

definition DEFAULT_SOCKET_GROUP :: string where
  "DEFAULT_SOCKET_GROUP = ''docker-socket-policy''"

definition validate_listen_socket :: "string \<Rightarrow> check" where
  "validate_listen_socket addr =
     (if addr = [] then Inl ''--listen-socket must not be empty''
      else if list_ex (starts_with addr) [''fd://'', ''tcp://'', ''http://'', ''https://'', ''unix://''] then
        Inl (fmt [''--listen-socket only supports Unix socket paths, got: '', addr])
      else if starts_with addr ''@'' \<or> starts_with addr [CHR 0x00] then
        Inl (fmt [''--listen-socket must be a filesystem path; abstract sockets have no permissions '',
          ''and would be reachable by any process, got: '', addr])
      else if \<not> starts_with addr ''/'' then
        Inl (fmt [''--listen-socket must be an absolute path, got: '', addr])
      else Inr ())"

definition validate_docker_host :: "string \<Rightarrow> check" where
  "validate_docker_host addr =
     (if addr = [] then Inl ''--docker-host must not be empty''
      else if list_ex (starts_with addr) [''tcp://'', ''http://'', ''https://'', ''unix://''] then
        Inl (fmt [''--docker-host only supports Unix socket paths, got: '', addr])
      else Inr ())"

definition gid_in_range :: "32 word option \<Rightarrow> 32 word option" where
  "gid_in_range v = (case v of None \<Rightarrow> None | Some gid \<Rightarrow> if gid \<le> MAX_SOCKET_GID then Some gid else None)"

definition lookup_group :: "world \<Rightarrow> string \<Rightarrow> 32 word res" where
  "lookup_group w g =
     (case w_getgrnam w g of
        LookupFailed err \<Rightarrow> Inl (fmt [''--listen-socket-group '', debug_str g, '': lookup failed: '', err])
      | NoGroup \<Rightarrow> Inl (fmt [''--listen-socket-group '', debug_str g, '': no such group''])
      | GroupFound gid \<Rightarrow> Inr gid)"

definition resolve_group :: "world \<Rightarrow> string \<Rightarrow> 32 word res" where
  "resolve_group w g =
     (if g \<noteq> [] \<and> list_all is_ascii_digit g then
        ok_or (gid_in_range (parse_u32 g))
          (fmt [''--listen-socket-group '', debug_str g, '': gid out of range (0-'',
             dec_nat (unat MAX_SOCKET_GID), '')''])
      else if List.member g (CHR 0x00) then
        Inl (fmt [''--listen-socket-group '', debug_str g, '': contains a NUL byte''])
      else lookup_group w g)"

definition select_socket_group ::
  "string option \<Rightarrow> (string \<Rightarrow> 32 word res) \<Rightarrow> 32 word \<Rightarrow> (32 word \<times> string option) res" where
  "select_socket_group flag lookup egid =
     (case flag of
        None \<Rightarrow> (case lookup DEFAULT_SOCKET_GROUP of
            Inr gid \<Rightarrow> Inr (gid, None)
          | Inl _ \<Rightarrow> Inr (egid, Some (fmt [''group '', DEFAULT_SOCKET_GROUP,
              '' not found, using the proxy's own group '', dec_nat (unat egid)])))
      | Some g \<Rightarrow> if g = [] then Inr (egid, None) else res_bind (lookup g) (\<lambda>gid. Inr (gid, None)))"

subsection \<open>The single-instance lock\<close>

definition lock_path :: "string \<Rightarrow> string" where
  "lock_path socket_path = socket_path @ ''.lock''"

definition lock_error :: "string \<Rightarrow> io_error \<Rightarrow> io_error" where
  "lock_error socket_path e =
     (if raw_os_error e = Some EWOULDBLOCK then
        new_io_error AddrInUse (fmt [socket_path, '' is in use by another instance (lock '',
          lock_path socket_path, '' held)''])
      else new_io_error (io_kind e) (fmt [''locking '', lock_path socket_path, '': '', io_text e]))"

definition open_lock :: "world \<Rightarrow> string \<Rightarrow> unit io" where
  "open_lock w socket_path =
     io_map_err (\<lambda>e. new_io_error (io_kind e) (fmt [''opening lock '', lock_path socket_path, '': '', io_text e]))
       (syscall w (sys_open_lock w (lock_path socket_path) LOCK_MODE))"

definition take_lock :: "world \<Rightarrow> string \<Rightarrow> unit io" where
  "take_lock w socket_path =
     io_map_err (lock_error socket_path) (syscall w (sys_flock (w_pid w) (lock_path socket_path)))"

definition acquire_instance_lock :: "world \<Rightarrow> string \<Rightarrow> unit io" where
  "acquire_instance_lock w socket_path = io_bind (open_lock w socket_path) (\<lambda>_. take_lock w socket_path)"

text \<open>Dropping the file releases the lock.\<close>

definition release_lock :: "world \<Rightarrow> string \<Rightarrow> os \<Rightarrow> os" where
  "release_lock w socket_path s =
     (if os_locks s (lock_path socket_path) = Some (w_pid w)
      then s\<lparr>os_locks := (os_locks s)(lock_path socket_path := None)\<rparr> else s)"

subsection \<open>Clearing the socket path\<close>

definition check_probe :: "string \<Rightarrow> probe \<Rightarrow> unit io" where
  "check_probe path r =
     (case r of
        ConnectOk \<Rightarrow> io_fail (new_io_error AddrInUse (fmt [path, '' is in use by another process'']))
      | ProbeTimeout \<Rightarrow> io_fail (new_io_error AddrInUse (fmt [path, '' is in use by another process'']))
      | ConnectErr e \<Rightarrow>
          if raw_os_error e = Some ECONNREFUSED then io_ok ()
          else io_fail (new_io_error (io_kind e) (fmt [''refusing to remove '', path, '': connect: '', io_text e]))
      | ProbeDisconnected \<Rightarrow>
          io_fail (new_io_error (OtherKind ''Other'')
            (fmt [''refusing to remove '', path, '': connect probe did not complete''])))"

definition remove_stale :: "world \<Rightarrow> string \<Rightarrow> unit io" where
  "remove_stale w path =
     io_map_err (\<lambda>e. new_io_error (io_kind e) (fmt [''removing stale socket '', path, '': '', io_text e]))
       (syscall w (sys_unlink path))"

definition not_a_socket :: "world \<Rightarrow> string \<Rightarrow> inode \<Rightarrow> io_error" where
  "not_a_socket w path i = new_io_error AlreadyExists (fmt [''refusing to remove '', path, '': not a socket ('',
     w_debug_file_type w (ino_kind i), '')''])"

definition clear_existing :: "world \<Rightarrow> string \<Rightarrow> inode \<Rightarrow> unit io" where
  "clear_existing w path i s =
     (if ino_kind i \<noteq> SocketFile then io_fail (not_a_socket w path i) s
      else io_bind (check_probe path (w_probe w (os_clock s) path)) (\<lambda>_. remove_stale w path) s)"

definition lstat_error :: "string \<Rightarrow> io_error \<Rightarrow> io_error" where
  "lstat_error path e = new_io_error (io_kind e) (fmt [''checking '', path, '': '', io_text e])"

definition after_lstat :: "world \<Rightarrow> string \<Rightarrow> io_error + inode \<Rightarrow> unit io" where
  "after_lstat w path r =
     (case r of
        Inr i \<Rightarrow> clear_existing w path i
      | Inl e \<Rightarrow> if io_kind e = NotFound then io_ok () else io_fail (lstat_error path e))"

definition prepare_socket_path :: "world \<Rightarrow> string \<Rightarrow> unit io" where
  "prepare_socket_path w path s =
     after_lstat w path (fst (syscall w (sys_lstat path) s)) (snd (syscall w (sys_lstat path) s))"

subsection \<open>Bind, ownership and mode\<close>

definition chown_error :: "string \<Rightarrow> 32 word \<Rightarrow> io_error \<Rightarrow> io_error" where
  "chown_error addr gid e =
     (if raw_os_error e = Some EPERM then
        new_io_error (io_kind e) (fmt [''cannot give '', addr, '' to group '', dec_nat (unat gid),
          '': the proxy's user must be a member of it (SupplementaryGroups= / group_add:)''])
      else new_io_error (io_kind e) (fmt [''setting group on '', addr, '': '', io_text e]))"

definition set_group :: "world \<Rightarrow> string \<Rightarrow> 32 word option \<Rightarrow> unit io" where
  "set_group w addr gid =
     (case gid of
        None \<Rightarrow> io_ok ()
      | Some g \<Rightarrow> io_map_err (chown_error addr g) (syscall w (sys_chown addr g)))"

definition set_mode :: "world \<Rightarrow> string \<Rightarrow> unit io" where
  "set_mode w addr =
     io_map_err (\<lambda>e. new_io_error (io_kind e) (fmt [''setting mode on '', addr, '': '', io_text e]))
       (syscall w (sys_chmod addr SOCKET_MODE))"

definition set_socket_ownership_and_mode :: "world \<Rightarrow> string \<Rightarrow> 32 word option \<Rightarrow> unit io" where
  "set_socket_ownership_and_mode w addr gid = io_bind (set_group w addr gid) (\<lambda>_. set_mode w addr)"

definition restore_umask :: "mode_t \<Rightarrow> 'r \<times> os \<Rightarrow> 'r \<times> os" where
  "restore_umask previous rs = (fst rs, (snd rs)\<lparr>os_umask := previous\<rparr>)"

definition bind_masked :: "world \<Rightarrow> string \<Rightarrow> unit io" where
  "bind_masked w addr s = restore_umask (os_umask s) (syscall w (sys_bind w addr) (s\<lparr>os_umask := BIND_UMASK\<rparr>))"

definition undo_bind :: "world \<Rightarrow> string \<Rightarrow> (io_error + unit) \<times> os \<Rightarrow> (io_error + unit) \<times> os" where
  "undo_bind w addr rs =
     (case fst rs of
        Inl e \<Rightarrow> (Inl e, snd (syscall w (sys_unlink addr) (snd rs)))
      | Inr _ \<Rightarrow> rs)"

definition bind_unix_listener :: "world \<Rightarrow> string \<Rightarrow> 32 word option \<Rightarrow> unit io" where
  "bind_unix_listener w addr gid =
     io_bind (bind_masked w addr) (\<lambda>_ s. undo_bind w addr (set_socket_ownership_and_mode w addr gid s))"

definition drop_lock_on_error :: "world \<Rightarrow> string \<Rightarrow> (io_error + unit) \<times> os \<Rightarrow> (io_error + unit) \<times> os" where
  "drop_lock_on_error w addr rs =
     (case fst rs of Inl e \<Rightarrow> (Inl e, release_lock w addr (snd rs)) | Inr _ \<Rightarrow> rs)"

definition open_listener :: "world \<Rightarrow> string \<Rightarrow> 32 word option \<Rightarrow> unit io" where
  "open_listener w addr gid =
     io_bind (acquire_instance_lock w addr) (\<lambda>_ s.
       drop_lock_on_error w addr
         (io_bind (prepare_socket_path w addr) (\<lambda>_. bind_unix_listener w addr gid) s))"

definition unlink_listen_socket :: "world \<Rightarrow> string \<Rightarrow> os \<Rightarrow> os" where
  "unlink_listen_socket w addr s = snd (syscall w (sys_unlink addr) s)"

subsection \<open>Options\<close>

lemma validate_listen_socket_ok: "validate_listen_socket addr = Inr u \<longleftrightarrow> starts_with addr ''/''"
  by (cases addr) (auto simp: validate_listen_socket_def)

lemma unat_top: "unat (- 1 :: 32 word) = 4294967295" "unat (- 2 :: 32 word) = 4294967294"
  by (simp_all add: unsigned_minus_1_eq_mask mask_eq_exp_minus_1)

lemma word_eq_unat: "(a :: 32 word) = b \<longleftrightarrow> unat a = unat b"
  by (rule word_unat_eq_iff)

lemma gid_in_range_Some: "gid_in_range v = Some gid \<longleftrightarrow> v = Some gid \<and> gid \<noteq> - 1"
proof -
  have "gid \<le> MAX_SOCKET_GID \<longleftrightarrow> gid \<noteq> - 1" for gid
    using unsigned_less[of gid, where ?'a = nat]
    unfolding MAX_SOCKET_GID_def word_le_nat_alt word_eq_unat unat_top by simp linarith
  then show ?thesis by (auto simp: gid_in_range_def split: option.splits if_splits)
qed

lemma resolve_group_numeric:
  assumes "all_digits g"
  shows "resolve_group w g = Inr gid \<longleftrightarrow> dec_value g < 2 ^ 32 - 1 \<and> gid = of_nat (dec_value g)"
proof -
  have m: "of_nat n = (- 1 :: 32 word) \<longleftrightarrow> n = 2 ^ 32 - 1" if "n < 2 ^ 32" for n
    using that unfolding word_eq_unat unat_top by (simp add: unat_of_nat)
  have d: "g \<noteq> [] \<and> list_all is_ascii_digit g" using assms by (auto simp: all_digits_def list_all_iff)
  have "resolve_group w g = Inr gid \<longleftrightarrow> parse_u32 g = Some gid \<and> gid \<noteq> - 1"
    using d by (simp add: resolve_group_def gid_in_range_Some)
  also have "\<dots> \<longleftrightarrow> dec_value g < 2 ^ 32 \<and> dec_value g \<noteq> 2 ^ 32 - 1 \<and> gid = of_nat (dec_value g)"
    using m[of "dec_value g"] by (auto simp: parse_u32_digits[OF assms])
  finally show ?thesis by auto
qed

lemma select_socket_group_cases:
  "select_socket_group flag lookup egid = Inr (gid, warning) \<longleftrightarrow>
     (case flag of
        None \<Rightarrow> (lookup DEFAULT_SOCKET_GROUP = Inr gid \<and> warning = None) \<or>
          ((\<exists>e. lookup DEFAULT_SOCKET_GROUP = Inl e) \<and> gid = egid \<and> warning \<noteq> None \<and>
             warning = Some (fmt [''group '', DEFAULT_SOCKET_GROUP, '' not found, using the proxy's own group '',
               dec_nat (unat egid)]))
      | Some g \<Rightarrow> warning = None \<and> (if g = [] then gid = egid else lookup g = Inr gid))"
  by (auto simp: select_socket_group_def split: option.splits sum.splits)

subsection \<open>Moments\<close>

text \<open>\<open>grows P s s'\<close>: the files at every moment between \<open>s\<close> and \<open>s'\<close> satisfy \<open>P\<close>.\<close>

definition grows :: "((string \<Rightarrow> inode option) \<Rightarrow> bool) \<Rightarrow> os \<Rightarrow> os \<Rightarrow> bool" where
  "grows P s s' \<longleftrightarrow> (\<exists>fs. os_hist s' = os_hist s @ fs \<and> (\<forall>f\<in>set fs. P f))"

lemma grows_refl: "os_hist s' = os_hist s \<Longrightarrow> grows P s s'"
  by (simp add: grows_def)

lemma grows_trans: "grows P s s' \<Longrightarrow> grows P s' s'' \<Longrightarrow> grows P s s''"
  by (fastforce simp: grows_def)

text \<open>At the socket's path: what was there before, nothing, or a socket in a safe state.\<close>

definition socket_safe :: "32 word \<Rightarrow> inode \<Rightarrow> bool" where
  "socket_safe gid i \<longleftrightarrow> ino_kind i = SocketFile \<and>
     (ino_mode i = 384 \<or> (ino_mode i = SOCKET_MODE \<and> ino_gid i = gid))"

definition path_moment :: "string \<Rightarrow> inode option \<Rightarrow> 32 word \<Rightarrow> (string \<Rightarrow> inode option) \<Rightarrow> bool" where
  "path_moment addr before gid f \<longleftrightarrow> f addr = before \<or> f addr = None \<or> (\<exists>i. f addr = Some i \<and> socket_safe gid i)"

lemmas io_defs = io_bind_def io_fail_def io_ok_def io_map_err_def syscall_def tick_def map_err_def

lemmas bind_defs = bind_unix_listener_def bind_masked_def restore_umask_def undo_bind_def
  set_socket_ownership_and_mode_def set_group_def set_mode_def sys_bind_def sys_chown_def sys_chmod_def sys_unlink_def

lemmas prepare_defs = prepare_socket_path_def after_lstat_def clear_existing_def check_probe_def remove_stale_def
  sys_lstat_def sys_unlink_def

lemma bind_mode: "(511 :: mode_t) AND NOT BIND_UMASK = 384"
  by (simp add: BIND_UMASK_def)

lemma bind_ok:
  assumes "bind_unix_listener w addr (Some gid) s = (Inr (), s')" "gid \<noteq> - 1"
  shows "os_files s' = (os_files s)(addr \<mapsto> \<lparr>ino_kind = SocketFile, ino_mode = SOCKET_MODE, ino_gid = gid\<rparr>)"
    and "os_files s addr = None"
  using assms by (auto simp: io_defs bind_defs split: option.splits sum.splits if_splits)

lemma bind_frame:
  assumes "bind_unix_listener w addr gid s = (r, s')"
  shows "os_umask s' = os_umask s" and "os_locks s' = os_locks s" and "q \<noteq> addr \<Longrightarrow> os_files s' q = os_files s q"
  using assms by (auto simp: io_defs bind_defs split: option.splits sum.splits if_splits)

lemma bind_moments:
  assumes "bind_unix_listener w addr (Some gid) s = (r, s')" "gid \<noteq> - 1"
  shows "grows (path_moment addr (os_files s addr) gid) s s'"
  using assms
  by (auto simp: io_defs bind_defs grows_def path_moment_def socket_safe_def bind_mode split: option.splits sum.splits if_splits)

lemma prepare_frame:
  assumes "prepare_socket_path w addr s = (r, s')"
  shows "os_umask s' = os_umask s" and "os_locks s' = os_locks s" and "q \<noteq> addr \<Longrightarrow> os_files s' q = os_files s q"
  using assms by (auto simp: io_defs prepare_defs split: option.splits sum.splits if_splits probe.splits)

lemma prepare_removes:
  assumes "prepare_socket_path w addr s = (r, s')" "os_files s' addr \<noteq> os_files s addr"
  shows "os_files s' addr = None \<and> (\<exists>i e t. os_files s addr = Some i \<and> ino_kind i = SocketFile \<and>
    w_probe w t addr = ConnectErr e \<and> raw_os_error e = Some ECONNREFUSED)"
  using assms by (auto simp: io_defs prepare_defs split: option.splits sum.splits if_splits probe.splits)

lemma prepare_moments:
  assumes "prepare_socket_path w addr s = (r, s')"
  shows "grows (\<lambda>f. f addr = os_files s addr \<or> f addr = None) s s'"
  using assms by (auto simp: io_defs prepare_defs grows_def split: option.splits sum.splits if_splits probe.splits)

lemma lock_path_neq [simp]: "addr \<noteq> lock_path addr" "lock_path addr \<noteq> addr"
  by (simp_all add: lock_path_def)

lemma acquire_frame:
  assumes "acquire_instance_lock w addr s = (r, s')"
  shows "os_umask s' = os_umask s" and "q \<noteq> lock_path addr \<Longrightarrow> os_files s' q = os_files s q"
    and "grows (\<lambda>f. f addr = os_files s addr) s s'"
    and "r = Inr () \<Longrightarrow> os_locks s (lock_path addr) = None \<and> os_locks s' = (os_locks s)(lock_path addr \<mapsto> w_pid w)"
    and "r = Inl e \<Longrightarrow> os_locks s' = os_locks s"
  using assms by (auto simp: io_defs acquire_instance_lock_def open_lock_def take_lock_def sys_open_lock_def sys_flock_def grows_def
      split: option.splits sum.splits if_splits)

subsection \<open>Opening the listener\<close>

lemma io_bind_cases:
  assumes "io_bind m f s = (r, s')"
  obtains (error) e where "m s = (Inl e, s')" "r = Inl e"
  | (ok) x s1 where "m s = (Inr x, s1)" "f x s1 = (r, s')"
  using assms by (cases "m s"; cases "fst (m s)") (auto simp: io_bind_def)

lemma open_listener_cases:
  assumes "open_listener w addr gid s = (r, s')"
  obtains (locked) e where "acquire_instance_lock w addr s = (Inl e, s')" "r = Inl e"
  | (unprepared) e s1 s2 where "acquire_instance_lock w addr s = (Inr (), s1)"
      "prepare_socket_path w addr s1 = (Inl e, s2)" "r = Inl e" "s' = release_lock w addr s2"
  | (unbound) e s1 s2 s3 where "acquire_instance_lock w addr s = (Inr (), s1)"
      "prepare_socket_path w addr s1 = (Inr (), s2)" "bind_unix_listener w addr gid s2 = (Inl e, s3)"
      "r = Inl e" "s' = release_lock w addr s3"
  | (bound) s1 s2 where "acquire_instance_lock w addr s = (Inr (), s1)"
      "prepare_socket_path w addr s1 = (Inr (), s2)" "bind_unix_listener w addr gid s2 = (Inr (), s')" "r = Inr ()"
  using assms unfolding open_listener_def
proof (cases rule: io_bind_cases)
  case (error e)
  with locked show ?thesis by simp
next
  case (ok u s1)
  then have acq: "acquire_instance_lock w addr s = (Inr (), s1)" by simp
  define rs where "rs = io_bind (prepare_socket_path w addr) (\<lambda>_. bind_unix_listener w addr gid) s1"
  have d: "drop_lock_on_error w addr rs = (r, s')" using ok(2) by (simp add: rs_def)
  obtain r2 s2 where rs: "io_bind (prepare_socket_path w addr) (\<lambda>_. bind_unix_listener w addr gid) s1 = (r2, s2)"
    by fastforce
  then show ?thesis
  proof (cases rule: io_bind_cases)
    case (error e)
    then have "r = Inl e" "s' = release_lock w addr s2"
      using d rs by (auto simp: rs_def drop_lock_on_error_def)
    with error ok unprepared show ?thesis by simp
  next
    case (ok u2 s3)
    then have p: "prepare_socket_path w addr s1 = (Inr (), s3)" "bind_unix_listener w addr gid s3 = (r2, s2)"
      by simp_all
    show ?thesis
    proof (cases r2)
      case (Inl e)
      then have "r = Inl e" "s' = release_lock w addr s2"
        using d rs by (auto simp: rs_def drop_lock_on_error_def)
      with p Inl acq show ?thesis by (intro unbound) auto
    next
      case (Inr u3)
      then have "r = Inr ()" "s' = s2"
        using d rs by (auto simp: rs_def drop_lock_on_error_def)
      with p Inr acq show ?thesis by (intro bound) auto
    qed
  qed
qed

lemma open_success:
  assumes "open_listener w addr (Some gid) s = (Inr (), s')" "gid \<noteq> - 1"
  shows "os_locks s (lock_path addr) = None" and "os_locks s' = (os_locks s)(lock_path addr \<mapsto> w_pid w)"
    and "os_files s' addr = Some \<lparr>ino_kind = SocketFile, ino_mode = SOCKET_MODE, ino_gid = gid\<rparr>"
proof -
  from assms(1) obtain s1 s2 where s: "acquire_instance_lock w addr s = (Inr (), s1)"
    "prepare_socket_path w addr s1 = (Inr (), s2)" "bind_unix_listener w addr (Some gid) s2 = (Inr (), s')"
    by (cases rule: open_listener_cases) auto
  show "os_locks s (lock_path addr) = None"
    using acquire_frame(4)[OF s(1)] by simp
  show "os_locks s' = (os_locks s)(lock_path addr \<mapsto> w_pid w)"
    using acquire_frame(4)[OF s(1)] prepare_frame(2)[OF s(2)] bind_frame(2)[OF s(3)] by simp
  show "os_files s' addr = Some \<lparr>ino_kind = SocketFile, ino_mode = SOCKET_MODE, ino_gid = gid\<rparr>"
    using bind_ok(1)[OF s(3) assms(2)] by simp
qed

lemma release_lock_frame:
  "os_files (release_lock w addr s) = os_files s" "os_umask (release_lock w addr s) = os_umask s"
  "os_hist (release_lock w addr s) = os_hist s"
  by (simp_all add: release_lock_def)

lemma release_after_acquire:
  assumes "acquire_instance_lock w addr s = (Inr (), s1)" "os_locks s2 = os_locks s1"
  shows "os_locks (release_lock w addr s2) = os_locks s"
  using acquire_frame(4)[OF assms(1)] assms(2) by (auto simp: release_lock_def fun_eq_iff)

lemma open_error_locks:
  assumes "open_listener w addr gid s = (Inl e, s')"
  shows "os_locks s' = os_locks s"
  using assms
proof (cases rule: open_listener_cases)
  case (locked e)
  then show ?thesis by (intro acquire_frame(5)) auto
next
  case (unprepared e s1 s2)
  then show ?thesis using prepare_frame(2)[OF unprepared(2)] by (simp add: release_after_acquire)
next
  case (unbound e s1 s2 s3)
  then show ?thesis
    using prepare_frame(2)[OF unbound(2)] bind_frame(2)[OF unbound(3)] by (simp add: release_after_acquire)
qed simp

lemma open_frame:
  assumes "open_listener w addr gid s = (r, s')"
  shows "os_umask s' = os_umask s" and "q \<noteq> addr \<Longrightarrow> q \<noteq> lock_path addr \<Longrightarrow> os_files s' q = os_files s q"
proof -
  show "os_umask s' = os_umask s"
    using assms by (cases rule: open_listener_cases)
      (metis acquire_frame(1) prepare_frame(1) bind_frame(1) release_lock_frame(2))+
  show "os_files s' q = os_files s q" if "q \<noteq> addr" "q \<noteq> lock_path addr"
    using assms by (cases rule: open_listener_cases)
      (metis that acquire_frame(2) prepare_frame(3) bind_frame(3) release_lock_frame(1))+
qed

text \<open>A path whose lock is held by any process is left alone.\<close>

lemma open_locked:
  assumes "open_listener w addr gid s = (r, s')" "os_locks s (lock_path addr) \<noteq> None"
  shows "(\<exists>e. r = Inl e) \<and> os_locks s' = os_locks s \<and> (\<forall>q. q \<noteq> lock_path addr \<longrightarrow> os_files s' q = os_files s q)"
  using assms(1)
proof (cases rule: open_listener_cases)
  case (locked e)
  then show ?thesis using acquire_frame(2,5)[OF locked(1)] by auto
qed (use assms(2) acquire_frame(4) in auto)

lemma grows_weaken: "grows P s s' \<Longrightarrow> (\<And>f. P f \<Longrightarrow> Q f) \<Longrightarrow> grows Q s s'"
  by (auto simp: grows_def)

lemma open_moments:
  assumes "open_listener w addr (Some gid) s = (r, s')" "gid \<noteq> - 1"
  shows "grows (path_moment addr (os_files s addr) gid) s s'"
    (is "grows ?Q s s'")
proof -
  have acq: "grows ?Q s s1 \<and> os_files s1 addr = os_files s addr" if "acquire_instance_lock w addr s = (x, s1)" for x s1
    using acquire_frame(3)[OF that] acquire_frame(2)[OF that, of addr]
    by (auto simp: path_moment_def elim!: grows_weaken)
  have prep: "grows ?Q s1 s2 \<and> (os_files s2 addr = os_files s addr \<or> os_files s2 addr = None)"
    if "os_files s1 addr = os_files s addr" "prepare_socket_path w addr s1 = (x, s2)" for s1 x s2
  proof
    show "grows ?Q s1 s2"
      by (rule grows_weaken [OF prepare_moments[OF that(2)]]) (auto simp: path_moment_def that(1))
    show "os_files s2 addr = os_files s addr \<or> os_files s2 addr = None"
      using prepare_removes[OF that(2)] that(1) by (cases "os_files s2 addr = os_files s1 addr") auto
  qed
  have bnd: "grows ?Q s2 s3"
    if "os_files s2 addr = os_files s addr \<or> os_files s2 addr = None"
      "bind_unix_listener w addr (Some gid) s2 = (x, s3)" for s2 x s3
    by (rule grows_weaken [OF bind_moments[OF that(2) assms(2)]]) (use that(1) in \<open>auto simp: path_moment_def\<close>)
  have rel: "grows ?Q s2 (release_lock w addr s2)" for s2
    by (rule grows_refl) (simp add: release_lock_frame)
  from assms(1) show ?thesis
  proof (cases rule: open_listener_cases)
    case (locked e)
    then show ?thesis using acq by blast
  next
    case (unprepared e s1 s2)
    then show ?thesis using acq[of "Inr ()" s1] prep[of s1 _ s2] rel grows_trans by metis
  next
    case (unbound e s1 s2 s3)
    then show ?thesis using acq[of "Inr ()" s1] prep[of s1 _ s2] bnd[of s2 _ s3] rel grows_trans by metis
  next
    case (bound s1 s2)
    then show ?thesis using acq[of "Inr ()" s1] prep[of s1 _ s2] bnd[of s2 _ s'] grows_trans by metis
  qed
qed

end
