(* ===== verification/Runs.thy ===== *)
theory Runs
  imports Main
begin

section \<open>Runs of labelled step relations\<close>

text \<open>
  The server and the starting instances of the proxy are both labelled step relations. Their runs are
  one relation, \<open>runs\<close>, and what is proved step by step is carried over to runs once: an invariant
  (\<open>keeps_invariant\<close>), a function that executes the steps (\<open>executable\<close>), a simulation of
  an abstract machine (\<open>simulation\<close>), and a bound on the steps of a run (\<open>potential\<close>).
\<close>

inductive runs :: "('s \<Rightarrow> 'l \<Rightarrow> 's \<Rightarrow> bool) \<Rightarrow> 's \<Rightarrow> 'l list \<Rightarrow> 's \<Rightarrow> bool" for stp where
  runs_nil: "runs stp s [] s"
| runs_cons: "stp s l s' \<Longrightarrow> runs stp s' ls s'' \<Longrightarrow> runs stp s (l # ls) s''"

inductive_simps runs_Nil_iff: "runs stp s [] s'"
inductive_simps runs_Cons_iff: "runs stp s (l # ls) s'"

lemma runs_append: "runs stp s ls s' \<Longrightarrow> runs stp s' ls' s'' \<Longrightarrow> runs stp s (ls @ ls') s''"
  by (induction rule: runs.induct) (auto intro: runs.intros)

lemma runs_one: "stp s l s' \<Longrightarrow> runs stp s [l] s'"
  by (auto intro: runs.intros)

lemma runs_invariant:
  assumes "runs stp s ls s'" "I s" "\<And>s l s'. stp s l s' \<Longrightarrow> l \<in> set ls \<Longrightarrow> I s \<Longrightarrow> I s'"
  shows "I s'"
  using assms by (induction rule: runs.induct) auto

lemma sum_list_count: "(\<Sum>l\<leftarrow>ls. if l = x then 1 else 0) = count_list ls x"
  by (induction ls) simp_all

primrec exec_run :: "('s \<Rightarrow> 'l \<Rightarrow> 's option) \<Rightarrow> 's \<Rightarrow> 'l list \<Rightarrow> 's option" where
  "exec_run f s [] = Some s"
| "exec_run f s (l # ls) = Option.bind (f s l) (\<lambda>s'. exec_run f s' ls)"

locale keeps_invariant =
  fixes stp :: "'s \<Rightarrow> 'l \<Rightarrow> 's \<Rightarrow> bool" and inv :: "'s \<Rightarrow> bool"
  assumes inv_step: "stp s l s' \<Longrightarrow> inv s \<Longrightarrow> inv s'"
begin

lemma inv_run: "runs stp s ls s' \<Longrightarrow> inv s \<Longrightarrow> inv s'"
  by (erule runs_invariant) (auto intro: inv_step)

end

text \<open>Where the invariant holds, a label determines the step, and a function computes it.\<close>

locale executable = keeps_invariant +
  fixes exec :: "'a \<Rightarrow> 'b \<Rightarrow> 'a option"
  assumes exec_iff: "inv s \<Longrightarrow> exec s l = Some s' \<longleftrightarrow> stp s l s'"
begin

lemma exec_run_iff: "inv s \<Longrightarrow> exec_run exec s ls = Some s' \<longleftrightarrow> runs stp s ls s'"
proof (induction ls arbitrary: s)
  case Nil
  then show ?case by (auto simp: runs_Nil_iff)
next
  case (Cons l ls)
  then show ?case using inv_step[of s l] by (auto simp: runs_Cons_iff exec_iff bind_eq_Some_conv)
qed

end

text \<open>Every step is one of an abstract machine.\<close>

locale simulation = keeps_invariant +
  fixes astep :: "'c \<Rightarrow> 'd \<Rightarrow> 'c \<Rightarrow> bool" and abs :: "'a \<Rightarrow> 'c"
  assumes simulates: "stp s l s' \<Longrightarrow> inv s \<Longrightarrow> \<exists>m. astep (abs s) m (abs s')"
begin

lemma run_simulates: "runs stp s ls s' \<Longrightarrow> inv s \<Longrightarrow> \<exists>ms. length ms = length ls \<and> runs astep (abs s) ms (abs s')"
proof (induction rule: runs.induct)
  case (runs_nil s)
  then show ?case by (auto intro: runs.intros)
next
  case (runs_cons s l s' ls s'')
  then obtain ms where ms: "length ms = length ls" "runs astep (abs s') ms (abs s'')" by (blast intro: inv_step)
  obtain m where "astep (abs s) m (abs s')" using simulates runs_cons by blast
  with ms show ?case by (intro exI [of _ "m # ms"]) (auto intro: runs.intros)
qed

end

text \<open>The work of each step is paid for by the potential of the state and by what the label brings in.\<close>

locale potential = keeps_invariant +
  fixes pot :: "'a \<Rightarrow> nat" and work credit :: "'b \<Rightarrow> nat"
  assumes pays: "stp s l s' \<Longrightarrow> inv s \<Longrightarrow> pot s' + work l \<le> pot s + credit l"
begin

lemma run_pays: "runs stp s ls s' \<Longrightarrow> inv s \<Longrightarrow> pot s' + (\<Sum>l\<leftarrow>ls. work l) \<le> pot s + (\<Sum>l\<leftarrow>ls. credit l)"
proof (induction rule: runs.induct)
  case (runs_cons s l s' ls s'')
  then show ?case using pays[of s l s'] inv_step[of s l s'] by fastforce
qed simp

end

end
