(* ===== verification/Server.thy ===== *)
theory Server
  imports Stages Listener Runs
begin

section \<open>Start-up, connections and shutdown (main.rs)\<close>

text \<open>
  \<open>main\<close> up to the open listener is the function \<open>start\<close>. The accept loop, the
  connections and the shutdown are a labelled step relation: the tasks of the runtime interleave
  freely, and a label says which of them moved. A connection is idle or serves one request, which
  stands at a stage of the handler (\<open>cn_busy\<close>); each stage is a step, so requests of different
  connections interleave at every \<open>await\<close>, and a connection whose client goes away, or that the
  deadline abandons, drops its request where it stands. \<open>cn_told\<close> is a message waiting in its broadcast receiver, which it has only
  if it was subscribed when the signal was sent; \<open>cn_graceful\<close> is set once it has started its
  graceful shutdown, after which it reads no further request.
\<close>

subsection \<open>Start-up\<close>

record cli =
  listen_socket :: string
  docker_host :: string
  config_dir :: string
  log_file :: string
  cli_readonly :: bool
  listen_socket_group :: "string option"

definition default_cli :: cli where
  "default_cli = \<lparr>listen_socket = ''/var/run/docker-socket-policy.sock'', docker_host = ''/var/run/docker.sock'',
     config_dir = ''/etc/docker-socket-policy/services'', log_file = ''/var/log/docker-socket-policy.log'',
     cli_readonly = False, listen_socket_group = None\<rparr>"

record host =
  ho_world :: world
  ho_yaml :: yaml_loader
  ho_config :: config_fs
  ho_audit :: audit_env
  ho_docker :: "http_request list \<Rightarrow> docker_socket"
  ho_sigterm_error :: "io_error option"

datatype startup = Exited nat | StartPanic | Running handler handler_state

text \<open>
  Opening the log creates the file where there is none (\<open>create(true)\<close>); a failed open creates
  nothing. The path is taken as resolved: a symbolic link stands for its target.
\<close>

definition create_log :: "world \<Rightarrow> string \<Rightarrow> os \<Rightarrow> os" where
  "create_log w path s =
     (case os_files s path of
        Some _ \<Rightarrow> s
      | None \<Rightarrow> s\<lparr>os_files := (os_files s)(path := Some
          \<lparr>ino_kind = RegularFile, ino_mode = 438 AND NOT (os_umask s), ino_gid = w_egid w\<rparr>)\<rparr>)"

definition open_audit :: "world \<Rightarrow> audit_env \<Rightarrow> string \<Rightarrow> os \<Rightarrow> audit_log option \<times> os" where
  "open_audit w v path s =
     (case audit_open v path of
        Inr l \<Rightarrow> (Some l, create_log w path s)
      | Inl _ \<Rightarrow> (case audit_nop v of
            Some l \<Rightarrow> (Some l, create_log w ''/dev/null'' s)
          | None \<Rightarrow> (None, s)))"

definition start_handler :: "host \<Rightarrow> cli \<Rightarrow> manager \<Rightarrow> handler" where
  "start_handler ho c m = new_handler (with_readonly (new_router m) (cli_readonly c)) chain_new
     (unix_socket_transport (ho_docker ho) (docker_host c))"

definition start_listener :: "host \<Rightarrow> cli \<Rightarrow> 32 word \<Rightarrow> handler \<Rightarrow> audit_log \<Rightarrow> os \<Rightarrow> startup \<times> os" where
  "start_listener ho c gid h l s =
     (if ho_sigterm_error ho \<noteq> None then (Exited 1, s)
      else (case fst (open_listener (ho_world ho) (listen_socket c) (Some gid) s) of
          Inl _ \<Rightarrow> (Exited 1, snd (open_listener (ho_world ho) (listen_socket c) (Some gid) s))
        | Inr _ \<Rightarrow> (Running h \<lparr>hs_audit = l, hs_sent = []\<rparr>,
            snd (open_listener (ho_world ho) (listen_socket c) (Some gid) s))))"

definition start_proxy :: "host \<Rightarrow> cli \<Rightarrow> 32 word \<Rightarrow> os \<Rightarrow> startup \<times> os" where
  "start_proxy ho c gid s =
     (case new_manager (ho_yaml ho) (ho_config ho) (config_dir c) of
        Inl _ \<Rightarrow> (Exited 1, s)
      | Inr m \<Rightarrow> (case fst (open_audit (ho_world ho) (ho_audit ho) (log_file c) s) of
            None \<Rightarrow> (StartPanic, s)
          | Some l \<Rightarrow> start_listener ho c gid (start_handler ho c m) l
              (snd (open_audit (ho_world ho) (ho_audit ho) (log_file c) s))))"

definition start :: "host \<Rightarrow> cli \<Rightarrow> os \<Rightarrow> startup \<times> os" where
  "start ho c s =
     (if \<not> isl (validate_listen_socket (listen_socket c)) \<and> \<not> isl (validate_docker_host (docker_host c)) then
        (case select_socket_group (listen_socket_group c) (resolve_group (ho_world ho)) (w_egid (ho_world ho)) of
           Inl _ \<Rightarrow> (Exited 2, s)
         | Inr gw \<Rightarrow> start_proxy ho c (fst gw) s)
      else (Exited 2, s))"

subsection \<open>Serving\<close>

record connection =
  cn_id :: nat
  cn_told :: bool
  cn_busy :: "(incoming \<times> stage) option"
  cn_graceful :: bool

datatype phase = Accepting | Draining | Finished

record server =
  sv_phase :: phase
  sv_conns :: "connection list"
  sv_pending :: bool
  sv_handler :: handler_state
  sv_os :: os
  sv_next :: nat

record server_env =
  se_env :: handler_env
  se_handler :: handler
  se_world :: world
  se_addr :: string

definition new_connection :: "nat \<Rightarrow> connection" where
  "new_connection i = \<lparr>cn_id = i, cn_told = False, cn_busy = None, cn_graceful = False\<rparr>"

definition update_conn :: "nat \<Rightarrow> (connection \<Rightarrow> connection) \<Rightarrow> server \<Rightarrow> server" where
  "update_conn i f s = s\<lparr>sv_conns := map (\<lambda>c. if cn_id c = i then f c else c) (sv_conns s)\<rparr>"

definition remove_conn :: "nat \<Rightarrow> server \<Rightarrow> server" where
  "remove_conn i s = s\<lparr>sv_conns := filter (\<lambda>c. cn_id c \<noteq> i) (sv_conns s)\<rparr>"

definition accept_conn :: "server \<Rightarrow> server" where
  "accept_conn s = s\<lparr>sv_conns := sv_conns s @ [new_connection (sv_next s)], sv_next := Suc (sv_next s)\<rparr>"

text \<open>A signal sends one message: the listener and every subscribed connection receive it.\<close>

definition signal :: "server \<Rightarrow> server" where
  "signal s = s\<lparr>sv_pending := True, sv_conns := map (cn_told_update (\<lambda>_. True)) (sv_conns s)\<rparr>"

definition begin_drain :: "server_env \<Rightarrow> server \<Rightarrow> server" where
  "begin_drain e s = s\<lparr>sv_phase := Draining, sv_os := unlink_listen_socket (se_world e) (se_addr e) (sv_os s)\<rparr>"

definition finish :: "server_env \<Rightarrow> server \<Rightarrow> server" where
  "finish e s = s\<lparr>sv_phase := Finished, sv_conns := [], sv_os := release_lock (se_world e) (se_addr e) (sv_os s)\<rparr>"

definition advance_conn :: "nat \<Rightarrow> incoming \<Rightarrow> stage \<times> handler_state \<Rightarrow> server \<Rightarrow> server" where
  "advance_conn i rq res s =
     update_conn i (cn_busy_update (\<lambda>_. Some (rq, fst res))) (s\<lparr>sv_handler := snd res\<rparr>)"

definition after_response :: "nat \<Rightarrow> bool \<Rightarrow> outcome \<Rightarrow> server \<Rightarrow> server" where
  "after_response i graceful out s =
     (if graceful \<or> out = Panicked then remove_conn i s else update_conn i (cn_busy_update (\<lambda>_. None)) s)"

definition go_graceful :: "nat \<Rightarrow> bool \<Rightarrow> server \<Rightarrow> server" where
  "go_graceful i idle s = (if idle then remove_conn i s else update_conn i (cn_graceful_update (\<lambda>_. True)) s)"

datatype label =
    Accept | AcceptError | Signal | Notice | Request nat incoming | Advance nat | Respond nat | Graceful nat
  | CloseConn nat | Drained | Deadline

inductive step :: "server_env \<Rightarrow> server \<Rightarrow> label \<Rightarrow> server \<Rightarrow> bool" for e where
  accept: "sv_phase s = Accepting \<Longrightarrow> step e s Accept (accept_conn s)"
| accept_error: "sv_phase s = Accepting \<Longrightarrow> step e s AcceptError s"
| signal: "sv_phase s \<noteq> Finished \<Longrightarrow> step e s Signal (signal s)"
| notice: "sv_phase s = Accepting \<Longrightarrow> sv_pending s \<Longrightarrow> step e s Notice (begin_drain e s)"
| request: "sv_phase s \<noteq> Finished \<Longrightarrow> c \<in> set (sv_conns s) \<Longrightarrow> cn_busy c = None \<Longrightarrow> \<not> cn_graceful c \<Longrightarrow>
    step e s (Request (cn_id c) rq) (update_conn (cn_id c) (cn_busy_update (\<lambda>_. Some (rq, Arrived))) s)"
| advance: "sv_phase s \<noteq> Finished \<Longrightarrow> c \<in> set (sv_conns s) \<Longrightarrow> cn_busy c = Some (rq, stg) \<Longrightarrow> stage_rank stg \<noteq> 0 \<Longrightarrow>
    step e s (Advance (cn_id c)) (advance_conn (cn_id c) rq (resume (se_env e) (se_handler e) rq stg (sv_handler s)) s)"
| respond: "sv_phase s \<noteq> Finished \<Longrightarrow> c \<in> set (sv_conns s) \<Longrightarrow> cn_busy c = Some (rq, Replied out) \<Longrightarrow>
    step e s (Respond (cn_id c)) (after_response (cn_id c) (cn_graceful c) out s)"
| graceful: "sv_phase s \<noteq> Finished \<Longrightarrow> c \<in> set (sv_conns s) \<Longrightarrow> cn_told c \<Longrightarrow> \<not> cn_graceful c \<Longrightarrow>
    step e s (Graceful (cn_id c)) (go_graceful (cn_id c) (cn_busy c = None) s)"
| close: "sv_phase s \<noteq> Finished \<Longrightarrow> c \<in> set (sv_conns s) \<Longrightarrow>
    step e s (CloseConn (cn_id c)) (remove_conn (cn_id c) s)"
| drained: "sv_phase s = Draining \<Longrightarrow> sv_conns s = [] \<Longrightarrow> step e s Drained (finish e s)"
| deadline: "sv_phase s = Draining \<Longrightarrow> sv_conns s \<noteq> [] \<Longrightarrow> step e s Deadline (finish e s)"

inductive_cases step_cases: "step e s l s'"

abbreviation steps :: "server_env \<Rightarrow> server \<Rightarrow> label list \<Rightarrow> server \<Rightarrow> bool" where
  "steps e \<equiv> runs (step e)"

definition serving :: "handler_state \<Rightarrow> os \<Rightarrow> server" where
  "serving hs s = \<lparr>sv_phase = Accepting, sv_conns = [], sv_pending = False, sv_handler = hs, sv_os = s, sv_next = 0\<rparr>"

subsection \<open>Invariants\<close>

lemmas server_defs = accept_conn_def signal_def begin_drain_def finish_def after_response_def advance_conn_def
  go_graceful_def update_conn_def remove_conn_def new_connection_def

text \<open>Connection numbers are distinct and below the next one.\<close>

definition ids_ok :: "server \<Rightarrow> bool" where
  "ids_ok s \<longleftrightarrow> distinct (map cn_id (sv_conns s)) \<and> (\<forall>c\<in>set (sv_conns s). cn_id c < sv_next s)"

lemma map_cn_id_update:
  assumes "\<And>c. cn_id (f c) = cn_id c"
  shows "map cn_id (sv_conns (update_conn i f s)) = map cn_id (sv_conns s)" "sv_next (update_conn i f s) = sv_next s"
  using assms by (simp_all add: update_conn_def)

lemma ids_ok_iff: "ids_ok s \<longleftrightarrow> distinct (map cn_id (sv_conns s)) \<and> (\<forall>i\<in>set (map cn_id (sv_conns s)). i < sv_next s)"
  by (simp add: ids_ok_def)

lemma ids_ok_update: "(\<And>c. cn_id (f c) = cn_id c) \<Longrightarrow> ids_ok (update_conn i f s) = ids_ok s"
  unfolding ids_ok_iff by (simp only: map_cn_id_update)

lemma ids_ok_remove: "ids_ok s \<Longrightarrow> ids_ok (remove_conn i s)"
  by (auto simp: ids_ok_def remove_conn_def distinct_map_filter)

lemma ids_ok_handler: "ids_ok (s\<lparr>sv_handler := h\<rparr>) = ids_ok s"
  by (simp add: ids_ok_def)

lemma step_ids_ok: "step e s l s' \<Longrightarrow> ids_ok s \<Longrightarrow> ids_ok s'"
proof (induction rule: step.induct)
  case (accept s)
  then show ?case by (fastforce simp: ids_ok_def accept_conn_def new_connection_def)
next
  case (signal s)
  then show ?case by (simp add: ids_ok_def signal_def comp_def)
qed (auto simp: ids_ok_update ids_ok_remove ids_ok_handler after_response_def advance_conn_def go_graceful_def,
     auto simp: ids_ok_def begin_drain_def finish_def)

text \<open>The instance lock is held until the end, and the socket's path is touched only when draining starts.\<close>

definition lock_ok :: "server_env \<Rightarrow> os \<Rightarrow> server \<Rightarrow> bool" where
  "lock_ok e s0 s \<longleftrightarrow>
     (sv_phase s \<noteq> Finished \<longrightarrow> os_locks (sv_os s) (lock_path (se_addr e)) = Some (w_pid (se_world e))) \<and>
     (sv_phase s = Finished \<longrightarrow> os_locks (sv_os s) (lock_path (se_addr e)) = None \<and> sv_conns s = []) \<and>
     (sv_phase s = Accepting \<longrightarrow> sv_os s = s0) \<and>
     (sv_phase s \<noteq> Accepting \<longrightarrow> sv_pending s) \<and>
     (\<forall>q. q \<noteq> se_addr e \<longrightarrow> os_files (sv_os s) q = os_files s0 q)"

lemma unlink_frame:
  "os_locks (unlink_listen_socket w addr s) = os_locks s"
  "q \<noteq> addr \<Longrightarrow> os_files (unlink_listen_socket w addr s) q = os_files s q"
  by (auto simp: unlink_listen_socket_def syscall_def sys_unlink_def tick_def split: option.splits)

lemma conn_frame [simp]:
  "sv_phase (update_conn i f s) = sv_phase s" "sv_os (update_conn i f s) = sv_os s"
  "sv_pending (update_conn i f s) = sv_pending s" "sv_handler (update_conn i f s) = sv_handler s"
  "sv_phase (remove_conn i s) = sv_phase s" "sv_os (remove_conn i s) = sv_os s"
  "sv_pending (remove_conn i s) = sv_pending s" "sv_handler (remove_conn i s) = sv_handler s"
  by (simp_all add: update_conn_def remove_conn_def)

lemma lock_ok_conns:
  "sv_phase s' = sv_phase s \<Longrightarrow> sv_os s' = sv_os s \<Longrightarrow> (sv_pending s \<longrightarrow> sv_pending s') \<Longrightarrow>
     sv_phase s \<noteq> Finished \<Longrightarrow> lock_ok e s0 s \<Longrightarrow> lock_ok e s0 s'"
  by (auto simp: lock_ok_def)

lemma step_lock_ok: "step e s l s' \<Longrightarrow> lock_ok e s0 s \<Longrightarrow> lock_ok e s0 s'"
proof (induction rule: step.induct)
  case (accept s)
  then show ?case by (auto simp: lock_ok_def accept_conn_def)
next
  case (notice s)
  then show ?case by (auto simp: lock_ok_def begin_drain_def unlink_frame)
next
  case (drained s)
  then show ?case by (auto simp: lock_ok_def finish_def release_lock_def)
next
  case (deadline s)
  then show ?case by (auto simp: lock_ok_def finish_def release_lock_def)
qed (auto intro: lock_ok_conns simp: accept_conn_def signal_def after_response_def advance_conn_def go_graceful_def)

subsection \<open>The handler's part of a run\<close>

text \<open>The requests that clients make in a run.\<close>

fun asks :: "label \<Rightarrow> incoming list" where
  "asks (Request i rq) = [rq]"
| "asks _ = []"

definition requests :: "label list \<Rightarrow> incoming list" where
  "requests ls = concat (map asks ls)"

lemma requests_simps [simp]: "requests [] = []" "requests (l # ls) = asks l @ requests ls"
  by (simp_all add: requests_def)

lemma asks_requests: "l \<in> set ls \<Longrightarrow> set (asks l) \<subseteq> set (requests ls)"
  by (auto simp: requests_def)

text \<open>Every request in progress is a client's and stands at a stage that may send what it is about to send.\<close>

definition stages_ok :: "server_env \<Rightarrow> incoming set \<Rightarrow> server \<Rightarrow> bool" where
  "stages_ok e rqs s \<longleftrightarrow> (\<forall>c\<in>set (sv_conns s). \<forall>rq stg. cn_busy c = Some (rq, stg) \<longrightarrow>
     rq \<in> rqs \<and> stage_ok (se_env e) (se_handler e) (hs_sent (sv_handler s)) rq stg)"

lemma stages_ok_update:
  assumes "stages_ok e rqs s"
    and "\<And>c rq stg. cn_busy (f c) = Some (rq, stg) \<Longrightarrow> cn_busy c = Some (rq, stg) \<or>
      rq \<in> rqs \<and> stage_ok (se_env e) (se_handler e) (hs_sent (sv_handler s)) rq stg"
  shows "stages_ok e rqs (update_conn i f s)"
  using assms by (force simp: stages_ok_def update_conn_def)

lemma stages_ok_sub:
  "stages_ok e rqs s \<Longrightarrow> set (sv_conns s') \<subseteq> set (sv_conns s) \<Longrightarrow>
     prefix (hs_sent (sv_handler s)) (hs_sent (sv_handler s')) \<Longrightarrow> stages_ok e rqs s'"
  unfolding stages_ok_def by (blast intro: stage_ok_mono)

lemma step_stages_ok: "step e s l s' \<Longrightarrow> set (asks l) \<subseteq> rqs \<Longrightarrow> stages_ok e rqs s \<Longrightarrow> stages_ok e rqs s'"
proof (induction rule: step.induct)
  case (request s c rq)
  then show ?case by (auto intro!: stages_ok_update)
next
  case (advance s c rq stg)
  define res where "res = resume (se_env e) (se_handler e) rq stg (sv_handler s)"
  from advance have "rq \<in> rqs" "stage_ok (se_env e) (se_handler e) (hs_sent (sv_handler s)) rq stg"
    by (auto simp: stages_ok_def)
  moreover from resume_ok[OF this(2)]
  have "stage_ok (se_env e) (se_handler e) (hs_sent (snd res)) rq (fst res)" by (simp add: res_def)
  moreover have "stages_ok e rqs (s\<lparr>sv_handler := snd res\<rparr>)"
    using advance.prems(2) by (rule stages_ok_sub) (simp_all add: res_def resume_sent)
  ultimately show ?case
    unfolding advance_conn_def res_def [symmetric] by (intro stages_ok_update) auto
next
  case (respond s c rq out)
  then show ?case
    by (auto simp: after_response_def remove_conn_def intro!: stages_ok_update elim: stages_ok_sub)
next
  case (graceful s c)
  then show ?case
    by (auto simp: go_graceful_def remove_conn_def intro!: stages_ok_update elim: stages_ok_sub)
next
  case (close s c)
  then show ?case by (auto simp: remove_conn_def elim: stages_ok_sub)
qed (auto simp: stages_ok_def accept_conn_def signal_def begin_drain_def finish_def new_connection_def)

lemma serving_stages_ok: "stages_ok e rqs (serving hs s0)"
  by (simp add: stages_ok_def serving_def)

text \<open>All that was sent after \<open>before\<close> is accounted for by what was sent before it.\<close>

definition accounts ::
  "handler_env \<Rightarrow> handler \<Rightarrow> incoming set \<Rightarrow> http_request list \<Rightarrow> http_request list \<Rightarrow> bool" where
  "accounts e h rqs before sent \<longleftrightarrow> (\<exists>fwd. sent = before @ fwd \<and>
     (\<forall>k<length fwd. accounted e h rqs (before @ take k fwd) (fwd ! k)))"

lemma accounts_refl: "accounts e h rqs before before"
  by (simp add: accounts_def)

lemma accounts_snoc:
  assumes "accounts e h rqs before sent" "accounted e h rqs sent r"
  shows "accounts e h rqs before (sent @ [r])"
proof -
  obtain fwd where fwd: "sent = before @ fwd" "\<forall>k<length fwd. accounted e h rqs (before @ take k fwd) (fwd ! k)"
    using assms(1) by (auto simp: accounts_def)
  with assms(2) show ?thesis
    unfolding accounts_def by (intro exI [of _ "fwd @ [r]"]) (auto simp: nth_append less_Suc_eq)
qed

lemma accounts_all:
  "accounts e h rqs before sent \<Longrightarrow> (\<And>pre r. accounted e h rqs pre r \<Longrightarrow> P r) \<Longrightarrow>
     \<exists>fwd. sent = before @ fwd \<and> list_all P fwd"
  unfolding accounts_def list_all_length by blast

text \<open>A step sends nothing, or what the stage of one connection was about to send.\<close>

lemma step_accounts:
  assumes "step e s l s'" "stages_ok e rqs s" "accounts (se_env e) (se_handler e) rqs before (hs_sent (sv_handler s))"
  shows "accounts (se_env e) (se_handler e) rqs before (hs_sent (sv_handler s'))"
  using assms
proof (induction rule: step.induct)
  case (advance s c rq stg)
  then have ok: "rq \<in> rqs" "stage_ok (se_env e) (se_handler e) (hs_sent (sv_handler s)) rq stg"
    by (auto simp: stages_ok_def)
  have "accounts (se_env e) (se_handler e) rqs before (hs_sent (sv_handler s) @ stage_sends stg)"
    using advance.prems(2) stage_sends_accounted[OF ok(2,1)] by (cases stg) (auto intro: accounts_snoc)
  then show ?case by (simp add: advance_conn_def resume_sent)
qed (auto simp: server_defs)

lemma run_accounts:
  assumes "steps e (serving hs s0) ls s"
  shows "accounts (se_env e) (se_handler e) (set (requests ls)) (hs_sent hs) (hs_sent (sv_handler s))"
    and "stages_ok e (set (requests ls)) s"
proof -
  have "stages_ok e (set (requests ls)) s \<and>
      accounts (se_env e) (se_handler e) (set (requests ls)) (hs_sent hs) (hs_sent (sv_handler s))"
    using assms
    by (rule runs_invariant)
      (simp_all add: serving_stages_ok, simp add: serving_def accounts_refl,
       blast intro: step_stages_ok step_accounts dest: asks_requests)
  then show "accounts (se_env e) (se_handler e) (set (requests ls)) (hs_sent hs) (hs_sent (sv_handler s))"
    "stages_ok e (set (requests ls)) s" by auto
qed

text \<open>
  Counting by weights of stages: with \<open>due\<close>, the requests about to be sent are logged; with
  \<open>pending\<close>, each request of a client is sent on at most once. Dropped requests only lose weight.
\<close>

definition conn_weight :: "(stage \<Rightarrow> nat) \<Rightarrow> connection \<Rightarrow> nat" where
  "conn_weight w c = (case cn_busy c of None \<Rightarrow> 0 | Some b \<Rightarrow> w (snd b))"

definition all_weight :: "(stage \<Rightarrow> nat) \<Rightarrow> server \<Rightarrow> nat" where
  "all_weight w s = (\<Sum>c\<leftarrow>sv_conns s. conn_weight w c)"

lemma sum_list_filter_le: "(\<Sum>x\<leftarrow>filter P xs. f x) \<le> (\<Sum>x\<leftarrow>xs. f x :: nat)"
  by (induction xs) auto

lemma all_weight_remove: "all_weight w (remove_conn i s) \<le> all_weight w s"
  by (simp add: all_weight_def remove_conn_def sum_list_filter_le)

lemma all_weight_update_le:
  "(\<And>c. conn_weight w (f c) \<le> conn_weight w c) \<Longrightarrow> all_weight w (update_conn i f s) \<le> all_weight w s"
  by (auto simp: all_weight_def update_conn_def comp_def intro: sum_list_mono)

lemma sum_list_update_one:
  assumes "distinct (map cn_id cs)" "c \<in> set cs"
  shows "(\<Sum>d\<leftarrow>cs. g (if cn_id d = cn_id c then f d else d)) + g c = (\<Sum>d\<leftarrow>cs. g d :: nat) + g (f c)"
  using assms
proof (induction cs)
  case (Cons d cs)
  show ?case
  proof (cases "c = d")
    case True
    then have "map (\<lambda>d. g (if cn_id d = cn_id c then f d else d)) cs = map g cs"
      using Cons.prems by (auto simp: image_iff)
    from arg_cong[OF this, of sum_list] True show ?thesis by simp
  next
    case False
    with Cons.prems have "c \<in> set cs" "cn_id d \<noteq> cn_id c" by (auto simp: image_iff)
    with Cons show ?thesis by simp
  qed
qed simp

lemma all_weight_update_one:
  assumes "ids_ok s" "c \<in> set (sv_conns s)"
  shows "all_weight w (update_conn (cn_id c) f s) + conn_weight w c = all_weight w s + conn_weight w (f c)"
  using sum_list_update_one[of "sv_conns s" c "conn_weight w" f] assms
  by (simp add: all_weight_def update_conn_def ids_ok_def comp_def)

lemma response_handler:
  "sv_handler (after_response i g out s) = sv_handler s" "sv_handler (go_graceful i idle s) = sv_handler s"
  by (simp_all add: after_response_def go_graceful_def)

text \<open>A step of the handler, or one that leaves the handler alone and adds at most a new request.\<close>

lemma step_weight:
  assumes "step e s l s'" "ids_ok s" "stages_ok e rqs s"
  obtains (idle) "sv_handler s' = sv_handler s" "all_weight w s' \<le> all_weight w s + length (asks l) * w Arrived"
  | (polled) rq stg where "stage_ok (se_env e) (se_handler e) (hs_sent (sv_handler s)) rq stg"
      "sv_handler s' = snd (resume (se_env e) (se_handler e) rq stg (sv_handler s))"
      "all_weight w s' + w stg = all_weight w s + w (fst (resume (se_env e) (se_handler e) rq stg (sv_handler s)))"
  using assms
proof (induction rule: step.induct)
  case (accept s)
  then show ?case by (simp add: all_weight_def accept_conn_def new_connection_def conn_weight_def)
next
  case (signal s)
  then show ?case by (simp add: all_weight_def signal_def conn_weight_def comp_def)
next
  case (request s c rq)
  then show ?case
    using all_weight_update_one[of s c w "cn_busy_update (\<lambda>_. Some (rq, Arrived))"] by (simp add: conn_weight_def)
next
  case (advance s c rq stg)
  define res where "res = resume (se_env e) (se_handler e) rq stg (sv_handler s)"
  have "all_weight w (update_conn (cn_id c) (cn_busy_update (\<lambda>_. Some (rq, fst res))) (s\<lparr>sv_handler := snd res\<rparr>)) + w stg =
      all_weight w s + w (fst res)"
    using all_weight_update_one[of "s\<lparr>sv_handler := snd res\<rparr>" c w "cn_busy_update (\<lambda>_. Some (rq, fst res))"] advance
    by (simp add: ids_ok_handler conn_weight_def all_weight_def)
  moreover have "stage_ok (se_env e) (se_handler e) (hs_sent (sv_handler s)) rq stg"
    using advance by (auto simp: stages_ok_def)
  ultimately show ?case
    using advance.prems(2) [of rq stg] unfolding res_def by (simp add: advance_conn_def)
next
  case (respond s c rq out)
  then show ?case by (simp add: response_handler after_response_def all_weight_remove all_weight_update_le conn_weight_def)
next
  case (graceful s c)
  then show ?case by (simp add: response_handler go_graceful_def all_weight_remove all_weight_update_le conn_weight_def)
next
  case (close s c)
  then show ?case by (simp add: all_weight_remove)
qed (auto simp: all_weight_def begin_drain_def finish_def)

lemma step_audited:
  assumes "step e s l s'" "ids_ok s" "stages_ok e rqs s"
  shows "forwards (sv_handler s') + all_weight due s' + allows (sv_handler s) \<le>
    forwards (sv_handler s) + all_weight due s + allows (sv_handler s')"
  using assms
proof (cases rule: step_weight[where w = due])
  case (polled rq stg)
  then show ?thesis using resume_logged[OF polled(1), of "sv_handler s"] by simp
qed simp

lemma step_sent_once:
  assumes "step e s l s'" "ids_ok s" "stages_ok e rqs s"
  shows "forwards (sv_handler s') + all_weight pending s' \<le>
    forwards (sv_handler s) + all_weight pending s + length (asks l)"
  using assms
proof (cases rule: step_weight[where w = pending])
  case idle
  then show ?thesis by (simp add: pending_def)
next
  case (polled rq stg)
  then show ?thesis using resume_pending[OF polled(1), of "sv_handler s"] by simp
qed

lemma run_counts:
  assumes "steps e s ls s'" "ids_ok s" "stages_ok e rqs s" "set (requests ls) \<subseteq> rqs"
  shows "forwards (sv_handler s') + all_weight due s' + allows (sv_handler s) \<le>
      forwards (sv_handler s) + all_weight due s + allows (sv_handler s') \<and>
    forwards (sv_handler s') + all_weight pending s' \<le>
      forwards (sv_handler s) + all_weight pending s + length (requests ls)"
  using assms
proof (induction rule: runs.induct)
  case (runs_cons s l s' ls s'')
  from runs_cons.prems have ok: "ids_ok s'" "stages_ok e rqs s'"
    using step_ids_ok[OF runs_cons.hyps(1)] step_stages_ok[OF runs_cons.hyps(1)] by auto
  from runs_cons.IH[OF ok] runs_cons.prems step_audited[OF runs_cons.hyps(1)] step_sent_once[OF runs_cons.hyps(1)]
  show ?case by fastforce
qed simp

text \<open>The audit log is only added to.\<close>

lemma step_logs: "step e s l s' \<Longrightarrow> logs_more (se_env e) (sv_handler s) (sv_handler s')"
  by (induction rule: step.induct)
    (auto simp: accept_conn_def signal_def begin_drain_def finish_def advance_conn_def response_handler
      logs_more_effects resume_logs)

lemma run_logs: "steps e s ls s' \<Longrightarrow> logs_more (se_env e) (sv_handler s) (sv_handler s')"
proof (induction rule: runs.induct)
  case (runs_cons s l s' ls s'')
  then show ?case using step_logs[OF runs_cons.hyps(1)] logs_trans unfolding logs_more_def by blast
qed (simp add: logs_more_effects)

subsection \<open>Draining\<close>

lemma step_no_new_conns:
  "step e s l s' \<Longrightarrow> sv_phase s \<noteq> Accepting \<Longrightarrow>
     sv_phase s' \<noteq> Accepting \<and> set (map cn_id (sv_conns s')) \<subseteq> set (map cn_id (sv_conns s))"
  by (induction rule: step.induct) (auto simp: server_defs)

text \<open>
  A connection that was told finishes by its own steps: answer the request in progress, then close.
\<close>

definition graceful_ok :: "server \<Rightarrow> bool" where
  "graceful_ok s \<longleftrightarrow> (\<forall>c\<in>set (sv_conns s). cn_graceful c \<longrightarrow> cn_busy c \<noteq> None)"

lemma same_conn: "ids_ok s \<Longrightarrow> c \<in> set (sv_conns s) \<Longrightarrow> d \<in> set (sv_conns s) \<Longrightarrow> cn_id c = cn_id d \<Longrightarrow> c = d"
  by (auto simp: ids_ok_def distinct_map dest: inj_onD)

lemma step_graceful_ok: "step e s l s' \<Longrightarrow> ids_ok s \<Longrightarrow> graceful_ok s \<Longrightarrow> graceful_ok s'"
  by (induction rule: step.induct) (auto simp: graceful_ok_def server_defs dest: same_conn split: if_splits)

definition conns_ok :: "server \<Rightarrow> bool" where
  "conns_ok s \<longleftrightarrow> ids_ok s \<and> graceful_ok s"

lemma step_conns_ok: "step e s l s' \<Longrightarrow> conns_ok s \<Longrightarrow> conns_ok s'"
  by (simp add: conns_ok_def step_ids_ok step_graceful_ok)

lemma steps_conns_ok: "steps e s ls s' \<Longrightarrow> conns_ok s \<Longrightarrow> conns_ok s'"
  by (erule runs_invariant) (auto intro: step_conns_ok)

definition own_label :: "label \<Rightarrow> bool" where
  "own_label l \<longleftrightarrow> (case l of Advance _ \<Rightarrow> True | Respond _ \<Rightarrow> True | Graceful _ \<Rightarrow> True | Drained \<Rightarrow> True | _ \<Rightarrow> False)"

lemma own_labels [simp]: "own_label (Advance i)" "own_label (Respond i)" "own_label (Graceful i)" "own_label Drained"
  by (simp_all add: own_label_def)

text \<open>
  The steps a connection may still take before it closes: those of its request, the response, and its
  graceful shutdown. A new request brings in eight steps and a further signal is one; everything else
  uses them up, in whatever order tasks and clients move.
\<close>

definition conn_rank :: "connection \<Rightarrow> nat" where
  "conn_rank c = (if cn_graceful c then 0 else 1) + (case cn_busy c of None \<Rightarrow> 0 | Some b \<Rightarrow> 1 + stage_rank (snd b))"

definition drain_rank :: "server \<Rightarrow> nat" where
  "drain_rank s = (\<Sum>c\<leftarrow>sv_conns s. conn_rank c) + (if sv_phase s = Finished then 0 else 1)"

fun drain_credit :: "label \<Rightarrow> nat" where
  "drain_credit (Request i rq) = 8"
| "drain_credit Signal = 1"
| "drain_credit _ = 0"

lemma drain_credits: "(\<Sum>l\<leftarrow>ls. drain_credit l) = 8 * length (requests ls) + count_list ls Signal"
proof (induction ls)
  case (Cons l ls)
  then show ?case by (cases l) simp_all
qed simp

lemma stage_rank_le: "stage_rank stg \<le> 6"
  by (cases stg) auto

lemma drain_rank_le: "drain_rank s \<le> 8 * length (sv_conns s) + 1"
proof -
  have "conn_rank c \<le> 8" for c
    using stage_rank_le[of "snd (the (cn_busy c))"] by (cases "cn_busy c") (simp_all add: conn_rank_def)
  then have "(\<Sum>c\<leftarrow>cs. conn_rank c) \<le> 8 * length cs" for cs
    by (induction cs) (simp_all add: add_mono)
  from this[of "sv_conns s"] show ?thesis by (simp add: drain_rank_def)
qed

lemma sum_list_remove_one:
  "c \<in> set cs \<Longrightarrow> (\<Sum>d\<leftarrow>filter (\<lambda>d. cn_id d \<noteq> cn_id c) cs. g d) + g c \<le> (\<Sum>d\<leftarrow>cs. g d :: nat)"
  using sum_list_filter_le[of g "\<lambda>d. cn_id d \<noteq> cn_id c"] by (induction cs) (auto simp: add_ac intro: add_mono)

lemma drain_rank_remove:
  assumes "c \<in> set (sv_conns s)"
  shows "drain_rank (remove_conn (cn_id c) s) + conn_rank c \<le> drain_rank s"
  using sum_list_remove_one[OF assms, of conn_rank] by (simp add: drain_rank_def) (simp add: remove_conn_def)

lemma drain_rank_update:
  assumes "ids_ok s" "c \<in> set (sv_conns s)"
  shows "drain_rank (update_conn (cn_id c) f s) + conn_rank c = drain_rank s + conn_rank (f c)"
  using sum_list_update_one[of "sv_conns s" c conn_rank f] assms
  by (simp add: drain_rank_def) (simp add: update_conn_def ids_ok_def comp_def)

lemma conn_rank_pos: "graceful_ok s \<Longrightarrow> c \<in> set (sv_conns s) \<Longrightarrow> 1 \<le> conn_rank c"
  by (auto simp: conn_rank_def graceful_ok_def split: option.split)

lemma step_drain_rank:
  assumes "step e s l s'" "sv_phase s \<noteq> Accepting" "conns_ok s"
  shows "drain_rank s' + 1 \<le> drain_rank s + drain_credit l"
  using assms
proof (induction rule: step.induct)
  case (signal s)
  then show ?case by (simp add: drain_rank_def signal_def comp_def conn_rank_def)
next
  case (request s c rq)
  then show ?case
    using drain_rank_update[of s c "cn_busy_update (\<lambda>_. Some (rq, Arrived))"]
    by (simp add: conns_ok_def conn_rank_def)
next
  case (advance s c rq stg)
  define res where "res = resume (se_env e) (se_handler e) rq stg (sv_handler s)"
  have "stage_rank (fst res) < stage_rank stg" unfolding res_def using advance by (intro resume_rank)
  then show ?case
    using drain_rank_update[of "s\<lparr>sv_handler := snd res\<rparr>" c "cn_busy_update (\<lambda>_. Some (rq, fst res))"] advance
    unfolding advance_conn_def res_def [symmetric]
    by (simp add: conns_ok_def ids_ok_handler conn_rank_def drain_rank_def)
next
  case (respond s c rq out)
  then show ?case
    using drain_rank_update[of s c "cn_busy_update (\<lambda>_. None)"] drain_rank_remove[of c s]
    by (auto simp: after_response_def conns_ok_def conn_rank_def)
next
  case (graceful s c)
  then show ?case
    using drain_rank_update[of s c "cn_graceful_update (\<lambda>_. True)"] drain_rank_remove[of c s]
    by (auto simp: go_graceful_def conns_ok_def conn_rank_def)
next
  case (close s c)
  then show ?case using drain_rank_remove[of c s] conn_rank_pos[of s c] by (simp add: conns_ok_def)
next
  case (drained s)
  then show ?case by (simp add: drain_rank_def finish_def)
next
  case (deadline s)
  then show ?case by (simp add: drain_rank_def finish_def)
qed simp_all

interpretation drain: potential "step e" "\<lambda>s. sv_phase s \<noteq> Accepting \<and> conns_ok s" drain_rank "\<lambda>_. 1" drain_credit for e
  by unfold_locales (auto simp: step_conns_ok dest: step_no_new_conns step_drain_rank)

text \<open>Told connections stay told, and while one is open the server can always move on by itself.\<close>

lemma step_told:
  "step e s l s' \<Longrightarrow> sv_phase s \<noteq> Accepting \<and> list_all cn_told (sv_conns s) \<Longrightarrow>
     sv_phase s' \<noteq> Accepting \<and> list_all cn_told (sv_conns s')"
  by (induction rule: step.induct) (auto simp: list_all_iff server_defs)

lemma told_can_move:
  assumes "sv_phase s = Draining" "conns_ok s" "list_all cn_told (sv_conns s)"
  shows "\<exists>l s'. own_label l \<and> step e s l s'"
proof (cases "sv_conns s")
  case Nil
  with assms(1) have "step e s Drained (finish e s)" by (intro drained)
  then show ?thesis by (metis own_labels(4))
next
  case (Cons c cs)
  then have c: "c \<in> set (sv_conns s)" "cn_told c" "sv_phase s \<noteq> Finished" using assms(1,3) by (auto simp: list_all_iff)
  show ?thesis
  proof (cases "cn_busy c")
    case None
    with assms(2) c have "\<not> cn_graceful c" by (auto simp: conns_ok_def graceful_ok_def)
    with c show ?thesis using graceful[of s c e] own_labels(3) by metis
  next
    case (Some b)
    obtain rq stg where b: "b = (rq, stg)" by fastforce
    show ?thesis
    proof (cases "stage_rank stg = 0")
      case True
      then obtain out where "stg = Replied out" by (cases stg) auto
      with Some b c show ?thesis using respond[of s c rq out e] own_labels(2) by metis
    next
      case False
      with Some b c show ?thesis using advance[of s c rq stg e] own_labels(1) by metis
    qed
  qed
qed

text \<open>
  A connection accepted after the signal was sent is subscribed too late: it is not told. While it
  is idle, only its client, another signal or the deadline ends the drain.
\<close>

definition waits :: "nat \<Rightarrow> server \<Rightarrow> bool" where
  "waits i s \<longleftrightarrow> sv_phase s \<noteq> Finished \<and>
     (\<exists>c\<in>set (sv_conns s). cn_id c = i \<and> \<not> cn_told c \<and> cn_busy c = None \<and> \<not> cn_graceful c)"

definition outside_label :: "nat \<Rightarrow> label \<Rightarrow> bool" where
  "outside_label i l \<longleftrightarrow> (case l of Signal \<Rightarrow> True | Deadline \<Rightarrow> True | CloseConn j \<Rightarrow> i = j | Request j _ \<Rightarrow> i = j | _ \<Rightarrow> False)"

lemma conn_kept:
  "c \<in> set (sv_conns s) \<Longrightarrow> cn_id c \<noteq> i \<Longrightarrow> c \<in> set (sv_conns (update_conn i f s))"
  "c \<in> set (sv_conns s) \<Longrightarrow> cn_id c \<noteq> i \<Longrightarrow> c \<in> set (sv_conns (remove_conn i s))"
  by (force simp: update_conn_def remove_conn_def image_iff)+

lemma other_conn:
  "ids_ok s \<Longrightarrow> c \<in> set (sv_conns s) \<Longrightarrow> d \<in> set (sv_conns s) \<Longrightarrow> c \<noteq> d \<Longrightarrow> cn_id c \<noteq> cn_id d"
  using same_conn by blast

lemma step_keeps:
  assumes "step e s l s'" "ids_ok s" "d \<in> set (sv_conns s)" "\<not> outside_label (cn_id d) l"
    and idle: "\<not> cn_told d" "cn_busy d = None" "\<not> cn_graceful d"
  shows "d \<in> set (sv_conns s')"
  using assms(1-4)
proof (induction rule: step.induct)
  case (respond s c rq out)
  with idle have "cn_id d \<noteq> cn_id c" using other_conn[of s d c] by (cases "d = c") auto
  with respond show ?case by (simp add: after_response_def conn_kept)
next
  case (advance s c rq stg)
  with idle have "cn_id d \<noteq> cn_id c" using other_conn[of s d c] by (cases "d = c") auto
  with advance show ?case by (simp add: advance_conn_def conn_kept)
next
  case (graceful s c)
  with idle have "cn_id d \<noteq> cn_id c" using other_conn[of s d c] by (cases "d = c") auto
  with graceful show ?case by (simp add: go_graceful_def conn_kept)
qed (auto simp: outside_label_def accept_conn_def begin_drain_def conn_kept)

lemma step_waits:
  assumes "step e s l s'" "ids_ok s" "waits i s" "\<not> outside_label i l"
  shows "waits i s'"
proof -
  from assms(3) obtain d where d: "d \<in> set (sv_conns s)" "cn_id d = i" "\<not> cn_told d" "cn_busy d = None"
    "\<not> cn_graceful d" by (auto simp: waits_def)
  with step_keeps[OF assms(1,2) d(1)] assms(4) have "d \<in> set (sv_conns s')" by simp
  moreover have "sv_phase s' = Finished \<Longrightarrow> sv_conns s' = [] \<or> sv_phase s = Finished"
    using assms(1) by (induction rule: step.induct) (auto simp: server_defs)
  ultimately show ?thesis using d assms(3) by (auto simp: waits_def)
qed

lemma steps_waits:
  assumes "steps e s ls s'" "conns_ok s" "waits i s" "\<forall>l\<in>set ls. \<not> outside_label i l"
  shows "waits i s'"
proof -
  have "conns_ok s' \<and> waits i s'"
  proof (rule runs_invariant[OF assms(1)])
    fix s l s'
    assume "step e s l s'" "l \<in> set ls" "conns_ok s \<and> waits i s"
    with assms(4) show "conns_ok s' \<and> waits i s'"
      using step_conns_ok step_waits by (metis conns_ok_def)
  qed (use assms in simp)
  then show ?thesis by simp
qed

subsection \<open>Running the server\<close>

text \<open>
  The step relation as a function: with distinct connection numbers a label determines the step.
\<close>

definition find_conn :: "nat \<Rightarrow> server \<Rightarrow> connection option" where
  "find_conn i s = (if sv_phase s = Finished then None else find (\<lambda>c. cn_id c = i) (sv_conns s))"

definition exec_advance :: "server_env \<Rightarrow> connection \<Rightarrow> server \<Rightarrow> server option" where
  "exec_advance e c s =
     (case cn_busy c of
        None \<Rightarrow> None
      | Some b \<Rightarrow> if stage_rank (snd b) = 0 then None
          else Some (advance_conn (cn_id c) (fst b)
            (resume (se_env e) (se_handler e) (fst b) (snd b) (sv_handler s)) s))"

definition reply_of :: "stage \<Rightarrow> outcome option" where
  "reply_of stg = (case stg of Replied out \<Rightarrow> Some out | _ \<Rightarrow> None)"

definition exec_respond :: "connection \<Rightarrow> server \<Rightarrow> server option" where
  "exec_respond c s =
     Option.bind (cn_busy c) (\<lambda>b. Option.bind (reply_of (snd b)) (\<lambda>out.
       Some (after_response (cn_id c) (cn_graceful c) out s)))"

fun exec_step :: "server_env \<Rightarrow> server \<Rightarrow> label \<Rightarrow> server option" where
  "exec_step e s Accept = (if sv_phase s = Accepting then Some (accept_conn s) else None)"
| "exec_step e s AcceptError = (if sv_phase s = Accepting then Some s else None)"
| "exec_step e s Signal = (if sv_phase s = Finished then None else Some (signal s))"
| "exec_step e s Notice = (if sv_phase s = Accepting \<and> sv_pending s then Some (begin_drain e s) else None)"
| "exec_step e s (Request i rq) = Option.bind (find_conn i s) (\<lambda>c.
     if Option.is_none (cn_busy c) \<and> \<not> cn_graceful c
     then Some (update_conn i (cn_busy_update (\<lambda>_. Some (rq, Arrived))) s) else None)"
| "exec_step e s (Advance i) = Option.bind (find_conn i s) (\<lambda>c. exec_advance e c s)"
| "exec_step e s (Respond i) = Option.bind (find_conn i s) (\<lambda>c. exec_respond c s)"
| "exec_step e s (Graceful i) = Option.bind (find_conn i s) (\<lambda>c.
     if cn_told c \<and> \<not> cn_graceful c then Some (go_graceful i (Option.is_none (cn_busy c)) s) else None)"
| "exec_step e s (CloseConn i) = Option.bind (find_conn i s) (\<lambda>c. Some (remove_conn i s))"
| "exec_step e s Drained = (if sv_phase s = Draining \<and> sv_conns s = [] then Some (finish e s) else None)"
| "exec_step e s Deadline = (if sv_phase s = Draining \<and> sv_conns s \<noteq> [] then Some (finish e s) else None)"

lemma find_conn_Some:
  assumes "ids_ok s"
  shows "find_conn i s = Some c \<longleftrightarrow> sv_phase s \<noteq> Finished \<and> c \<in> set (sv_conns s) \<and> cn_id c = i"
proof
  assume "find_conn i s = Some c"
  then show "sv_phase s \<noteq> Finished \<and> c \<in> set (sv_conns s) \<and> cn_id c = i"
    by (auto simp: find_conn_def find_Some_iff split: if_splits)
next
  assume *: "sv_phase s \<noteq> Finished \<and> c \<in> set (sv_conns s) \<and> cn_id c = i"
  then obtain d where "find (\<lambda>c. cn_id c = i) (sv_conns s) = Some d"
    by (cases "find (\<lambda>c. cn_id c = i) (sv_conns s)") (auto simp: find_None_iff)
  moreover from this have "d \<in> set (sv_conns s) \<and> cn_id d = i" by (auto simp: find_Some_iff)
  ultimately show "find_conn i s = Some c" using * same_conn[OF assms, of d c] by (simp add: find_conn_def)
qed

lemma reply_of_Some: "reply_of stg = Some out \<longleftrightarrow> stg = Replied out"
  by (cases stg) (simp_all add: reply_of_def)

lemma exec_respond_Some:
  "exec_respond c s = Some s' \<longleftrightarrow>
     (\<exists>rq out. cn_busy c = Some (rq, Replied out) \<and> s' = after_response (cn_id c) (cn_graceful c) out s)"
  by (force simp: exec_respond_def bind_eq_Some_conv reply_of_Some)

lemma exec_advance_Some:
  "exec_advance e c s = Some s' \<longleftrightarrow>
     (\<exists>rq stg. cn_busy c = Some (rq, stg) \<and> stage_rank stg \<noteq> 0 \<and>
        s' = advance_conn (cn_id c) rq (resume (se_env e) (se_handler e) rq stg (sv_handler s)) s)"
  by (auto simp: exec_advance_def split: option.splits)

lemma exec_step_iff:
  assumes "ids_ok s"
  shows "exec_step e s l = Some s' \<longleftrightarrow> step e s l s'"
proof
  note f = find_conn_Some[OF assms]
  show "step e s l s'" if "exec_step e s l = Some s'"
  proof (cases l)
    case (Request i rq)
    with that obtain c where "sv_phase s \<noteq> Finished" "c \<in> set (sv_conns s)" "cn_id c = i" "Option.is_none (cn_busy c)"
      "\<not> cn_graceful c" "s' = update_conn i (cn_busy_update (\<lambda>_. Some (rq, Arrived))) s"
      by (auto simp: bind_eq_Some_conv f split: if_splits)
    with Request step.request[of s c e rq] show ?thesis by (simp add: Option.is_none_def)
  qed (use that in \<open>auto simp: bind_eq_Some_conv f exec_respond_Some exec_advance_Some Option.is_none_def
        split: if_splits intro: step.intros\<close>)
  show "exec_step e s l = Some s'" if "step e s l s'"
    using that assms
  proof (induction rule: step.induct)
    case (request s c rq)
    then have "find_conn (cn_id c) s = Some c" by (simp add: find_conn_Some)
    with request show ?case by simp
  next
    case (advance s c rq stg)
    then have "find_conn (cn_id c) s = Some c" by (simp add: find_conn_Some)
    with advance show ?case by (simp add: exec_advance_def)
  next
    case (respond s c rq out)
    then have "find_conn (cn_id c) s = Some c" by (simp add: find_conn_Some)
    with respond show ?case by (simp add: exec_respond_def reply_of_def)
  next
    case (graceful s c)
    then have "find_conn (cn_id c) s = Some c" by (simp add: find_conn_Some)
    with graceful show ?case by (simp add: Option.is_none_def)
  next
    case (close s c)
    then have "find_conn (cn_id c) s = Some c" by (simp add: find_conn_Some)
    then show ?case by simp
  qed auto
qed

interpretation server_exec: executable "step e" ids_ok "exec_step e" for e
  by unfold_locales (auto intro: step_ids_ok simp: exec_step_iff)

abbreviation exec_steps :: "server_env \<Rightarrow> server \<Rightarrow> label list \<Rightarrow> server option" where
  "exec_steps e \<equiv> exec_run (exec_step e)"

lemma serving_ids_ok: "ids_ok (serving hs s0)"
  by (simp add: serving_def ids_ok_def)

subsection \<open>A started proxy\<close>

lemma not_isl_Inr: "\<not> isl r \<Longrightarrow> r = Inr ()" for r :: check
  by (cases r) auto

definition created_file :: "os \<Rightarrow> os \<Rightarrow> string \<Rightarrow> bool" where
  "created_file s s' q \<longleftrightarrow> os_files s q = None \<and> (\<exists>i. os_files s' q = Some i \<and> ino_kind i = RegularFile)"

lemma create_log_frame:
  "os_locks (create_log w path s) = os_locks s" "os_umask (create_log w path s) = os_umask s"
  "os_files (create_log w path s) q = os_files s q \<or> created_file s (create_log w path s) q \<and> q = path"
  by (auto simp: create_log_def created_file_def split: option.split)

lemma open_audit_frame:
  assumes "open_audit w v path s = (r, s')"
  shows "os_locks s' = os_locks s" "os_umask s' = os_umask s"
    "os_files s' q = os_files s q \<or> created_file s s' q \<and> q \<in> {path, ''/dev/null''}"
proof -
  have "s' = s \<or> s' = create_log w path s \<or> s' = create_log w ''/dev/null'' s"
    using assms by (auto simp: open_audit_def split: sum.splits option.splits)
  then show "os_locks s' = os_locks s" "os_umask s' = os_umask s"
    "os_files s' q = os_files s q \<or> created_file s s' q \<and> q \<in> {path, ''/dev/null''}"
    using create_log_frame by blast+
qed

lemma start_Running:
  assumes "start ho c s = (Running h st, s')"
  obtains m gid warning l s1 where
    "starts_with (listen_socket c) ''/''" "validate_docker_host (docker_host c) = Inr ()"
    "select_socket_group (listen_socket_group c) (resolve_group (ho_world ho)) (w_egid (ho_world ho)) = Inr (gid, warning)"
    "new_manager (ho_yaml ho) (ho_config ho) (config_dir c) = Inr m" "h = start_handler ho c m"
    "st = \<lparr>hs_audit = l, hs_sent = []\<rparr>" "open_audit (ho_world ho) (ho_audit ho) (log_file c) s = (Some l, s1)"
    "open_listener (ho_world ho) (listen_socket c) (Some gid) s1 = (Inr (), s')"
proof -
  have v: "\<not> isl (validate_listen_socket (listen_socket c))" "\<not> isl (validate_docker_host (docker_host c))"
    using assms by (auto simp: start_def split: if_splits)
  then have v': "validate_listen_socket (listen_socket c) = Inr ()" "validate_docker_host (docker_host c) = Inr ()"
    by (simp_all add: not_isl_Inr)
  obtain gid warning where g: "select_socket_group (listen_socket_group c) (resolve_group (ho_world ho))
      (w_egid (ho_world ho)) = Inr (gid, warning)" "start_proxy ho c gid s = (Running h st, s')"
    using assms v by (auto simp: start_def split: sum.splits)
  obtain m l where m: "new_manager (ho_yaml ho) (ho_config ho) (config_dir c) = Inr m"
    "fst (open_audit (ho_world ho) (ho_audit ho) (log_file c) s) = Some l"
    "start_listener ho c gid (start_handler ho c m) l (snd (open_audit (ho_world ho) (ho_audit ho) (log_file c) s))
      = (Running h st, s')"
    using g(2) by (auto simp: start_proxy_def split: sum.splits option.splits)
  have "h = start_handler ho c m" "st = \<lparr>hs_audit = l, hs_sent = []\<rparr>"
    "open_listener (ho_world ho) (listen_socket c) (Some gid) (snd (open_audit (ho_world ho) (ho_audit ho) (log_file c) s))
      = (Inr (), s')"
    using m(3) by (auto simp: start_listener_def split: sum.splits if_splits intro: prod_eqI)
  with v' g m that show ?thesis by (auto simp: validate_listen_socket_ok prod_eq_iff)
qed

lemma start_listener_failed:
  assumes "start_listener ho c gid h l s = (r, s')" "\<forall>h st. r \<noteq> Running h st"
  shows "r = Exited 1 \<and> (s' = s \<or> (\<exists>err. open_listener (ho_world ho) (listen_socket c) (Some gid) s = (Inl err, s')))"
  using assms by (auto simp: start_listener_def prod_eq_iff split: sum.splits if_splits)

text \<open>
  A start that fails ends with exit code 2 when the command line is refused. Otherwise the
  configuration or, after the log was opened, the listener failed, or no log could be opened at all.
\<close>

lemma start_proxy_failed:
  assumes "start_proxy ho c gid s = (r, s')" "\<forall>h st. r \<noteq> Running h st"
  obtains (untouched) "r = Exited 1 \<or> r = StartPanic" "s' = s"
    | (logging) l s1 where "r = Exited 1" "open_audit (ho_world ho) (ho_audit ho) (log_file c) s = (Some l, s1)"
        "s' = s1 \<or> (\<exists>err. open_listener (ho_world ho) (listen_socket c) (Some gid) s1 = (Inl err, s'))"
proof (cases "new_manager (ho_yaml ho) (ho_config ho) (config_dir c)")
  case (Inl e)
  with assms untouched show ?thesis by (simp add: start_proxy_def)
next
  case (Inr m)
  obtain ol s1 where a: "open_audit (ho_world ho) (ho_audit ho) (log_file c) s = (ol, s1)" by fastforce
  show ?thesis
  proof (cases ol)
    case None
    with assms Inr a untouched show ?thesis by (simp add: start_proxy_def)
  next
    case (Some l)
    with assms Inr a have "start_listener ho c gid (start_handler ho c m) l s1 = (r, s')" by (simp add: start_proxy_def)
    from start_listener_failed[OF this assms(2)] a Some logging show ?thesis by blast
  qed
qed

lemma validate_listen_socket_isl: "isl (validate_listen_socket addr) \<longleftrightarrow> \<not> starts_with addr ''/''"
  using validate_listen_socket_ok[of addr] by (metis isl_def not_isl_Inr sum.disc(2))

lemma start_failed:
  assumes "start ho c s = (r, s')" "\<forall>h st. r \<noteq> Running h st"
  obtains (refused) "r = Exited 2" "s' = s"
      "\<not> starts_with (listen_socket c) ''/'' \<or> isl (validate_docker_host (docker_host c)) \<or>
       isl (select_socket_group (listen_socket_group c) (resolve_group (ho_world ho)) (w_egid (ho_world ho)))"
    | (failed) gid where "start_proxy ho c gid s = (r, s')"
      "starts_with (listen_socket c) ''/''" "\<not> isl (validate_docker_host (docker_host c))"
      "\<not> isl (select_socket_group (listen_socket_group c) (resolve_group (ho_world ho)) (w_egid (ho_world ho)))"
proof (cases "starts_with (listen_socket c) ''/'' \<and> \<not> isl (validate_docker_host (docker_host c))")
  case True
  show ?thesis
  proof (cases "select_socket_group (listen_socket_group c) (resolve_group (ho_world ho)) (w_egid (ho_world ho))")
    case (Inl e)
    with True assms(1) refused show ?thesis by (simp add: start_def validate_listen_socket_isl)
  next
    case (Inr gw)
    with True assms(1) failed[of "fst gw"] show ?thesis by (simp add: start_def validate_listen_socket_isl)
  qed
next
  case False
  then have "start ho c s = (Exited 2, s)" by (auto simp: start_def validate_listen_socket_isl)
  with False assms(1) refused show ?thesis by auto
qed

text \<open>What a failed start leaves behind.\<close>

lemma start_proxy_failed_frame:
  assumes "start_proxy ho c gid s = (r, s')" "\<forall>h st. r \<noteq> Running h st"
  shows "r = Exited 1 \<or> r = StartPanic \<and> s' = s" "os_locks s' = os_locks s" "os_umask s' = os_umask s"
    "q \<notin> {listen_socket c, lock_path (listen_socket c)} \<Longrightarrow> os_files s' q = os_files s q \<or>
       created_file s s' q \<and> q \<in> {log_file c, ''/dev/null''}"
proof -
  have "(r = Exited 1 \<or> r = StartPanic \<and> s' = s) \<and> os_locks s' = os_locks s \<and> os_umask s' = os_umask s \<and>
    (q \<notin> {listen_socket c, lock_path (listen_socket c)} \<longrightarrow> os_files s' q = os_files s q \<or>
       created_file s s' q \<and> q \<in> {log_file c, ''/dev/null''})"
    using assms
  proof (cases rule: start_proxy_failed)
    case (logging l s1)
    have same: "os_locks s' = os_locks s1 \<and> os_umask s' = os_umask s1 \<and>
        (q \<notin> {listen_socket c, lock_path (listen_socket c)} \<longrightarrow> os_files s' q = os_files s1 q)"
      using logging(3) by (auto dest: open_error_locks open_frame)
    with logging(1) open_audit_frame(1,2)[OF logging(2)] open_audit_frame(3)[OF logging(2), of q] show ?thesis
      by (auto simp: created_file_def)
  qed auto
  then show "r = Exited 1 \<or> r = StartPanic \<and> s' = s" "os_locks s' = os_locks s" "os_umask s' = os_umask s"
    "q \<notin> {listen_socket c, lock_path (listen_socket c)} \<Longrightarrow> os_files s' q = os_files s q \<or>
       created_file s s' q \<and> q \<in> {log_file c, ''/dev/null''}"
    by blast+
qed

lemma started_handler:
  assumes "start ho c s = (Running h st, s')"
  shows "h_chain h = chain_new" "router_readonly (h_router h) = cli_readonly c" "hs_sent st = []"
proof -
  obtain m l where "h = start_handler ho c m" "st = \<lparr>hs_audit = l, hs_sent = []\<rparr>"
    by (rule start_Running[OF assms]) blast
  then show "h_chain h = chain_new" "router_readonly (h_router h) = cli_readonly c" "hs_sent st = []"
    by (simp_all add: start_handler_def new_handler_def with_readonly_def new_router_def)
qed

lemma started_run:
  assumes "start ho c s = (Running h st, s')" "steps e (serving st s') ls t" "se_handler e = h"
    and "\<And>pre r. accounted (se_env e) h (set (requests ls)) pre r \<Longrightarrow> P r"
  shows "list_all P (hs_sent (sv_handler t))"
proof -
  have "accounts (se_env e) h (set (requests ls)) [] (hs_sent (sv_handler t))"
    using run_accounts(1)[OF assms(2)] by (simp add: assms(3) started_handler(3)[OF assms(1)])
  from accounts_all[OF this assms(4)] show ?thesis by auto
qed

end
