(* ===== verification/Lifecycle.thy ===== *)
theory Lifecycle
  imports Server
begin

section \<open>The life cycle of the server as an abstract machine\<close>

text \<open>
  What an operator may rely on is a small machine: it accepts connections, stops accepting, and
  ends; the instance lock is held until the end; the set of open connections only shrinks once it
  stops accepting. \<open>life_step\<close> is that machine. \<open>life_of\<close> maps a server state to it,
  and the locale \<open>simulation\<close> of \<open>Runs\<close>, interpreted on the server of
  \<open>src/rs/src/main.rs\<close>, carries the simulation of steps over to whole runs.
\<close>

subsection \<open>The abstract machine\<close>

record life =
  life_phase :: phase
  life_locked :: bool
  life_open :: "nat set"

datatype life_event = LAccept nat | LStop | LClose nat | LInternal | LEnd

inductive life_step :: "life \<Rightarrow> life_event \<Rightarrow> life \<Rightarrow> bool" where
  life_accept: "life_phase a = Accepting \<Longrightarrow> i \<notin> life_open a \<Longrightarrow>
    life_step a (LAccept i) (a\<lparr>life_open := insert i (life_open a)\<rparr>)"
| life_stop: "life_phase a = Accepting \<Longrightarrow> life_step a LStop (a\<lparr>life_phase := Draining\<rparr>)"
| life_close: "life_phase a \<noteq> Finished \<Longrightarrow> i \<in> life_open a \<Longrightarrow>
    life_step a (LClose i) (a\<lparr>life_open := life_open a - {i}\<rparr>)"
| life_internal: "life_phase a \<noteq> Finished \<Longrightarrow> life_step a LInternal a"
| life_end: "life_phase a = Draining \<Longrightarrow>
    life_step a LEnd \<lparr>life_phase = Finished, life_locked = False, life_open = {}\<rparr>"

abbreviation life_run :: "life \<Rightarrow> life_event list \<Rightarrow> life \<Rightarrow> bool" where
  "life_run \<equiv> runs life_step"

inductive_cases life_stepE: "life_step a m a'"

lemma life_step_order:
  "life_step a m a' \<Longrightarrow> life_phase a \<noteq> Accepting \<Longrightarrow>
     life_phase a' \<noteq> Accepting \<and> life_open a' \<subseteq> life_open a \<and> life_phase a \<noteq> Finished"
  by (induction rule: life_step.induct) auto

text \<open>Nothing happens after the end, and the lock is given up only there.\<close>

lemma life_step_lock:
  "life_step a m a' \<Longrightarrow> life_locked a = (life_phase a \<noteq> Finished) \<Longrightarrow> life_locked a' = (life_phase a' \<noteq> Finished)"
  by (induction rule: life_step.induct) auto

lemma life_run_lock:
  "life_run a ms a' \<Longrightarrow> life_locked a = (life_phase a \<noteq> Finished) \<Longrightarrow> life_locked a' = (life_phase a' \<noteq> Finished)"
  by (induction rule: runs.induct) (auto dest: life_step_lock)

subsection \<open>The server implements it\<close>

definition life_of :: "server_env \<Rightarrow> server \<Rightarrow> life" where
  "life_of e s = \<lparr>life_phase = sv_phase s,
     life_locked = (os_locks (sv_os s) (lock_path (se_addr e)) = Some (w_pid (se_world e))),
     life_open = set (map cn_id (sv_conns s))\<rparr>"

definition server_inv :: "server_env \<Rightarrow> os \<Rightarrow> server \<Rightarrow> bool" where
  "server_inv e s0 s \<longleftrightarrow> conns_ok s \<and> lock_ok e s0 s"

lemma step_server_inv: "step e s l s' \<Longrightarrow> server_inv e s0 s \<Longrightarrow> server_inv e s0 s'"
  by (simp add: server_inv_def step_conns_ok step_lock_ok)

lemma life_of_same:
  "sv_phase s' = sv_phase s \<Longrightarrow> sv_os s' = sv_os s \<Longrightarrow> map cn_id (sv_conns s') = map cn_id (sv_conns s) \<Longrightarrow>
     life_of e s' = life_of e s"
  unfolding life_of_def by (simp only:)

lemma life_of_update: "(\<And>c. cn_id (f c) = cn_id c) \<Longrightarrow> life_of e (update_conn i f s) = life_of e s"
  by (intro life_of_same map_cn_id_update) simp_all

lemma life_of_handler: "life_of e (s\<lparr>sv_handler := hs\<rparr>) = life_of e s"
  by (simp add: life_of_def)

lemma life_of_remove: "life_of e (remove_conn i s) = (life_of e s)\<lparr>life_open := life_open (life_of e s) - {i}\<rparr>"
  by (auto simp: life_of_def remove_conn_def)

lemma life_of_fields [simp]:
  "life_phase (life_of e s) = sv_phase s" "life_open (life_of e s) = cn_id ` set (sv_conns s)"
  by (simp_all add: life_of_def)

lemma life_of_finish:
  "server_inv e s0 s \<Longrightarrow> sv_phase s \<noteq> Finished \<Longrightarrow>
     life_of e (finish e s) = \<lparr>life_phase = Finished, life_locked = False, life_open = {}\<rparr>"
  by (simp add: life_of_def finish_def release_lock_def server_inv_def lock_ok_def)

lemma life_of_accept:
  "life_of e (accept_conn s) = (life_of e s)\<lparr>life_open := insert (sv_next s) (life_open (life_of e s))\<rparr>"
  by (auto simp: life_of_def accept_conn_def new_connection_def)

lemma life_of_drain: "life_of e (begin_drain e s) = (life_of e s)\<lparr>life_phase := Draining\<rparr>"
  by (simp add: life_of_def begin_drain_def unlink_frame)

lemma life_of_signal: "life_of e (signal s) = life_of e s"
  by (rule life_of_same) (simp_all add: signal_def)

lemma close_simulates:
  "sv_phase s \<noteq> Finished \<Longrightarrow> c \<in> set (sv_conns s) \<Longrightarrow> \<exists>m. life_step (life_of e s) m (life_of e (remove_conn (cn_id c) s))"
  using life_close[of "life_of e s" "cn_id c"] by (auto simp: life_of_remove)

lemma internal_simulates:
  "sv_phase s \<noteq> Finished \<Longrightarrow> life_of e s' = life_of e s \<Longrightarrow> \<exists>m. life_step (life_of e s) m (life_of e s')"
  using life_internal[of "life_of e s"] by auto

lemma end_simulates:
  "server_inv e s0 s \<Longrightarrow> sv_phase s = Draining \<Longrightarrow> \<exists>m. life_step (life_of e s) m (life_of e (finish e s))"
  using life_end[of "life_of e s"] by (auto simp: life_of_finish)

lemma step_simulates: "step e s l s' \<Longrightarrow> server_inv e s0 s \<Longrightarrow> \<exists>m. life_step (life_of e s) m (life_of e s')"
proof (induction rule: step.induct)
  case (accept s)
  then have "sv_next s \<notin> life_open (life_of e s)"
    by (auto simp: server_inv_def conns_ok_def ids_ok_def)
  with accept life_accept[of "life_of e s" "sv_next s"] show ?case by (auto simp: life_of_accept)
next
  case (notice s)
  then show ?case using life_stop[of "life_of e s"] by (auto simp: life_of_drain)
next
  case (advance s c rq stg)
  then show ?case by (auto simp: advance_conn_def life_of_update life_of_handler intro: internal_simulates)
next
  case (respond s c rq out)
  then show ?case
    using close_simulates[of s c e] internal_simulates[of s] by (simp add: after_response_def life_of_update)
next
  case (graceful s c)
  then show ?case
    using close_simulates[of s c e] internal_simulates[of s] by (simp add: go_graceful_def life_of_update)
qed (auto simp: life_of_update life_of_signal intro: close_simulates internal_simulates end_simulates)

interpretation server_life: simulation "step e" "server_inv e s0" life_step "life_of e" for e s0
  by unfold_locales (auto intro: step_server_inv step_simulates)

lemma server_refines_life:
  assumes "steps e s ls s'" "server_inv e s0 s"
  shows "server_inv e s0 s' \<and> (\<exists>ms. length ms = length ls \<and> life_run (life_of e s) ms (life_of e s'))"
  using server_life.inv_run[OF assms] server_life.run_simulates[OF assms] by blast

lemma serving_inv:
  "os_locks s (lock_path (se_addr e)) = Some (w_pid (se_world e)) \<Longrightarrow> server_inv e s (serving hs s)"
  by (simp add: server_inv_def serving_def conns_ok_def ids_ok_def graceful_ok_def lock_ok_def)

end
