(* ===== verification/Instances.thy ===== *)
theory Instances
  imports Listener Runs
begin

section \<open>Several instances on one socket path (main.rs)\<close>

text \<open>
  \<open>open_listener\<close> of \<open>src/rs/src/main.rs\<close> run by any number of processes at once. Every
  system call is a step of its own, and the steps of the processes interleave freely; \<open>point\<close> is
  where a process is. A process may also be stopped (the drain unlinks its socket, the exit drops its
  lock), may be killed anywhere (the kernel drops its lock, its files stay), and may be started again.
  Every call may fail, as in \<open>Listener\<close>. A process that runs alone does exactly what
  \<open>open_listener\<close> says (\<open>solo_open_listener\<close>), so that the properties of \<open>Listener\<close> and
  the ones here are about the same code.
\<close>

subsection \<open>Processes\<close>

datatype point =
    Idle | Opening | Locking | Checking | Probing inode | Removing | Binding | Owning | Moding
  | Undoing io_error | Dropping io_error | Listening | Closing | Exited "io_error option"

definition goto :: "('a \<Rightarrow> point) \<Rightarrow> (io_error \<Rightarrow> point) \<Rightarrow> (io_error + 'a) \<times> os \<Rightarrow> point \<times> os" where
  "goto ok err rs = (case_sum err ok (fst rs), snd rs)"

fun move :: "world \<Rightarrow> string \<Rightarrow> 32 word option \<Rightarrow> point \<Rightarrow> os \<Rightarrow> point \<times> os" where
  "move w addr gid Opening s = goto (\<lambda>_. Locking) (\<lambda>e. Exited (Some e)) (open_lock w addr s)"
| "move w addr gid Locking s = goto (\<lambda>_. Checking) (\<lambda>e. Exited (Some e)) (take_lock w addr s)"
| "move w addr gid Checking s =
     goto Probing (\<lambda>e. if io_kind e = NotFound then Binding else Dropping (lstat_error addr e))
       (syscall w (sys_lstat addr) s)"
| "move w addr gid (Probing i) s =
     (if ino_kind i \<noteq> SocketFile then (Dropping (not_a_socket w addr i), s)
      else goto (\<lambda>_. Removing) Dropping (check_probe addr (w_probe w (os_clock s) addr) s))"
| "move w addr gid Removing s = goto (\<lambda>_. Binding) Dropping (remove_stale w addr s)"
| "move w addr gid Binding s = goto (\<lambda>_. Owning) Dropping (bind_masked w addr s)"
| "move w addr gid Owning s = goto (\<lambda>_. Moding) Undoing (set_group w addr gid s)"
| "move w addr gid Moding s = goto (\<lambda>_. Listening) Undoing (set_mode w addr s)"
| "move w addr gid (Undoing e) s = (Dropping e, snd (syscall w (sys_unlink addr) s))"
| "move w addr gid (Dropping e) s = (Exited (Some e), release_lock w addr s)"
| "move w addr gid Closing s = (Exited None, release_lock w addr s)"
| "move w addr gid pt s = (pt, s)"

fun running :: "point \<Rightarrow> bool" where
  "running Idle = False"
| "running (Exited r) = False"
| "running _ = True"

fun holding :: "point \<Rightarrow> bool" where
  "holding Idle = False"
| "holding Opening = False"
| "holding Locking = False"
| "holding (Exited r) = False"
| "holding _ = True"

record deployment =
  dp_world :: "nat \<Rightarrow> world"
  dp_addr :: string
  dp_gid :: "nat \<Rightarrow> 32 word option"

definition world_of :: "deployment \<Rightarrow> nat \<Rightarrow> world" where
  "world_of d p = (dp_world d p)\<lparr>w_pid := p\<rparr>"

lemma w_pid_world_of [simp]: "w_pid (world_of d p) = p"
  by (simp add: world_of_def)

record instances =
  in_point :: "nat \<Rightarrow> point"
  in_os :: os

definition set_point :: "nat \<Rightarrow> point \<times> os \<Rightarrow> instances \<Rightarrow> instances" where
  "set_point p r s = \<lparr>in_point = (in_point s)(p := fst r), in_os = snd r\<rparr>"

datatype inst_label = Launch nat | Move nat | Stop nat | Crash nat

inductive inst_step :: "deployment \<Rightarrow> instances \<Rightarrow> inst_label \<Rightarrow> instances \<Rightarrow> bool" for d where
  launch: "\<not> running (in_point s p) \<Longrightarrow> inst_step d s (Launch p) (set_point p (Opening, in_os s) s)"
| move: "running (in_point s p) \<Longrightarrow> in_point s p \<noteq> Listening \<Longrightarrow>
    inst_step d s (Move p) (set_point p (move (world_of d p) (dp_addr d) (dp_gid d p) (in_point s p) (in_os s)) s)"
| stop: "in_point s p = Listening \<Longrightarrow>
    inst_step d s (Stop p) (set_point p (Closing, unlink_listen_socket (world_of d p) (dp_addr d) (in_os s)) s)"
| crash: "running (in_point s p) \<Longrightarrow>
    inst_step d s (Crash p) (set_point p (Exited None, release_lock (world_of d p) (dp_addr d) (in_os s)) s)"

inductive_cases inst_step_cases: "inst_step d s l s'"

abbreviation inst_steps :: "deployment \<Rightarrow> instances \<Rightarrow> inst_label list \<Rightarrow> instances \<Rightarrow> bool" where
  "inst_steps d \<equiv> runs (inst_step d)"

fun actor :: "inst_label \<Rightarrow> nat" where
  "actor (Launch p) = p"
| "actor (Move p) = p"
| "actor (Stop p) = p"
| "actor (Crash p) = p"

definition powered_off :: "os \<Rightarrow> instances" where
  "powered_off s = \<lparr>in_point = (\<lambda>_. Idle), in_os = s\<rparr>"

subsection \<open>A process that runs alone\<close>

primrec solo :: "world \<Rightarrow> string \<Rightarrow> 32 word option \<Rightarrow> nat \<Rightarrow> point \<times> os \<Rightarrow> point \<times> os" where
  "solo w addr gid 0 ps = ps"
| "solo w addr gid (Suc n) ps = solo w addr gid n (move w addr gid (fst ps) (snd ps))"

definition finished :: "(io_error + unit) \<times> os \<Rightarrow> point \<times> os" where
  "finished = goto (\<lambda>_. Listening) (\<lambda>e. Exited (Some e))"

lemma goto_simps [simp]: "goto ok err (Inl e, s) = (err e, s)" "goto ok err (Inr x, s) = (ok x, s)"
  by (simp_all add: goto_def)

lemma move_done: "fst ps \<in> insert Listening (range Exited) \<Longrightarrow> move w addr gid (fst ps) (snd ps) = ps"
  by (cases ps) auto

lemma solo_done: "fst ps \<in> insert Listening (range Exited) \<Longrightarrow> solo w addr gid n ps = ps"
  by (induction n) (auto simp: move_done)

lemma solo_add: "solo w addr gid (m + n) ps = solo w addr gid n (solo w addr gid m ps)"
  by (induction m arbitrary: ps) auto

lemma solo_step: "solo w addr gid (Suc n) (pt, s) = solo w addr gid n (move w addr gid pt s)"
  by simp

lemma finished_simps: "finished (Inl e, s) = (Exited (Some e), s)" "finished (Inr u, s) = (Listening, s)"
  by (simp_all add: finished_def)

text \<open>The last phases, from the inside out.\<close>

lemma solo_dropping: "solo w addr gid (Suc n) (Dropping e, s) = finished (drop_lock_on_error w addr (Inl e, s))"
  by (simp add: solo_done finished_simps drop_lock_on_error_def)

lemma io_split: obtains (error) e s' where "m s = (Inl e, s' :: os)" | (ok) x s' where "m s = (Inr x, s')"
  by (cases "m s"; cases "fst (m s)") auto

lemma io_bind_cong: "m s = m' s' \<Longrightarrow> io_bind m f s = io_bind m' f s'"
  by (simp add: io_bind_def split: sum.split)

lemma io_bind_ok: "m s = (Inr x, s') \<Longrightarrow> io_bind m f s = f x s'"
  by (simp add: io_bind_def)

lemma solo_owning:
  "solo w addr gid (4 + n) (Owning, s) =
     finished (drop_lock_on_error w addr (undo_bind w addr (set_socket_ownership_and_mode w addr gid s)))"
proof (cases rule: io_split[of "set_group w addr gid" s])
  case (error e s')
  then show ?thesis
    by (simp add: numeral_eq_Suc solo_dropping undo_bind_def set_socket_ownership_and_mode_def io_bind_def
        solo_done finished_simps drop_lock_on_error_def)
next
  case (ok x s1)
  then show ?thesis
    by (cases rule: io_split[of "set_mode w addr" s1])
      (simp_all add: numeral_eq_Suc undo_bind_def set_socket_ownership_and_mode_def io_bind_def solo_done
        finished_simps drop_lock_on_error_def)
qed

lemma solo_binding:
  "solo w addr gid (5 + n) (Binding, s) = finished (drop_lock_on_error w addr (bind_unix_listener w addr gid s))"
proof (cases rule: io_split[of "bind_masked w addr" s])
  case (error e s')
  then show ?thesis
    by (simp add: numeral_eq_Suc bind_unix_listener_def io_bind_def solo_done finished_simps drop_lock_on_error_def)
next
  case (ok x s1)
  have "solo w addr gid (5 + n) (Binding, s) = solo w addr gid (4 + n) (Owning, s1)"
    using ok by (simp add: numeral_eq_Suc)
  with ok show ?thesis by (simp add: solo_owning bind_unix_listener_def io_bind_def)
qed

lemma solo_clear_existing:
  "solo w addr gid (7 + n) (Probing i, s) = finished (drop_lock_on_error w addr
     (io_bind (clear_existing w addr i) (\<lambda>_. bind_unix_listener w addr gid) s))"
proof (cases "ino_kind i = SocketFile")
  case False
  then show ?thesis
    by (simp add: numeral_eq_Suc clear_existing_def io_fail_def io_bind_def solo_done finished_simps drop_lock_on_error_def)
next
  case sock: True
  show ?thesis
  proof (cases rule: io_split[of "check_probe addr (w_probe w (os_clock s) addr)" s])
    case (error e s')
    with sock show ?thesis
      by (simp add: numeral_eq_Suc clear_existing_def io_bind_def solo_done finished_simps drop_lock_on_error_def)
  next
    case probed: (ok x s1)
    show ?thesis
    proof (cases rule: io_split[of "remove_stale w addr" s1])
      case (error e s')
      with sock probed show ?thesis
        by (simp add: numeral_eq_Suc clear_existing_def io_bind_def solo_done finished_simps drop_lock_on_error_def)
    next
      case (ok y s2)
      have "solo w addr gid (7 + n) (Probing i, s) = solo w addr gid (5 + n) (Binding, s2)"
        using sock probed ok by (simp add: numeral_eq_Suc)
      with sock probed ok show ?thesis by (simp add: solo_binding clear_existing_def io_bind_def)
    qed
  qed
qed

lemma solo_checking:
  "solo w addr gid (8 + n) (Checking, s) = finished (drop_lock_on_error w addr
     (io_bind (prepare_socket_path w addr) (\<lambda>_. bind_unix_listener w addr gid) s))"
proof (cases rule: io_split[of "syscall w (sys_lstat addr)" s])
  case (ok i s1)
  have "solo w addr gid (8 + n) (Checking, s) = solo w addr gid (7 + n) (Probing i, s1)"
    using ok by (simp add: numeral_eq_Suc)
  moreover have "prepare_socket_path w addr s = clear_existing w addr i s1"
    using ok by (simp add: prepare_socket_path_def after_lstat_def)
  ultimately show ?thesis
    unfolding solo_clear_existing by (simp only: io_bind_cong [of "prepare_socket_path w addr" s "clear_existing w addr i" s1])
next
  case (error e s1)
  show ?thesis
  proof (cases "io_kind e = NotFound")
    case True
    have "solo w addr gid (8 + n) (Checking, s) = solo w addr gid (5 + (2 + n)) (Binding, s1)"
      using error True by (simp add: numeral_eq_Suc)
    with error True show ?thesis
      by (simp only: solo_binding) (simp add: prepare_socket_path_def after_lstat_def io_bind_def io_ok_def)
  next
    case False
    with error show ?thesis
      by (simp add: numeral_eq_Suc prepare_socket_path_def after_lstat_def io_bind_def io_fail_def solo_done
          finished_simps drop_lock_on_error_def)
  qed
qed

text \<open>Ten steps are enough for every outcome.\<close>

lemma solo_opening: "solo w addr gid (10 + n) (Opening, s) = finished (open_listener w addr gid s)"
proof (cases rule: io_split[of "open_lock w addr" s])
  case (error e s')
  then show ?thesis
    by (simp add: numeral_eq_Suc open_listener_def acquire_instance_lock_def io_bind_def solo_done finished_simps)
next
  case opened: (ok x s1)
  show ?thesis
  proof (cases rule: io_split[of "take_lock w addr" s1])
    case (error e s')
    with opened show ?thesis
      by (simp add: numeral_eq_Suc open_listener_def acquire_instance_lock_def io_bind_def solo_done finished_simps)
  next
    case (ok y s2)
    have "solo w addr gid (10 + n) (Opening, s) = solo w addr gid (8 + n) (Checking, s2)"
      using opened ok by (simp add: numeral_eq_Suc)
    moreover have "acquire_instance_lock w addr s = (Inr (), s2)"
      using opened ok by (simp add: acquire_instance_lock_def io_bind_ok)
    ultimately show ?thesis by (simp add: solo_checking open_listener_def io_bind_ok)
  qed
qed

subsection \<open>Mutual exclusion\<close>

text \<open>The lock names exactly the process that is between taking and dropping it.\<close>

definition owner_inv :: "deployment \<Rightarrow> instances \<Rightarrow> bool" where
  "owner_inv d s \<longleftrightarrow> (\<forall>p. holding (in_point s p) \<longleftrightarrow> os_locks (in_os s) (lock_path (dp_addr d)) = Some p)"

text \<open>What one call does to the lock and to the files.\<close>

lemmas sys_defs = sys_open_lock_def sys_flock_def sys_lstat_def sys_unlink_def sys_bind_def sys_chown_def sys_chmod_def

lemma tick_frame [simp]: "os_locks (tick s) = os_locks s" "os_files (tick s) = os_files s"
  by (simp_all add: tick_def)

lemma snd_io_map_err [simp]: "snd (io_map_err f m s) = snd (m s)"
  by (simp add: io_map_err_def)

lemma call_locks [simp]:
  "os_locks (snd (syscall w (sys_lstat addr) s)) = os_locks s"
  "os_locks (snd (syscall w (sys_unlink addr) s)) = os_locks s"
  "os_locks (snd (syscall w (sys_bind w addr) s)) = os_locks s"
  "os_locks (snd (open_lock w addr s)) = os_locks s"
  "os_locks (snd (remove_stale w addr s)) = os_locks s"
  "os_locks (snd (set_group w addr gid s)) = os_locks s"
  "os_locks (snd (set_mode w addr s)) = os_locks s"
  by (auto simp: open_lock_def remove_stale_def set_group_def set_mode_def io_ok_def sys_defs syscall_def
      split: option.split if_splits)

lemma bind_masked_locks [simp]: "os_locks (snd (bind_masked w addr s)) = os_locks s"
  by (simp add: bind_masked_def restore_umask_def)

lemma snd_check_probe [simp]: "snd (check_probe addr r s) = s"
  by (simp add: check_probe_def io_fail_def io_ok_def split: probe.split)

lemma take_lock_locks:
  "(case fst (take_lock w addr s) of
      Inl e \<Rightarrow> os_locks (snd (take_lock w addr s)) = os_locks s
    | Inr u \<Rightarrow> os_locks s (lock_path addr) = None \<and>
        os_locks (snd (take_lock w addr s)) = (os_locks s)(lock_path addr \<mapsto> w_pid w))"
  by (auto simp: take_lock_def io_map_err_def map_err_def sys_flock_def syscall_def split: option.split sum.split)

lemma lock_files [simp]:
  "os_files (snd (open_lock w addr s)) addr = os_files s addr"
  "os_files (snd (take_lock w addr s)) = os_files s"
  by (auto simp: open_lock_def take_lock_def sys_defs syscall_def split: option.split if_splits)

lemma move_lock:
  assumes "holding pt \<longleftrightarrow> os_locks s (lock_path addr) = Some (w_pid w)"
  shows "holding (fst (move w addr gid pt s)) \<longleftrightarrow> os_locks (snd (move w addr gid pt s)) (lock_path addr) = Some (w_pid w)"
      (is ?own)
    and "q \<noteq> w_pid w \<Longrightarrow>
      os_locks (snd (move w addr gid pt s)) (lock_path addr) = Some q \<longleftrightarrow> os_locks s (lock_path addr) = Some q"
      (is "_ \<Longrightarrow> ?other")
proof -
  have "?own \<and> (q \<noteq> w_pid w \<longrightarrow> ?other)"
  proof (cases pt)
    case Locking
    then show ?thesis
      using take_lock_locks[of w addr s] assms by (auto simp: goto_def split: sum.splits)
  qed (use assms in \<open>auto simp: goto_def release_lock_def split: sum.splits\<close>)
  then show ?own "q \<noteq> w_pid w \<Longrightarrow> ?other" by auto
qed

lemma move_files: "os_files (snd (move w addr gid pt s)) addr = os_files s addr \<or> holding pt"
  by (cases pt) (simp_all add: goto_def)

lemma release_lock_at:
  "os_locks (release_lock w addr s) (lock_path addr) = Some q \<longleftrightarrow>
     q \<noteq> w_pid w \<and> os_locks s (lock_path addr) = Some q"
  by (auto simp: release_lock_def)

lemma unlink_locks: "os_locks (unlink_listen_socket w addr s) = os_locks s"
  by (auto simp: unlink_listen_socket_def syscall_def sys_unlink_def tick_def split: option.splits)

lemma set_point_simps [simp]:
  "in_point (set_point p r s) q = (if q = p then fst r else in_point s q)" "in_os (set_point p r s) = snd r"
  by (simp_all add: set_point_def)

lemma not_running_not_holding: "\<not> running pt \<Longrightarrow> \<not> holding pt"
  by (cases pt) auto

lemma owner_inv_at: "owner_inv d s \<Longrightarrow> holding (in_point s p) \<longleftrightarrow> os_locks (in_os s) (lock_path (dp_addr d)) = Some p"
  by (simp add: owner_inv_def)

lemma owner_inv_set_point:
  assumes "owner_inv d s"
    and "holding (fst r) \<longleftrightarrow> os_locks (snd r) (lock_path (dp_addr d)) = Some p"
    and "\<And>q. q \<noteq> p \<Longrightarrow> os_locks (snd r) (lock_path (dp_addr d)) = Some q \<longleftrightarrow>
      os_locks (in_os s) (lock_path (dp_addr d)) = Some q"
  shows "owner_inv d (set_point p r s)"
  unfolding owner_inv_def
proof
  fix q
  show "holding (in_point (set_point p r s) q) \<longleftrightarrow>
      os_locks (in_os (set_point p r s)) (lock_path (dp_addr d)) = Some q"
    using assms(2,3) owner_inv_at[OF assms(1), of q] by (cases "q = p") simp_all
qed

lemma inst_step_owner: "inst_step d s l s' \<Longrightarrow> owner_inv d s \<Longrightarrow> owner_inv d s'"
proof (induction rule: inst_step.induct)
  case (launch s p)
  then show ?case
    using not_running_not_holding[of "in_point s p"] owner_inv_at[of d s p] by (intro owner_inv_set_point) simp_all
next
  case (move s p)
  then have own: "holding (in_point s p) \<longleftrightarrow> os_locks (in_os s) (lock_path (dp_addr d)) = Some (w_pid (world_of d p))"
    by (simp add: owner_inv_at)
  show ?case
    using move_lock[OF own] by (intro owner_inv_set_point move.prems) simp_all
next
  case (stop s p)
  then show ?case
    using owner_inv_at[of d s p] by (intro owner_inv_set_point) (simp_all add: unlink_locks)
next
  case (crash s p)
  then show ?case by (intro owner_inv_set_point) (simp_all add: release_lock_at)
qed

interpretation owner: keeps_invariant "inst_step d" "owner_inv d" for d
  by unfold_locales (rule inst_step_owner)

lemma powered_off_owner:
  "owner_inv d (powered_off s) \<longleftrightarrow> os_locks s (lock_path (dp_addr d)) = None"
  by (auto simp: owner_inv_def powered_off_def)

lemma owner_unique: "owner_inv d s \<Longrightarrow> holding (in_point s p) \<Longrightarrow> holding (in_point s q) \<Longrightarrow> p = q"
  by (simp add: owner_inv_def)

text \<open>Only the holder touches the socket's path.\<close>

lemma inst_step_files:
  assumes "inst_step d s l s'" "os_files (in_os s') (dp_addr d) \<noteq> os_files (in_os s) (dp_addr d)"
  shows "holding (in_point s (actor l))"
  using assms
proof (induction rule: inst_step.induct)
  case (move s p)
  then show ?case using move_files[of "world_of d p" "dp_addr d" "dp_gid d p" "in_point s p" "in_os s"] by simp
next
  case (crash s p)
  then show ?case by (simp add: release_lock_frame)
qed auto

lemma inst_step_other: "inst_step d s l s' \<Longrightarrow> q \<noteq> actor l \<Longrightarrow> in_point s' q = in_point s q"
  by (induction rule: inst_step.induct) auto

text \<open>While a process listens, no other process changes its socket or its lock, whatever they do.\<close>

lemma listening_undisturbed:
  assumes "inst_steps d s ls s'" "owner_inv d s" "holding (in_point s q)" "q \<notin> actor ` set ls"
  shows "in_point s' q = in_point s q \<and> os_files (in_os s') (dp_addr d) = os_files (in_os s) (dp_addr d)"
  using assms
proof (induction rule: runs.induct)
  case (runs_nil s)
  then show ?case by simp
next
  case (runs_cons s l s' ls s'')
  have q: "in_point s' q = in_point s q" using inst_step_other[OF runs_cons.hyps(1)] runs_cons.prems(3) by auto
  have "\<not> holding (in_point s (actor l))"
    using owner_unique[OF runs_cons.prems(1)] runs_cons.prems(2,3) by auto
  then have "os_files (in_os s') (dp_addr d) = os_files (in_os s) (dp_addr d)"
    using inst_step_files[OF runs_cons.hyps(1)] by blast
  with runs_cons.IH[OF inst_step_owner[OF runs_cons.hyps(1) runs_cons.prems(1)]] runs_cons.prems q show ?case by auto
qed

subsection \<open>Moves are bounded\<close>

text \<open>Every move brings a process closer to listening or to its exit.\<close>

fun rank :: "point \<Rightarrow> nat" where
  "rank Opening = 10"
| "rank Locking = 9"
| "rank Checking = 8"
| "rank (Probing i) = 7"
| "rank Removing = 6"
| "rank Binding = 5"
| "rank Owning = 4"
| "rank Moding = 3"
| "rank (Undoing e) = 2"
| "rank (Dropping e) = 1"
| "rank Closing = 1"
| "rank _ = 0"

lemma move_rank: "running pt \<Longrightarrow> pt \<noteq> Listening \<Longrightarrow> rank (fst (move w addr gid pt s)) < rank pt"
  by (cases pt) (simp_all add: goto_def split: sum.split)

definition credit :: "nat \<Rightarrow> inst_label \<Rightarrow> nat" where
  "credit p l = (if l = Launch p then 10 else if l = Stop p then 1 else 0)"

lemma inst_step_rank:
  "inst_step d s l s' \<Longrightarrow> rank (in_point s' p) + (if l = Move p then 1 else 0) \<le> rank (in_point s p) + credit p l"
proof (induction rule: inst_step.induct)
  case (move s q)
  then show ?case
    using move_rank[of "in_point s q" "world_of d q" "dp_addr d" "dp_gid d q" "in_os s"] by (auto simp: credit_def)
qed (auto simp: credit_def)

interpretation moves: potential "inst_step d" "\<lambda>_. True" "\<lambda>s. rank (in_point s p)"
    "\<lambda>l. if l = Move p then 1 else 0" "credit p" for d p
  by unfold_locales (simp_all add: inst_step_rank del: One_nat_def)

lemma inst_steps_rank:
  "inst_steps d s ls s' \<Longrightarrow>
     rank (in_point s' p) + count_list ls (Move p) \<le> rank (in_point s p) + (\<Sum>l\<leftarrow>ls. credit p l)"
  using moves.run_pays[of d s ls s' p] sum_list_count[of "Move p" ls] by simp

subsection \<open>A race has one winner\<close>

text \<open>
  The setting of the race: no call fails, every connection attempt is refused, the lock is free and
  its file is not a symbolic link, and at the path there is nothing or a socket that nobody listens on.
\<close>

definition calm :: "deployment \<Rightarrow> bool" where
  "calm d \<longleftrightarrow> (\<forall>p t. w_fault (dp_world d p) t = None) \<and>
     (\<forall>p t path. \<exists>e. w_probe (dp_world d p) t path = ConnectErr e \<and> raw_os_error e = Some ECONNREFUSED)"

definition clear_to_start :: "deployment \<Rightarrow> os \<Rightarrow> bool" where
  "clear_to_start d s \<longleftrightarrow> os_locks s (lock_path (dp_addr d)) = None \<and>
     (\<forall>i. os_files s (lock_path (dp_addr d)) = Some i \<longrightarrow> ino_kind i \<noteq> SymlinkFile) \<and>
     (\<forall>i. os_files s (dp_addr d) = Some i \<longrightarrow> ino_kind i = SocketFile)"

definition in_use :: "string \<Rightarrow> io_error" where
  "in_use addr = new_io_error AddrInUse (fmt [addr, '' is in use by another instance (lock '', lock_path addr, '' held)''])"

definition socket_of :: "deployment \<Rightarrow> nat \<Rightarrow> mode_t \<Rightarrow> bool \<Rightarrow> inode" where
  "socket_of d p mode owned = \<lparr>ino_kind = SocketFile, ino_mode = mode,
     ino_gid = (case dp_gid d p of
       None \<Rightarrow> w_egid (dp_world d p)
     | Some g \<Rightarrow> if owned \<and> g \<noteq> - 1 then g else w_egid (dp_world d p))\<rparr>"

text \<open>What the path holds while the winner is at a point.\<close>

fun race_point :: "deployment \<Rightarrow> nat \<Rightarrow> point \<Rightarrow> inode option \<Rightarrow> bool" where
  "race_point d p Checking f \<longleftrightarrow> (\<forall>i. f = Some i \<longrightarrow> ino_kind i = SocketFile)"
| "race_point d p (Probing i) f \<longleftrightarrow> ino_kind i = SocketFile \<and> f = Some i"
| "race_point d p Removing f \<longleftrightarrow> f \<noteq> None"
| "race_point d p Binding f \<longleftrightarrow> f = None"
| "race_point d p Owning f \<longleftrightarrow> f = Some (socket_of d p 384 False)"
| "race_point d p Moding f \<longleftrightarrow> f = Some (socket_of d p 384 True)"
| "race_point d p Listening f \<longleftrightarrow> f = Some (socket_of d p SOCKET_MODE True)"
| "race_point d p _ f \<longleftrightarrow> False"

lemma calm_world:
  assumes "calm d"
  shows "w_fault (world_of d p) t = None"
    and "fst (check_probe addr (w_probe (world_of d p) t addr) s) = Inr ()"
proof -
  show "w_fault (world_of d p) t = None" using assms by (simp add: calm_def world_of_def)
  obtain e where "w_probe (dp_world d p) t addr = ConnectErr e" "raw_os_error e = Some ECONNREFUSED"
    using assms unfolding calm_def by blast
  then show "fst (check_probe addr (w_probe (world_of d p) t addr) s) = Inr ()"
    by (simp add: check_probe_def io_ok_def world_of_def)
qed

lemma w_egid_world_of [simp]: "w_egid (world_of d p) = w_egid (dp_world d p)"
  by (simp add: world_of_def)

lemma calm_syscall: "calm d \<Longrightarrow> syscall (world_of d p) op s = (fst (op s), tick (snd (op s)))"
  by (simp add: syscall_def calm_world)

lemma race_opening:
  assumes "calm d" "\<forall>i. os_files s (lock_path addr) = Some i \<longrightarrow> ino_kind i \<noteq> SymlinkFile"
  shows "fst (move (world_of d p) addr gid Opening s) = Locking"
    and "\<forall>i. os_files (snd (move (world_of d p) addr gid Opening s)) (lock_path addr) = Some i \<longrightarrow> ino_kind i \<noteq> SymlinkFile"
  using assms by (auto simp: goto_def open_lock_def calm_syscall sys_open_lock_def io_map_err_def split: option.split)

lemma race_locking:
  assumes "calm d"
  shows "move (world_of d p) addr gid Locking s =
    (case os_locks s (lock_path addr) of
       None \<Rightarrow> (Checking, tick (s\<lparr>os_locks := (os_locks s)(lock_path addr \<mapsto> p)\<rparr>))
     | Some q \<Rightarrow> (Exited (Some (in_use addr)), tick s))"
  using assms
  by (simp add: goto_def take_lock_def calm_syscall sys_flock_def io_map_err_def lock_error_def in_use_def os_err_def
      split: option.split)

lemmas calm_calls = calm_syscall goto_def remove_stale_def bind_masked_def restore_umask_def set_group_def set_mode_def
  sys_lstat_def sys_unlink_def sys_bind_def sys_chown_def sys_chmod_def io_map_err_def io_ok_def

lemma race_winner:
  assumes "calm d" "race_point d p pt (os_files s (dp_addr d))"
  shows "race_point d p (fst (move (world_of d p) (dp_addr d) (dp_gid d p) pt s))
        (os_files (snd (move (world_of d p) (dp_addr d) (dp_gid d p) pt s)) (dp_addr d)) \<and>
      os_files (snd (move (world_of d p) (dp_addr d) (dp_gid d p) pt s)) (lock_path (dp_addr d)) =
        os_files s (lock_path (dp_addr d)) \<and>
      os_locks (snd (move (world_of d p) (dp_addr d) (dp_gid d p) pt s)) = os_locks s"
proof (cases pt)
  case Checking
  with assms show ?thesis by (auto simp: calm_calls os_err_def split: option.split)
next
  case (Probing i)
  with assms show ?thesis using calm_world(2)[OF assms(1), of "dp_addr d" p "os_clock s" s]
    by (simp add: goto_def)
next
  case Removing
  with assms show ?thesis by (auto simp: calm_calls)
next
  case Binding
  with assms show ?thesis by (simp add: calm_calls bind_mode socket_of_def split: option.split)
next
  case Owning
  with assms show ?thesis by (simp add: calm_calls socket_of_def split: option.split)
next
  case Moding
  with assms show ?thesis by (simp add: calm_calls socket_of_def)
qed (use assms in simp_all)

lemma race_point_holding: "race_point d q pt f \<Longrightarrow> holding pt"
  by (cases pt) auto

fun racing :: "inst_label \<Rightarrow> bool" where
  "racing (Launch p) = True"
| "racing (Move p) = True"
| "racing (Stop p) = False"
| "racing (Crash p) = False"

text \<open>\<open>race_frame\<close>: the part of the invariant about files and points, with the lock as an argument.\<close>

definition race_frame :: "deployment \<Rightarrow> (nat \<Rightarrow> point) \<Rightarrow> os \<Rightarrow> nat option \<Rightarrow> bool" where
  "race_frame d pts s lock \<longleftrightarrow>
     (\<forall>i. os_files s (lock_path (dp_addr d)) = Some i \<longrightarrow> ino_kind i \<noteq> SymlinkFile) \<and>
     (case lock of
        None \<Rightarrow> (\<forall>p. pts p \<in> {Idle, Opening, Locking}) \<and>
          (\<forall>i. os_files s (dp_addr d) = Some i \<longrightarrow> ino_kind i = SocketFile)
      | Some q \<Rightarrow> race_point d q (pts q) (os_files s (dp_addr d)) \<and>
          (\<forall>p. p \<noteq> q \<longrightarrow> pts p \<in> {Idle, Opening, Locking, Exited (Some (in_use (dp_addr d)))}))"

lemma race_frame_others:
  assumes "race_frame d pts s lock" "lock \<noteq> Some p"
  shows "pts p \<in> {Idle, Opening, Locking, Exited (Some (in_use (dp_addr d)))}"
  using assms(1)[unfolded race_frame_def, THEN conjunct2] assms(2) by (cases lock; simp; blast)

lemma race_frame_other:
  assumes "race_frame d pts s lock" "lock \<noteq> Some p"
    and "pt \<in> {Opening, Locking} \<or> pt = Exited (Some (in_use (dp_addr d))) \<and> lock \<noteq> None"
    and "os_files s' (dp_addr d) = os_files s (dp_addr d)"
    and "\<forall>i. os_files s' (lock_path (dp_addr d)) = Some i \<longrightarrow> ino_kind i \<noteq> SymlinkFile"
  shows "race_frame d (pts(p := pt)) s' lock"
proof (cases lock)
  case None
  with assms show ?thesis by (simp add: race_frame_def)
next
  case (Some q)
  with assms show ?thesis by (auto simp: race_frame_def)
qed

lemma race_frame_launch:
  assumes "race_frame d pts s lock" "\<not> running (pts p)"
  shows "race_frame d (pts(p := Opening)) s lock"
proof -
  have "lock \<noteq> Some p"
    using assms(1) race_point_holding not_running_not_holding[OF assms(2)] by (auto simp: race_frame_def)
  with assms(1) show ?thesis by (rule race_frame_other) (use assms(1) in \<open>simp_all add: race_frame_def\<close>)
qed

lemma race_frame_move:
  assumes "race_frame d (in_point s) (in_os s) (os_locks (in_os s) (lock_path (dp_addr d)))" "calm d"
    and "running (in_point s p)"
    and "r = move (world_of d p) (dp_addr d) (dp_gid d p) (in_point s p) (in_os s)"
  shows "race_frame d ((in_point s)(p := fst r)) (snd r) (os_locks (snd r) (lock_path (dp_addr d)))"
proof (cases "os_locks (in_os s) (lock_path (dp_addr d)) = Some p")
  case True
  then have "race_point d p (in_point s p) (os_files (in_os s) (dp_addr d))"
    using assms(1) by (simp add: race_frame_def)
  from race_winner[OF assms(2) this] True assms(1) show ?thesis
    unfolding assms(4) by (simp add: race_frame_def)
next
  case False
  then have "in_point s p \<in> {Idle, Opening, Locking, Exited (Some (in_use (dp_addr d)))}"
    by (rule race_frame_others[OF assms(1)])
  with assms(3) have "in_point s p \<in> {Opening, Locking}" by auto
  moreover have ?thesis if o: "in_point s p = Opening"
  proof -
    note frame = assms(1)[unfolded race_frame_def, THEN conjunct1]
    have "race_frame d ((in_point s)(p := fst r)) (snd r) (os_locks (in_os s) (lock_path (dp_addr d)))"
      unfolding assms(4) o race_opening(1)[OF assms(2) frame]
      by (rule race_frame_other[OF assms(1) False]) (simp_all add: goto_def race_opening(2)[OF assms(2) frame, simplified goto_def])
    then show ?thesis by (simp add: assms(4) o goto_def)
  qed
  moreover have ?thesis if l: "in_point s p = Locking"
  proof (cases "os_locks (in_os s) (lock_path (dp_addr d))")
    case None
    with assms(1) show ?thesis unfolding assms(4) l race_locking[OF assms(2)] by (simp add: race_frame_def) blast
  next
    case (Some q)
    have "race_frame d ((in_point s)(p := Exited (Some (in_use (dp_addr d))))) (tick (in_os s))
        (os_locks (in_os s) (lock_path (dp_addr d)))"
      by (rule race_frame_other[OF assms(1) False]) (use Some assms(1) in \<open>simp_all add: race_frame_def\<close>)
    then show ?thesis unfolding assms(4) l race_locking[OF assms(2)] by (simp add: Some)
  qed
  ultimately show ?thesis by blast
qed

definition race_inv :: "deployment \<Rightarrow> instances \<Rightarrow> bool" where
  "race_inv d s \<longleftrightarrow> race_frame d (in_point s) (in_os s) (os_locks (in_os s) (lock_path (dp_addr d)))"

lemma race_step:
  assumes "inst_step d s l s'" "racing l" "calm d" "race_inv d s"
  shows "race_inv d s'"
  using assms
proof (induction rule: inst_step.induct)
  case (launch s p)
  then show ?case by (simp add: race_inv_def set_point_def race_frame_launch)
next
  case (move s p)
  then show ?case by (simp add: race_inv_def set_point_def race_frame_move)
qed auto

lemma race_start: "clear_to_start d s \<Longrightarrow> race_inv d (powered_off s)"
  by (auto simp: race_inv_def race_frame_def clear_to_start_def powered_off_def)

lemma race_steps:
  assumes "inst_steps d s ls s'" "list_all racing ls" "calm d" "race_inv d s"
  shows "race_inv d s'"
  using assms(1,4) by (rule runs_invariant) (use assms(2,3) race_step in \<open>auto simp: list_all_iff\<close>)

text \<open>Once nobody moves any more, exactly one process listens and the others saw its lock.\<close>

definition settled :: "instances \<Rightarrow> bool" where
  "settled s \<longleftrightarrow> (\<forall>p. running (in_point s p) \<longrightarrow> in_point s p = Listening)"

lemma race_result:
  assumes "race_inv d s" "settled s" "\<exists>p. in_point s p \<noteq> Idle"
  shows "\<exists>q. in_point s q = Listening \<and>
    os_files (in_os s) (dp_addr d) = Some (socket_of d q SOCKET_MODE True) \<and>
    (\<forall>p. p \<noteq> q \<longrightarrow> in_point s p \<in> {Idle, Exited (Some (in_use (dp_addr d)))})"
proof (cases "os_locks (in_os s) (lock_path (dp_addr d))")
  case None
  then have p: "in_point s p \<in> {Idle, Opening, Locking}" for p
    using assms(1) by (simp add: race_inv_def race_frame_def)
  obtain p where "in_point s p \<noteq> Idle" using assms(3) by blast
  with p[of p] assms(2)[unfolded settled_def, rule_format, of p] show ?thesis by auto
next
  case (Some q)
  then have r: "race_point d q (in_point s q) (os_files (in_os s) (dp_addr d))"
    "\<forall>p. p \<noteq> q \<longrightarrow> in_point s p \<in> {Idle, Opening, Locking, Exited (Some (in_use (dp_addr d)))}"
    using assms(1) by (simp_all add: race_inv_def race_frame_def)
  have "in_point s q = Listening"
    using r(1) assms(2)[unfolded settled_def, rule_format, of q] by (cases "in_point s q") auto
  moreover have "in_point s p \<in> {Idle, Exited (Some (in_use (dp_addr d)))}" if "p \<noteq> q" for p
    using r(2) that assms(2)[unfolded settled_def, rule_format, of p] by auto
  ultimately show ?thesis using r(1) by auto
qed

subsection \<open>Runs\<close>

text \<open>The step relation is a partial function of the label.\<close>

fun inst_exec :: "deployment \<Rightarrow> instances \<Rightarrow> inst_label \<Rightarrow> instances option" where
  "inst_exec d s (Launch p) = (if running (in_point s p) then None else Some (set_point p (Opening, in_os s) s))"
| "inst_exec d s (Move p) =
     (if running (in_point s p) \<and> in_point s p \<noteq> Listening
      then Some (set_point p (move (world_of d p) (dp_addr d) (dp_gid d p) (in_point s p) (in_os s)) s) else None)"
| "inst_exec d s (Stop p) =
     (if in_point s p = Listening
      then Some (set_point p (Closing, unlink_listen_socket (world_of d p) (dp_addr d) (in_os s)) s) else None)"
| "inst_exec d s (Crash p) =
     (if running (in_point s p)
      then Some (set_point p (Exited None, release_lock (world_of d p) (dp_addr d) (in_os s)) s) else None)"

lemma inst_exec_step: "inst_step d s l s' \<longleftrightarrow> inst_exec d s l = Some s'"
  by (cases l) (auto intro: inst_step.intros elim: inst_step_cases)

interpretation inst_exec: executable "inst_step d" "\<lambda>_. True" "inst_exec d" for d
  by unfold_locales (simp_all add: inst_exec_step)

abbreviation inst_run :: "deployment \<Rightarrow> instances \<Rightarrow> inst_label list \<Rightarrow> instances option" where
  "inst_run d \<equiv> exec_run (inst_exec d)"

lemma inst_steps_other: "inst_steps d s ls s' \<Longrightarrow> q \<notin> actor ` set ls \<Longrightarrow> in_point s' q = in_point s q"
proof (induction rule: runs.induct)
  case (runs_cons s l s' ls s'')
  then show ?case using inst_step_other[OF runs_cons.hyps(1), of q] by auto
qed simp

lemma settledI:
  assumes "inst_steps d (powered_off s0) ls s"
    and "list_all (\<lambda>l. running (in_point s (actor l)) \<longrightarrow> in_point s (actor l) = Listening) ls"
  shows "settled s"
  unfolding settled_def
proof (intro allI impI)
  fix p
  assume "running (in_point s p)"
  then have "p \<in> actor ` set ls"
    using inst_steps_other[OF assms(1), of p] by (force simp: powered_off_def)
  with assms(2) \<open>running (in_point s p)\<close> show "in_point s p = Listening" by (auto simp: list_all_iff)
qed

text \<open>A process on its own reaches the outcome of \<open>open_listener\<close>.\<close>

lemma set_point_same: "set_point p (in_point s p, in_os s) s = s"
  by (simp add: set_point_def)

lemma set_point_twice: "set_point p r (set_point p r' s) = set_point p r s"
  by (simp add: set_point_def)

lemma solo_inst_steps:
  "\<exists>k\<le>n. inst_steps d s (replicate k (Move p))
     (set_point p (solo (world_of d p) (dp_addr d) (dp_gid d p) n (in_point s p, in_os s)) s)"
proof (induction n arbitrary: s)
  case 0
  have "inst_steps d s (replicate 0 (Move p)) s" by (simp add: runs_nil)
  then show ?case by (simp add: set_point_same)
next
  case (Suc n)
  define s' where "s' = set_point p (move (world_of d p) (dp_addr d) (dp_gid d p) (in_point s p) (in_os s)) s"
  from Suc[of s'] obtain k where k: "k \<le> n" "inst_steps d s' (replicate k (Move p))
      (set_point p (solo (world_of d p) (dp_addr d) (dp_gid d p) (Suc n) (in_point s p, in_os s)) s)"
    by (auto simp: s'_def set_point_twice)
  show ?case
  proof (cases "running (in_point s p) \<and> in_point s p \<noteq> Listening")
    case True
    then have "inst_step d s (Move p) s'" unfolding s'_def by (intro inst_step.move) auto
    with k show ?thesis by (intro exI [of _ "Suc k"]) (auto intro: runs.intros)
  next
    case False
    then have "move (world_of d p) (dp_addr d) (dp_gid d p) (in_point s p) (in_os s) = (in_point s p, in_os s)"
      by (cases "in_point s p") simp_all
    then have "s' = s" by (simp add: s'_def set_point_same)
    with k show ?thesis by (intro exI [of _ k]) auto
  qed
qed

lemma solo_run:
  assumes "\<not> running (in_point s p)"
  shows "\<exists>k\<le>10. inst_steps d s (Launch p # replicate k (Move p))
    (set_point p (finished (open_listener (world_of d p) (dp_addr d) (dp_gid d p) (in_os s))) s)"
proof -
  define s' where "s' = set_point p (Opening, in_os s) s"
  have "inst_step d s (Launch p) s'" unfolding s'_def using assms by (rule inst_step.launch)
  with solo_inst_steps[of 10 d s' p] show ?thesis
    using solo_opening[of "world_of d p" "dp_addr d" "dp_gid d p" 0 "in_os s"]
    by (auto simp: s'_def set_point_twice intro: runs.intros)
qed

end
