(* ===== verification/Sample.thy ===== *)
theory Sample
  imports Lifecycle Instances
begin

section \<open>A sample deployment\<close>

text \<open>
  Concrete values for the third-party parameters and a small configuration: one policy for the
  image \<open>nginx\<close> and the container \<open>web\<close>, a daemon that answers every request, and a few
  requests. The witnesses of the properties evaluate the model on them.
\<close>

definition sample_create :: string where
  "sample_create = ''{create}''"

definition sample_body :: json_body where
  "sample_body = [(''Image'', JString ''nginx:1.25''),
     (''HostConfig'', JObject [(''Binds'', JArray [JString ''/srv/web:/data:ro'']), (''Privileged'', JBool True)])]"

definition sample_externs :: externs where
  "sample_externs =
     \<lparr>regex_new = (\<lambda>pat. Inr (\<lambda>s. str_contains pat s)),
      json_display = (\<lambda>_. ''{}''),
      json_to_vec = (\<lambda>b. Some (join_with '','' (map fst b))),
      json_value_from_slice = (\<lambda>bs. if bs = sample_create then Some (JObject [])
        else Some (JObject [(''Name'', JString ''/web'')])),
      json_map_from_slice = (\<lambda>bs. if bs = sample_create then Some sample_body else None)\<rparr>"

definition sample_config :: container_config where
  "sample_config =
     \<lparr>network_mode = Some ''bridge'', restart_policy = None, security_options = None, cc_user = Some ''1000'',
      log_driver = None, log_options = None, group_add = None\<rparr>"

definition sample_policy :: policy where
  "sample_policy = (make_policy ''web'' [''nginx''])
     \<lparr>container_names := Some [''web''], container_config := Some sample_config,
      volumes := Some [\<lparr>host_path = ''/srv/web'', container_path = ''/data'', read_write = False\<rparr>],
      denied_flags := Some [''--privileged'']\<rparr>"

definition sample_manager :: manager where
  "sample_manager = \<lparr>policies_by_name = [(''web'', sample_policy)]\<rparr>"

definition sample_yaml :: yaml_loader where
  "sample_yaml groups text = Inr sample_policy"

definition sample_fs :: config_fs where
  "sample_fs = \<lparr>read_dir = (\<lambda>_. DirEntries [Inr ''web.yaml'', Inr ''notes.txt'']),
     read_to_string = (\<lambda>_. Inr ''service_name: web'')\<rparr>"

definition sample_audit :: audit_env where
  "sample_audit = \<lparr>av_open = (\<lambda>_. Inr []), av_now = (\<lambda>_. ''2026-01-01T00:00:00+00:00''),
     av_random = (\<lambda>_. ''abcdefgh''), av_write_error = (\<lambda>_. None)\<rparr>"

definition sample_env :: handler_env where
  "sample_env = \<lparr>he_externs = sample_externs, he_audit = sample_audit, he_uri_error = (\<lambda>_. None)\<rparr>"

definition sample_transport :: transport where
  "sample_transport sent req = Inr \<lparr>rs_status = 200, rs_headers = [], rs_body = ''{inspect}''\<rparr>"

definition sample_handler :: "bool \<Rightarrow> handler" where
  "sample_handler ro = new_handler (with_readonly (new_router sample_manager) ro) chain_new sample_transport"

definition sample_state :: handler_state where
  "sample_state = \<lparr>hs_audit = \<lparr>al_entries = [], al_file = []\<rparr>, hs_sent = []\<rparr>"

definition sample_request :: "string \<Rightarrow> string \<Rightarrow> string \<Rightarrow> incoming" where
  "sample_request mth target body =
     \<lparr>in_method = mth,
      in_uri = \<lparr>uri_text = target, uri_path = fst (split_target target), uri_path_and_query = Some target\<rparr>,
      in_version = 11, in_headers = [(''host'', ''docker'')], in_body = Inr body\<rparr>"

definition create_request :: incoming where
  "create_request = sample_request ''POST'' ''/v1.44/containers/create?name=web'' sample_create"

definition sample_world :: "nat \<Rightarrow> world" where
  "sample_world pid =
     \<lparr>w_pid = pid, w_egid = 5, w_fault = (\<lambda>_. None),
      w_probe = (\<lambda>_ _. ConnectErr (os_err (OtherKind ''ConnectionRefused'') ECONNREFUSED)),
      w_getgrnam = (\<lambda>_. NoGroup), w_debug_file_type = (\<lambda>_. ''FileType'')\<rparr>"

definition sample_addr :: string where
  "sample_addr = ''/run/p.sock''"

definition stale_socket :: inode where
  "stale_socket = \<lparr>ino_kind = SocketFile, ino_mode = SOCKET_MODE, ino_gid = 7\<rparr>"

definition sample_os :: os where
  "sample_os = \<lparr>os_files = (\<lambda>p. if p = sample_addr then Some stale_socket
       else if p = ''/var/log/docker-socket-policy.log'' then Some \<lparr>ino_kind = RegularFile, ino_mode = 420, ino_gid = 5\<rparr>
       else None), os_umask = 18,
     os_locks = (\<lambda>_. None), os_clock = 0, os_hist = []\<rparr>"

definition opened_os :: os where
  "opened_os = snd (open_listener (sample_world 1) sample_addr (Some 7) sample_os)"

definition sample_server_env :: server_env where
  "sample_server_env = \<lparr>se_env = sample_env, se_handler = sample_handler False, se_world = sample_world 1,
     se_addr = sample_addr\<rparr>"

lemma sample_open_result: "fst (open_listener (sample_world 1) sample_addr (Some 7) sample_os) = Inr ()"
  by code_simp

lemma sample_open: "open_listener (sample_world 1) sample_addr (Some 7) sample_os = (Inr (), opened_os)"
  unfolding opened_os_def using sample_open_result by (metis prod.collapse)

lemma sample_gid: "(7 :: 32 word) \<noteq> - 1"
  by simp

lemma sample_lock: "os_locks opened_os (lock_path sample_addr) = Some 1"
  using open_success(2)[OF sample_open sample_gid] by (simp add: sample_world_def)

subsection \<open>Sample runs\<close>

definition sample_cli :: "bool \<Rightarrow> cli" where
  "sample_cli ro = default_cli\<lparr>listen_socket := sample_addr, cli_readonly := ro, listen_socket_group := Some ''7''\<rparr>"

definition sample_docker :: docker_socket where
  "sample_docker = \<lparr>sk_connect = (\<lambda>_. Inr ()), sk_handshake = Inr (),
     sk_send = (\<lambda>_. Inr \<lparr>rs_status = 200, rs_headers = [], rs_body = []\<rparr>), sk_collect = (\<lambda>_. Inr ''{inspect}'')\<rparr>"

definition sample_host :: host where
  "sample_host = \<lparr>ho_world = sample_world 1, ho_yaml = sample_yaml, ho_config = sample_fs, ho_audit = sample_audit,
     ho_docker = (\<lambda>_. sample_docker), ho_sigterm_error = None\<rparr>"

lemma sample_loads: "new_manager sample_yaml sample_fs ''/etc/docker-socket-policy/services'' = Inr sample_manager"
  by code_simp

lemma sample_start:
  "start sample_host (sample_cli ro) sample_os =
     (Running (start_handler sample_host (sample_cli ro) sample_manager) sample_state, opened_os)"
proof -
  have cli: "listen_socket (sample_cli ro) = sample_addr" "docker_host (sample_cli ro) = ''/var/run/docker.sock''"
    "config_dir (sample_cli ro) = ''/etc/docker-socket-policy/services''"
    "listen_socket_group (sample_cli ro) = Some ''7''" "log_file (sample_cli ro) = ''/var/log/docker-socket-policy.log''"
    by (simp_all add: sample_cli_def default_cli_def)
  have host: "ho_world sample_host = sample_world 1" "ho_yaml sample_host = sample_yaml" "ho_config sample_host = sample_fs"
    "ho_audit sample_host = sample_audit" "ho_sigterm_error sample_host = None"
    by (simp_all add: sample_host_def)
  have addr: "\<not> isl (validate_listen_socket sample_addr)" "\<not> isl (validate_docker_host ''/var/run/docker.sock'')"
    by code_simp+
  have group: "select_socket_group (Some ''7'') (resolve_group (sample_world 1)) (w_egid (sample_world 1)) = Inr (7, None)"
  proof -
    have "all_digits ''7''" and d: "dec_value ''7'' = 7" by code_simp+
    then have "resolve_group (sample_world 1) ''7'' = Inr 7" by (simp add: resolve_group_numeric)
    then show ?thesis by (simp add: select_socket_group_def)
  qed
  have log: "open_audit w sample_audit ''/var/log/docker-socket-policy.log'' sample_os =
      (Some \<lparr>al_entries = [], al_file = []\<rparr>, sample_os)" for w
    by (simp add: open_audit_def audit_open_def sample_audit_def create_log_def sample_os_def sample_addr_def)
  show ?thesis
    by (simp add: start_def start_proxy_def start_listener_def cli host addr group sample_loads log sample_open
        sample_state_def del: One_nat_def)
qed

text \<open>Runs are found by running the server.\<close>

lemma sample_run:
  assumes "case exec_steps e (serving sample_state opened_os) ls of None \<Rightarrow> False | Some s \<Rightarrow> P s"
  shows "\<exists>s. steps e (serving sample_state opened_os) ls s \<and> P s"
  using assms server_exec.exec_run_iff[OF serving_ids_ok, of e sample_state opened_os ls]
  by (auto split: option.splits)

definition request_labels :: "label list" where
  "request_labels = [Accept, Request 0 create_request, Advance 0, Advance 0, Advance 0, Advance 0, Respond 0]"

lemma sample_request_run:
  "\<exists>s. steps sample_server_env (serving sample_state opened_os) request_labels s \<and> length (hs_sent (sv_handler s)) = 1"
  by (rule sample_run) code_simp

definition started_env :: "bool \<Rightarrow> server_env" where
  "started_env ro = sample_server_env\<lparr>se_handler := start_handler sample_host (sample_cli ro) sample_manager\<rparr>"

lemma started_env_simps:
  "se_handler (started_env ro) = start_handler sample_host (sample_cli ro) sample_manager" "se_env (started_env ro) = sample_env"
  by (simp_all add: started_env_def sample_server_env_def)

definition created_body :: bytes where
  "created_body = ''Image,HostConfig,User,NetworkingConfig''"

lemma sample_create_run:
  "\<exists>s. steps (started_env False) (serving sample_state opened_os) request_labels s \<and>
     map rq_body (hs_sent (sv_handler s)) = [created_body]"
  by (rule sample_run) code_simp

text \<open>A read is forwarded and a delete is refused.\<close>

definition readonly_labels :: "label list" where
  "readonly_labels = [Accept, Accept, Request 0 (sample_request ''GET'' ''/containers/json'' []),
     Request 1 (sample_request ''DELETE'' ''/containers/web'' []), Advance 0, Advance 1, Advance 0, Advance 1, Advance 0]"

lemma sample_readonly_run:
  "\<exists>s. steps (started_env True) (serving sample_state opened_os) readonly_labels s \<and>
     (length (hs_sent (sv_handler s)) = 1 \<and> length (al_entries (hs_audit (sv_handler s))) = 2)"
  by (rule sample_run) code_simp

lemma sample_signal_run:
  "\<exists>s. steps sample_server_env (serving sample_state opened_os) [Accept, Signal, Notice] s \<and>
     (sv_phase s = Draining \<and> list_all cn_told (sv_conns s) \<and> length (sv_conns s) = 1)"
  by (rule sample_run) code_simp

definition sample_deployment :: deployment where
  "sample_deployment = \<lparr>dp_world = sample_world, dp_addr = sample_addr, dp_gid = (\<lambda>_. Some 7)\<rparr>"

definition race_labels :: "inst_label list" where
  "race_labels = [Launch 0, Launch 1, Move 0, Move 1, Move 1, Move 0] @ replicate 6 (Move 1)"

lemma sample_race:
  "\<exists>s. inst_steps sample_deployment (powered_off sample_os) race_labels s \<and>
     in_point s 1 = Listening \<and> settled s"
proof -
  have "case inst_run sample_deployment (powered_off sample_os) race_labels of
      None \<Rightarrow> False
    | Some s \<Rightarrow> in_point s 1 = Listening \<and>
        list_all (\<lambda>l. running (in_point s (actor l)) \<longrightarrow> in_point s (actor l) = Listening) race_labels"
    by code_simp
  then obtain s where "inst_run sample_deployment (powered_off sample_os) race_labels = Some s"
    "in_point s 1 = Listening"
    "list_all (\<lambda>l. running (in_point s (actor l)) \<longrightarrow> in_point s (actor l) = Listening) race_labels"
    by (auto split: option.splits)
  then show ?thesis using settledI by (auto simp: inst_exec.exec_run_iff)
qed

end
