(* ===== verification/Policy_Properties.thy ===== *)
theory Policy_Properties
  imports Sample
begin

section \<open>Properties of image references and policies\<close>

text \<open>
  What \<open>src/rs/src/policy.rs\<close> promises to the router and the gates: a configuration that
  loads never leaves a create with two candidate policies, image references are parsed and
  compared as the daemon does, and the names and groups of a policy file are well formed.
\<close>

text \<open>
  C7. When \<open>Manager::new\<close> succeeds, every policy passed the checks of its file and, for
  every repository and container name, at most one policy matches the image and accepts the name.
\<close>

theorem loaded_manager_unambiguous:
  assumes "new_manager yaml fs dir = Inr m"
  shows "manager_checked (policies_by_name m) \<and> (\<forall>n c. length (create_candidates m n c) \<le> 1)"
  using new_manager_Inr[OF assms] new_manager_unambiguous[OF assms] by (simp add: unambiguous_def)

theorem loaded_manager_unambiguous_witness:
  "new_manager sample_yaml sample_fs ''/etc/services'' = Inr sample_manager \<and>
   manager_checked (policies_by_name sample_manager) \<and> (\<forall>n c. length (create_candidates sample_manager n c) \<le> 1)"
proof -
  have "new_manager sample_yaml sample_fs ''/etc/services'' = Inr sample_manager" by code_simp
  with loaded_manager_unambiguous[OF this] show ?thesis by blast
qed

text \<open>
  C8. A create gets the policy \<open>p\<close> exactly when its image parses and \<open>p\<close> is the only
  policy that matches the image and accepts the name; no candidate, or several, is an error.
\<close>

theorem select_for_create_unique:
  "select_for_create m img name = Inr p \<longleftrightarrow>
     (\<exists>r. parse_image_ref img = Inr r \<and>
        filter (\<lambda>q. matches_image_prefix (ir_name r) (allowed_image_prefixes q) \<and> accepts_name q name)
          (policies m) = [p])"
  by (rule mgr.select_iff)

text \<open>
  C24. A policy prefix matches a repository exactly when its components are a prefix of the
  repository's components, so \<open>ghcr.io/acme\<close> never matches \<open>ghcr.io/acme-evil\<close>.
\<close>

theorem prefix_match_components:
  "matches_image_prefix name pfxs \<longleftrightarrow>
     list_ex (\<lambda>p. prefix (split_on (CHR ''/'') p) (split_on (CHR ''/'') name)) pfxs"
  by (simp add: matches_image_prefix_components list_ex_iff)

text \<open>
  C25. Parsing the printed form of a reference with a normalised name and a valid tag gives the
  reference back: a registry port is never taken for a tag, and tag and digest are kept apart.
\<close>

theorem image_ref_roundtrip:
  assumes "normalize_name (ir_name i) = Some (ir_name i)"
    and "ir_tag i = [] \<or> is_match tag_re (ir_tag i)"
  shows "parse_image_ref (print_image_ref i) = Inr i"
  using assms by (rule parse_print_image_ref)

theorem image_ref_roundtrip_witness:
  "parse_image_ref (print_image_ref \<lparr>ir_name = ''localhost:5000/app'', ir_tag = ''1.2'', ir_digest = ''sha256:0''\<rparr>)
     = Inr \<lparr>ir_name = ''localhost:5000/app'', ir_tag = ''1.2'', ir_digest = ''sha256:0''\<rparr>"
  by (rule image_ref_roundtrip) code_simp+

text \<open>
  C26. A normalised name that does not start with a Docker Hub host or an invalid host is a fixed
  point of normalisation.
\<close>

theorem normalize_name_fixed:
  assumes "normalize_name name = Some n" and "host_like_ok n"
  shows "normalize_name n = Some n"
  using assms by (rule normalize_name_idem)

theorem normalize_name_fixed_witness:
  "normalize_name ''Index.Docker.io/library/nginx'' = Some ''nginx'' \<and> normalize_name ''nginx'' = Some ''nginx''"
proof -
  have "normalize_name ''Index.Docker.io/library/nginx'' = Some ''nginx''" by code_simp
  moreover have "host_like_ok ''nginx''" by code_simp
  ultimately show ?thesis using normalize_name_fixed by blast
qed

text \<open>
  C27. Docker Hub's three hosts are interchangeable and optional: naming one before a path with no
  host gives the same repository as the bare path.
\<close>

theorem docker_hub_names_agree:
  assumes "d \<in> set DEFAULT_REGISTRIES" and "fst (split_domain path) = None"
  shows "normalize_name (d @ ''/'' @ path) = normalize_name path"
  using assms by (rule normalize_name_hub)

theorem docker_hub_names_agree_witness:
  "''docker.io'' \<in> set DEFAULT_REGISTRIES \<and>
   normalize_name (''docker.io'' @ ''/'' @ ''acme/app'') = normalize_name ''acme/app''"
proof -
  have "''docker.io'' \<in> set DEFAULT_REGISTRIES" "fst (split_domain ''acme/app'') = None" by code_simp+
  with docker_hub_names_agree[OF this] show ?thesis by blast
qed

text \<open>
  The byte loops of \<open>valid_container_name\<close> and \<open>valid_group_name\<close> accept exactly
  the strings of the documented patterns; a group name has at most 32 bytes and at most one dollar
  sign, at the end.
\<close>

lemma name_patterns:
  "valid_container_name s = is_match container_name_rx s \<and>
   valid_group_name s = (length s \<le> 32 \<and> is_match group_name_rx s)"
  by (intro conjI valid_container_name_rx valid_group_name_rx)

text \<open>
  C30. \<open>check_group_add\<close> accepts a list exactly when each entry is a GID between 1 and
  4294967295 or a valid name other than root, and no two entries name the same group, however the
  GIDs are written.
\<close>

theorem group_add_checked:
  "check_group_add file gs = Inr () \<longleftrightarrow> list_all group_entry_ok gs \<and> distinct (map group_ident gs)"
  by (simp add: check_group_add_ok list_all_iff)

end
