(* ===== verification/Gate_Properties.thy ===== *)
theory Gate_Properties
  imports Sample
begin

section \<open>Properties of the middleware chain\<close>

text \<open>
  What \<open>src/rs/src/middleware.rs\<close> guarantees about a container create: each gate admits
  exactly the bodies of its specification, the chain is their conjunction on the mutated body, and
  the mutator forces what the policy says.
\<close>

text \<open>
  C9. The chain allows a body exactly when all six specifications hold of the mutated body; then
  the result carries the serialised mutated body, and otherwise no body.
\<close>

theorem chain_allows_iff:
  "gr_allowed (execute x chain_new p b) = create_admitted x p (container_config_mutator p b) \<and>
   modified_body (execute x chain_new p b) =
     (if create_admitted x p (container_config_mutator p b) then json_to_vec x (container_config_mutator p b) else None)"
proof -
  have a: "gr_allowed (execute x chain_new p b) = create_admitted x p (container_config_mutator p b)"
    by (rule execute_new_allowed)
  show ?thesis
  proof (cases "gr_allowed (execute x chain_new p b)")
    case True
    with create_chain.execute_body[OF True] a show ?thesis by simp
  next
    case False
    with create_chain.execute_denied_body[OF False] a show ?thesis by simp
  qed
qed

text \<open>
  C10. MountSourceGate passes a body exactly when, in a \<open>HostConfig\<close> that is an object, each bind
  names a volume of the policy and has allowed options, \<open>ro\<close> and not \<open>rw\<close> where the volume is
  read-only; each mount is either a tmpfs mount without a source, which names no volume, or a bind mount
  of a volume of the policy, read-only where the volume is, with no field beyond the allowed ones set and
  no case variant of a field; and each key of the top-level \<open>Volumes\<close> is a volume of the policy.
\<close>

theorem mount_gate_iff: "mount_source_gate x p b = Inr () \<longleftrightarrow> mounts_admitted x p b"
  by (rule mount_gate.check_iff)

text \<open>
  C11. HostConfigGate passes a body exactly when no key is a case variant of a known field and
  \<open>HostConfig\<close> is absent, null or an object whose every field, known or not, holds a value the
  default-deny table allows.
\<close>

theorem host_config_gate_iff: "host_config_gate x p b = Inr () \<longleftrightarrow> host_config_admitted x p b"
  by (rule host_config.check_iff)

text \<open>
  C12. The daemon matches keys up to case folding and lets the last one win. In whatever order the
  entries of a body that the chain allows are written, it reads every field of the create body that it
  knows as the value the gates saw, \<open>HostConfig\<close> included; there it reads \<open>Privileged\<close> as false
  and every known field as a value the default-deny table allows, and in \<open>NetworkingConfig\<close> it reads
  the endpoints that were checked.
\<close>

theorem daemon_reads_checked_config:
  assumes "gr_allowed (execute x chain_new p b)" and "body_wf b"
    and "set b' = set (container_config_mutator p b)" and "distinct (map fst b')"
  shows "(\<forall>f\<in>set CREATE_BODY_FIELDS. decoded b' f = hm_get (container_config_mutator p b) f) \<and>
    (\<exists>hc. decoded b' ''HostConfig'' = Some (JObject hc) \<and> decoded hc ''Privileged'' = Some (JBool False) \<and>
      (\<forall>f\<in>set HOST_CONFIG_FIELDS. \<forall>v. decoded hc f = Some v \<longrightarrow> value_allowed p f v) \<and>
      (\<forall>f\<in>set HOST_CONFIG_FIELDS. decoded hc f = bt_get hc f)) \<and>
    (\<forall>nc. decoded b' ''NetworkingConfig'' = Some (JObject nc) \<longrightarrow>
      (\<forall>f\<in>set NETWORKING_CONFIG_FIELDS. decoded nc f = bt_get nc f))"
proof -
  have a: "create_admitted x p (container_config_mutator p b)" using assms(1) by (simp add: execute_new_allowed)
  then have h: "host_config_admitted x p (container_config_mutator p b)" by (simp add: create_admitted_def)
  note body = admitted_body_decoded[OF h body_wf_mutator[OF assms(2)] assms(3,4)]
  have known: "''HostConfig'' \<in> set CREATE_BODY_FIELDS" "''NetworkingConfig'' \<in> set CREATE_BODY_FIELDS"
    by (simp_all add: CREATE_BODY_FIELDS_def)
  obtain hc where hc: "hm_get (container_config_mutator p b) ''HostConfig'' = Some (JObject hc)" "host_config_safe p hc"
    using create_admitted_safe[OF a assms(2)] by (auto simp: create_safe_def)
  have "decoded b' ''HostConfig'' = Some (JObject hc)" using body(1)[OF known(1)] hc(1) by simp
  moreover have "decoded hc ''Privileged'' = Some (JBool False)" "\<forall>f\<in>set HOST_CONFIG_FIELDS. decoded hc f = bt_get hc f"
    "\<forall>f\<in>set HOST_CONFIG_FIELDS. \<forall>v. decoded hc f = Some v \<longrightarrow> value_allowed p f v"
    using hc(2) by (simp_all add: host_config_safe_def)
  moreover have "\<forall>nc. decoded b' ''NetworkingConfig'' = Some (JObject nc) \<longrightarrow>
      (\<forall>f\<in>set NETWORKING_CONFIG_FIELDS. decoded nc f = bt_get nc f)"
    using body(1)[OF known(2)] body(2) by simp
  ultimately show ?thesis using body(1) by blast
qed

theorem daemon_reads_checked_config_witness:
  "\<exists>hc. decoded (rev (container_config_mutator sample_policy sample_body)) ''HostConfig'' = Some (JObject hc) \<and>
    decoded hc ''Privileged'' = Some (JBool False)"
proof -
  have a: "gr_allowed (execute sample_externs chain_new sample_policy sample_body)" "body_wf sample_body"
    "distinct (map fst (rev (container_config_mutator sample_policy sample_body)))"
    by code_simp+
  have "set (rev (container_config_mutator sample_policy sample_body)) = set (container_config_mutator sample_policy sample_body)"
    by simp
  from daemon_reads_checked_config[OF a(1,2) this a(3)] show ?thesis by blast
qed

text \<open>
  C13. When CmdGate passes, every argument of \<open>Cmd\<close> that starts with a dash has only allowed
  characters and a flag that is not denied and, with an allowlist, is on it; a value after an equals
  sign matches the rules of its flag. No flag escapes by standing where a value is expected.
\<close>

theorem cmd_flags_checked:
  assumes "cmd_gate x p b = Inr ()" and "hm_get b ''Cmd'' = Some (JArray cmd)"
    and "arg \<in> set (map cmd_arg cmd)" and "starts_with arg ''-''"
  shows "charset_check arg \<and> flag_allowed p (flag_name arg) \<and>
    (\<forall>f v. arg = f @ CHR ''='' # v \<and> CHR ''='' \<notin> set f \<and> v \<noteq> [] \<longrightarrow> value_matches x p f v)"
proof -
  have a: "args_allowed x p (map cmd_arg cmd)"
    using assms(1,2) by (auto simp: cmd_gate_ok cmd_admitted_def)
  have e: "arg \<in> set (own_args (map cmd_arg cmd))" "flag_name arg \<in> fst ` set (flag_args (map cmd_arg cmd))"
    using dash_arg_examined[OF assms(3,4)] by auto
  have "value_matches x p f v" if "arg = f @ CHR ''='' # v" "CHR ''='' \<notin> set f" "v \<noteq> []" for f v
  proof -
    have "starts_with f ''-''" using assms(4) that by (cases f) auto
    with that assms(3) have "(f, v) \<in> set (flag_args (map cmd_arg cmd))" by (intro eq_flag_value) auto
    with a that(3) show ?thesis by (auto simp: args_allowed_def)
  qed
  with a e show ?thesis by (auto simp: args_allowed_def)
qed

theorem cmd_flags_checked_witness:
  "charset_check ''--level=info'' \<and> flag_allowed sample_policy ''--level''"
proof -
  have "cmd_gate sample_externs sample_policy [(''Cmd'', JArray [JString ''run'', JString ''--level=info''])] = Inr ()"
    "hm_get [(''Cmd'', JArray [JString ''run'', JString ''--level=info''])] ''Cmd'' =
       Some (JArray [JString ''run'', JString ''--level=info''])"
    "''--level=info'' \<in> set (map cmd_arg [JString ''run'', JString ''--level=info''])"
    "starts_with ''--level=info'' ''-''" by code_simp+
  note r = cmd_flags_checked[OF this]
  have "flag_name ''--level=info'' = ''--level''" by code_simp
  with r show ?thesis by simp
qed

text \<open>
  C14. RegistryGate passes exactly when the image, if one is given, parses, matches a prefix of the
  policy and has a digest and a tag the policy accepts; EnvFileGate passes exactly when the policy
  sets no env file or neither the body nor its \<open>HostConfig\<close> lists inline variables. The gate denies
  and nothing is stripped, unlike what the README says: the mutator, which alone changes the body, leaves
  \<open>Env\<close> as it is.
\<close>

theorem registry_and_env_gates_iff:
  "(registry_gate x p b = Inr ()) = registry_admitted x p b \<and> (env_file_gate x p b = Inr ()) = env_admitted x p b \<and>
   hm_get (container_config_mutator p b) ''Env'' = hm_get b ''Env''"
  by (simp add: registry.check_iff env_file.check_iff mutator_other_fields)

text \<open>
  C15. When the policy forces a network mode and the chain allows the body, the forwarded
  \<open>EndpointsConfig\<close> has exactly one entry, the mode's, or none for host, none and container modes.
\<close>

theorem allowed_endpoints_forced:
  assumes "forced_network_mode p = Some mode" and "gr_allowed (execute x chain_new p b)"
  shows "\<exists>nc eps. hm_get (container_config_mutator p b) ''NetworkingConfig'' = Some (JObject nc) \<and>
    bt_get nc ''EndpointsConfig'' = Some (JObject eps) \<and>
    bt_keys eps = (if detached_network_mode mode then [] else [mode])"
proof -
  have a: "endpoints_admitted x p (container_config_mutator p b)" "host_config_admitted x p (container_config_mutator p b)"
    using assms(2) by (simp_all add: execute_new_allowed create_admitted_def)
  obtain c where "container_config_mutator p b = force_endpoints mode c"
    using allowed_host_config[OF a(2)] mutator_endpoints[OF assms(1)] by blast
  with endpoints_forced_admitted[OF assms(1), of x c] a(1) show ?thesis
    by (simp add: endpoints_forced_def)
qed

theorem allowed_endpoints_forced_witness:
  "\<exists>nc eps. hm_get (container_config_mutator sample_policy sample_body) ''NetworkingConfig'' = Some (JObject nc) \<and>
    bt_get nc ''EndpointsConfig'' = Some (JObject eps) \<and> bt_keys eps = [''bridge'']"
proof -
  have "forced_network_mode sample_policy = Some ''bridge''"
    "gr_allowed (execute sample_externs chain_new sample_policy sample_body)" by code_simp+
  note r = allowed_endpoints_forced[OF this]
  have "\<not> detached_network_mode ''bridge''" by code_simp
  with r show ?thesis by simp
qed

text \<open>
  C16. Whatever a create has as \<open>HostConfig\<close>: when it is absent, null or an object, the mutator leaves
  an object in which every field the policy forces holds the forced value (\<open>Privileged\<close> always false)
  and every other field is the caller's, if there was one; the policy's user replaces the caller's, and
  nothing else but \<open>NetworkingConfig\<close> changes. Any other \<open>HostConfig\<close> leaves the body as it is, and
  the chain denies it.
\<close>

theorem mutator_forces_policy:
  "if hm_get b ''HostConfig'' \<in> {None, Some JNull} \<or> (\<exists>hc. hm_get b ''HostConfig'' = Some (JObject hc))
   then (\<exists>hc'. hm_get (container_config_mutator p b) ''HostConfig'' = Some (JObject hc') \<and>
     (\<forall>k. bt_get hc' k = (case forced_host_config p k of Some v \<Rightarrow> Some v | None \<Rightarrow> caller_field b k)) \<and>
     hm_get (container_config_mutator p b) ''User'' =
       (case Option.bind (container_config p) cc_user of Some u \<Rightarrow> Some (JString u) | None \<Rightarrow> hm_get b ''User'') \<and>
     (\<forall>k. k \<notin> {''HostConfig'', ''User'', ''NetworkingConfig''} \<longrightarrow>
        hm_get (container_config_mutator p b) k = hm_get b k))
   else container_config_mutator p b = b \<and> \<not> gr_allowed (execute x chain_new p b)"
proof (cases "hm_get b ''HostConfig'' \<in> {None, Some JNull} \<or> (\<exists>hc. hm_get b ''HostConfig'' = Some (JObject hc))")
  case True
  then obtain hc where hc: "hm_get b ''HostConfig'' \<in> {None, Some JNull} \<and> hc = [] \<or> hm_get b ''HostConfig'' = Some (JObject hc)"
    by blast
  then have c: "caller_field b = bt_get hc" by (auto simp: caller_field_def fun_eq_iff)
  obtain hc' where hc': "hm_get (container_config_mutator p b) ''HostConfig'' = Some (JObject hc')"
      "\<forall>k. bt_get hc' k = (case forced_host_config p k of Some v \<Rightarrow> Some v | None \<Rightarrow> caller_field b k)"
    unfolding c using mutator_host_config[OF hc, of p] by blast
  show ?thesis
    unfolding if_P[OF True] using hc' mutator_user[OF hc'(1)] mutator_other_fields[of _ p b] by blast
next
  case False
  then obtain v where v: "hm_get b ''HostConfig'' = Some v" "v \<noteq> JNull" "\<And>m. v \<noteq> JObject m" by auto
  then have "container_config_mutator p b = b" by (rule mutator_bad_host_config)
  moreover have "\<not> host_config_admitted x p b" using v by (auto simp: host_config_admitted_def)
  ultimately show ?thesis
    unfolding if_not_P[OF False] by (simp add: execute_new_allowed create_admitted_def)
qed

theorem mutator_forces_policy_witness:
  "\<exists>hc. hm_get (container_config_mutator sample_policy [(''Image'', JString ''nginx:1.25'')]) ''HostConfig'' = Some (JObject hc) \<and>
     bt_get hc ''Privileged'' = Some (JBool False) \<and>
     hm_get (container_config_mutator sample_policy [(''Image'', JString ''nginx:1.25'')]) ''User'' = Some (JString ''1000'')"
proof -
  have "hm_get [(''Image'', JString ''nginx:1.25'')] ''HostConfig'' = None" by code_simp
  then have absent: "hm_get [(''Image'', JString ''nginx:1.25'')] ''HostConfig'' \<in> {None, Some JNull} \<or>
      (\<exists>hc. hm_get [(''Image'', JString ''nginx:1.25'')] ''HostConfig'' = Some (JObject hc))" by simp
  have u: "Option.bind (container_config sample_policy) cc_user = Some ''1000''" by code_simp
  have f: "forced_host_config sample_policy ''Privileged'' = Some (JBool False)" by (simp add: forced_host_config_def)
  from mutator_forces_policy[of "[(''Image'', JString ''nginx:1.25'')]" sample_policy, unfolded if_P[OF absent] u]
  obtain hc where "hm_get (container_config_mutator sample_policy [(''Image'', JString ''nginx:1.25'')]) ''HostConfig'' =
      Some (JObject hc)"
    "bt_get hc ''Privileged'' = (case forced_host_config sample_policy ''Privileged'' of Some v \<Rightarrow> Some v
       | None \<Rightarrow> caller_field [(''Image'', JString ''nginx:1.25'')] ''Privileged'')"
    "hm_get (container_config_mutator sample_policy [(''Image'', JString ''nginx:1.25'')]) ''User'' = Some (JString ''1000'')"
    by (metis (no_types, lifting) option.simps(5))
  with f show ?thesis by simp
qed

text \<open>
  C18. A denial carries the message of the first gate, in the chain's order, that refuses the mutated
  body: all gates before it pass.
\<close>

theorem denial_reason_is_first_gate:
  assumes "\<not> gr_allowed (execute x chain_new p b)"
  shows "\<exists>pre g post. gates chain_new = pre @ g # post \<and>
    list_all (\<lambda>h. h x p (container_config_mutator p b) = Inr ()) pre \<and>
    g x p (container_config_mutator p b) = Inl (gr_reason (execute x chain_new p b))"
  using create_chain.execute_first_denial[OF assms] by (simp add: list_all_iff)

theorem denial_reason_is_first_gate_witness:
  "\<exists>pre g post. gates chain_new = pre @ g # post \<and>
    g sample_externs sample_policy (container_config_mutator sample_policy [(''Image'', JString ''redis'')]) =
      Inl (gr_reason (execute sample_externs chain_new sample_policy [(''Image'', JString ''redis'')]))"
proof -
  have "\<not> gr_allowed (execute sample_externs chain_new sample_policy [(''Image'', JString ''redis'')])"
    by code_simp
  from denial_reason_is_first_gate[OF this] show ?thesis by blast
qed

end
