(* ===== verification/Router_Properties.thy ===== *)
theory Router_Properties
  imports Sample
begin

section \<open>Properties of the router and of the encodings\<close>

text \<open>
  What \<open>src/rs/src/proxy.rs\<close> lets through: the write surface is three kinds of requests, a
  pull names one image a policy accepts, and a container is acted on only under a policy.
\<close>

text \<open>
  C20. Default deny for writes: a request that is neither GET nor HEAD and is not denied is a
  container create, an image pull, or an action on one container, and its path is plain and not one
  of the denied endpoints.
\<close>

theorem write_surface:
  assumes "rr_action (route_request x r mth target hb body) \<noteq> Deny" and "mth \<notin> {''GET'', ''HEAD''}"
  shows "\<not> router_readonly r \<and> plain_path (target_path target) \<and> \<not> denied_path (api_path target) \<and>
    (mth = ''POST'' \<and> api_path target = ''/containers/create'' \<or>
     mth = ''POST'' \<and> api_path target = ''/images/create'' \<and> \<not> hb \<or>
     container_write mth (api_path target) \<and> extract_container_name (api_path target) \<noteq> None)"
proof -
  note pass = route_passes[OF assms(1)]
  have "rr_action (route_endpoint x r mth (api_path target) (target_query target) hb body) \<noteq> Deny"
    using pass assms(1) by simp
  then show ?thesis
    by (cases rule: route_endpoint_cases) (use pass assms(2) in auto)
qed

theorem write_surface_witness:
  "rr_action (route_request sample_externs (h_router (sample_handler False)) ''POST'' ''/v1.44/containers/web/start''
     False None) = Allow \<and>
   plain_path (target_path ''/v1.44/containers/web/start'') \<and> \<not> denied_path (api_path ''/v1.44/containers/web/start'')"
proof -
  have a: "rr_action (route_request sample_externs (h_router (sample_handler False)) ''POST''
      ''/v1.44/containers/web/start'' False None) = Allow" by code_simp
  then have "rr_action (route_request sample_externs (h_router (sample_handler False)) ''POST''
      ''/v1.44/containers/web/start'' False None) \<noteq> Deny" by (simp only: action.distinct not_False_eq_True)
  moreover have "''POST'' \<notin> {''GET'', ''HEAD''}" by simp
  ultimately show ?thesis using write_surface a by blast
qed

text \<open>
  C21. An allowed image pull has no body, no \<open>fromSrc\<close>, each parameter at most once, and the
  reference it names, with the tag parameter, carries a tag or a digest and is accepted by a policy
  of the manager whose prefixes match it.
\<close>

theorem pull_is_checked:
  assumes "rr_action (route_image_pull x r query hb) \<noteq> Deny"
  shows "\<not> hb \<and> (\<exists>p img. route_image_pull x r query hb = pull_allowed p img \<and>
    pull_accepted x (router_manager r) query img p)"
  using assms by (rule route_image_pull_Allow)

theorem pull_is_checked_witness:
  "\<exists>p img. pull_accepted sample_externs sample_manager ''fromImage=nginx&tag=1.25'' img p"
proof -
  have m: "router_manager (h_router (sample_handler False)) = sample_manager" by code_simp
  have "rr_action (route_image_pull sample_externs (h_router (sample_handler False)) ''fromImage=nginx&tag=1.25'' False) = Allow"
    by code_simp
  then have "rr_action (route_image_pull sample_externs (h_router (sample_handler False)) ''fromImage=nginx&tag=1.25'' False) \<noteq> Deny"
    by (simp only: action.distinct not_False_eq_True)
  from pull_is_checked[OF this] show ?thesis unfolding m by blast
qed

text \<open>
  C22. A request other than GET and HEAD about one container, when it is not denied, is a removal or one
  of the life-cycle actions, and the router decides it by the name: it is allowed at once when exactly
  one policy covers the name and the name cannot be the prefix of a container id, and in every other
  case the daemon is asked which container is meant.
\<close>

theorem direct_action_covered:
  assumes "rr_action (route_request x r mth target hb body) \<noteq> Deny" and "mth \<notin> {''GET'', ''HEAD''}"
    and "extract_container_name (api_path target) = Some name"
    and "\<not> (mth = ''POST'' \<and> api_path target = ''/containers/create'')"
  shows "container_write mth (api_path target) \<and>
    ((\<exists>p. covering (router_manager r) name = [p] \<and> name \<in> set (covered_names p) \<and> \<not> could_be_id name \<and>
        route_request x r mth target hb body = allow_container p name) \<or>
     (length (covering (router_manager r) name) \<noteq> 1 \<or> could_be_id name) \<and>
        route_request x r mth target hb body = resolve_result name)"
proof -
  note pass = route_passes[OF assms(1)]
  have "rr_action (route_endpoint x r mth (api_path target) (target_query target) hb body) \<noteq> Deny"
    using pass assms(1) by simp
  then show ?thesis
  proof (cases rule: route_endpoint_cases)
    case (covered name' p)
    with pass assms(3) covering_single[OF covered(3)] show ?thesis by auto
  next
    case (resolve name')
    with pass assms(3) show ?thesis by auto
  next
    case (pull img p)
    have "extract_container_name ''/images/create'' = None" by code_simp
    with pull(2) assms(3) show ?thesis by simp
  qed (use assms in auto)
qed

theorem direct_action_covered_witness:
  "\<exists>p. covering sample_manager ''web'' = [p] \<and> ''web'' \<in> set (covered_names p) \<and>
     route_request sample_externs (h_router (sample_handler False)) ''DELETE'' ''/v1.44/containers/web'' False None =
       allow_container p ''web''"
proof -
  have m: "router_manager (h_router (sample_handler False)) = sample_manager" by code_simp
  have a: "rr_action (route_request sample_externs (h_router (sample_handler False)) ''DELETE''
      ''/v1.44/containers/web'' False None) = Allow" by code_simp
  then have d: "rr_action (route_request sample_externs (h_router (sample_handler False)) ''DELETE''
      ''/v1.44/containers/web'' False None) \<noteq> Deny" by (simp only: action.distinct not_False_eq_True)
  have g: "''DELETE'' \<notin> {''GET'', ''HEAD''}" by simp
  have n: "extract_container_name (api_path ''/v1.44/containers/web'') = Some ''web''" by code_simp
  have c: "\<not> (''DELETE'' = ''POST'' \<and> api_path ''/v1.44/containers/web'' = ''/containers/create'')" by simp
  have "rr_action (resolve_result ''web'') \<noteq> Allow" by (simp add: resolve_result_def)
  with direct_action_covered[OF d g n c] a show ?thesis unfolding m by metis
qed

text \<open>
  A pull of a matching image is refused for its tag or digest only when every matching policy
  refuses it, and it is accepted under a policy that accepts it.
\<close>

lemma pull_policy_choice:
  "(\<exists>p. first_accepting x r None ps = Inr p \<and> p \<in> set ps \<and> check_image_tag x p r = Inr ()) \<or>
   (\<exists>msg. first_accepting x r None ps = Inl msg \<and> list_all (\<lambda>p. check_image_tag x p r \<noteq> Inr ()) ps)"
proof (cases "first_accepting x r None ps")
  case (Inl msg)
  then show ?thesis using first_accepting_Inl[of x r None ps msg] by (auto simp: list_all_iff)
next
  case (Inr p)
  then show ?thesis using first_accepting_Inr[of x r None ps p] by auto
qed

text \<open>
  C31. Decoding an escaped container id gives the id back, and the escaped id has no slash and no
  question mark, so it stays one path segment of the inspect request.
\<close>

theorem path_escape_roundtrip:
  "unescape_bytes (path_escape s) = Some s \<and> CHR ''/'' \<notin> set (path_escape s) \<and> CHR ''?'' \<notin> set (path_escape s)"
proof -
  have "\<not> unreserved (CHR ''/'')" "\<not> unreserved (CHR ''?'')" by code_simp+
  then show ?thesis
    using unescape_escape[of s] path_escape_chars[of "CHR ''/''" s] path_escape_chars[of "CHR ''?''" s] by auto
qed

text \<open>
  The lossy conversion that ends \<open>query_unescape\<close> always yields UTF-8, and changes nothing
  that already is.
\<close>

lemma lossy_conversion:
  "utf8_valid (from_utf8_lossy s) \<and> (if utf8_valid s then from_utf8_lossy s = s else from_utf8_lossy s \<noteq> s)"
  using utf8_valid_lossy[of s] lossy_valid[of s] by (metis (full_types))

end
