(* ===== verification/Listener_Properties.thy ===== *)
theory Listener_Properties
  imports Sample
begin

section \<open>Properties of the listening socket\<close>

text \<open>
  What the start-up code of \<open>src/rs/src/main.rs\<close> guarantees about the socket that is the
  proxy's access boundary: where it may be, which group gets it, that it is never reachable by
  another group, not even for a moment, and that one instance owns it.
\<close>

text \<open>
  \<open>validate_listen_socket\<close> accepts exactly the absolute paths: no URL, no abstract
  socket, no relative path, nothing empty.
\<close>

lemma listen_socket_absolute: "validate_listen_socket addr = Inr () \<longleftrightarrow> starts_with addr ''/''"
  by (rule validate_listen_socket_ok)

text \<open>
  C34. A numeric socket group is accepted exactly when its value is below 4294967295, and then it is
  that value; the value that tells \<open>chown\<close> to change nothing is never selected, and neither
  is a value that wraps around.
\<close>

theorem numeric_group_bounds:
  assumes "all_digits g"
  shows "resolve_group w g = Inr gid \<longleftrightarrow> dec_value g < 2 ^ 32 - 1 \<and> gid = of_nat (dec_value g)"
  using assms by (rule resolve_group_numeric)

theorem numeric_group_bounds_witness: "resolve_group (sample_world 1) ''0070'' = Inr (of_nat (dec_value ''0070''))"
proof -
  have "all_digits ''0070''" and d: "dec_value ''0070'' = 70" by code_simp+
  from numeric_group_bounds[OF this(1)] show ?thesis by (simp add: d)
qed

text \<open>
  C36. From the first system call of \<open>open_listener\<close> to the last, whichever of them fail, the
  path holds what was there before, nothing, or a socket that is either closed to everyone but its
  owner (0600) or open (0660) to the chosen group only. On success it is the latter. The chosen group
  is any but the reserved 4294967295, which tells \<open>chown\<close> to change nothing.
\<close>

theorem socket_never_exposed:
  assumes "open_listener w addr (Some gid) s = (r, s')" and "gid \<noteq> - 1"
  shows "grows (path_moment addr (os_files s addr) gid) s s' \<and>
    (r = Inr () \<longrightarrow> os_files s' addr = Some \<lparr>ino_kind = SocketFile, ino_mode = SOCKET_MODE, ino_gid = gid\<rparr>)"
  using open_moments[OF assms] open_success(3)[of w addr gid s s'] assms by auto

theorem socket_never_exposed_witness:
  "os_files opened_os sample_addr = Some \<lparr>ino_kind = SocketFile, ino_mode = SOCKET_MODE, ino_gid = 7\<rparr> \<and>
   grows (path_moment sample_addr (os_files sample_os sample_addr) 7) sample_os opened_os"
  using socket_never_exposed[OF sample_open sample_gid] by blast

text \<open>
  C33. A process that opens the listener while no other process moves reaches, in at most ten system
  calls, exactly the result and the files of \<open>open_listener\<close>: the step-wise start-up implements it.
\<close>

theorem alone_opens_as_specified:
  "\<exists>k\<le>10. inst_steps d (powered_off s) (Launch p # replicate k (Move p))
     (set_point p (finished (open_listener (world_of d p) (dp_addr d) (dp_gid d p) s)) (powered_off s))"
  using solo_run[of "powered_off s" p d] by (simp add: powered_off_def)

text \<open>
  C37. However the system calls of any number of starting, stopping, restarting and killed processes
  interleave, and whichever of them fail: a process that listens is the only one past the lock, and
  as long as it does not move itself nothing the others do ends its listening, changes the file at
  the socket's path or takes the lock.
\<close>

theorem one_instance_owns_socket:
  assumes "inst_steps d (powered_off s0) ls s" and "os_locks s0 (lock_path (dp_addr d)) = None"
    and "in_point s p = Listening" and "inst_steps d s ls' s'" and "p \<notin> actor ` set ls'"
  shows "(\<forall>q. holding (in_point s' q) \<longleftrightarrow> q = p) \<and> in_point s' p = Listening \<and>
    os_files (in_os s') (dp_addr d) = os_files (in_os s) (dp_addr d) \<and>
    os_locks (in_os s') (lock_path (dp_addr d)) = Some p"
proof -
  have own: "owner_inv d s" using owner.inv_run[OF assms(1)] assms(2) by (simp add: powered_off_owner)
  have own': "owner_inv d s'" using owner.inv_run[OF assms(4) own] .
  have "in_point s' p = Listening \<and> os_files (in_os s') (dp_addr d) = os_files (in_os s) (dp_addr d)"
    using listening_undisturbed[OF assms(4) own _ assms(5)] assms(3) by simp
  moreover from this have "holding (in_point s' p)" by simp
  ultimately show ?thesis
    using owner_inv_at[OF own', of p] owner_unique[OF own'] by blast
qed

theorem one_instance_owns_socket_witness:
  "\<exists>s s'. inst_steps sample_deployment s [Launch 0, Crash 0] s' \<and> in_point s 1 = Listening \<and> in_point s' 1 = Listening \<and>
     os_files (in_os s') sample_addr = os_files (in_os s) sample_addr"
proof -
  obtain s where s: "inst_steps sample_deployment (powered_off sample_os) race_labels s" "in_point s 1 = Listening"
    "settled s" using sample_race by blast
  have free: "os_locks sample_os (lock_path (dp_addr sample_deployment)) = None" by (simp add: sample_os_def)
  have addr: "dp_addr sample_deployment = sample_addr" by (simp add: sample_deployment_def)
  have "\<not> running (in_point s 0)"
  proof
    assume "running (in_point s 0)"
    then have "in_point s 0 = Listening" using s(3) by (simp add: settled_def)
    moreover have "owner_inv sample_deployment s" using owner.inv_run[OF s(1)] free by (simp add: powered_off_owner)
    ultimately show False using owner_unique[of sample_deployment s 0 1] s(2) by simp
  qed
  then obtain t where "inst_run sample_deployment s [Launch 0, Crash 0] = Some t" by simp
  then have t: "inst_steps sample_deployment s [Launch 0, Crash 0] t" by (simp only: inst_exec.exec_run_iff)
  have "1 \<notin> actor ` set [Launch 0, Crash 0]" by simp
  from one_instance_owns_socket[OF s(1) free s(2) t this] s(2) t show ?thesis unfolding addr by blast
qed

text \<open>
  C32. A race of any number of processes, in any interleaving of their system calls, has exactly one
  winner: with no call failing and the path free or holding a stale socket, once every process has
  come to rest one of them listens on a socket of its group with mode 0660 and every other started
  process has exited with the message that another instance holds the lock.
\<close>

theorem race_one_winner:
  assumes "inst_steps d (powered_off s0) ls s" and "list_all racing ls" and "calm d" and "clear_to_start d s0"
    and "settled s" and "in_point s p \<noteq> Idle"
  shows "\<exists>q. in_point s q = Listening \<and>
    os_files (in_os s) (dp_addr d) = Some (socket_of d q SOCKET_MODE True) \<and>
    (\<forall>r. r \<noteq> q \<longrightarrow> in_point s r \<in> {Idle, Exited (Some (in_use (dp_addr d)))})"
  using race_result[OF race_steps[OF assms(1-3) race_start[OF assms(4)]] assms(5)] assms(6) by blast

theorem race_one_winner_witness:
  "\<exists>s q. inst_steps sample_deployment (powered_off sample_os) race_labels s \<and> in_point s q = Listening \<and>
     (\<forall>r. r \<noteq> q \<longrightarrow> in_point s r \<in> {Idle, Exited (Some (in_use sample_addr))})"
proof -
  obtain s where s: "inst_steps sample_deployment (powered_off sample_os) race_labels s" "in_point s 1 = Listening"
    "settled s" using sample_race by blast
  have "list_all racing race_labels" by code_simp
  moreover have "calm sample_deployment"
    by (simp add: calm_def sample_deployment_def sample_world_def os_err_def)
  moreover have "clear_to_start sample_deployment sample_os"
    by (simp add: clear_to_start_def sample_deployment_def sample_os_def stale_socket_def)
  moreover have "in_point s 1 \<noteq> Idle" "dp_addr sample_deployment = sample_addr"
    using s(2) by (simp_all add: sample_deployment_def)
  ultimately show ?thesis using race_one_winner[OF s(1) _ _ _ s(3), of 1] s(1) by auto
qed

text \<open>
  C38. \<open>prepare_socket_path\<close> changes nothing but the given path, and removes what is there only
  when it is a socket whose connection attempt was refused: never a file, a directory, a symbolic
  link or a live socket.
\<close>

theorem only_stale_sockets_removed:
  assumes "prepare_socket_path w addr s = (r, s')"
  shows "(\<forall>q. q \<noteq> addr \<longrightarrow> os_files s' q = os_files s q) \<and>
    (os_files s' addr = os_files s addr \<or>
     os_files s' addr = None \<and> (\<exists>i e t. os_files s addr = Some i \<and> ino_kind i = SocketFile \<and>
       w_probe w t addr = ConnectErr e \<and> raw_os_error e = Some ECONNREFUSED))"
  using prepare_frame(3)[OF assms] prepare_removes[OF assms] by blast

theorem only_stale_sockets_removed_witness:
  "os_files (snd (prepare_socket_path (sample_world 1) sample_addr sample_os)) ''/etc/passwd'' =
   os_files sample_os ''/etc/passwd''"
proof -
  have "prepare_socket_path (sample_world 1) sample_addr sample_os =
      (fst (prepare_socket_path (sample_world 1) sample_addr sample_os),
       snd (prepare_socket_path (sample_world 1) sample_addr sample_os))"
    by simp
  moreover have "''/etc/passwd'' \<noteq> sample_addr" by (simp add: sample_addr_def)
  ultimately show ?thesis using only_stale_sockets_removed by blast
qed

end
