(* ===== verification/Policy_Conformance.thy ===== *)
theory Policy_Conformance
  imports Policy
begin

section \<open>The policy manager's own tests (policy.rs, mod tests)\<close>

text \<open>
  The tests of \<open>src/rs/src/policy.rs\<close> that go beyond the YAML parser, on the model: one
  definition per test function, evaluated by the lemmas. A policy file is given as what the parser
  reads from it, the policy without its groups and the YAML values of \<open>group_add\<close>, which
  \<open>group_list\<close> converts as in the program.
\<close>

subsection \<open>Image references\<close>

fun parses_as :: "string \<times> (string \<times> string \<times> string) option \<Rightarrow> bool" where
  "parses_as (input, want) =
     (parse_image_ref input =
        (case want of
           Some (name, tag, digest) \<Rightarrow> Inr \<lparr>ir_name = name, ir_tag = tag, ir_digest = digest\<rparr>
         | None \<Rightarrow> Inl (fmt [''invalid image reference '', dquote, input, dquote])))"

definition test_parse_image_ref_table :: bool where
  "test_parse_image_ref_table = list_all parses_as [
        (''alpine'', Some (''alpine'', [], [])),
        (''library/alpine'', Some (''alpine'', [], [])),
        (''docker.io/library/alpine'', Some (''alpine'', [], [])),
        (''index.docker.io/library/alpine:3.19'', Some (''alpine'', ''3.19'', [])),
        (''registry-1.docker.io/library/alpine'', Some (''alpine'', [], [])),
        (''docker.io/chainsafe/lodestar:v1'', Some (''chainsafe/lodestar'', ''v1'', [])),
        (''ghcr.io/chainsafe/lodestar@sha256:abcdef0123456789abcdef0123456789abcdef0123456789abcdef0123456789'', Some (''ghcr.io/chainsafe/lodestar'', [], ''sha256:abcdef0123456789abcdef0123456789abcdef0123456789abcdef0123456789'')),
        (''localhost:5000/x/y:2'', Some (''localhost:5000/x/y'', ''2'', [])),
        (''registry.example.com:443/a'', Some (''registry.example.com:443/a'', [], [])),
        (''REGISTRY.Example.com:443/a:V1'', Some (''registry.example.com:443/a'', ''V1'', [])),
        (''docker.io/library/a/b'', Some (''library/a/b'', [], [])),
        (''ghcr.io/library/alpine'', Some (''ghcr.io/library/alpine'', [], [])),
        (''localhost/x'', Some (''localhost/x'', [], [])),
        (''localhost'', Some (''localhost'', [], [])),
        (''alpine:3.19@sha256:abcdef0123456789abcdef0123456789abcdef0123456789abcdef0123456789'', Some (''alpine'', ''3.19'', ''sha256:abcdef0123456789abcdef0123456789abcdef0123456789abcdef0123456789'')),
        (''Alpine'', None),
        (''chainsafe/Lodestar'', None),
        (''alpine:'', None),
        (''alpine@'', None),
        ([], None),
        (''a//b'', None),
        (''/alpine'', None),
        (''alpine/'', None),
        (''-alpine'', None),
        (''alpine:a/b'', None),
        (''a:b/c'', None),
        (''alpine:t$g'', None)]"

lemma image_reference_tests: test_parse_image_ref_table
  by code_simp

subsection \<open>The manager\<close>

definition policy_of :: "string \<Rightarrow> string list option \<Rightarrow> string list \<Rightarrow> policy" where
  "policy_of service names pfxs =
     \<lparr>service_name = service, container_names = names, user_id = None, group_id = None,
      allowed_image_prefixes = pfxs, image_tag_pattern = None, image_digest_allowed = False,
      container_config = None, volumes = None, ports = None, env_file = None,
      allowed_cli_flags = None, flag_rules = None, denied_flags = None\<rparr>"

definition manager_of :: "policy list \<Rightarrow> manager" where
  "manager_of ps = from_map (map (\<lambda>p. (service_name p, p)) ps)"

definition serves :: "manager \<Rightarrow> string \<Rightarrow> string option" where
  "serves m img = map_option service_name (get_by_image m img)"

definition test_manager_get :: bool where
  "test_manager_get =
     (map_option service_name (get_policy (from_map [(''svc1'', policy_of ''svc1'' None [''alpine''])]) ''svc1'') = Some ''svc1'' \<and>
      get_policy (from_map [(''svc1'', policy_of ''svc1'' None [''alpine''])]) ''nonexistent'' = None)"

definition test_manager_get_by_image_exact :: bool where
  "test_manager_get_by_image_exact =
     list_all (\<lambda>img. serves (from_map [(''svc1'', policy_of ''svc1'' None [''alpine''])]) img = Some ''svc1'')
       [''alpine'', ''alpine:latest'', ''alpine@sha256:abc'']"

definition test_manager_get_by_image_prefix :: bool where
  "test_manager_get_by_image_prefix =
     (serves (from_map [(''svc1'', policy_of ''svc1'' None [''myregistry.io/team''])]) ''ubuntu'' = None \<and>
      list_all (\<lambda>img. serves (from_map [(''svc1'', policy_of ''svc1'' None [''myregistry.io/team''])]) img = Some ''svc1'')
        [''myregistry.io/team/myapp'', ''myregistry.io/team/myapp:tag''])"

definition test_manager_get_by_image_no_match :: bool where
  "test_manager_get_by_image_no_match =
     list_all (\<lambda>img. serves (from_map [(''svc1'', policy_of ''svc1'' None [''alpine''])]) img = None) [''ubuntu'', ''ubuntu:latest'']"

definition test_manager_list :: bool where
  "test_manager_list =
     (sort (list_names (from_map [(''a'', policy_of ''a'' None [''img'']), (''b'', policy_of ''b'' None [''img''])])) = [''a'', ''b''])"

definition named_lodestar :: "string \<Rightarrow> policy" where
  "named_lodestar name = policy_of name (Some [name]) [''chainsafe/lodestar'']"

definition test_manager_select_for_create :: bool where
  "test_manager_select_for_create =
     (list_all (\<lambda>name. select_for_create
           (manager_of [named_lodestar ''validator'', named_lodestar ''beacon'', policy_of ''any'' None [''chainsafe'']])
           ''chainsafe/lodestar:v1'' name
         = Inl (fmt [''ambiguous policy for image chainsafe/lodestar:v1 and name '', name, '': any, '', name]))
        [''beacon'', ''validator''] \<and>
      select_for_create (manager_of [named_lodestar ''validator'', named_lodestar ''beacon'', policy_of ''any'' None [''chainsafe'']])
        ''chainsafe/lodestar:v1'' [] = Inr (policy_of ''any'' None [''chainsafe'']) \<and>
      list_all (\<lambda>name. select_for_create (manager_of [named_lodestar ''validator'', named_lodestar ''beacon''])
          ''chainsafe/lodestar:v1'' name = Inr (named_lodestar name)) [''beacon'', ''validator''])"

definition test_manager_covering :: bool where
  "test_manager_covering =
     list_all (\<lambda>(name, want). length (covering (manager_of
           [policy_of ''beacon'' None [''chainsafe/lodestar''], policy_of ''vc'' (Some [''validator'']) [''chainsafe/lodestar'']]) name) = want)
       [(''beacon'', 1), (''validator'', 1), (''vc'', 0), (''other'', 0)]"

lemma manager_tests:
  test_manager_get test_manager_get_by_image_exact test_manager_get_by_image_prefix
  test_manager_get_by_image_no_match test_manager_list test_manager_select_for_create test_manager_covering
  by code_simp+

subsection \<open>Loading\<close>

type_synonym policy_file = "string \<times> policy \<times> yaml_value list option option"

definition parse_file :: "policy_file list \<Rightarrow> yaml_loader" where
  "parse_file files groups text =
     (case map_of files text of
        None \<Rightarrow> Inl ''no such file''
      | Some pg \<Rightarrow>
          (case snd pg of
             None \<Rightarrow> Inr (fst pg)
           | Some vs \<Rightarrow> res_bind (groups vs) (\<lambda>gs. Inr ((fst pg)\<lparr>container_config := Some
               \<lparr>network_mode = None, restart_policy = None, security_options = None, cc_user = None,
                log_driver = None, log_options = None, group_add = gs\<rparr>\<rparr>))))"

definition load_dir :: "policy_file list \<Rightarrow> manager res" where
  "load_dir files =
     new_manager (parse_file files)
       \<lparr>read_dir = (\<lambda>_. DirEntries (map (Inr \<circ> fst) files)), read_to_string = (\<lambda>path. Inr (drop 5 path))\<rparr>
       ''/dsp''"

definition loads_with :: "policy_file list \<times> string \<Rightarrow> bool" where
  "loads_with row =
     (case load_dir (fst row) of
        Inr _ \<Rightarrow> snd row = []
      | Inl e \<Rightarrow> snd row \<noteq> [] \<and> str_contains (snd row) e)"

definition plain_file :: "string \<Rightarrow> string \<Rightarrow> string list \<Rightarrow> policy_file" where
  "plain_file file service pfxs = (file, policy_of service None pfxs, None)"

definition named_file :: "string \<Rightarrow> string \<Rightarrow> string list \<Rightarrow> string list \<Rightarrow> policy_file" where
  "named_file file service names pfxs = (file, policy_of service (Some names) pfxs, None)"

definition groups_file :: "yaml_value list \<Rightarrow> policy_file list" where
  "groups_file vs = [(''a.yaml'', policy_of ''a'' None [''alpine''], Some (Some vs))]"

definition load_time_conflicts :: bool where
  "load_time_conflicts = list_all loads_with [
        ([plain_file ''a.yaml'' ''a'' [''alpine''], plain_file ''b.yaml'' ''b'' [''alpine'']], ''conflicting policies '' @ dquote @ ''a'' @ dquote @ '' (a.yaml) and '' @ dquote @ ''b'' @ dquote @ '' (b.yaml): image prefixes '' @ dquote @ ''alpine'' @ dquote @ '' and '' @ dquote @ ''alpine'' @ dquote @ '' overlap and '' @ dquote @ ''a'' @ dquote @ '' has no container_names''),
        ([named_file ''a.yaml'' ''a'' [''x''] [''chainsafe/lodestar''], plain_file ''b.yaml'' ''b'' [''chainsafe'']], ''conflicting policies '' @ dquote @ ''a'' @ dquote @ '' (a.yaml) and '' @ dquote @ ''b'' @ dquote @ '' (b.yaml): image prefixes '' @ dquote @ ''chainsafe/lodestar'' @ dquote @ '' and '' @ dquote @ ''chainsafe'' @ dquote @ '' overlap and '' @ dquote @ ''b'' @ dquote @ '' has no container_names''),
        ([named_file ''a.yaml'' ''a'' [''x'', ''y''] [''chainsafe/lodestar''], named_file ''b.yaml'' ''b'' [''z'', ''y''] [''chainsafe/lodestar'']], ''conflicting policies '' @ dquote @ ''a'' @ dquote @ '' (a.yaml) and '' @ dquote @ ''b'' @ dquote @ '' (b.yaml): image prefixes '' @ dquote @ ''chainsafe/lodestar'' @ dquote @ '' and '' @ dquote @ ''chainsafe/lodestar'' @ dquote @ '' overlap and both accept container name '' @ dquote @ ''y'' @ dquote),
        ([named_file ''a.yaml'' ''a'' [''beacon''] [''chainsafe/lodestar''], named_file ''b.yaml'' ''b'' [''validator''] [''chainsafe/lodestar'']], []),
        ([plain_file ''a.yaml'' ''a'' [''chainsafe/lodestar''], plain_file ''b.yaml'' ''b'' [''chainsafe/lodestar-backup'']], []),
        ([plain_file ''a.yaml'' ''svc'' [''alpine''], plain_file ''b.yaml'' ''svc'' [''busybox'']], ''policies in a.yaml and b.yaml both use service_name '' @ dquote @ ''svc'' @ dquote),
        ([named_file ''a.yaml'' ''a'' [''-bad''] [''alpine'']], ''invalid container name '' @ dquote @ ''-bad'' @ dquote @ '' in container_names''),
        ([named_file ''a.yaml'' ''a'' [''a/b''] [''alpine'']], ''invalid container name '' @ dquote @ ''a/b'' @ dquote @ '' in container_names''),
        ([named_file ''a.yaml'' ''a'' [] [''alpine'']], ''container_names must not be empty'')]"

definition root_text :: "string \<Rightarrow> string" where
  "root_text g = ''policy file a.yaml: group_add entry '' @ dquote @ g @ dquote @ '' is the root group, which is not allowed''"

definition duplicate_text :: "string \<Rightarrow> string" where
  "duplicate_text g = ''policy file a.yaml: duplicate group_add entry '' @ dquote @ g @ dquote"

definition invalid_text :: "string \<Rightarrow> string" where
  "invalid_text g = ''policy file a.yaml: invalid group_add entry '' @ dquote @ g @ dquote"

definition load_time_group_ids :: bool where
  "load_time_group_ids = list_all loads_with [
        (groups_file (map YString [''64190'', ''4294967295'', ''jwt'', ''_x-1'', ''samba$'', ''abcdefghijklmnopqrstuvwxyz012345'']), []),
        (groups_file (map YString []), []),
        (groups_file (map YString [''64190'', ''0'']), root_text ''0''),
        (groups_file (map YString [''00'']), root_text ''00''),
        (groups_file (map YString [''root'']), root_text ''root''),
        (groups_file (map YString [''64190'', ''jwt'', ''64190'']), duplicate_text ''64190''),
        (groups_file (map YString [''64190'', ''064190'']), duplicate_text ''064190''),
        (groups_file (map YString [''4294967296'']), invalid_text ''4294967296'')]"

definition load_time_group_names :: bool where
  "load_time_group_names = list_all loads_with [
        (groups_file [YString ''Jwt''], invalid_text ''Jwt''),
        (groups_file [YString ''a b''], invalid_text ''a b''),
        (groups_file [YString ''-x''], invalid_text ''-x''),
        (groups_file [YString ''abcdefghijklmnopqrstuvwxyz0123456''], invalid_text ''abcdefghijklmnopqrstuvwxyz0123456''),
        (groups_file [YString []], invalid_text []),
        (groups_file [YOther], ''group_add entries must be strings'')]"

definition test_manager_normalizes_prefixes :: bool where
  "test_manager_normalizes_prefixes =
     ((case load_dir [plain_file ''a.yaml'' ''a'' [''docker.io/library/alpine'', ''GHCR.io/team'']] of
         Inr m \<Rightarrow> map_option allowed_image_prefixes (get_policy m ''a'') = Some [''alpine'', ''ghcr.io/team'']
       | Inl _ \<Rightarrow> False) \<and>
      list_all (\<lambda>bad. loads_with ([plain_file ''a.yaml'' ''a'' [bad]], ''invalid allowed_image_prefixes entry''))
        [''alpine:3.19'', ''Alpine''])"

definition test_manager_empty_group_add_is_unset :: bool where
  "test_manager_empty_group_add_is_unset =
     (case load_dir (groups_file []) of
        Inr m \<Rightarrow> map_option (map_option group_add \<circ> container_config) (get_policy m ''a'') = Some (Some None)
      | Inl _ \<Rightarrow> False)"

text \<open>
  Loading the one file is \<open>check_group_add\<close>; GIDs are compared by value, without unfolding their
  unary form.
\<close>

lemma map_res_strings:
  "map_res (\<lambda>v. case v of YString s \<Rightarrow> Inr s | YOther \<Rightarrow> Inl e) (map YString gs) = Inr gs"
  by (induction gs) simp_all

lemma group_list_strings: "group_list (Some (map YString gs)) = Inr (Some gs)"
  by (simp add: group_list_def map_res_strings)

lemma alpine_prefix: "normalize_image_prefix ''alpine'' = Inr ''alpine''"
  by code_simp

lemma one_file: "is_yaml ''a.yaml''" "path_join ''/dsp'' ''a.yaml'' = ''/dsp/a.yaml''"
  by code_simp+

lemma load_groups:
  "loads_with (groups_file (map YString gs), want) \<longleftrightarrow>
     (case check_group_add ''a.yaml'' gs of Inr _ \<Rightarrow> want = [] | Inl e \<Rightarrow> want \<noteq> [] \<and> str_contains want e)"
  by (cases "check_group_add ''a.yaml'' gs")
    (simp_all add: loads_with_def load_dir_def new_manager_def groups_file_def load_file_def parse_file_def
      group_list_strings alpine_prefix one_file check_container_names_def check_groups_def policy_of_def
      normalize_prefixes_def check_conflicts_def)

lemma numeric_keys:
  "group_key f ''64190'' = Inr (''gid:'' @ dec_nat 64190)" "group_key f ''064190'' = Inr (''gid:'' @ dec_nat 64190)"
  "group_key f ''4294967295'' = Inr (''gid:'' @ dec_nat 4294967295)"
  "group_key f ''4294967296'' = Inl (invalid_group f ''4294967296'')"
  "group_key f ''0'' = Inl (root_group f ''0'')" "group_key f ''00'' = Inl (root_group f ''00'')"
proof -
  have "all_digits ''64190''" "all_digits ''064190''" "all_digits ''4294967295''" "all_digits ''4294967296''"
    "all_digits ''0''" "all_digits ''00''"
    by code_simp+
  then show "group_key f ''64190'' = Inr (''gid:'' @ dec_nat 64190)" "group_key f ''064190'' = Inr (''gid:'' @ dec_nat 64190)"
    "group_key f ''4294967295'' = Inr (''gid:'' @ dec_nat 4294967295)"
    "group_key f ''4294967296'' = Inl (invalid_group f ''4294967296'')"
    "group_key f ''0'' = Inl (root_group f ''0'')" "group_key f ''00'' = Inl (root_group f ''00'')"
    by (simp_all add: group_key_digits dec_value_def digit_val_def)
qed

lemma name_keys:
  "group_key ''a.yaml'' ''jwt'' = Inr ''name:jwt''" "group_key ''a.yaml'' ''_x-1'' = Inr ''name:_x-1''"
  "group_key ''a.yaml'' ''samba$'' = Inr ''name:samba$''"
  "group_key ''a.yaml'' ''abcdefghijklmnopqrstuvwxyz012345'' = Inr ''name:abcdefghijklmnopqrstuvwxyz012345''"
  "group_key ''a.yaml'' ''root'' = Inl (root_group ''a.yaml'' ''root'')"
  by code_simp+

lemma gids_differ: "dec_nat 4294967295 \<noteq> dec_nat 64190"
  by (auto dest: dec_nat_inj)

lemma group_messages:
  "str_contains (root_text ''0'') (root_group ''a.yaml'' ''0'')" "str_contains (root_text ''00'') (root_group ''a.yaml'' ''00'')"
  "str_contains (root_text ''root'') (root_group ''a.yaml'' ''root'')"
  "str_contains (duplicate_text ''64190'')
     (fmt [''policy file '', ''a.yaml'', '': duplicate group_add entry '', debug_str ''64190''])"
  "str_contains (duplicate_text ''064190'')
     (fmt [''policy file '', ''a.yaml'', '': duplicate group_add entry '', debug_str ''064190''])"
  "str_contains (invalid_text ''4294967296'') (invalid_group ''a.yaml'' ''4294967296'')"
  by code_simp+

lemma texts_nonempty: "root_text g \<noteq> []" "duplicate_text g \<noteq> []" "invalid_text g \<noteq> []"
  by (simp_all add: root_text_def duplicate_text_def invalid_text_def)

lemma group_id_tests: load_time_group_ids
  unfolding load_time_group_ids_def list.pred_inject load_groups check_group_add_def
  by (simp add: numeric_keys name_keys gids_differ group_messages texts_nonempty)

lemma load_tests:
  load_time_conflicts load_time_group_names test_manager_normalizes_prefixes test_manager_empty_group_add_is_unset
  by code_simp+

end
