(* ===== verification/Gate_Conformance.thy ===== *)
theory Gate_Conformance
  imports Chain
begin

section \<open>The gates' own tests (middleware.rs, mod tests)\<close>

text \<open>
  The tests of \<open>src/rs/src/middleware.rs\<close> on the model: one definition per test function, with
  the policies and bodies of the source, evaluated by the lemmas. A test that reads the serialised
  body back is stated on the body that the chain serialises, since the serialiser is a parameter.
  The patterns that the tests give to the \<open>regex\<close> crate and the one number whose text appears in
  a reason are fixed in \<open>test_externs\<close>.
\<close>

subsection \<open>Evaluating the field tables\<close>

text \<open>
  \<open>check_field_case\<close> compares every key with every field name. For evaluation the folded names
  are indexed by their first character; \<open>indexed_fields\<close> shows that the index gives the same answer.
\<close>

definition folded_index :: "string list \<Rightarrow> (char \<times> (string \<times> string) list) list" where
  "folded_index flds =
     map (\<lambda>c. (c, map (\<lambda>f. (fold_key f, f)) (filter (\<lambda>f. hd (fold_key f) = c) flds)))
       (rev (remdups (rev (map (\<lambda>f. hd (fold_key f)) flds))))"

definition check_indexed ::
  "string \<Rightarrow> policy \<Rightarrow> (char \<times> (string \<times> string) list) list \<Rightarrow> string \<Rightarrow> string \<Rightarrow> check" where
  "check_indexed pfx p idx key folded =
     (case map_of idx (hd folded) of
        None \<Rightarrow> Inr ()
      | Some fs \<Rightarrow> for_each (\<lambda>ff. if fst ff = folded then check_key_case pfx p key folded (snd ff) else Inr ()) fs)"

lemma for_each_filter:
  "(\<And>x. x \<in> set xs \<Longrightarrow> \<not> P x \<Longrightarrow> f x = Inr ()) \<Longrightarrow> for_each f xs = for_each f (filter P xs)"
  by (induction xs) auto

lemma for_each_map: "for_each f (map g xs) = for_each (\<lambda>x. f (g x)) xs"
  by (induction xs) auto

lemma map_of_tabulate: "map_of (map (\<lambda>c. (c, g c)) cs) c = (if c \<in> set cs then Some (g c) else None)"
  by (induction cs) auto

lemma check_indexed_fields:
  "for_each (check_key_case pfx p key folded) flds = check_indexed pfx p (folded_index flds) key folded"
proof -
  have "for_each (check_key_case pfx p key folded) flds =
      for_each (check_key_case pfx p key folded) (filter (\<lambda>f. hd (fold_key f) = hd folded) flds)"
    by (rule for_each_filter) (auto simp: check_key_case_def)
  also have "\<dots> = for_each (\<lambda>f. if fold_key f = folded then check_key_case pfx p key folded f else Inr ())
      (filter (\<lambda>f. hd (fold_key f) = hd folded) flds)"
    by (rule arg_cong2 [where f = for_each]) (auto simp: check_key_case_def)
  finally have eq: "for_each (check_key_case pfx p key folded) flds =
    for_each (\<lambda>f. if fold_key f = folded then check_key_case pfx p key folded f else Inr ())
      (filter (\<lambda>f. hd (fold_key f) = hd folded) flds)" .
  show ?thesis
  proof (cases "hd folded \<in> (\<lambda>f. hd (fold_key f)) ` set flds")
    case True
    then show ?thesis
      unfolding eq by (simp add: check_indexed_def folded_index_def map_of_tabulate for_each_map cong: if_cong)
  next
    case False
    then have "filter (\<lambda>f. hd (fold_key f) = hd folded) flds = []" by (auto simp: filter_empty_conv image_iff)
    then show ?thesis unfolding eq using False by (simp add: check_indexed_def folded_index_def map_of_tabulate)
  qed
qed

lemma indexed_fields:
  "check_field_case pfx keys flds p =
     for_each (\<lambda>key. check_indexed pfx p (folded_index flds) key (fold_key key)) (sorted_keys keys)"
  by (simp add: check_field_case_def check_indexed_fields)

definition host_config_index :: "(char \<times> (string \<times> string) list) list" where
  "host_config_index = folded_index HOST_CONFIG_FIELDS"

definition create_body_index :: "(char \<times> (string \<times> string) list) list" where
  "create_body_index = folded_index CREATE_BODY_FIELDS"

lemma host_config_index_code [code]:
  "host_config_index = [
     (CHR ''b'', [(''binds'', ''Binds''), (''blkioweight'', ''BlkioWeight''), (''blkioweightdevice'', ''BlkioWeightDevice''), (''blkiodevicereadbps'', ''BlkioDeviceReadBps''), (''blkiodevicewritebps'', ''BlkioDeviceWriteBps''), (''blkiodevicereadiops'', ''BlkioDeviceReadIOps''), (''blkiodevicewriteiops'', ''BlkioDeviceWriteIOps'')]),
     (CHR ''c'', [(''containeridfile'', ''ContainerIDFile''), (''consolesize'', ''ConsoleSize''), (''capadd'', ''CapAdd''), (''capdrop'', ''CapDrop''), (''cgroupnsmode'', ''CgroupnsMode''), (''cgroup'', ''Cgroup''), (''capabilities'', ''Capabilities''), (''cpushares'', ''CpuShares''), (''cgroupparent'', ''CgroupParent''), (''cpuperiod'', ''CpuPeriod''), (''cpuquota'', ''CpuQuota''), (''cpurealtimeperiod'', ''CpuRealtimePeriod''), (''cpurealtimeruntime'', ''CpuRealtimeRuntime''), (''cpusetcpus'', ''CpusetCpus''), (''cpusetmems'', ''CpusetMems''), (''cpucount'', ''CpuCount''), (''cpupercent'', ''CpuPercent'')]),
     (CHR ''l'', [(''logconfig'', ''LogConfig''), (''links'', ''Links'')]),
     (CHR ''n'', [(''networkmode'', ''NetworkMode''), (''nanocpus'', ''NanoCpus'')]),
     (CHR ''p'', [(''portbindings'', ''PortBindings''), (''pidmode'', ''PidMode''), (''privileged'', ''Privileged''), (''publishallports'', ''PublishAllPorts''), (''pidslimit'', ''PidsLimit'')]),
     (CHR ''r'', [(''restartpolicy'', ''RestartPolicy''), (''readonlyrootfs'', ''ReadonlyRootfs''), (''runtime'', ''Runtime''), (''readonlypaths'', ''ReadonlyPaths'')]),
     (CHR ''a'', [(''autoremove'', ''AutoRemove''), (''annotations'', ''Annotations'')]),
     (CHR ''v'', [(''volumedriver'', ''VolumeDriver''), (''volumesfrom'', ''VolumesFrom'')]),
     (CHR ''m'', [(''mounts'', ''Mounts''), (''maskedpaths'', ''MaskedPaths''), (''memory'', ''Memory''), (''memoryreservation'', ''MemoryReservation''), (''memoryswap'', ''MemorySwap''), (''memoryswappiness'', ''MemorySwappiness'')]),
     (CHR ''d'', [(''dns'', ''Dns''), (''dnsoptions'', ''DnsOptions''), (''dnssearch'', ''DnsSearch''), (''devices'', ''Devices''), (''devicecgrouprules'', ''DeviceCgroupRules''), (''devicerequests'', ''DeviceRequests'')]),
     (CHR ''e'', [(''extrahosts'', ''ExtraHosts'')]),
     (CHR ''g'', [(''groupadd'', ''GroupAdd'')]),
     (CHR ''i'', [(''ipcmode'', ''IpcMode''), (''isolation'', ''Isolation''), (''init'', ''Init''), (''iomaximumiops'', ''IOMaximumIOps''), (''iomaximumbandwidth'', ''IOMaximumBandwidth'')]),
     (CHR ''o'', [(''oomscoreadj'', ''OomScoreAdj''), (''oomkilldisable'', ''OomKillDisable'')]),
     (CHR ''s'', [(''securityopt'', ''SecurityOpt''), (''storageopt'', ''StorageOpt''), (''shmsize'', ''ShmSize''), (''sysctls'', ''Sysctls'')]),
     (CHR ''t'', [(''tmpfs'', ''Tmpfs'')]),
     (CHR ''u'', [(''utsmode'', ''UTSMode''), (''usernsmode'', ''UsernsMode''), (''ulimits'', ''Ulimits'')]),
     (CHR ''k'', [(''kernelmemory'', ''KernelMemory''), (''kernelmemorytcp'', ''KernelMemoryTCP'')])]"
  by code_simp

lemma create_body_index_code [code]:
  "create_body_index = [
     (CHR ''h'', [(''hostname'', ''Hostname''), (''healthcheck'', ''Healthcheck''), (''hostconfig'', ''HostConfig'')]),
     (CHR ''d'', [(''domainname'', ''Domainname'')]),
     (CHR ''u'', [(''user'', ''User'')]),
     (CHR ''a'', [(''attachstdin'', ''AttachStdin''), (''attachstdout'', ''AttachStdout''), (''attachstderr'', ''AttachStderr''), (''argsescaped'', ''ArgsEscaped'')]),
     (CHR ''e'', [(''exposedports'', ''ExposedPorts''), (''env'', ''Env''), (''entrypoint'', ''Entrypoint'')]),
     (CHR ''t'', [(''tty'', ''Tty'')]),
     (CHR ''o'', [(''openstdin'', ''OpenStdin''), (''onbuild'', ''OnBuild'')]),
     (CHR ''s'', [(''stdinonce'', ''StdinOnce''), (''stopsignal'', ''StopSignal''), (''stoptimeout'', ''StopTimeout''), (''shell'', ''Shell'')]),
     (CHR ''c'', [(''cmd'', ''Cmd'')]),
     (CHR ''i'', [(''image'', ''Image'')]),
     (CHR ''v'', [(''volumes'', ''Volumes'')]),
     (CHR ''w'', [(''workingdir'', ''WorkingDir'')]),
     (CHR ''n'', [(''networkdisabled'', ''NetworkDisabled''), (''networkingconfig'', ''NetworkingConfig'')]),
     (CHR ''m'', [(''macaddress'', ''MacAddress'')]),
     (CHR ''l'', [(''labels'', ''Labels'')])]"
  by code_simp

lemma indexed_code [code_unfold]:
  "check_field_case pfx keys HOST_CONFIG_FIELDS p =
     for_each (\<lambda>key. check_indexed pfx p host_config_index key (fold_key key)) (sorted_keys keys)"
  "check_field_case pfx keys CREATE_BODY_FIELDS p =
     for_each (\<lambda>key. check_indexed pfx p create_body_index key (fold_key key)) (sorted_keys keys)"
  by (simp_all add: indexed_fields host_config_index_def create_body_index_def)

subsection \<open>Test data\<close>

definition rx_digit :: rx where
  "rx_digit = RCls [(CHR ''0'', CHR ''9'')]"

definition test_patterns :: "(string \<times> rx) list" where
  "test_patterns =
     [(''^v'' @ [CHR 0x5C] @ ''d+'' @ [CHR 0x5C] @ ''.'' @ [CHR 0x5C] @ ''d+$'',
       RSeq (RChr (CHR ''v'')) (RSeq (RPlus rx_digit) (RSeq (RChr (CHR ''.'')) (RPlus rx_digit)))),
      (''^'' @ [CHR 0x5C] @ ''d+m$'', RSeq (RPlus rx_digit) (RChr (CHR ''m''))),
      (''^(v[0-9]+|[0-9.]+)$'',
       RAlt (RSeq (RChr (CHR ''v'')) (RPlus rx_digit)) (RPlus (RCls [(CHR ''0'', CHR ''9''), (CHR ''.'', CHR ''.'')])))]"

definition test_externs :: externs where
  "test_externs =
     \<lparr>regex_new = (\<lambda>pat. case map_of test_patterns pat of None \<Rightarrow> Inl ''unknown pattern'' | Some r \<Rightarrow> Inr (is_match r)),
      json_display = (\<lambda>j. case j of JNumber (NegInt i) \<Rightarrow> ''-'' @ dec_nat (nat (- i)) | _ \<Rightarrow> []),
      json_to_vec = (\<lambda>_. Some []), json_value_from_slice = (\<lambda>_. None), json_map_from_slice = (\<lambda>_. None)\<rparr>"

text \<open>The larger numbers of the tables, which no check looks at, stay as they are in evaluation.\<close>

definition N50000 :: nat where [code del]: "N50000 = 50000"
definition N64190 :: nat where [code del]: "N64190 = 64190"
definition N100000 :: nat where [code del]: "N100000 = 100000"
definition N1048576 :: nat where [code del]: "N1048576 = 1048576"
definition N67108864 :: nat where [code del]: "N67108864 = 67108864"
definition N134217728 :: nat where [code del]: "N134217728 = 134217728"
definition N268435456 :: nat where [code del]: "N268435456 = 268435456"
definition N500000000 :: nat where [code del]: "N500000000 = 500000000"

definition gate_ok :: "gate_fun \<Rightarrow> policy \<Rightarrow> json_body \<Rightarrow> bool" where
  "gate_ok g p body = (g test_externs p body = Inr ())"

definition err_contains :: "check \<Rightarrow> string \<Rightarrow> bool" where
  "err_contains r s = (case r of Inl e \<Rightarrow> str_contains s e | Inr _ \<Rightarrow> False)"

definition gate_err :: "gate_fun \<Rightarrow> policy \<Rightarrow> json_body \<Rightarrow> string \<Rightarrow> bool" where
  "gate_err g p body s = err_contains (g test_externs p body) s"

definition alpine_policy :: policy where
  "alpine_policy = make_policy ''test'' [''alpine'']"

definition data_policy :: policy where
  "data_policy = alpine_policy\<lparr>volumes := Some [\<lparr>host_path = ''/data'', container_path = ''/data'', read_write = True\<rparr>]\<rparr>"

definition env_policy :: policy where
  "env_policy = alpine_policy\<lparr>env_file := Some ''/etc/env''\<rparr>"

definition memory_policy :: policy where
  "memory_policy = alpine_policy\<lparr>flag_rules := Some [\<lparr>rule_flag = ''--memory'', value_pattern = ''^'' @ [CHR 0x5C] @ ''d+m$''\<rparr>]\<rparr>"

definition no_config :: container_config where
  "no_config = \<lparr>network_mode = None, restart_policy = None, security_options = None, cc_user = None,
     log_driver = None, log_options = None, group_add = None\<rparr>"

definition config_policy :: "container_config \<Rightarrow> policy" where
  "config_policy cc = alpine_policy\<lparr>container_config := Some cc\<rparr>"

definition host_field :: "json_body \<Rightarrow> string \<Rightarrow> json option" where
  "host_field body k = Option.bind (get_object body ''HostConfig'') (\<lambda>hc. bt_get hc k)"

subsection \<open>Single gates\<close>

definition test_registry_gate_allows_allowed_image :: bool where
  "test_registry_gate_allows_allowed_image = gate_ok registry_gate (make_policy ''test'' [''alpine'', ''ubuntu'']) [(''Image'', JString ''alpine:latest'')]"

definition test_registry_gate_allows_prefix_match :: bool where
  "test_registry_gate_allows_prefix_match = gate_ok registry_gate (make_policy ''test'' [''myreg.io/team'']) [(''Image'', JString ''myreg.io/team/myapp:v1'')]"

definition test_registry_gate_denies_unknown_image :: bool where
  "test_registry_gate_denies_unknown_image = gate_err registry_gate alpine_policy [(''Image'', JString ''ubuntu:latest'')] ''not in allowed prefixes''"

definition test_registry_gate_no_image_field :: bool where
  "test_registry_gate_no_image_field = gate_ok registry_gate alpine_policy []"

definition test_mount_source_gate_allows_allowed_volume :: bool where
  "test_mount_source_gate_allows_allowed_volume = gate_ok mount_source_gate data_policy [(''HostConfig'', JObject [(''Binds'', JArray [JString ''/data:/data:rw''])])]"

definition test_mount_source_gate_denies_unknown_volume :: bool where
  "test_mount_source_gate_denies_unknown_volume = gate_err mount_source_gate data_policy [(''HostConfig'', JObject [(''Binds'', JArray [JString ''/other:/other:rw''])])] ''not in the whitelist''"

definition test_mount_source_gate_no_volumes_in_policy :: bool where
  "test_mount_source_gate_no_volumes_in_policy = gate_err mount_source_gate alpine_policy [(''HostConfig'', JObject [(''Binds'', JArray [JString ''/data:/data''])])] ''not in the whitelist''"

definition test_mount_source_gate_no_body_binds :: bool where
  "test_mount_source_gate_no_body_binds = gate_ok mount_source_gate data_policy []"

definition test_env_file_gate_allows_no_env_in_body :: bool where
  "test_env_file_gate_allows_no_env_in_body = gate_ok env_file_gate env_policy []"

definition test_env_file_gate_denies_inline_env :: bool where
  "test_env_file_gate_denies_inline_env = gate_err env_file_gate env_policy [(''Env'', JArray [JString ''FOO=bar''])] ''env_file''"

definition test_env_file_gate_no_env_file_in_policy :: bool where
  "test_env_file_gate_no_env_file_in_policy = gate_ok env_file_gate alpine_policy [(''Env'', JArray [JString ''FOO=bar''])]"

definition test_cmd_gate_valid_args :: bool where
  "test_cmd_gate_valid_args = gate_ok cmd_gate alpine_policy [(''Cmd'', JArray [JString ''nginx'', JString ''-g'', JString ''daemon_off''])]"

definition test_cmd_gate_invalid_chars :: bool where
  "test_cmd_gate_invalid_chars = gate_err cmd_gate alpine_policy [(''Cmd'', JArray [JString ''valid'', JString (''invalid'' @ [CHR 0x00] @ ''char'')])] ''invalid characters''"

definition test_cmd_gate_denied_flag :: bool where
  "test_cmd_gate_denied_flag = gate_err cmd_gate (alpine_policy\<lparr>denied_flags := Some [''--privileged'']\<rparr>) [(''Cmd'', JArray [JString ''--privileged''])] ''denied''"

definition test_cmd_gate_allowlisted_flag :: bool where
  "test_cmd_gate_allowlisted_flag = gate_ok cmd_gate (alpine_policy\<lparr>allowed_cli_flags := Some [''--cap-drop'']\<rparr>) [(''Cmd'', JArray [JString ''--cap-drop=ALL''])]"

definition test_cmd_gate_not_in_allowlist :: bool where
  "test_cmd_gate_not_in_allowlist = gate_err cmd_gate (alpine_policy\<lparr>allowed_cli_flags := Some [''--cap-drop'']\<rparr>) [(''Cmd'', JArray [JString ''--memory=256m''])] ''not in the allowlist''"

definition test_cmd_gate_no_cmd_in_body :: bool where
  "test_cmd_gate_no_cmd_in_body = gate_ok cmd_gate alpine_policy []"

definition test_registry_gate_allows_tag_matching_pattern :: bool where
  "test_registry_gate_allows_tag_matching_pattern = gate_ok registry_gate (alpine_policy\<lparr>image_tag_pattern := Some (''^v'' @ [CHR 0x5C] @ ''d+'' @ [CHR 0x5C] @ ''.'' @ [CHR 0x5C] @ ''d+$'')\<rparr>) [(''Image'', JString ''alpine:v1.0'')]"

definition test_registry_gate_denies_tag_not_matching_pattern :: bool where
  "test_registry_gate_denies_tag_not_matching_pattern = gate_err registry_gate (alpine_policy\<lparr>image_tag_pattern := Some (''^v'' @ [CHR 0x5C] @ ''d+'' @ [CHR 0x5C] @ ''.'' @ [CHR 0x5C] @ ''d+$'')\<rparr>) [(''Image'', JString ''alpine:latest'')] ''does not match pattern''"

definition test_registry_gate_allows_digest_when_allowed :: bool where
  "test_registry_gate_allows_digest_when_allowed = gate_ok registry_gate (alpine_policy\<lparr>image_digest_allowed := True\<rparr>) [(''Image'', JString ''alpine@sha256:abcdef1234567890abcdef1234567890abcdef1234567890abcdef1234567890'')]"

definition test_registry_gate_denies_digest_when_not_allowed :: bool where
  "test_registry_gate_denies_digest_when_not_allowed = gate_err registry_gate (alpine_policy\<lparr>image_digest_allowed := False\<rparr>) [(''Image'', JString ''alpine@sha256:abc123'')] ''image digest''"

definition test_registry_gate_denies_invalid_digest_format :: bool where
  "test_registry_gate_denies_invalid_digest_format = gate_err registry_gate (alpine_policy\<lparr>image_digest_allowed := True\<rparr>) [(''Image'', JString ''alpine@sha256:xyz'')] ''invalid digest''"

definition test_registry_gate_denies_tag_exceeds_128_chars :: bool where
  "test_registry_gate_denies_tag_exceeds_128_chars = gate_err registry_gate alpine_policy [(''Image'', JString (''alpine:'' @ replicate 129 (CHR ''a'')))] ''128''"

definition test_cmd_gate_flag_rule_matches :: bool where
  "test_cmd_gate_flag_rule_matches = gate_ok cmd_gate memory_policy [(''Cmd'', JArray [JString ''--memory=256m''])]"

definition test_cmd_gate_flag_rule_does_not_match :: bool where
  "test_cmd_gate_flag_rule_does_not_match = gate_err cmd_gate memory_policy [(''Cmd'', JArray [JString ''--memory=256g''])] ''does not match pattern''"

definition test_cmd_gate_flag_rule_with_next_arg_value :: bool where
  "test_cmd_gate_flag_rule_with_next_arg_value = gate_ok cmd_gate memory_policy [(''Cmd'', JArray [JString ''--memory'', JString ''256m''])]"

definition test_cmd_gate_flag_rule_skips_next_arg :: bool where
  "test_cmd_gate_flag_rule_skips_next_arg = gate_ok cmd_gate memory_policy [(''Cmd'', JArray [JString ''--memory'', JString ''256m'', JString ''--cap-drop=ALL''])]"

definition test_mount_source_gate_denies_unknown_volume_in_top_level_volumes :: bool where
  "test_mount_source_gate_denies_unknown_volume_in_top_level_volumes = gate_err mount_source_gate data_policy [(''Volumes'', JObject [(''/other'', JObject [])])] ''not in the whitelist''"

definition test_mount_source_gate_allows_volume_in_top_level_volumes :: bool where
  "test_mount_source_gate_allows_volume_in_top_level_volumes = gate_ok mount_source_gate data_policy [(''Volumes'', JObject [(''/data'', JObject [])])]"

definition test_env_file_gate_denies_host_config_env :: bool where
  "test_env_file_gate_denies_host_config_env = gate_err env_file_gate env_policy [(''HostConfig'', JObject [(''Env'', JArray [JString ''FOO=bar''])])] ''HostConfig''"

definition test_env_file_gate_allows_empty_host_config_env :: bool where
  "test_env_file_gate_allows_empty_host_config_env = gate_ok env_file_gate env_policy [(''HostConfig'', JObject [(''Env'', JArray [])])]"

lemma gate_tests:
  test_registry_gate_allows_allowed_image
  test_registry_gate_allows_prefix_match
  test_registry_gate_denies_unknown_image
  test_registry_gate_no_image_field
  test_mount_source_gate_allows_allowed_volume
  test_mount_source_gate_denies_unknown_volume
  test_mount_source_gate_no_volumes_in_policy
  test_mount_source_gate_no_body_binds
  test_env_file_gate_allows_no_env_in_body
  test_env_file_gate_denies_inline_env
  test_env_file_gate_no_env_file_in_policy
  test_cmd_gate_valid_args
  test_cmd_gate_invalid_chars
  test_cmd_gate_denied_flag
  test_cmd_gate_allowlisted_flag
  test_cmd_gate_not_in_allowlist
  test_cmd_gate_no_cmd_in_body
  test_registry_gate_allows_tag_matching_pattern
  test_registry_gate_denies_tag_not_matching_pattern
  test_registry_gate_allows_digest_when_allowed
  test_registry_gate_denies_digest_when_not_allowed
  test_registry_gate_denies_invalid_digest_format
  test_registry_gate_denies_tag_exceeds_128_chars
  test_cmd_gate_flag_rule_matches
  test_cmd_gate_flag_rule_does_not_match
  test_cmd_gate_flag_rule_with_next_arg_value
  test_cmd_gate_flag_rule_skips_next_arg
  test_mount_source_gate_denies_unknown_volume_in_top_level_volumes
  test_mount_source_gate_allows_volume_in_top_level_volumes
  test_env_file_gate_denies_host_config_env
  test_env_file_gate_allows_empty_host_config_env
  by code_simp+

subsection \<open>The mutator and the chain\<close>

definition test_container_config_mutator_sets_network_mode :: bool where
  "test_container_config_mutator_sets_network_mode =
     (host_field (container_config_mutator (config_policy (no_config\<lparr>network_mode := Some ''host''\<rparr>)) []) ''NetworkMode''
        = Some (JString ''host'') \<and>
      host_field (container_config_mutator (config_policy (no_config\<lparr>network_mode := Some ''host''\<rparr>)) []) ''Privileged''
        = Some (JBool False))"

definition test_container_config_mutator_sets_restart_policy :: bool where
  "test_container_config_mutator_sets_restart_policy =
     (Option.bind (Option.bind (host_field (container_config_mutator
          (config_policy (no_config\<lparr>restart_policy := Some ''unless-stopped''\<rparr>)) [(''HostConfig'', JObject [])]) ''RestartPolicy'')
        as_object) (\<lambda>rp. bt_get rp ''Name'') = Some (JString ''unless-stopped''))"

definition test_container_config_mutator_sets_user :: bool where
  "test_container_config_mutator_sets_user =
     (hm_get (container_config_mutator (config_policy (no_config\<lparr>cc_user := Some ''appuser''\<rparr>)) []) ''User''
        = Some (JString ''appuser''))"

definition test_container_config_mutator_noop_when_no_config :: bool where
  "test_container_config_mutator_noop_when_no_config =
     (container_config_mutator alpine_policy [] = [(''HostConfig'', JObject [(''Privileged'', JBool False)])])"

definition test_chain_execute_allows :: bool where
  "test_chain_execute_allows =
     (gr_allowed (execute test_externs chain_new alpine_policy [(''Image'', JString ''alpine'')]) \<and>
      gr_reason (execute test_externs chain_new alpine_policy [(''Image'', JString ''alpine'')]) = ''container create allowed'')"

definition test_chain_execute_denies_unknown_image_via_registry_gate :: bool where
  "test_chain_execute_denies_unknown_image_via_registry_gate =
     (\<not> gr_allowed (execute test_externs chain_new alpine_policy [(''Image'', JString ''ubuntu'')]) \<and>
      str_contains ''not in allowed prefixes'' (gr_reason (execute test_externs chain_new alpine_policy [(''Image'', JString ''ubuntu'')])))"

definition bridge_policy :: policy where
  "bridge_policy = config_policy (no_config\<lparr>network_mode := Some ''bridge''\<rparr>)"

definition test_chain_execute_with_mutator_sets_hostconfig :: bool where
  "test_chain_execute_with_mutator_sets_hostconfig =
     (gr_allowed (execute test_externs chain_new bridge_policy [(''Image'', JString ''alpine'')]) \<and>
      modified_body (execute test_externs chain_new bridge_policy [(''Image'', JString ''alpine'')]) \<noteq> None \<and>
      host_field (mutate_all chain_new bridge_policy [(''Image'', JString ''alpine'')]) ''NetworkMode'' = Some (JString ''bridge''))"

definition test_charset_check_valid :: bool where
  "test_charset_check_valid = (charset_check ''valid-string_123'' \<and> charset_check ''a'')"

definition test_charset_check_invalid :: bool where
  "test_charset_check_invalid =
     (\<not> charset_check ''string with spaces'' \<and> \<not> charset_check (''string'' @ [CHR 0x0A] @ ''with'' @ [CHR 0x0A] @ ''newlines''))"

definition test_charset_check_too_long :: bool where
  "test_charset_check_too_long = (\<not> charset_check (replicate 257 (CHR ''a'')))"

lemma mutator_and_chain_tests:
  test_container_config_mutator_sets_network_mode test_container_config_mutator_sets_restart_policy
  test_container_config_mutator_sets_user test_container_config_mutator_noop_when_no_config
  test_chain_execute_allows test_chain_execute_denies_unknown_image_via_registry_gate
  test_chain_execute_with_mutator_sets_hostconfig
  test_charset_check_valid test_charset_check_invalid test_charset_check_too_long
  by code_simp+

subsection \<open>Network endpoints\<close>

text \<open>A forced mode (empty for none), the \<open>NetworkingConfig\<close> sent and forwarded, and the deny reason.\<close>

definition endpoints_policy :: "string \<Rightarrow> policy" where
  "endpoints_policy mode = config_policy (no_config\<lparr>network_mode := (if mode = [] then None else Some mode),
     restart_policy := Some ''unless-stopped''\<rparr>)"

definition endpoints_body :: "json option \<Rightarrow> json_body" where
  "endpoints_body req =
     (case req of
        None \<Rightarrow> [(''Image'', JString ''alpine:3.20'')]
      | Some j \<Rightarrow> [(''Image'', JString ''alpine:3.20''), (''NetworkingConfig'', j)])"

definition result_is :: "gate_result \<Rightarrow> string \<Rightarrow> bool" where
  "result_is res want =
     (if want = [] then gr_allowed res else \<not> gr_allowed res \<and> str_contains want (gr_reason res))"

fun endpoints_row :: "string \<times> json option \<times> json option \<times> string \<Rightarrow> bool" where
  "endpoints_row (mode, req, want, denied) =
     (result_is (execute test_externs chain_new (endpoints_policy mode) (endpoints_body req)) denied \<and>
      (denied \<noteq> [] \<or>
       unwrap_or (hm_get (mutate_all chain_new (endpoints_policy mode) (endpoints_body req)) ''NetworkingConfig'') JNull
         = unwrap_or want JNull))"

definition network_endpoints_rows_detached :: bool where
  "network_endpoints_rows_detached = list_all endpoints_row [
        (''host'', None, Some (JObject [(''EndpointsConfig'', JObject [])]), []),
        (''host'', Some (JObject [(''EndpointsConfig'', JObject [(''default'', JObject [])])]), Some (JObject [(''EndpointsConfig'', JObject [])]), []),
        (''host'', Some (JObject [(''EndpointsConfig'', JObject [(''host'', JObject [(''Aliases'', JArray [JString ''a''])])])]), Some (JObject [(''EndpointsConfig'', JObject [])]), []),
        (''host'', Some (JObject [(''EndpointsConfig'', JObject [(''default'', JObject []), (''other'', JObject [])])]), None, ''network '' @ dquote @ ''other'' @ dquote @ '' is not allowed for service test; policy forces network_mode host''),
        (''none'', None, Some (JObject [(''EndpointsConfig'', JObject [])]), []),
        (''none'', Some (JObject [(''EndpointsConfig'', JObject [(''default'', JObject [])])]), Some (JObject [(''EndpointsConfig'', JObject [])]), []),
        (''none'', Some (JObject [(''EndpointsConfig'', JObject [(''none'', JObject [(''Aliases'', JArray [JString ''a''])])])]), Some (JObject [(''EndpointsConfig'', JObject [])]), []),
        (''none'', Some (JObject [(''EndpointsConfig'', JObject [(''default'', JObject []), (''other'', JObject [])])]), None, ''network '' @ dquote @ ''other'' @ dquote @ '' is not allowed for service test; policy forces network_mode none''),
        (''container:beacon'', None, Some (JObject [(''EndpointsConfig'', JObject [])]), []),
        (''container:beacon'', Some (JObject [(''EndpointsConfig'', JObject [(''default'', JObject [])])]), Some (JObject [(''EndpointsConfig'', JObject [])]), []),
        (''container:beacon'', Some (JObject [(''EndpointsConfig'', JObject [(''container:beacon'', JObject [(''Aliases'', JArray [JString ''a''])])])]), Some (JObject [(''EndpointsConfig'', JObject [])]), []),
        (''container:beacon'', Some (JObject [(''EndpointsConfig'', JObject [(''default'', JObject []), (''other'', JObject [])])]), None, ''network '' @ dquote @ ''other'' @ dquote @ '' is not allowed for service test; policy forces network_mode container:beacon'')]"

definition network_endpoints_rows_named :: bool where
  "network_endpoints_rows_named = list_all endpoints_row [
        (''bridge'', None, Some (JObject [(''EndpointsConfig'', JObject [(''bridge'', JObject [])])]), []),
        (''bridge'', Some (JObject [(''EndpointsConfig'', JObject [(''default'', JObject [(''Aliases'', JArray [JString ''a''])])])]), Some (JObject [(''EndpointsConfig'', JObject [(''bridge'', JObject [(''Aliases'', JArray [JString ''a''])])])]), []),
        (''bridge'', Some (JObject [(''EndpointsConfig'', JObject [(''bridge'', JObject [(''Aliases'', JArray [JString ''a''])])])]), Some (JObject [(''EndpointsConfig'', JObject [(''bridge'', JObject [(''Aliases'', JArray [JString ''a''])])])]), []),
        (''bridge'', Some (JObject [(''EndpointsConfig'', JObject [(''default'', JObject []), (''other'', JObject [])])]), None, ''network '' @ dquote @ ''other'' @ dquote @ '' is not allowed for service test; policy forces network_mode bridge''),
        (''mynet'', None, Some (JObject [(''EndpointsConfig'', JObject [(''mynet'', JObject [])])]), []),
        (''mynet'', Some (JObject [(''EndpointsConfig'', JObject [(''default'', JObject [(''Aliases'', JArray [JString ''a''])])])]), Some (JObject [(''EndpointsConfig'', JObject [(''mynet'', JObject [(''Aliases'', JArray [JString ''a''])])])]), []),
        (''mynet'', Some (JObject [(''EndpointsConfig'', JObject [(''mynet'', JObject [(''Aliases'', JArray [JString ''a''])])])]), Some (JObject [(''EndpointsConfig'', JObject [(''mynet'', JObject [(''Aliases'', JArray [JString ''a''])])])]), []),
        (''mynet'', Some (JObject [(''EndpointsConfig'', JObject [(''default'', JObject []), (''other'', JObject [])])]), None, ''network '' @ dquote @ ''other'' @ dquote @ '' is not allowed for service test; policy forces network_mode mynet''),
        (''mynet'', Some (JObject [(''EndpointsConfig'', JObject [(''default'', JObject [(''Aliases'', JArray [JString ''a''])]), (''mynet'', JObject [])])]), Some (JObject [(''EndpointsConfig'', JObject [(''mynet'', JObject [])])]), []),
        (''host'', Some (JNull), Some (JObject [(''EndpointsConfig'', JObject [])]), []),
        (''bridge'', Some (JObject [(''EndpointsConfig'', JNull)]), Some (JObject [(''EndpointsConfig'', JObject [(''bridge'', JObject [])])]), []),
        (''host'', Some (JObject [(''EndpointsConfig'', JArray [])]), None, ''NetworkingConfig.EndpointsConfig must be a JSON object; policy forces network_mode host''),
        (''host'', Some (JString ''default''), None, ''NetworkingConfig.EndpointsConfig must be a JSON object; policy forces network_mode host''),
        ([], Some (JObject [(''EndpointsConfig'', JObject [(''default'', JObject []), (''other'', JObject [])])]), Some (JObject [(''EndpointsConfig'', JObject [(''default'', JObject []), (''other'', JObject [])])]), [])]"

lemma network_endpoints_tests: network_endpoints_rows_detached network_endpoints_rows_named
  by code_simp+

subsection \<open>References in the registry gate\<close>

definition references_policy :: policy where
  "references_policy = (make_policy ''test'' [''chainsafe/lodestar'', ''localhost:5000/team'', ''registry.example.com:443/a''])
     \<lparr>image_tag_pattern := Some ''^(v[0-9]+|[0-9.]+)$''\<rparr>"

definition test_registry_gate_parses_references :: bool where
  "test_registry_gate_parses_references =
     list_all (\<lambda>(img, want).
         case want of
           None \<Rightarrow> gate_ok registry_gate references_policy [(''Image'', JString img)]
         | Some e \<Rightarrow> gate_err registry_gate references_policy [(''Image'', JString img)] e)
       [
        (''localhost:5000/team/app:1.2'', None),
        (''localhost:5000/team/app'', None),
        (''docker.io/chainsafe/lodestar:v1'', None),
        (''registry.example.com:443/a'', None),
        (''Registry.Example.com:443/a:2'', None),
        (''localhost:5000/team/app:latest'', Some (''image tag '' @ dquote @ ''latest'' @ dquote @ '' does not match pattern '' @ dquote @ ''^(v[0-9]+|[0-9.]+)$'' @ dquote)),
        (''localhost:5000/other:1'', Some (''image '' @ dquote @ ''localhost:5000/other'' @ dquote @ '' is not in allowed prefixes'')),
        (''chainsafe/Lodestar:v1'', Some (''invalid image reference '' @ dquote @ ''chainsafe/Lodestar:v1'' @ dquote))]"

lemma registry_reference_tests: test_registry_gate_parses_references
  by code_simp

subsection \<open>HostConfig\<close>

definition host_config_row_policy :: "string \<Rightarrow> policy" where
  "host_config_row_policy name =
     (if name = ''bare'' then make_policy ''svc'' [''chainsafe/lodestar'']
      else (make_policy ''svc'' [''chainsafe/lodestar''])
        \<lparr>volumes := Some [\<lparr>host_path = ''/data'', container_path = ''/data'', read_write = True\<rparr>,
           \<lparr>host_path = ''/ro'', container_path = ''/ro'', read_write = False\<rparr>],
         container_config := Some (no_config\<lparr>network_mode := Some ''host'',
           security_options := (if name = ''secopt'' then Some [''no-new-privileges:true''] else None),
           group_add := (if name = ''groups'' then Some [''64190'', ''jwt''] else None)\<rparr>)\<rparr>)"

definition test_group_add_gate_rows :: bool where
  "test_group_add_gate_rows =
     list_all (\<lambda>(body, want).
         if want = [] then gate_ok host_config_gate (host_config_row_policy ''groups'') body
         else gate_err host_config_gate (host_config_row_policy ''groups'') body want)
       [
        ([(''HostConfig'', JObject [(''GroupAdd'', JArray [JString ''64190'', JString ''jwt''])])], []),
        ([(''HostConfig'', JObject [(''GroupAdd'', JArray [])])], []),
        ([(''HostConfig'', JObject [(''GroupAdd'', JNull)])], []),
        ([(''HostConfig'', JObject [(''GroupAdd'', JArray [JString ''docker''])])], ''HostConfig.GroupAdd is not allowed for service svc''),
        ([(''HostConfig'', JObject [(''GroupAdd'', JArray [JString ''jwt'', JString ''64190''])])], ''HostConfig.GroupAdd is not allowed for service svc''),
        ([(''HostConfig'', JObject [(''GroupAdd'', JArray [JString ''64190''])])], ''HostConfig.GroupAdd is not allowed for service svc''),
        ([(''HostConfig'', JObject [(''GroupAdd'', JArray [JString ''64190'', JString ''jwt'', JString ''0''])])], ''HostConfig.GroupAdd is not allowed for service svc''),
        ([(''HostConfig'', JObject [(''GroupAdd'', JArray [JNumber (PosInt N64190), JString ''jwt''])])], ''HostConfig.GroupAdd is not allowed for service svc''),
        ([(''HostConfig'', JObject [(''GroupAdd'', JString ''64190'')])], ''HostConfig.GroupAdd is not allowed for service svc'')]"

lemma group_add_gate_tests: test_group_add_gate_rows
  by code_simp

text \<open>A policy, a body, the deny reason (empty for an allowed create) and fields of the forwarded \<open>HostConfig\<close>.\<close>

fun host_config_row :: "string \<times> json_body \<times> string \<times> json_object \<Rightarrow> bool" where
  "host_config_row (name, body, want, fwd) =
     (result_is (execute test_externs chain_new (host_config_row_policy name) body) want \<and>
      list_all (\<lambda>(k, v). host_field (mutate_all chain_new (host_config_row_policy name) body) k = Some v) fwd)"

definition HOST_CONFIG_ROWS_fields :: "(string \<times> json_body \<times> string \<times> json_object) list" where
  "HOST_CONFIG_ROWS_fields = [
        (''std'', [(''HostConfig'', JObject [(''CapAdd'', JArray [JString ''SYS_ADMIN''])]), (''Image'', JString ''chainsafe/lodestar:v1'')], ''HostConfig.CapAdd is not allowed for service svc'', []),
        (''std'', [(''HostConfig'', JObject [(''Devices'', JArray [JObject [(''CgroupPermissions'', JString ''rwm''), (''PathInContainer'', JString ''/dev/sda''), (''PathOnHost'', JString ''/dev/sda'')]])]), (''Image'', JString ''chainsafe/lodestar:v1'')], ''HostConfig.Devices is not allowed for service svc'', []),
        (''std'', [(''HostConfig'', JObject [(''DeviceRequests'', JArray [JObject [(''Capabilities'', JArray [JArray [JString ''gpu'']]), (''Count'', JNumber (NegInt (- 1))), (''Driver'', JString [])]])]), (''Image'', JString ''chainsafe/lodestar:v1'')], ''HostConfig.DeviceRequests is not allowed for service svc'', []),
        (''std'', [(''HostConfig'', JObject [(''DeviceCgroupRules'', JArray [JString ''b 8:* rmw''])]), (''Image'', JString ''chainsafe/lodestar:v1'')], ''HostConfig.DeviceCgroupRules is not allowed for service svc'', []),
        (''std'', [(''HostConfig'', JObject [(''GroupAdd'', JArray [JString ''docker''])]), (''Image'', JString ''chainsafe/lodestar:v1'')], ''HostConfig.GroupAdd is not allowed for service svc'', []),
        (''std'', [(''HostConfig'', JObject [(''GroupAdd'', JArray [JString ''64190'', JString ''jwt''])]), (''Image'', JString ''chainsafe/lodestar:v1'')], ''HostConfig.GroupAdd is not allowed for service svc'', []),
        (''groups'', [(''Image'', JString ''chainsafe/lodestar:v1'')], [], [(''GroupAdd'', JArray [JString ''64190'', JString ''jwt''])]),
        (''groups'', [(''HostConfig'', JNull), (''Image'', JString ''chainsafe/lodestar:v1'')], [], [(''GroupAdd'', JArray [JString ''64190'', JString ''jwt''])]),
        (''groups'', [(''HostConfig'', JObject [(''GroupAdd'', JArray [JString ''docker'', JString ''0''])]), (''Image'', JString ''chainsafe/lodestar:v1'')], [], [(''GroupAdd'', JArray [JString ''64190'', JString ''jwt''])]),
        (''groups'', [(''HostConfig'', JObject [(''GroupAdd'', JNull)]), (''Image'', JString ''chainsafe/lodestar:v1'')], [], [(''GroupAdd'', JArray [JString ''64190'', JString ''jwt''])]),
        (''groups'', [(''HostConfig'', JObject [(''GroupAdd'', JArray [JString ''64190'', JString ''jwt''])]), (''Image'', JString ''chainsafe/lodestar:v1'')], [], [(''GroupAdd'', JArray [JString ''64190'', JString ''jwt''])]),
        (''groups'', [(''HostConfig'', JObject [(''groupadd'', JArray [JString ''0''])]), (''Image'', JString ''chainsafe/lodestar:v1'')], ''HostConfig.groupadd is not allowed for service svc'', []),
        (''groups'', [(''HostConfig'', JArray [JString ''GroupAdd'']), (''Image'', JString ''chainsafe/lodestar:v1'')], ''HostConfig must be an object for service svc'', [])]"

lemma host_config_fields_tests: "list_all host_config_row HOST_CONFIG_ROWS_fields"
  by code_simp

definition HOST_CONFIG_ROWS_other_fields :: "(string \<times> json_body \<times> string \<times> json_object) list" where
  "HOST_CONFIG_ROWS_other_fields = [
        (''std'', [(''HostConfig'', JObject [(''VolumesFrom'', JArray [JString ''other''])]), (''Image'', JString ''chainsafe/lodestar:v1'')], ''HostConfig.VolumesFrom is not allowed for service svc'', []),
        (''std'', [(''HostConfig'', JObject [(''Links'', JArray [JString ''other:alias''])]), (''Image'', JString ''chainsafe/lodestar:v1'')], ''HostConfig.Links is not allowed for service svc'', []),
        (''std'', [(''HostConfig'', JObject [(''Sysctls'', JObject [(''kernel.shm_rmid_forced'', JString ''1'')])]), (''Image'', JString ''chainsafe/lodestar:v1'')], ''HostConfig.Sysctls is not allowed for service svc'', []),
        (''std'', [(''HostConfig'', JObject [(''CgroupParent'', JString ''/'')]), (''Image'', JString ''chainsafe/lodestar:v1'')], ''HostConfig.CgroupParent is not allowed for service svc'', []),
        (''std'', [(''HostConfig'', JObject [(''Runtime'', JString ''other'')]), (''Image'', JString ''chainsafe/lodestar:v1'')], ''HostConfig.Runtime is not allowed for service svc'', []),
        (''std'', [(''HostConfig'', JObject [(''VolumeDriver'', JString ''local'')]), (''Image'', JString ''chainsafe/lodestar:v1'')], ''HostConfig.VolumeDriver is not allowed for service svc'', []),
        (''std'', [(''HostConfig'', JObject [(''OomKillDisable'', JBool True)]), (''Image'', JString ''chainsafe/lodestar:v1'')], ''HostConfig.OomKillDisable is not allowed for service svc'', []),
        (''std'', [(''HostConfig'', JObject [(''Annotations'', JObject [(''a'', JString ''b'')])]), (''Image'', JString ''chainsafe/lodestar:v1'')], ''HostConfig.Annotations is not allowed for service svc'', []),
        (''std'', [(''HostConfig'', JObject [(''StorageOpt'', JObject [(''size'', JString ''1G'')])]), (''Image'', JString ''chainsafe/lodestar:v1'')], ''HostConfig.StorageOpt is not allowed for service svc'', []),
        (''std'', [(''HostConfig'', JObject [(''BlkioDeviceReadBps'', JArray [JObject [(''Path'', JString ''/dev/sda''), (''Rate'', JNumber (PosInt 1))]])]), (''Image'', JString ''chainsafe/lodestar:v1'')], ''HostConfig.BlkioDeviceReadBps is not allowed for service svc'', []),
        (''std'', [(''HostConfig'', JObject [(''CpuRealtimeRuntime'', JNumber (PosInt 1000))]), (''Image'', JString ''chainsafe/lodestar:v1'')], ''HostConfig.CpuRealtimeRuntime is not allowed for service svc'', []),
        (''std'', [(''HostConfig'', JObject [(''FutureField'', JBool True)]), (''Image'', JString ''chainsafe/lodestar:v1'')], ''HostConfig.FutureField is not allowed for service svc'', []),
        (''std'', [(''HostConfig'', JObject [(''MaskedPaths'', JArray [])]), (''Image'', JString ''chainsafe/lodestar:v1'')], ''HostConfig.MaskedPaths is not allowed for service svc'', []),
        (''std'', [(''HostConfig'', JObject [(''ReadonlyPaths'', JArray [])]), (''Image'', JString ''chainsafe/lodestar:v1'')], ''HostConfig.ReadonlyPaths is not allowed for service svc'', []),
        (''std'', [(''HostConfig'', JObject [(''MaskedPaths'', JArray [JString ''/proc/kcore''])]), (''Image'', JString ''chainsafe/lodestar:v1'')], ''HostConfig.MaskedPaths is not allowed for service svc'', []),
        (''std'', [(''HostConfig'', JObject [(''CapAdd'', JNull), (''CgroupParent'', JString []), (''Devices'', JArray []), (''FutureField'', JNumber (PosInt 0)), (''GroupAdd'', JNull), (''IpcMode'', JString []), (''MaskedPaths'', JNull), (''OomKillDisable'', JBool False), (''OomScoreAdj'', JNumber (PosInt 0)), (''PidMode'', JString []), (''Privileged'', JBool False), (''ReadonlyPaths'', JNull), (''Runtime'', JString []), (''SecurityOpt'', JNull), (''Sysctls'', JObject []), (''VolumeDriver'', JString [])]), (''Image'', JString ''chainsafe/lodestar:v1'')], [], [])]"

lemma host_config_other_fields_tests: "list_all host_config_row HOST_CONFIG_ROWS_other_fields"
  by code_simp

definition HOST_CONFIG_ROWS_modes :: "(string \<times> json_body \<times> string \<times> json_object) list" where
  "HOST_CONFIG_ROWS_modes = [
        (''std'', [(''HostConfig'', JObject [(''PidMode'', JString ''host'')]), (''Image'', JString ''chainsafe/lodestar:v1'')], ''HostConfig.PidMode value '' @ dquote @ ''host'' @ dquote @ '' is not allowed for service svc'', []),
        (''std'', [(''HostConfig'', JObject [(''PidMode'', JString ''container:abc'')]), (''Image'', JString ''chainsafe/lodestar:v1'')], ''HostConfig.PidMode value '' @ dquote @ ''container:abc'' @ dquote @ '' is not allowed'', []),
        (''std'', [(''HostConfig'', JObject [(''IpcMode'', JString ''host'')]), (''Image'', JString ''chainsafe/lodestar:v1'')], ''HostConfig.IpcMode value '' @ dquote @ ''host'' @ dquote @ '' is not allowed'', []),
        (''std'', [(''HostConfig'', JObject [(''IpcMode'', JString ''container:abc'')]), (''Image'', JString ''chainsafe/lodestar:v1'')], ''HostConfig.IpcMode value '' @ dquote @ ''container:abc'' @ dquote @ '' is not allowed'', []),
        (''std'', [(''HostConfig'', JObject [(''UTSMode'', JString ''host'')]), (''Image'', JString ''chainsafe/lodestar:v1'')], ''HostConfig.UTSMode value '' @ dquote @ ''host'' @ dquote @ '' is not allowed'', []),
        (''std'', [(''HostConfig'', JObject [(''UsernsMode'', JString ''host'')]), (''Image'', JString ''chainsafe/lodestar:v1'')], ''HostConfig.UsernsMode value '' @ dquote @ ''host'' @ dquote @ '' is not allowed'', []),
        (''std'', [(''HostConfig'', JObject [(''CgroupnsMode'', JString ''host'')]), (''Image'', JString ''chainsafe/lodestar:v1'')], ''HostConfig.CgroupnsMode value '' @ dquote @ ''host'' @ dquote @ '' is not allowed'', []),
        (''std'', [(''HostConfig'', JObject [(''Cgroup'', JString ''container:abc'')]), (''Image'', JString ''chainsafe/lodestar:v1'')], ''HostConfig.Cgroup value '' @ dquote @ ''container:abc'' @ dquote @ '' is not allowed'', []),
        (''std'', [(''HostConfig'', JObject [(''Isolation'', JString ''hyperv'')]), (''Image'', JString ''chainsafe/lodestar:v1'')], ''HostConfig.Isolation value '' @ dquote @ ''hyperv'' @ dquote @ '' is not allowed'', []),
        (''std'', [(''HostConfig'', JObject [(''IpcMode'', JString ''private'')]), (''Image'', JString ''chainsafe/lodestar:v1'')], [], []),
        (''std'', [(''HostConfig'', JObject [(''IpcMode'', JString ''shareable'')]), (''Image'', JString ''chainsafe/lodestar:v1'')], [], []),
        (''std'', [(''HostConfig'', JObject [(''IpcMode'', JString ''none'')]), (''Image'', JString ''chainsafe/lodestar:v1'')], [], []),
        (''std'', [(''HostConfig'', JObject [(''CgroupnsMode'', JString ''private'')]), (''Image'', JString ''chainsafe/lodestar:v1'')], [], []),
        (''std'', [(''HostConfig'', JObject [(''Isolation'', JString ''default'')]), (''Image'', JString ''chainsafe/lodestar:v1'')], [], []),
        (''std'', [(''HostConfig'', JObject [(''OomScoreAdj'', JNumber (NegInt (- 1000)))]), (''Image'', JString ''chainsafe/lodestar:v1'')], ''HostConfig.OomScoreAdj value -1000 is not allowed'', []),
        (''std'', [(''HostConfig'', JObject [(''OomScoreAdj'', JNumber (PosInt 500))]), (''Image'', JString ''chainsafe/lodestar:v1'')], [], [])]"

lemma host_config_modes_tests: "list_all host_config_row HOST_CONFIG_ROWS_modes"
  by code_simp

definition HOST_CONFIG_ROWS_security_opt :: "(string \<times> json_body \<times> string \<times> json_object) list" where
  "HOST_CONFIG_ROWS_security_opt = [
        (''std'', [(''HostConfig'', JObject [(''SecurityOpt'', JArray [JString ''seccomp=unconfined''])]), (''Image'', JString ''chainsafe/lodestar:v1'')], ''HostConfig.SecurityOpt entry '' @ dquote @ ''seccomp=unconfined'' @ dquote @ '' is not allowed'', []),
        (''std'', [(''HostConfig'', JObject [(''SecurityOpt'', JArray [JString ''apparmor=unconfined''])]), (''Image'', JString ''chainsafe/lodestar:v1'')], ''HostConfig.SecurityOpt entry '' @ dquote @ ''apparmor=unconfined'' @ dquote @ '' is not allowed'', []),
        (''std'', [(''HostConfig'', JObject [(''SecurityOpt'', JArray [JString ''label=disable''])]), (''Image'', JString ''chainsafe/lodestar:v1'')], ''HostConfig.SecurityOpt entry '' @ dquote @ ''label=disable'' @ dquote @ '' is not allowed'', []),
        (''std'', [(''HostConfig'', JObject [(''SecurityOpt'', JArray [JString ''no-new-privileges:false''])]), (''Image'', JString ''chainsafe/lodestar:v1'')], ''HostConfig.SecurityOpt entry '' @ dquote @ ''no-new-privileges:false'' @ dquote @ '' is not allowed'', []),
        (''std'', [(''HostConfig'', JObject [(''SecurityOpt'', JArray [JString ''no-new-privileges''])]), (''Image'', JString ''chainsafe/lodestar:v1'')], [], []),
        (''std'', [(''HostConfig'', JObject [(''SecurityOpt'', JArray [JString ''no-new-privileges:true''])]), (''Image'', JString ''chainsafe/lodestar:v1'')], [], []),
        (''secopt'', [(''HostConfig'', JObject [(''SecurityOpt'', JArray [JString ''seccomp=unconfined''])]), (''Image'', JString ''chainsafe/lodestar:v1'')], [], [(''SecurityOpt'', JArray [JString ''no-new-privileges:true''])])]"

lemma host_config_security_opt_tests: "list_all host_config_row HOST_CONFIG_ROWS_security_opt"
  by code_simp

definition HOST_CONFIG_ROWS_case :: "(string \<times> json_body \<times> string \<times> json_object) list" where
  "HOST_CONFIG_ROWS_case = [
        (''std'', [(''HostConfig'', JObject [(''privileged'', JBool True)]), (''Image'', JString ''chainsafe/lodestar:v1'')], ''HostConfig.privileged is not allowed for service svc (the daemon reads it as HostConfig.Privileged)'', []),
        (''secopt'', [(''HostConfig'', JObject [(''securityopt'', JNull)]), (''Image'', JString ''chainsafe/lodestar:v1'')], ''HostConfig.securityopt is not allowed'', []),
        (''std'', [(''HostConfig'', JObject [(''binds'', JArray [JString ''/:/host''])]), (''Image'', JString ''chainsafe/lodestar:v1'')], ''HostConfig.binds is not allowed'', []),
        (''std'', [(''HostConfig'', JObject [([CHR 0xC5, CHR 0xBF] @ ''ecurityOpt'', JArray [JString ''seccomp=unconfined''])]), (''Image'', JString ''chainsafe/lodestar:v1'')], ''(the daemon reads it as HostConfig.SecurityOpt)'', []),
        (''std'', [(''HostConfig'', JObject [(''Lin'' @ [CHR 0xE2, CHR 0x84, CHR 0xAA] @ ''s'', JArray [JString ''other:alias''])]), (''Image'', JString ''chainsafe/lodestar:v1'')], ''(the daemon reads it as HostConfig.Links)'', []),
        (''std'', [(''Image'', JString ''chainsafe/lodestar:v1''), (''hostConfig'', JObject [(''Privileged'', JBool True)])], ''hostConfig is not allowed for service svc (the daemon reads it as HostConfig)'', []),
        (''std'', [(''Image'', JString ''chainsafe/lodestar:v1''), (''user'', JString ''root'')], ''user is not allowed for service svc (the daemon reads it as User)'', []),
        (''std'', [(''Image'', JString ''chainsafe/lodestar:v1''), (''image'', JString ''alpine:3.20'')], ''image is not allowed for service svc (the daemon reads it as Image)'', []),
        (''std'', [(''Image'', JString ''chainsafe/lodestar:v1''), (''NetworkingConfig'', JObject [(''EndpointsConfig'', JObject [(''default'', JObject [])]), (''endpointsconfig'', JObject [(''evil-net'', JObject [])])])], ''NetworkingConfig.endpointsconfig is not allowed for service svc (the daemon reads it as NetworkingConfig.EndpointsConfig)'', []),
        (''bare'', [(''Image'', JString ''chainsafe/lodestar:v1''), (''NetworkingConfig'', JObject [(''EndpointsConfig'', JObject [(''default'', JObject [])]), (''endpointsconfig'', JObject [(''evil-net'', JObject [])])])], ''NetworkingConfig.endpointsconfig is not allowed for service svc'', []),
        (''bare'', [(''Image'', JString ''chainsafe/lodestar:v1''), (''NetworkingConfig'', JObject [(''Endpoint'' @ [CHR 0xC5, CHR 0xBF] @ ''Config'', JObject [(''evil-net'', JObject [])])])], ''(the daemon reads it as NetworkingConfig.EndpointsConfig)'', []),
        (''bare'', [(''Image'', JString ''chainsafe/lodestar:v1''), (''NetworkingConfig'', JObject [(''EndpointsConfig'', JObject [(''default'', JObject []), (''other'', JObject [])])])], [], []),
        (''std'', [(''HostConfig'', JString ''x''), (''Image'', JString ''chainsafe/lodestar:v1'')], ''HostConfig must be an object'', [])]"

lemma host_config_case_tests: "list_all host_config_row HOST_CONFIG_ROWS_case"
  by code_simp

definition HOST_CONFIG_ROWS_any_value :: "(string \<times> json_body \<times> string \<times> json_object) list" where
  "HOST_CONFIG_ROWS_any_value = [
        (''std'', [(''HostConfig'', JObject [(''CapDrop'', JArray [JString ''ALL''])]), (''Image'', JString ''chainsafe/lodestar:v1'')], [], []),
        (''std'', [(''HostConfig'', JObject [(''ReadonlyRootfs'', JBool True)]), (''Image'', JString ''chainsafe/lodestar:v1'')], [], []),
        (''std'', [(''HostConfig'', JObject [(''Init'', JBool True)]), (''Image'', JString ''chainsafe/lodestar:v1'')], [], []),
        (''std'', [(''HostConfig'', JObject [(''AutoRemove'', JBool True)]), (''Image'', JString ''chainsafe/lodestar:v1'')], [], []),
        (''std'', [(''HostConfig'', JObject [(''ConsoleSize'', JArray [JNumber (PosInt 24), JNumber (PosInt 80)])]), (''Image'', JString ''chainsafe/lodestar:v1'')], [], []),
        (''std'', [(''HostConfig'', JObject [(''ShmSize'', JNumber (PosInt N67108864))]), (''Image'', JString ''chainsafe/lodestar:v1'')], [], []),
        (''std'', [(''HostConfig'', JObject [(''PortBindings'', JObject [(''8080/tcp'', JArray [JObject [(''HostIp'', JString ''127.0.0.1''), (''HostPort'', JString ''8080'')]])])]), (''Image'', JString ''chainsafe/lodestar:v1'')], [], []),
        (''std'', [(''HostConfig'', JObject [(''PublishAllPorts'', JBool True)]), (''Image'', JString ''chainsafe/lodestar:v1'')], [], []),
        (''std'', [(''HostConfig'', JObject [(''Dns'', JArray [JString ''1.1.1.1''])]), (''Image'', JString ''chainsafe/lodestar:v1'')], [], []),
        (''std'', [(''HostConfig'', JObject [(''DnsOptions'', JArray [JString ''ndots:1''])]), (''Image'', JString ''chainsafe/lodestar:v1'')], [], []),
        (''std'', [(''HostConfig'', JObject [(''DnsSearch'', JArray [JString ''example.com''])]), (''Image'', JString ''chainsafe/lodestar:v1'')], [], []),
        (''std'', [(''HostConfig'', JObject [(''ExtraHosts'', JArray [JString ''host:10.0.0.1''])]), (''Image'', JString ''chainsafe/lodestar:v1'')], [], []),
        (''std'', [(''HostConfig'', JObject [(''Tmpfs'', JObject [(''/run'', JString ''rw,noexec'')])]), (''Image'', JString ''chainsafe/lodestar:v1'')], [], []),
        (''std'', [(''HostConfig'', JObject [(''Ulimits'', JArray [JObject [(''Hard'', JNumber (PosInt 2048)), (''Name'', JString ''nofile''), (''Soft'', JNumber (PosInt 1024))]])]), (''Image'', JString ''chainsafe/lodestar:v1'')], [], [])]"

lemma host_config_any_value_tests: "list_all host_config_row HOST_CONFIG_ROWS_any_value"
  by code_simp

definition HOST_CONFIG_ROWS_limits :: "(string \<times> json_body \<times> string \<times> json_object) list" where
  "HOST_CONFIG_ROWS_limits = [
        (''std'', [(''HostConfig'', JObject [(''Memory'', JNumber (PosInt N268435456))]), (''Image'', JString ''chainsafe/lodestar:v1'')], [], []),
        (''std'', [(''HostConfig'', JObject [(''MemoryReservation'', JNumber (PosInt N134217728))]), (''Image'', JString ''chainsafe/lodestar:v1'')], [], []),
        (''std'', [(''HostConfig'', JObject [(''MemorySwap'', JNumber (NegInt (- 1)))]), (''Image'', JString ''chainsafe/lodestar:v1'')], [], []),
        (''std'', [(''HostConfig'', JObject [(''MemorySwappiness'', JNumber (NegInt (- 1)))]), (''Image'', JString ''chainsafe/lodestar:v1'')], [], []),
        (''std'', [(''HostConfig'', JObject [(''NanoCpus'', JNumber (PosInt N500000000))]), (''Image'', JString ''chainsafe/lodestar:v1'')], [], []),
        (''std'', [(''HostConfig'', JObject [(''CpuShares'', JNumber (PosInt 512))]), (''Image'', JString ''chainsafe/lodestar:v1'')], [], []),
        (''std'', [(''HostConfig'', JObject [(''CpuPeriod'', JNumber (PosInt N100000))]), (''Image'', JString ''chainsafe/lodestar:v1'')], [], []),
        (''std'', [(''HostConfig'', JObject [(''CpuQuota'', JNumber (PosInt N50000))]), (''Image'', JString ''chainsafe/lodestar:v1'')], [], []),
        (''std'', [(''HostConfig'', JObject [(''CpusetCpus'', JString ''0-1'')]), (''Image'', JString ''chainsafe/lodestar:v1'')], [], []),
        (''std'', [(''HostConfig'', JObject [(''CpusetMems'', JString ''0'')]), (''Image'', JString ''chainsafe/lodestar:v1'')], [], []),
        (''std'', [(''HostConfig'', JObject [(''PidsLimit'', JNumber (PosInt 100))]), (''Image'', JString ''chainsafe/lodestar:v1'')], [], []),
        (''std'', [(''HostConfig'', JObject [(''BlkioWeight'', JNumber (PosInt 10))]), (''Image'', JString ''chainsafe/lodestar:v1'')], [], []),
        (''std'', [(''HostConfig'', JObject [(''ContainerIDFile'', JString ''/tmp/cid'')]), (''Image'', JString ''chainsafe/lodestar:v1'')], [], []),
        (''std'', [(''HostConfig'', JObject [(''NetworkMode'', JString ''bridge'')]), (''Image'', JString ''chainsafe/lodestar:v1'')], [], []),
        (''std'', [(''HostConfig'', JObject [(''RestartPolicy'', JObject [(''MaximumRetryCount'', JNumber (PosInt 0)), (''Name'', JString ''always'')])]), (''Image'', JString ''chainsafe/lodestar:v1'')], [], []),
        (''std'', [(''HostConfig'', JObject [(''LogConfig'', JObject [(''Config'', JObject [(''max-size'', JString ''10m'')]), (''Type'', JString ''json-file'')])]), (''Image'', JString ''chainsafe/lodestar:v1'')], [], []),
        (''std'', [(''HostConfig'', JObject [(''Privileged'', JBool True)]), (''Image'', JString ''chainsafe/lodestar:v1'')], [], [(''Privileged'', JBool False)]),
        (''bare'', [(''HostConfig'', JObject [(''Privileged'', JBool True)]), (''Image'', JString ''chainsafe/lodestar:v1'')], [], [(''Privileged'', JBool False)]),
        (''bare'', [(''Image'', JString ''chainsafe/lodestar:v1'')], [], [(''Privileged'', JBool False)])]"

lemma host_config_limits_tests: "list_all host_config_row HOST_CONFIG_ROWS_limits"
  by code_simp

definition HOST_CONFIG_ROWS_mounts :: "(string \<times> json_body \<times> string \<times> json_object) list" where
  "HOST_CONFIG_ROWS_mounts = [
        (''std'', [(''HostConfig'', JObject [(''Mounts'', JArray [JObject [(''Source'', JString ''/''), (''Target'', JString ''/host''), (''Type'', JString ''bind'')]])]), (''Image'', JString ''chainsafe/lodestar:v1'')], ''mount source '' @ dquote @ ''/'' @ dquote @ '' is not in the whitelist for service svc'', []),
        (''std'', [(''HostConfig'', JObject [(''Mounts'', JArray [JObject [(''Source'', JString ''/data''), (''Target'', JString ''/data''), (''Type'', JString ''bind'')]])]), (''Image'', JString ''chainsafe/lodestar:v1'')], [], []),
        (''std'', [(''HostConfig'', JObject [(''Mounts'', JArray [JObject [(''Source'', JString ''/ro''), (''Target'', JString ''/ro''), (''Type'', JString ''bind'')]])]), (''Image'', JString ''chainsafe/lodestar:v1'')], ''mount of '' @ dquote @ ''/ro'' @ dquote @ '' must be read-only (ReadOnly: true) for service svc'', []),
        (''std'', [(''HostConfig'', JObject [(''Mounts'', JArray [JObject [(''ReadOnly'', JBool False), (''Source'', JString ''/ro''), (''Target'', JString ''/ro''), (''Type'', JString ''bind'')]])]), (''Image'', JString ''chainsafe/lodestar:v1'')], ''mount of '' @ dquote @ ''/ro'' @ dquote @ '' must be read-only'', []),
        (''std'', [(''HostConfig'', JObject [(''Mounts'', JArray [JObject [(''ReadOnly'', JBool True), (''Source'', JString ''/ro''), (''Target'', JString ''/ro''), (''Type'', JString ''bind'')]])]), (''Image'', JString ''chainsafe/lodestar:v1'')], [], []),
        (''std'', [(''HostConfig'', JObject [(''Mounts'', JArray [JObject [(''Source'', JString ''myvol''), (''Target'', JString ''/v''), (''Type'', JString ''volume'')]])]), (''Image'', JString ''chainsafe/lodestar:v1'')], ''mount type '' @ dquote @ ''volume'' @ dquote @ '' is not allowed for service svc'', []),
        (''std'', [(''HostConfig'', JObject [(''Mounts'', JArray [JObject [(''Source'', JString ''alpine:3.20''), (''Target'', JString ''/i''), (''Type'', JString ''image'')]])]), (''Image'', JString ''chainsafe/lodestar:v1'')], ''mount type '' @ dquote @ ''image'' @ dquote @ '' is not allowed'', []),
        (''std'', [(''HostConfig'', JObject [(''Mounts'', JArray [JObject [(''Source'', JString ''//./pipe/docker_engine''), (''Target'', JString ''/p''), (''Type'', JString ''npipe'')]])]), (''Image'', JString ''chainsafe/lodestar:v1'')], ''mount type '' @ dquote @ ''npipe'' @ dquote @ '' is not allowed'', []),
        (''std'', [(''HostConfig'', JObject [(''Mounts'', JArray [JObject [(''Source'', JString ''/data''), (''Target'', JString ''/data'')]])]), (''Image'', JString ''chainsafe/lodestar:v1'')], ''mount type '' @ dquote @ dquote @ '' is not allowed'', []),
        (''std'', [(''HostConfig'', JObject [(''Mounts'', JArray [JObject [(''Target'', JString ''/run''), (''TmpfsOptions'', JObject [(''SizeBytes'', JNumber (PosInt N1048576))]), (''Type'', JString ''tmpfs'')]])]), (''Image'', JString ''chainsafe/lodestar:v1'')], [], []),
        (''std'', [(''HostConfig'', JObject [(''Mounts'', JArray [JObject [(''Source'', JString ''/''), (''Target'', JString ''/run''), (''Type'', JString ''tmpfs'')]])]), (''Image'', JString ''chainsafe/lodestar:v1'')], ''tmpfs mount must not have a Source'', []),
        (''std'', [(''HostConfig'', JObject [(''Mounts'', JArray [JObject [(''BindOptions'', JObject [(''Propagation'', JString ''rshared'')]), (''Source'', JString ''/data''), (''Target'', JString ''/data''), (''Type'', JString ''bind'')]])]), (''Image'', JString ''chainsafe/lodestar:v1'')], ''mount propagation '' @ dquote @ ''rshared'' @ dquote @ '' is not allowed'', []),
        (''std'', [(''HostConfig'', JObject [(''Mounts'', JArray [JObject [(''BindOptions'', JObject [(''Propagation'', JString ''slave'')]), (''Source'', JString ''/data''), (''Target'', JString ''/data''), (''Type'', JString ''bind'')]])]), (''Image'', JString ''chainsafe/lodestar:v1'')], ''mount propagation '' @ dquote @ ''slave'' @ dquote @ '' is not allowed'', []),
        (''std'', [(''HostConfig'', JObject [(''Mounts'', JArray [JObject [(''BindOptions'', JObject [(''Propagation'', JString ''rprivate'')]), (''Source'', JString ''/data''), (''Target'', JString ''/data''), (''Type'', JString ''bind'')]])]), (''Image'', JString ''chainsafe/lodestar:v1'')], [], []),
        (''std'', [(''HostConfig'', JObject [(''Mounts'', JArray [JObject [(''BindOptions'', JObject [(''CreateMountpoint'', JBool True)]), (''Source'', JString ''/data''), (''Target'', JString ''/data''), (''Type'', JString ''bind'')]])]), (''Image'', JString ''chainsafe/lodestar:v1'')], [], []),
        (''std'', [(''HostConfig'', JObject [(''Mounts'', JArray [JObject [(''BindOptions'', JObject [(''ReadOnlyNonRecursive'', JBool True)]), (''ReadOnly'', JBool True), (''Source'', JString ''/ro''), (''Target'', JString ''/ro''), (''Type'', JString ''bind'')]])]), (''Image'', JString ''chainsafe/lodestar:v1'')], ''HostConfig.Mounts.BindOptions.ReadOnlyNonRecursive is not allowed'', []),
        (''std'', [(''HostConfig'', JObject [(''Mounts'', JArray [JObject [(''Source'', JString ''/data''), (''Target'', JString ''/data''), (''Type'', JString ''bind''), (''VolumeOptions'', JObject [(''NoCopy'', JBool True)])]])]), (''Image'', JString ''chainsafe/lodestar:v1'')], ''HostConfig.Mounts.VolumeOptions is not allowed'', []),
        (''std'', [(''HostConfig'', JObject [(''Mounts'', JArray [JObject [(''Target'', JString ''/x''), (''Type'', JString ''tmpfs''), (''source'', JString ''/''), (''type'', JString ''bind'')]])]), (''Image'', JString ''chainsafe/lodestar:v1'')], ''HostConfig.Mounts.source is not allowed'', []),
        (''bare'', [(''HostConfig'', JObject [(''Mounts'', JArray [JObject [(''Source'', JString ''/data''), (''Target'', JString ''/data''), (''Type'', JString ''bind'')]])]), (''Image'', JString ''chainsafe/lodestar:v1'')], ''mount source '' @ dquote @ ''/data'' @ dquote @ '' is not in the whitelist'', []),
        (''std'', [(''HostConfig'', JObject [(''Mounts'', JObject [])]), (''Image'', JString ''chainsafe/lodestar:v1'')], ''HostConfig.Mounts must be a list'', [])]"

lemma host_config_mounts_tests: "list_all host_config_row HOST_CONFIG_ROWS_mounts"
  by code_simp

definition HOST_CONFIG_ROWS_binds :: "(string \<times> json_body \<times> string \<times> json_object) list" where
  "HOST_CONFIG_ROWS_binds = [
        (''std'', [(''HostConfig'', JObject [(''Binds'', JArray [JString ''/data:/data''])]), (''Image'', JString ''chainsafe/lodestar:v1'')], [], []),
        (''std'', [(''HostConfig'', JObject [(''Binds'', JArray [JString ''/ro:/ro:rw''])]), (''Image'', JString ''chainsafe/lodestar:v1'')], ''volume mount '' @ dquote @ ''/ro'' @ dquote @ '' must be read-only (:ro) for service svc'', []),
        (''std'', [(''HostConfig'', JObject [(''Binds'', JArray [JString ''/ro:/ro''])]), (''Image'', JString ''chainsafe/lodestar:v1'')], ''volume mount '' @ dquote @ ''/ro'' @ dquote @ '' must be read-only (:ro)'', []),
        (''std'', [(''HostConfig'', JObject [(''Binds'', JArray [JString ''/ro:/ro:ro''])]), (''Image'', JString ''chainsafe/lodestar:v1'')], [], []),
        (''std'', [(''HostConfig'', JObject [(''Binds'', JArray [JString ''/ro:/ro:ro,Z''])]), (''Image'', JString ''chainsafe/lodestar:v1'')], [], []),
        (''std'', [(''HostConfig'', JObject [(''Binds'', JArray [JString ''/ro:/ro:ro,rw''])]), (''Image'', JString ''chainsafe/lodestar:v1'')], ''volume mount '' @ dquote @ ''/ro'' @ dquote @ '' must be read-only (:ro)'', []),
        (''std'', [(''HostConfig'', JObject [(''Binds'', JArray [JString ''/data:/data:rshared''])]), (''Image'', JString ''chainsafe/lodestar:v1'')], ''bind option '' @ dquote @ ''rshared'' @ dquote @ '' on volume mount '' @ dquote @ ''/data'' @ dquote @ '' is not allowed for service svc'', []),
        (''std'', [(''HostConfig'', JObject [(''Binds'', JArray [JString ''/data:/data:rw,rslave''])]), (''Image'', JString ''chainsafe/lodestar:v1'')], ''bind option '' @ dquote @ ''rslave'' @ dquote @ '' on volume mount '' @ dquote @ ''/data'' @ dquote @ '' is not allowed'', []),
        (''std'', [(''HostConfig'', JObject [(''Binds'', JArray [JString ''/data:/data:cached''])]), (''Image'', JString ''chainsafe/lodestar:v1'')], ''bind option '' @ dquote @ ''cached'' @ dquote @ '' on volume mount '' @ dquote @ ''/data'' @ dquote @ '' is not allowed'', []),
        (''std'', [(''HostConfig'', JObject [(''Binds'', JArray [JString ''/data:/data:rw,rprivate''])]), (''Image'', JString ''chainsafe/lodestar:v1'')], [], []),
        (''std'', [(''HostConfig'', JObject [(''Binds'', JArray [JString ''/data:/data:z,private''])]), (''Image'', JString ''chainsafe/lodestar:v1'')], [], []),
        (''std'', [(''HostConfig'', JObject [(''Binds'', JArray [JString ''/data:/data:nocopy''])]), (''Image'', JString ''chainsafe/lodestar:v1'')], [], []),
        (''std'', [(''HostConfig'', JObject [(''Binds'', JArray [JString ''/etc:/etc:ro''])]), (''Image'', JString ''chainsafe/lodestar:v1'')], ''volume mount '' @ dquote @ ''/etc'' @ dquote @ '' is not in the whitelist for service svc'', []),
        (''bare'', [(''HostConfig'', JObject [(''Binds'', JArray [JString ''/data:/data''])]), (''Image'', JString ''chainsafe/lodestar:v1'')], ''volume mount '' @ dquote @ ''/data'' @ dquote @ '' is not in the whitelist'', []),
        (''std'', [(''HostConfig'', JObject [(''Binds'', JArray [JNumber (PosInt 1)])]), (''Image'', JString ''chainsafe/lodestar:v1'')], ''HostConfig.Binds must be a list of strings'', []),
        (''std'', [(''HostConfig'', JObject [(''Binds'', JArray [JString ''/data:/data:ro:x''])]), (''Image'', JString ''chainsafe/lodestar:v1'')], ''bind '' @ dquote @ ''/data:/data:ro:x'' @ dquote @ '' is not a valid bind'', []),
        (''bare'', [(''Image'', JString ''chainsafe/lodestar:v1''), (''Volumes'', JObject [(''/data'', JObject [])])], ''volume '' @ dquote @ ''/data'' @ dquote @ '' is not in the whitelist'', []),
        (''bare'', [(''Image'', JString ''chainsafe/lodestar:v1''), (''Volumes'', JObject [])], [], [])]"

lemma host_config_binds_tests: "list_all host_config_row HOST_CONFIG_ROWS_binds"
  by code_simp

definition HOST_CONFIG_ROWS_clients :: "(string \<times> json_body \<times> string \<times> json_object) list" where
  "HOST_CONFIG_ROWS_clients = [
        (''std'', [(''AttachStderr'', JBool True), (''AttachStdin'', JBool False), (''AttachStdout'', JBool True), (''Cmd'', JArray [JString ''true'']), (''Domainname'', JString []), (''Entrypoint'', JNull), (''Env'', JNull), (''HostConfig'', JObject [(''AutoRemove'', JBool False), (''Binds'', JNull), (''BlkioDeviceReadBps'', JArray []), (''BlkioDeviceReadIOps'', JArray []), (''BlkioDeviceWriteBps'', JArray []), (''BlkioDeviceWriteIOps'', JArray []), (''BlkioWeight'', JNumber (PosInt 0)), (''BlkioWeightDevice'', JArray []), (''CapAdd'', JNull), (''CapDrop'', JNull), (''Cgroup'', JString []), (''CgroupParent'', JString []), (''CgroupnsMode'', JString []), (''ConsoleSize'', JArray [JNumber (PosInt 0), JNumber (PosInt 0)]), (''ContainerIDFile'', JString []), (''CpuCount'', JNumber (PosInt 0)), (''CpuPercent'', JNumber (PosInt 0)), (''CpuPeriod'', JNumber (PosInt 0)), (''CpuQuota'', JNumber (PosInt 0)), (''CpuRealtimePeriod'', JNumber (PosInt 0)), (''CpuRealtimeRuntime'', JNumber (PosInt 0)), (''CpuShares'', JNumber (PosInt 0)), (''CpusetCpus'', JString []), (''CpusetMems'', JString []), (''DeviceCgroupRules'', JNull), (''DeviceRequests'', JNull), (''Devices'', JArray []), (''Dns'', JNull), (''DnsOptions'', JArray []), (''DnsSearch'', JArray []), (''ExtraHosts'', JNull), (''GroupAdd'', JNull), (''IOMaximumBandwidth'', JNumber (PosInt 0)), (''IOMaximumIOps'', JNumber (PosInt 0)), (''IpcMode'', JString []), (''Isolation'', JString []), (''Links'', JNull), (''LogConfig'', JObject [(''Config'', JObject []), (''Type'', JString [])]), (''MaskedPaths'', JNull), (''Memory'', JNumber (PosInt 0)), (''MemoryReservation'', JNumber (PosInt 0)), (''MemorySwap'', JNumber (PosInt 0)), (''MemorySwappiness'', JNumber (NegInt (- 1))), (''NanoCpus'', JNumber (PosInt 0)), (''NetworkMode'', JString ''default''), (''OomKillDisable'', JBool False), (''OomScoreAdj'', JNumber (PosInt 0)), (''PidMode'', JString []), (''PidsLimit'', JNumber (PosInt 0)), (''PortBindings'', JObject []), (''Privileged'', JBool False), (''PublishAllPorts'', JBool False), (''ReadonlyPaths'', JNull), (''ReadonlyRootfs'', JBool False), (''RestartPolicy'', JObject [(''MaximumRetryCount'', JNumber (PosInt 0)), (''Name'', JString ''no'')]), (''SecurityOpt'', JNull), (''ShmSize'', JNumber (PosInt 0)), (''UTSMode'', JString []), (''Ulimits'', JNull), (''UsernsMode'', JString []), (''VolumeDriver'', JString []), (''VolumesFrom'', JNull)]), (''Hostname'', JString []), (''Image'', JString ''chainsafe/lodestar:v1''), (''Labels'', JObject []), (''NetworkingConfig'', JObject [(''EndpointsConfig'', JObject [(''default'', JObject [(''Aliases'', JNull), (''DNSNames'', JNull), (''DriverOpts'', JNull), (''EndpointID'', JString []), (''Gateway'', JString []), (''GlobalIPv6Address'', JString []), (''GlobalIPv6PrefixLen'', JNumber (PosInt 0)), (''GwPriority'', JNumber (PosInt 0)), (''IPAMConfig'', JNull), (''IPAddress'', JString []), (''IPPrefixLen'', JNumber (PosInt 0)), (''IPv6Gateway'', JString []), (''Links'', JNull), (''MacAddress'', JString []), (''NetworkID'', JString [])])])]), (''OpenStdin'', JBool False), (''StdinOnce'', JBool False), (''Tty'', JBool False), (''User'', JString []), (''Volumes'', JObject []), (''WorkingDir'', JString [])], [], []),
        (''bare'', [(''AttachStderr'', JBool True), (''AttachStdin'', JBool False), (''AttachStdout'', JBool True), (''Cmd'', JArray [JString ''true'']), (''Domainname'', JString []), (''Entrypoint'', JNull), (''Env'', JNull), (''HostConfig'', JObject [(''AutoRemove'', JBool False), (''Binds'', JNull), (''BlkioDeviceReadBps'', JArray []), (''BlkioDeviceReadIOps'', JArray []), (''BlkioDeviceWriteBps'', JArray []), (''BlkioDeviceWriteIOps'', JArray []), (''BlkioWeight'', JNumber (PosInt 0)), (''BlkioWeightDevice'', JArray []), (''CapAdd'', JNull), (''CapDrop'', JNull), (''Cgroup'', JString []), (''CgroupParent'', JString []), (''CgroupnsMode'', JString []), (''ConsoleSize'', JArray [JNumber (PosInt 0), JNumber (PosInt 0)]), (''ContainerIDFile'', JString []), (''CpuCount'', JNumber (PosInt 0)), (''CpuPercent'', JNumber (PosInt 0)), (''CpuPeriod'', JNumber (PosInt 0)), (''CpuQuota'', JNumber (PosInt 0)), (''CpuRealtimePeriod'', JNumber (PosInt 0)), (''CpuRealtimeRuntime'', JNumber (PosInt 0)), (''CpuShares'', JNumber (PosInt 0)), (''CpusetCpus'', JString []), (''CpusetMems'', JString []), (''DeviceCgroupRules'', JNull), (''DeviceRequests'', JNull), (''Devices'', JArray []), (''Dns'', JNull), (''DnsOptions'', JArray []), (''DnsSearch'', JArray []), (''ExtraHosts'', JNull), (''GroupAdd'', JNull), (''IOMaximumBandwidth'', JNumber (PosInt 0)), (''IOMaximumIOps'', JNumber (PosInt 0)), (''IpcMode'', JString []), (''Isolation'', JString []), (''Links'', JNull), (''LogConfig'', JObject [(''Config'', JObject []), (''Type'', JString [])]), (''MaskedPaths'', JNull), (''Memory'', JNumber (PosInt 0)), (''MemoryReservation'', JNumber (PosInt 0)), (''MemorySwap'', JNumber (PosInt 0)), (''MemorySwappiness'', JNumber (NegInt (- 1))), (''NanoCpus'', JNumber (PosInt 0)), (''NetworkMode'', JString ''default''), (''OomKillDisable'', JBool False), (''OomScoreAdj'', JNumber (PosInt 0)), (''PidMode'', JString []), (''PidsLimit'', JNumber (PosInt 0)), (''PortBindings'', JObject []), (''Privileged'', JBool False), (''PublishAllPorts'', JBool False), (''ReadonlyPaths'', JNull), (''ReadonlyRootfs'', JBool False), (''RestartPolicy'', JObject [(''MaximumRetryCount'', JNumber (PosInt 0)), (''Name'', JString ''no'')]), (''SecurityOpt'', JNull), (''ShmSize'', JNumber (PosInt 0)), (''UTSMode'', JString []), (''Ulimits'', JNull), (''UsernsMode'', JString []), (''VolumeDriver'', JString []), (''VolumesFrom'', JNull)]), (''Hostname'', JString []), (''Image'', JString ''chainsafe/lodestar:v1''), (''Labels'', JObject []), (''NetworkingConfig'', JObject [(''EndpointsConfig'', JObject [(''default'', JObject [(''Aliases'', JNull), (''DNSNames'', JNull), (''DriverOpts'', JNull), (''EndpointID'', JString []), (''Gateway'', JString []), (''GlobalIPv6Address'', JString []), (''GlobalIPv6PrefixLen'', JNumber (PosInt 0)), (''GwPriority'', JNumber (PosInt 0)), (''IPAMConfig'', JNull), (''IPAddress'', JString []), (''IPPrefixLen'', JNumber (PosInt 0)), (''IPv6Gateway'', JString []), (''Links'', JNull), (''MacAddress'', JString []), (''NetworkID'', JString [])])])]), (''OpenStdin'', JBool False), (''StdinOnce'', JBool False), (''Tty'', JBool False), (''User'', JString []), (''Volumes'', JObject []), (''WorkingDir'', JString [])], [], []),
        (''secopt'', [(''Cmd'', JArray [JString ''beacon'']), (''Env'', JArray []), (''HostConfig'', JObject [(''AutoRemove'', JBool False), (''Binds'', JArray [JString ''/data:/data:rw'', JString ''/ro:/ro:ro'']), (''CapDrop'', JArray [JString ''ALL'']), (''Init'', JBool False), (''LogConfig'', JObject [(''Config'', JObject [(''max-size'', JString ''100m'')]), (''Type'', JString ''json-file'')]), (''Memory'', JNumber (PosInt 0)), (''NetworkMode'', JString ''host''), (''Privileged'', JBool False), (''ReadonlyRootfs'', JBool False), (''RestartPolicy'', JObject [(''MaximumRetryCount'', JNumber (PosInt 0)), (''Name'', JString ''unless-stopped'')]), (''SecurityOpt'', JArray [JString ''no-new-privileges:true''])]), (''Image'', JString ''chainsafe/lodestar:v1''), (''Labels'', JObject [(''app'', JString ''beacon'')])], [], [])]"

lemma host_config_clients_tests: "list_all host_config_row HOST_CONFIG_ROWS_clients"
  by code_simp

end
