(* ===== verification/Router_Conformance.thy ===== *)
theory Router_Conformance
  imports Policy_Conformance Router Chain
begin

section \<open>The router's own tests (proxy.rs, mod tests)\<close>

text \<open>
  The tests of \<open>src/rs/src/proxy.rs\<close> on the model. Each test function is a definition of the
  same name: its table is the list of the source and its assertions are a checker applied to every
  row. The lemmas evaluate them, so that the model answers every row as the tests expect of the
  program. Policies that a test writes as YAML are given as the records the loader returns for them,
  since the YAML parser is a parameter; they go through \<open>load_dir\<close> as in the test. The three
  patterns that the tests give to the \<open>regex\<close> crate are the expressions of \<open>pull_externs\<close>.
\<close>

subsection \<open>Endpoints\<close>

definition make_manager :: "string list \<Rightarrow> manager" where
  "make_manager pfxs = from_map [(''myservice'', make_policy ''myservice'' pfxs)]"

definition alpine_router :: router where
  "alpine_router = new_router (make_manager [''alpine''])"

definition deny_contains :: "route_result \<Rightarrow> string \<Rightarrow> bool" where
  "deny_contains r s = (case rr_deny_msg r of None \<Rightarrow> False | Some msg \<Rightarrow> str_contains s msg)"

definition test_route_ping :: "externs \<Rightarrow> bool" where
  "test_route_ping x =
     (rr_action (route x alpine_router ''GET'' ''/_ping'' None) = Allow)"

definition test_route_version :: "externs \<Rightarrow> bool" where
  "test_route_version x =
     (rr_action (route x alpine_router ''GET'' ''/version'' None) = Allow)"

definition test_route_info :: "externs \<Rightarrow> bool" where
  "test_route_info x =
     (rr_action (route x alpine_router ''GET'' ''/info'' None) = Allow)"

definition test_route_events :: "externs \<Rightarrow> bool" where
  "test_route_events x =
     (rr_action (route x alpine_router ''GET'' ''/events'' None) = Allow)"

definition test_route_auth_denied :: "externs \<Rightarrow> bool" where
  "test_route_auth_denied x =
     (rr_action (route x alpine_router ''POST'' ''/auth'' None) = Deny)"

definition test_route_exec_endpoint_denied :: "externs \<Rightarrow> bool" where
  "test_route_exec_endpoint_denied x =
     (rr_action (route x alpine_router ''POST'' ''/containers/myapp/exec'' None) = Deny \<and>
      deny_contains (route x alpine_router ''POST'' ''/containers/myapp/exec'' None) ''exec'')"

definition test_route_containers_exec_denied :: "externs \<Rightarrow> bool" where
  "test_route_containers_exec_denied x =
     (rr_action (route x alpine_router ''POST'' ''/containers/exec'' None) = Deny)"

definition test_route_build_denied :: "externs \<Rightarrow> bool" where
  "test_route_build_denied x =
     (rr_action (route x alpine_router ''POST'' ''/build'' None) = Deny)"

definition test_route_commit_denied :: "externs \<Rightarrow> bool" where
  "test_route_commit_denied x =
     (rr_action (route x alpine_router ''POST'' ''/commit'' None) = Deny)"

definition test_route_container_create :: "externs \<Rightarrow> bool" where
  "test_route_container_create x =
     (rr_action (route x alpine_router ''POST'' ''/containers/create'' (Some [(''Image'', JString ''alpine:latest'')])) = CreateContainer \<and>
      rr_service (route x alpine_router ''POST'' ''/containers/create'' (Some [(''Image'', JString ''alpine:latest'')])) = Some ''myservice'' \<and> rr_policy (route x alpine_router ''POST'' ''/containers/create'' (Some [(''Image'', JString ''alpine:latest'')])) \<noteq> None)"

definition test_route_container_create_empty_body :: "externs \<Rightarrow> bool" where
  "test_route_container_create_empty_body x =
     (rr_action (route x alpine_router ''POST'' ''/containers/create'' None) = Deny \<and>
      deny_contains (route x alpine_router ''POST'' ''/containers/create'' None) ''empty'')"

definition test_route_container_create_no_image :: "externs \<Rightarrow> bool" where
  "test_route_container_create_no_image x =
     (rr_action (route x alpine_router ''POST'' ''/containers/create'' (Some [(''Cmd'', JArray [JString ''echo''])])) = Deny \<and>
      deny_contains (route x alpine_router ''POST'' ''/containers/create'' (Some [(''Cmd'', JArray [JString ''echo''])])) ''image'')"

definition test_route_container_create_image_not_found :: "externs \<Rightarrow> bool" where
  "test_route_container_create_image_not_found x =
     (rr_action (route x alpine_router ''POST'' ''/containers/create'' (Some [(''Image'', JString ''ubuntu:latest'')])) = Deny \<and>
      deny_contains (route x alpine_router ''POST'' ''/containers/create'' (Some [(''Image'', JString ''ubuntu:latest'')])) ''not allowed by any policy'')"

definition test_route_container_start :: "externs \<Rightarrow> bool" where
  "test_route_container_start x =
     (rr_action (route x alpine_router ''POST'' ''/containers/myservice/start'' None) = Allow \<and>
      rr_service (route x alpine_router ''POST'' ''/containers/myservice/start'' None) = Some ''myservice'')"

definition test_route_container_stop :: "externs \<Rightarrow> bool" where
  "test_route_container_stop x =
     (rr_action (route x alpine_router ''POST'' ''/containers/myservice/stop'' None) = Allow)"

definition test_route_container_restart :: "externs \<Rightarrow> bool" where
  "test_route_container_restart x =
     (rr_action (route x alpine_router ''POST'' ''/containers/myservice/restart'' None) = Allow)"

definition test_route_container_kill :: "externs \<Rightarrow> bool" where
  "test_route_container_kill x =
     (rr_action (route x alpine_router ''POST'' ''/containers/myservice/kill'' None) = Allow)"

definition test_route_container_wait :: "externs \<Rightarrow> bool" where
  "test_route_container_wait x =
     (rr_action (route x alpine_router ''POST'' ''/containers/myservice/wait'' None) = Allow)"

definition test_route_container_pause :: "externs \<Rightarrow> bool" where
  "test_route_container_pause x =
     (rr_action (route x alpine_router ''POST'' ''/containers/myservice/pause'' None) = Allow)"

definition test_route_container_unpause :: "externs \<Rightarrow> bool" where
  "test_route_container_unpause x =
     (rr_action (route x alpine_router ''POST'' ''/containers/myservice/unpause'' None) = Allow)"

definition test_route_container_rename_denied :: "externs \<Rightarrow> bool" where
  "test_route_container_rename_denied x =
     (rr_action (route x alpine_router ''POST'' ''/containers/myservice/rename'' None) = Deny \<and>
      deny_contains (route x alpine_router ''POST'' ''/containers/myservice/rename'' None) ''rename'')"

definition test_route_container_update_denied :: "externs \<Rightarrow> bool" where
  "test_route_container_update_denied x =
     (rr_action (route x alpine_router ''POST'' ''/containers/myservice/update'' None) = Deny \<and>
      deny_contains (route x alpine_router ''POST'' ''/containers/myservice/update'' None) ''update'')"

definition test_route_container_delete_allowed :: "externs \<Rightarrow> bool" where
  "test_route_container_delete_allowed x =
     (rr_action (route x alpine_router ''DELETE'' ''/containers/myservice'' None) = Allow \<and>
      rr_service (route x alpine_router ''DELETE'' ''/containers/myservice'' None) = Some ''myservice'')"

definition test_route_container_get :: "externs \<Rightarrow> bool" where
  "test_route_container_get x =
     (rr_action (route x alpine_router ''GET'' ''/containers/myservice'' None) = Allow)"

definition test_route_container_get_json :: "externs \<Rightarrow> bool" where
  "test_route_container_get_json x =
     (rr_action (route x alpine_router ''GET'' ''/containers/json'' None) = Allow)"

definition test_route_default_get_passthrough :: "externs \<Rightarrow> bool" where
  "test_route_default_get_passthrough x =
     (rr_action (route x alpine_router ''GET'' ''/some/random/path'' None) = Allow)"

definition test_route_default_head_passthrough :: "externs \<Rightarrow> bool" where
  "test_route_default_head_passthrough x =
     (rr_action (route x alpine_router ''HEAD'' ''/some/path'' None) = Allow)"

definition test_route_unknown_method_denied :: "externs \<Rightarrow> bool" where
  "test_route_unknown_method_denied x =
     (rr_action (route x alpine_router ''OPTIONS'' ''/some/path'' None) = Deny)"

definition test_route_strip_api_version :: "externs \<Rightarrow> bool" where
  "test_route_strip_api_version x =
     (rr_action (route x alpine_router ''GET'' ''/v1.24/_ping'' None) = Allow)"

definition test_route_container_by_name_no_policy :: "externs \<Rightarrow> bool" where
  "test_route_container_by_name_no_policy x =
     (rr_action (route x alpine_router ''POST'' ''/containers/unknown-container/start'' None) = ResolveContainer \<and>
      rr_service (route x alpine_router ''POST'' ''/containers/unknown-container/start'' None) = None \<and> rr_container (route x alpine_router ''POST'' ''/containers/unknown-container/start'' None) = Some ''unknown-container'')"

definition test_container_create_body_passthrough :: "externs \<Rightarrow> bool" where
  "test_container_create_body_passthrough x =
     (rr_action (route x alpine_router ''POST'' ''/containers/create'' (Some [(''Cmd'', JArray [JString ''sleep'', JString ''100'']), (''Image'', JString ''alpine'')])) = CreateContainer \<and>
      Option.bind (rr_body (route x alpine_router ''POST'' ''/containers/create'' (Some [(''Cmd'', JArray [JString ''sleep'', JString ''100'']), (''Image'', JString ''alpine'')]))) (\<lambda>b. get_array b ''Cmd'') = Some [JString ''sleep'', JString ''100''])"

definition test_deny_action_fields :: "externs \<Rightarrow> bool" where
  "test_deny_action_fields x =
     (rr_action (route x alpine_router ''POST'' ''/auth'' None) = Deny \<and>
      rr_service (route x alpine_router ''POST'' ''/auth'' None) = None \<and> rr_policy (route x alpine_router ''POST'' ''/auth'' None) = None \<and>
      rr_body (route x alpine_router ''POST'' ''/auth'' None) = None \<and> rr_container (route x alpine_router ''POST'' ''/auth'' None) = None \<and>
      rr_image (route x alpine_router ''POST'' ''/auth'' None) = None)"

definition test_allow_action_fields :: "externs \<Rightarrow> bool" where
  "test_allow_action_fields x =
     (rr_action (route x alpine_router ''GET'' ''/_ping'' None) = Allow \<and>
      rr_service (route x alpine_router ''GET'' ''/_ping'' None) = None \<and> rr_policy (route x alpine_router ''GET'' ''/_ping'' None) = None \<and>
      rr_body (route x alpine_router ''GET'' ''/_ping'' None) = None)"

lemma router_endpoint_tests:
  "test_route_ping x"
  "test_route_version x"
  "test_route_info x"
  "test_route_events x"
  "test_route_auth_denied x"
  "test_route_exec_endpoint_denied x"
  "test_route_containers_exec_denied x"
  "test_route_build_denied x"
  "test_route_commit_denied x"
  "test_route_container_create x"
  "test_route_container_create_empty_body x"
  "test_route_container_create_no_image x"
  "test_route_container_create_image_not_found x"
  "test_route_container_start x"
  "test_route_container_stop x"
  "test_route_container_restart x"
  "test_route_container_kill x"
  "test_route_container_wait x"
  "test_route_container_pause x"
  "test_route_container_unpause x"
  "test_route_container_rename_denied x"
  "test_route_container_update_denied x"
  "test_route_container_delete_allowed x"
  "test_route_container_get x"
  "test_route_container_get_json x"
  "test_route_default_get_passthrough x"
  "test_route_default_head_passthrough x"
  "test_route_unknown_method_denied x"
  "test_route_strip_api_version x"
  "test_route_container_by_name_no_policy x"
  "test_container_create_body_passthrough x"
  "test_deny_action_fields x"
  "test_allow_action_fields x"
  by code_simp+

subsection \<open>Tables\<close>

text \<open>
  A row is a method, a target, a body, the action and the deny message. In \<open>routes_reporting\<close> a
  missing message is not checked, in \<open>routes_exactly\<close> it means that there is none.
\<close>

type_synonym route_row = "string \<times> string \<times> json_body option \<times> action \<times> string option"

fun routes_reporting :: "externs \<Rightarrow> router \<Rightarrow> route_row \<Rightarrow> bool" where
  "routes_reporting x r (mth, target, body, want, msg) =
     (rr_action (route x r mth target body) = want \<and>
      (msg = None \<or> rr_deny_msg (route x r mth target body) = msg))"

fun routes_exactly :: "externs \<Rightarrow> router \<Rightarrow> route_row \<Rightarrow> bool" where
  "routes_exactly x r (mth, target, body, want, msg) =
     (rr_action (route x r mth target body) = want \<and> rr_deny_msg (route x r mth target body) = msg)"

fun routes_percent :: "externs \<Rightarrow> router \<Rightarrow> string \<times> string \<times> action \<Rightarrow> bool" where
  "routes_percent x r (mth, target, want) =
     (rr_action (route x r mth target None) = want \<and>
      (want \<noteq> Deny \<or> deny_contains (route x r mth target None) ''percent-encoded''))"

definition test_route_reserved_path_segments :: "externs \<Rightarrow> bool" where
  "test_route_reserved_path_segments x =
     list_all (routes_reporting x alpine_router) [
        (''DELETE'', ''/containers/json'', None, Deny, None),
        (''DELETE'', ''/containers/create'', None, Deny, None),
        (''DELETE'', ''/containers/exec'', None, Deny, Some ''exec is not allowed''),
        (''GET'', ''/containers/json'', None, Allow, None),
        (''DELETE'', ''/containers/mycontainer'', None, ResolveContainer, None),
        (''GET'', ''/containers/mycontainer'', None, Allow, None),
        (''GET'', ''/containers/mycontainer/json'', None, Allow, None)]"

definition test_extract_container_name_skips_reserved_segments :: "bool" where
  "test_extract_container_name_skips_reserved_segments =
     (list_all (\<lambda>reserved. extract_container_name (''/containers/'' @ reserved) = None) [''create'', ''json'', ''exec''] \<and>
      extract_container_name ''/containers/mycontainer'' = Some ''mycontainer'' \<and>
      extract_container_name ''/containers/mycontainer/json'' = Some ''mycontainer'')"

definition test_route_empty_container_name :: "externs \<Rightarrow> bool" where
  "test_route_empty_container_name x =
     list_all (routes_reporting x alpine_router) [
        (''DELETE'', ''/containers/'', None, Deny, None),
        (''POST'', ''/containers//start'', None, Deny, None),
        (''GET'', ''/containers/'', None, Allow, None)]"

definition test_route_versioned_paths :: "externs \<Rightarrow> bool" where
  "test_route_versioned_paths x =
     list_all (routes_reporting x alpine_router) [
        (''DELETE'', ''/v1.43/containers/foo'', None, ResolveContainer, None),
        (''POST'', ''/v1.43/containers/myservice/start'', None, Allow, None),
        (''POST'', ''/v1.43/containers/create'', Some [(''Image'', JString ''alpine:latest'')], CreateContainer, None),
        (''POST'', ''/v1/containers/myservice/start'', None, Allow, None),
        (''DELETE'', ''/v1.43/containers/json'', None, Deny, None),
        (''DELETE'', ''/v1/containers/foo'', None, ResolveContainer, None),
        (''DELETE'', ''/v10.0/containers/foo'', None, ResolveContainer, None),
        (''DELETE'', ''/volumes/containers/foo'', None, Deny, None),
        (''DELETE'', ''/version/containers/foo'', None, Deny, None),
        (''DELETE'', ''/v1.2.3/containers/foo'', None, Deny, None),
        (''DELETE'', ''/vabc/containers/foo'', None, Deny, None),
        (''DELETE'', ''/v/containers/foo'', None, Deny, None),
        (''DELETE'', ''/v1./containers/foo'', None, Deny, None),
        (''DELETE'', ''/v1/v1.43/containers/foo'', None, Deny, None),
        (''DELETE'', ''/v'' @ [CHR 0xD9, CHR 0xA1] @ ''/containers/foo'', None, Deny, None),
        (''GET'', ''/version'', None, Allow, None)]"

definition test_route_percent_encoded_paths :: "externs \<Rightarrow> bool" where
  "test_route_percent_encoded_paths x =
     list_all (routes_percent x alpine_router) [
        (''DELETE'', ''/containers/%2F'', Deny),
        (''DELETE'', ''/containers/%2f'', Deny),
        (''DELETE'', ''/containers/%6A%73%6F%6E'', Deny),
        (''POST'', ''/containers/beacon%2Fstart'', Deny),
        (''POST'', ''/containers/%2F/start'', Deny),
        (''GET'', ''/containers/%2F'', Deny),
        (''HEAD'', ''/containers/%2F'', Deny),
        (''DELETE'', ''/v1.45/containers/foo%25'', Deny),
        (''DELETE'', ''/v%31/containers/foo'', Deny),
        (''GET'', ''/networks/a%20b'', Deny),
        (''DELETE'', ''/containers/foo'', ResolveContainer)]"

definition test_route_exec_and_exact_endpoints :: "externs \<Rightarrow> bool" where
  "test_route_exec_and_exact_endpoints x =
     list_all (routes_reporting x alpine_router) [
        (''DELETE'', ''/containers/mycontainer/exec'', None, Deny, Some ''exec is not allowed''),
        (''POST'', ''/containers/mycontainer/exec'', None, Deny, Some ''exec is not allowed''),
        (''POST'', ''/containers/exec-runner/start'', None, ResolveContainer, None),
        (''DELETE'', ''/containers/exec-runner'', None, ResolveContainer, None),
        (''GET'', ''/containers/exec-runner/json'', None, Allow, None),
        (''GET'', ''/exec/abc/json'', None, Deny, Some ''exec is not allowed''),
        (''POST'', ''/exec/abc/start'', None, Deny, Some ''exec is not allowed''),
        (''POST'', ''/containers/create/extra'', Some [(''Image'', JString ''alpine:latest'')], Deny, None),
        (''GET'', ''/images/exec'', None, Allow, None),
        (''POST'', ''/images/create/extra?fromImage=alpine&tag=latest'', None, Deny, None),
        (''GET'', ''/containers/myexec/json'', None, Allow, None),
        (''DELETE'', ''/containers/executor'', None, ResolveContainer, None),
        (''GET'', ''/containers/exec/json'', None, Deny, Some ''exec is not allowed''),
        (''GET'', ''/executor'', None, Allow, None)]"

definition test_route_empty_segments_and_head :: "externs \<Rightarrow> bool" where
  "test_route_empty_segments_and_head x =
     list_all (routes_exactly x alpine_router) [
        (''GET'', ''//exec/abc/json'', None, Deny, Some ''empty path segment not allowed''),
        (''GET'', ''/v1.45//exec/abc/json'', None, Deny, Some ''empty path segment not allowed''),
        (''GET'', ''//v1.45/exec/abc/json'', None, Deny, Some ''empty path segment not allowed''),
        (''GET'', ''/containers//json'', None, Deny, Some ''empty path segment not allowed''),
        (''POST'', ''/containers//start'', None, Deny, Some ''empty path segment not allowed''),
        (''DELETE'', ''/containers//'', None, Deny, Some ''empty path segment not allowed''),
        (''GET'', ''//_ping'', None, Deny, Some ''empty path segment not allowed''),
        (''GET'', ''//containers/%2F'', None, Deny, Some ''percent-encoded path not allowed''),
        (''GET'', ''/containers/'', None, Allow, None),
        (''GET'', ''/'', None, Allow, None),
        (''HEAD'', ''/containers/mycontainer'', None, Allow, None),
        (''HEAD'', ''/containers/mycontainer/json'', None, Allow, None),
        (''HEAD'', ''/containers/mycontainer/exec'', None, Deny, Some ''exec is not allowed'')]"

definition test_route_readonly :: "externs \<Rightarrow> bool" where
  "test_route_readonly x =
     (list_all (routes_exactly x (with_readonly (new_router (make_manager [''chainsafe/lodestar''])) True)) [
        (''GET'', ''/containers/json'', None, Allow, None),
        (''HEAD'', ''/containers/mycontainer'', None, Allow, None),
        (''GET'', ''/_ping'', None, Allow, None),
        (''POST'', ''/containers/mycontainer/stop'', None, Deny, Some ''read-only mode: POST requests are not allowed''),
        (''POST'', ''/containers/mycontainer/start'', None, Deny, Some ''read-only mode: POST requests are not allowed''),
        (''DELETE'', ''/containers/mycontainer'', None, Deny, Some ''read-only mode: DELETE requests are not allowed''),
        (''POST'', ''/images/create?fromImage=chainsafe%2Flodestar&tag=latest'', None, Deny, Some ''read-only mode: POST requests are not allowed''),
        (''POST'', ''/containers/create'', Some [(''Image'', JString ''chainsafe/lodestar:latest'')], Deny, Some ''read-only mode: POST requests are not allowed''),
        (''PUT'', ''/containers/mycontainer/archive'', None, Deny, Some ''read-only mode: PUT requests are not allowed''),
        (''POST'', ''/v1.45/containers/mycontainer/stop'', None, Deny, Some ''read-only mode: POST requests are not allowed'')] \<and>
      rr_deny_msg (route x (new_router (make_manager [''chainsafe/lodestar''])) ''POST'' ''/containers/mycontainer/stop'' None)
        \<noteq> Some ''read-only mode: POST requests are not allowed'')"

definition test_route_attach :: "externs \<Rightarrow> bool" where
  "test_route_attach x =
     list_all (routes_exactly x alpine_router) [
        (''GET'', ''/containers/mycontainer/attach/ws'', None, Deny, Some ''attach is not allowed''),
        (''POST'', ''/containers/mycontainer/attach'', None, Deny, Some ''attach is not allowed''),
        (''HEAD'', ''/containers/mycontainer/attach'', None, Deny, Some ''attach is not allowed''),
        (''GET'', ''/v1.45/containers/mycontainer/attach/ws'', None, Deny, Some ''attach is not allowed''),
        (''DELETE'', ''/containers/mycontainer/attach'', None, Deny, Some ''attach is not allowed''),
        (''GET'', ''/containers/attach-runner/json'', None, Allow, None),
        (''GET'', ''/containers/mycontainer/logs'', None, Allow, None),
        (''GET'', ''/containers/json'', None, Allow, None)]"

definition test_route_read_endpoint_methods :: "externs \<Rightarrow> bool" where
  "test_route_read_endpoint_methods x =
     list_all (routes_exactly x alpine_router) [
        (''POST'', ''/_ping'', None, Deny, Some ''endpoint POST /_ping is not allowed''),
        (''DELETE'', ''/_ping'', None, Deny, Some ''endpoint DELETE /_ping is not allowed''),
        (''DELETE'', ''/version'', None, Deny, Some ''endpoint DELETE /version is not allowed''),
        (''PUT'', ''/info'', None, Deny, Some ''endpoint PUT /info is not allowed''),
        (''POST'', ''/events'', None, Deny, Some ''endpoint POST /events is not allowed''),
        (''CONNECT'', ''/_ping'', None, Deny, Some ''endpoint CONNECT /_ping is not allowed''),
        (''OPTIONS'', ''/_ping'', None, Deny, Some ''endpoint OPTIONS /_ping is not allowed''),
        (''PATCH'', ''/_ping'', None, Deny, Some ''endpoint PATCH /_ping is not allowed''),
        (''connect'', ''/_ping'', None, Deny, Some ''endpoint connect /_ping is not allowed''),
        (''POST'', ''/eventsxyz'', None, Deny, Some ''endpoint POST /eventsxyz is not allowed''),
        (''POST'', ''/v1.45/_ping'', None, Deny, Some ''endpoint POST /_ping is not allowed''),
        (''GET'', ''/_ping'', None, Allow, None),
        (''HEAD'', ''/_ping'', None, Allow, None),
        (''GET'', ''/version'', None, Allow, None),
        (''HEAD'', ''/version'', None, Allow, None),
        (''GET'', ''/info'', None, Allow, None),
        (''HEAD'', ''/info'', None, Allow, None),
        (''GET'', ''/events'', None, Allow, None),
        (''HEAD'', ''/events'', None, Allow, None),
        (''GET'', ''/v1.45/_ping'', None, Allow, None),
        (''GET'', ''/eventsxyz'', None, Allow, None)]"

definition test_route_dot_segments :: "externs \<Rightarrow> bool" where
  "test_route_dot_segments x =
     list_all (routes_exactly x alpine_router) [
        (''GET'', ''/./exec/abc/json'', None, Deny, Some ''dot path segment not allowed''),
        (''GET'', ''/x/../exec/abc/json'', None, Deny, Some ''dot path segment not allowed''),
        (''GET'', ''/containers/x/./exec'', None, Deny, Some ''dot path segment not allowed''),
        (''GET'', ''/containers/x/../../exec/abc/json'', None, Deny, Some ''dot path segment not allowed''),
        (''GET'', ''/v1.45/./_ping'', None, Deny, Some ''dot path segment not allowed''),
        (''DELETE'', ''/containers/..'', None, Deny, Some ''dot path segment not allowed''),
        (''POST'', ''/containers/x/./start'', None, Deny, Some ''dot path segment not allowed''),
        (''GET'', ''/containers/./x/attach/ws'', None, Deny, Some ''dot path segment not allowed''),
        (''GET'', ''/containers/.hidden/json'', None, Allow, None),
        (''GET'', ''/containers/a.b/json'', None, Allow, None),
        (''GET'', ''/containers/.../json'', None, Allow, None),
        (''GET'', ''//./_ping'', None, Deny, Some ''empty path segment not allowed''),
        (''GET'', ''/containers/%2e/json'', None, Deny, Some ''percent-encoded path not allowed'')]"

definition test_extract_container_name_skips_empty_segment :: "bool" where
  "test_extract_container_name_skips_empty_segment =
     list_all (\<lambda>path. extract_container_name path = None) [''/containers/'', ''/containers//start'']"

lemma router_table_tests:
  "test_route_reserved_path_segments x"
  "test_route_empty_container_name x"
  "test_route_versioned_paths x"
  "test_route_percent_encoded_paths x"
  "test_route_exec_and_exact_endpoints x"
  "test_route_empty_segments_and_head x"
  "test_route_readonly x"
  "test_route_attach x"
  "test_route_read_endpoint_methods x"
  "test_route_dot_segments x"
  by code_simp+

lemma extract_container_name_tests:
  "test_extract_container_name_skips_reserved_segments"
  "test_extract_container_name_skips_empty_segment"
  by code_simp+

subsection \<open>Pulls\<close>

definition rx_number :: rx where
  "rx_number = RPlus (RCls [(CHR ''0'', CHR ''9'')])"

definition pull_externs :: externs where
  "pull_externs =
     \<lparr>regex_new = (\<lambda>pat.
        if pat = ''^(v[0-9]+|[0-9]+)$'' then Inr (is_match (RAlt (RSeq (RChr (CHR ''v'')) rx_number) rx_number))
        else if pat = ''^v1$'' then Inr (is_match (RLit ''v1''))
        else if pat = ''^v2$'' then Inr (is_match (RLit ''v2''))
        else Inl ''unknown pattern''),
      json_display = (\<lambda>_. []), json_to_vec = (\<lambda>_. None), json_value_from_slice = (\<lambda>_. None),
      json_map_from_slice = (\<lambda>_. None)\<rparr>"

definition loaded_router :: "(string \<times> policy) list \<Rightarrow> router" where
  "loaded_router files =
     new_router (case load_dir (map (\<lambda>(file, p). (file, p, None)) files) of Inr m \<Rightarrow> m | Inl _ \<Rightarrow> make_manager [])"

definition pull_router :: router where
  "pull_router = loaded_router
     [(''probe.yaml'', (make_policy ''probe'' [''alpine''])\<lparr>image_digest_allowed := True\<rparr>),
      (''beacon.yaml'', (make_policy ''beacon'' [''docker.io/chainsafe/lodestar'', ''ghcr.io/chainsafe/lodestar'',
          ''localhost:5000/x'', ''Registry.Example.com:443/a''])\<lparr>image_tag_pattern := Some ''^(v[0-9]+|[0-9]+)$''\<rparr>)]"

lemma pull_router_code [code]:
  "pull_router = new_router \<lparr>policies_by_name =
     [(''beacon'', (make_policy ''beacon'' [''chainsafe/lodestar'', ''ghcr.io/chainsafe/lodestar'',
          ''localhost:5000/x'', ''registry.example.com:443/a''])\<lparr>image_tag_pattern := Some ''^(v[0-9]+|[0-9]+)$''\<rparr>),
      (''probe'', (make_policy ''probe'' [''alpine''])\<lparr>image_digest_allowed := True\<rparr>)]\<rparr>"
  by code_simp

definition gives_text :: "action \<Rightarrow> string \<Rightarrow> string \<Rightarrow> route_result \<Rightarrow> bool" where
  "gives_text want service msg res =
     (rr_action res = want \<and> unwrap_or (rr_service res) [] = service \<and> unwrap_or (rr_deny_msg res) [] = msg)"

text \<open>A target, a body, the action, the service and the deny message.\<close>

fun pulls :: "externs \<Rightarrow> router \<Rightarrow> string \<times> json_body option \<times> action \<times> string \<times> string \<Rightarrow> bool" where
  "pulls x r (target, body, want, service, msg) =
     (gives_text want service msg (route x r ''POST'' target body))"

fun creates :: "externs \<Rightarrow> router \<Rightarrow> string \<times> action \<times> string \<times> string \<Rightarrow> bool" where
  "creates x r (img, want, service, msg) =
     (pulls x r (''/containers/create'', Some [(''Image'', JString img)], want, service, msg))"

definition test_route_pull_query_images :: "externs \<Rightarrow> bool" where
  "test_route_pull_query_images x =
     list_all (pulls x pull_router) [
        (''/v1.56/images/create?fromImage=docker.io%2Flibrary%2Falpine&tag=3.19'', None, Allow, ''probe'', []),
        (''/images/create?fromImage=alpine&tag=3.19'', None, Allow, ''probe'', []),
        (''/images/create?fromImage=library%2Falpine&tag=latest'', None, Allow, ''probe'', []),
        (''/images/create?fromImage=docker.io%2Fchainsafe%2Flodestar&tag=v1'', None, Allow, ''beacon'', []),
        (''/images/create?fromImage=index.docker.io%2Flibrary%2Falpine%3A3.19'', None, Allow, ''probe'', []),
        (''/images/create?fromImage=alpine&tag=sha256%3Aabcdef0123456789abcdef0123456789abcdef0123456789abcdef0123456789'', None, Allow, ''probe'', []),
        (''/images/create?fromImage=alpine%40sha256%3Aabcdef0123456789abcdef0123456789abcdef0123456789abcdef0123456789'', None, Allow, ''probe'', []),
        (''/images/create?fromImage=ghcr.io%2Fchainsafe%2Flodestar&tag=sha256%3Aabcdef0123456789abcdef0123456789abcdef0123456789abcdef0123456789'', None, Deny, [], ''image digests not allowed for service beacon''),
        (''/images/create?fromImage=localhost%3A5000%2Fx%2Fy&tag=2'', None, Allow, ''beacon'', []),
        (''/images/create?fromImage=REGISTRY.example.com%3A443%2Fa&tag=1'', None, Allow, ''beacon'', []),
        (''/images/create?fromImage=chainsafe%2Flodestar&tag=latest'', None, Deny, [], ''image tag '' @ dquote @ ''latest'' @ dquote @ '' does not match pattern '' @ dquote @ ''^(v[0-9]+|[0-9]+)$'' @ dquote),
        (''/images/create?fromImage=docker.io%2Fattacker%2Fmalware&tag=latest'', None, Deny, [], ''image docker.io/attacker/malware not allowed by any policy''),
        (''/images/create?fromImage=localhost%3A5000%2Falpine&tag=1'', None, Deny, [], ''image localhost:5000/alpine not allowed by any policy''),
        (''/images/create?fromImage=alpine-evil&tag=1'', None, Deny, [], ''image alpine-evil not allowed by any policy'')]"

definition test_route_pull_query_params :: "externs \<Rightarrow> bool" where
  "test_route_pull_query_params x =
     list_all (pulls x pull_router) [
        (''/images/create'', None, Deny, [], ''fromImage query parameter is required for image pull''),
        (''/images/create'', Some [(''fromImage'', JString ''alpine:3.19'')], Deny, [], ''image pull must not have a request body''),
        (''/images/create?fromImage=attacker%2Fmalware&tag=latest'', Some [(''fromImage'', JString ''alpine'')], Deny, [], ''image pull must not have a request body''),
        (''/images/create?fromImage=alpine&tag=3.19'', Some [(''fromImage'', JString ''alpine'')], Deny, [], ''image pull must not have a request body''),
        (''/images/create?fromSrc=http%3A%2F%2Fexample.com%2Fx.tar&repo=alpine&tag=latest'', None, Deny, [], ''image import (fromSrc) is not allowed''),
        (''/images/create?fromImage=alpine&tag=latest&fromSrc=-'', None, Deny, [], ''image import (fromSrc) is not allowed''),
        (''/images/create?fromImage=alpine%3A3.19&tag=3.20'', None, Deny, [], ''fromImage alpine:3.19 already has a tag or digest; the tag query parameter is ambiguous''),
        (''/images/create?fromImage=alpine'', None, Deny, [], ''image pull without a tag or digest pulls every tag and is not allowed''),
        (''/images/create?fromImage=Alpine&tag=latest'', None, Deny, [], ''invalid image reference '' @ dquote @ ''Alpine'' @ dquote),
        (''/images/create?fromImage=alpine&fromImage=attacker%2Fmalware&tag=1'', None, Deny, [], ''duplicate fromImage query parameter''),
        (''/images/create?fromImage=alpine%zz&tag=1'', None, Deny, [], ''invalid query string''),
        (''/images/%63reate?fromImage=alpine&tag=1'', None, Deny, [], ''percent-encoded path not allowed'')]"

definition test_route_image_normalization :: "externs \<Rightarrow> bool" where
  "test_route_image_normalization x =
     list_all (creates x pull_router) [
        (''alpine'', CreateContainer, ''probe'', []),
        (''library/alpine'', CreateContainer, ''probe'', []),
        (''docker.io/library/alpine'', CreateContainer, ''probe'', []),
        (''docker.io/alpine'', CreateContainer, ''probe'', []),
        (''index.docker.io/library/alpine:3.19'', CreateContainer, ''probe'', []),
        (''docker.io/chainsafe/lodestar:v1'', CreateContainer, ''beacon'', []),
        (''chainsafe/lodestar:v1'', CreateContainer, ''beacon'', []),
        (''registry-1.docker.io/chainsafe/lodestar:v1'', CreateContainer, ''beacon'', []),
        (''ghcr.io/chainsafe/lodestar@sha256:abcdef0123456789abcdef0123456789abcdef0123456789abcdef0123456789'', CreateContainer, ''beacon'', []),
        (''localhost:5000/x/y:2'', CreateContainer, ''beacon'', []),
        (''registry.example.com:443/a'', CreateContainer, ''beacon'', []),
        (''Alpine:latest'', Deny, [], ''invalid image reference '' @ dquote @ ''Alpine:latest'' @ dquote),
        (''chainsafe/Lodestar:v1'', Deny, [], ''invalid image reference '' @ dquote @ ''chainsafe/Lodestar:v1'' @ dquote),
        (''alpine-evil'', Deny, [], ''image alpine-evil not allowed by any policy''),
        (''ghcr.io/library/alpine'', Deny, [], ''image ghcr.io/library/alpine not allowed by any policy''),
        (''ghcr.io/chainsafe/lodestar-evil'', Deny, [], ''image ghcr.io/chainsafe/lodestar-evil not allowed by any policy''),
        (''localhost:5000/xy:1'', Deny, [], ''image localhost:5000/xy:1 not allowed by any policy'')]"

lemma router_pull_tests:
  "test_route_pull_query_images pull_externs"
  "test_route_pull_query_params pull_externs"
  "test_route_image_normalization pull_externs"
  by code_simp+

subsection \<open>Selection by name\<close>

definition named_policy :: "string \<Rightarrow> string list \<Rightarrow> string list \<Rightarrow> policy" where
  "named_policy name names pfxs = (make_policy name pfxs)\<lparr>container_names := Some names\<rparr>"

definition LODESTAR_POLICIES :: "(string \<times> policy) list" where
  "LODESTAR_POLICIES =
     [(''beacon.yaml'', named_policy ''beacon'' [''beacon''] [''chainsafe/lodestar'']),
      (''validator.yaml'', named_policy ''validator'' [''validator'', ''validator-2''] [''chainsafe/lodestar'']),
      (''monitoring.yaml'', make_policy ''monitoring'' [''prom/prometheus''])]"

definition lodestar_router :: router where
  "lodestar_router = loaded_router LODESTAR_POLICIES"

lemma lodestar_router_code [code]:
  "lodestar_router = new_router \<lparr>policies_by_name =
     [(''beacon'', named_policy ''beacon'' [''beacon''] [''chainsafe/lodestar'']),
      (''monitoring'', make_policy ''monitoring'' [''prom/prometheus'']),
      (''validator'', named_policy ''validator'' [''validator'', ''validator-2''] [''chainsafe/lodestar''])]\<rparr>"
  by code_simp

definition gives :: "action \<Rightarrow> string option \<Rightarrow> string option \<Rightarrow> route_result \<Rightarrow> bool" where
  "gives want service msg res = (rr_action res = want \<and> rr_service res = service \<and> rr_deny_msg res = msg)"

fun selects :: "externs \<Rightarrow> router \<Rightarrow> string \<times> string \<times> action \<times> string option \<times> string option \<Rightarrow> bool" where
  "selects x r (query, img, want, service, msg) =
     (gives want service msg
        (route x r ''POST'' (''/v1.45/containers/create?'' @ query) (Some [(''Image'', JString img)])))"

definition test_route_create_selects_by_name :: "externs \<Rightarrow> bool" where
  "test_route_create_selects_by_name x =
     list_all (selects x lodestar_router) [
        (''name=beacon'', ''chainsafe/lodestar:v1.20.0'', CreateContainer, Some ''beacon'', None),
        (''name=validator'', ''chainsafe/lodestar:v1.20.0'', CreateContainer, Some ''validator'', None),
        (''name=validator-2'', ''chainsafe/lodestar:v1.20.0'', CreateContainer, Some ''validator'', None),
        (''name=/validator'', ''chainsafe/lodestar:v1.20.0'', CreateContainer, Some ''validator'', None),
        (''name=%2Fbeacon&platform='', ''chainsafe/lodestar:v1.20.0'', CreateContainer, Some ''beacon'', None),
        (''platform=linux&name=beacon'', ''chainsafe/lodestar:v1.20.0'', CreateContainer, Some ''beacon'', None),
        (''name=other'', ''chainsafe/lodestar:v1.20.0'', Deny, None, Some ''container name other not allowed for image chainsafe/lodestar:v1.20.0 by any policy''),
        ([], ''chainsafe/lodestar:v1.20.0'', Deny, None, Some ''image chainsafe/lodestar:v1.20.0 requires a container name''),
        (''name='', ''chainsafe/lodestar:v1.20.0'', Deny, None, Some ''image chainsafe/lodestar:v1.20.0 requires a container name''),
        ([], ''prom/prometheus:latest'', CreateContainer, Some ''monitoring'', None),
        (''name=anything'', ''prom/prometheus:latest'', CreateContainer, Some ''monitoring'', None),
        (''name=beacon'', ''alpine:latest'', Deny, None, Some ''image alpine:latest not allowed by any policy''),
        (''name=-beacon'', ''chainsafe/lodestar:v1.20.0'', Deny, None, Some ''invalid container name''),
        (''name=bea%2Fcon'', ''chainsafe/lodestar:v1.20.0'', Deny, None, Some ''invalid container name''),
        (''name=%zz'', ''chainsafe/lodestar:v1.20.0'', Deny, None, Some ''invalid query string''),
        (''name=%62eacon'', ''chainsafe/lodestar:v1.20.0'', CreateContainer, Some ''beacon'', None),
        (''name=validator%2D2'', ''chainsafe/lodestar:v1.20.0'', CreateContainer, Some ''validator'', None),
        (''name=beacon&name=monitoring'', ''chainsafe/lodestar:v1.20.0'', Deny, None, Some ''duplicate name query parameter''),
        (''name=beacon&n%61me=validator'', ''chainsafe/lodestar:v1.20.0'', Deny, None, Some ''duplicate name query parameter''),
        (''platform=%zz&name=beacon'', ''chainsafe/lodestar:v1.20.0'', Deny, None, Some ''invalid query string''),
        (''name=beacon;x=1'', ''chainsafe/lodestar:v1.20.0'', Deny, None, Some ''invalid query string'')]"

definition test_route_create_selection_is_stable :: "externs \<Rightarrow> bool" where
  "test_route_create_selection_is_stable x =
     list_all (\<lambda>name. selects x lodestar_router (''name='' @ name, ''chainsafe/lodestar:v1.20.0'', CreateContainer, Some name, None))
       [''beacon'', ''validator'']"

lemma router_selection_tests:
  "test_route_create_selects_by_name x"
  "test_route_create_selection_is_stable x"
  by code_simp+

definition ambiguous_router :: router where
  "ambiguous_router = new_router (from_map
     [(''a'', named_policy ''a'' [''beacon''] [''chainsafe'']), (''b'', make_policy ''b'' [''chainsafe/lodestar''])])"

definition test_route_create_ambiguous :: "externs \<Rightarrow> bool" where
  "test_route_create_ambiguous x =
     (pulls x ambiguous_router (''/containers/create?name=beacon'', Some [(''Image'', JString ''chainsafe/lodestar:v1'')], Deny, [],
        ''ambiguous policy for image chainsafe/lodestar:v1 and name beacon: a, b'') \<and>
      pulls x ambiguous_router (''/containers/create?name=validator'', Some [(''Image'', JString ''chainsafe/lodestar:v1'')],
        CreateContainer, ''b'', []))"

lemma router_ambiguity_tests: "test_route_create_ambiguous x"
  by code_simp

subsection \<open>Covered containers and shared images\<close>

definition coverage_router :: router where
  "coverage_router = loaded_router
     [(''validator.yaml'', named_policy ''validator'' [''validator'', ''validator-2''] [''chainsafe/lodestar'']),
      (''monitoring.yaml'', make_policy ''monitoring'' [''prom/prometheus'']),
      (''vc.yaml'', named_policy ''vc-svc'' [''vc-1''] [''example/vc'']),
      (''cafe.yaml'', make_policy ''cafe'' [''cafe/app''])]"

fun covers :: "externs \<Rightarrow> router \<Rightarrow> string \<times> string \<times> action \<times> string option \<Rightarrow> bool" where
  "covers x r (mth, target, want, service) =
     (rr_action (route x r mth target None) = want \<and> rr_service (route x r mth target None) = service)"

definition test_route_lifecycle_coverage :: "externs \<Rightarrow> bool" where
  "test_route_lifecycle_coverage x =
     (list_all (covers x coverage_router) [
        (''POST'', ''/containers/validator/start'', Allow, Some ''validator''),
        (''POST'', ''/v1.45/containers/validator-2/kill'', Allow, Some ''validator''),
        (''DELETE'', ''/containers/validator'', Allow, Some ''validator''),
        (''POST'', ''/containers/monitoring/restart'', Allow, Some ''monitoring''),
        (''POST'', ''/containers/vc-svc/stop'', ResolveContainer, None),
        (''POST'', ''/containers/vc-1/stop'', Allow, Some ''vc-svc''),
        (''POST'', ''/containers/mycontainer/stop'', ResolveContainer, None),
        (''POST'', ''/containers/4f6e1d2c9a7b/kill'', ResolveContainer, None),
        (''DELETE'', ''/containers/4f6e1d2c9a7b8c3d4e5f60718293a4b5c6d7e8f9012345678901234567890abc'', ResolveContainer, None),
        (''POST'', ''/containers/cafe/start'', ResolveContainer, None),
        (''GET'', ''/containers/mycontainer/json'', Allow, None)] \<and>
      rr_action (route x (with_readonly coverage_router True) ''POST'' ''/containers/validator/start'' None) = Deny)"

lemma router_coverage_tests:
  "test_route_lifecycle_coverage x"
  by code_simp+

definition shared_router :: router where
  "shared_router = loaded_router
     [(''vc-b.yaml'', (named_policy ''vc-b'' [''vc-b''] [''example/vc''])\<lparr>image_tag_pattern := Some ''^v2$''\<rparr>),
      (''vc-a.yaml'', (named_policy ''vc-a'' [''vc-a''] [''example/vc''])\<lparr>image_tag_pattern := Some ''^v1$''\<rparr>)]"

fun pulls_tag :: "externs \<Rightarrow> router \<Rightarrow> string \<times> action \<times> string option \<times> string option \<Rightarrow> bool" where
  "pulls_tag x r (tag, want, service, msg) =
     (pulls x r (''/images/create?fromImage=example%2Fvc&tag='' @ tag, None, want, unwrap_or service [], unwrap_or msg []))"

definition test_route_pull_shared_image :: "externs \<Rightarrow> bool" where
  "test_route_pull_shared_image x =
     list_all (pulls_tag x shared_router) [
        (''v1'', Allow, Some ''vc-a'', None),
        (''v2'', Allow, Some ''vc-b'', None),
        (''v3'', Deny, None, Some (''image tag '' @ dquote @ ''v3'' @ dquote @ '' does not match pattern '' @ dquote @ ''^v1$'' @ dquote))]"

lemma router_shared_pull_tests:
  "test_route_pull_shared_image pull_externs"
  by code_simp+

end
