(* ===== verification/Handler_Conformance.thy ===== *)
theory Handler_Conformance
  imports Handler Policy_Conformance
begin

section \<open>The handler's own tests (handler.rs, mod tests)\<close>

text \<open>
  The tests of \<open>src/rs/src/handler.rs\<close> on the model: one definition per test function, evaluated
  by the lemmas. The mock transports of the source are transports of the model; what they capture is
  the list of requests in the handler's state. For the JSON crate the tests use a compact printer,
  and a reader that knows the texts of the values that occur in them. A test that reads the audit
  file back is stated on the entries, of which the file holds one line each.
\<close>

subsection \<open>The setting\<close>

fun print_json :: "json \<Rightarrow> string" and print_items :: "json list \<Rightarrow> string list" and
  print_members :: "(string \<times> json) list \<Rightarrow> string list" where
  "print_json JNull = ''null''"
| "print_json (JBool b) = (if b then ''true'' else ''false'')"
| "print_json (JNumber (PosInt n)) = dec_nat n"
| "print_json (JNumber _) = ''-''"
| "print_json (JString s) = dquote @ s @ dquote"
| "print_json (JArray vs) = ''['' @ join_with '','' (print_items vs) @ '']''"
| "print_json (JObject m) = ''{'' @ join_with '','' (print_members m) @ ''}''"
| "print_items [] = []"
| "print_items (v # vs) = print_json v # print_items vs"
| "print_members [] = []"
| "print_members ((k, v) # m) = (dquote @ k @ dquote @ '':'' @ print_json v) # print_members m"

text \<open>The reader of a test knows a list of values by their texts.\<close>

type_synonym reader = "bytes \<Rightarrow> json option"

definition read_known :: "json list \<Rightarrow> reader" where
  "read_known known bs = map_of (map (\<lambda>v. (print_json v, v)) known) bs"

definition read_nothing :: reader where
  "read_nothing bs = None"

definition read_object :: "reader \<Rightarrow> bytes \<Rightarrow> json_body option" where
  "read_object reader bs = Option.bind (reader bs) as_object"

definition write_object :: "json_body \<Rightarrow> bytes option" where
  "write_object b = Some (print_json (JObject b))"

definition substring_regex :: "string \<Rightarrow> string + (string \<Rightarrow> bool)" where
  "substring_regex pat = Inr (str_contains pat)"

definition no_display :: "json \<Rightarrow> string" where
  "no_display v = []"

definition reading_externs :: "reader \<Rightarrow> externs" where
  "reading_externs reader =
     \<lparr>regex_new = substring_regex, json_display = no_display, json_to_vec = write_object,
      json_value_from_slice = reader, json_map_from_slice = read_object reader\<rparr>"

definition test_open :: "string \<Rightarrow> string res" where
  "test_open path = Inr []"

definition test_now :: "nat \<Rightarrow> string" where
  "test_now n = ''now''"

definition test_random :: "nat \<Rightarrow> bytes" where
  "test_random n = ''r''"

definition test_write_error :: "nat \<Rightarrow> nat option" where
  "test_write_error n = None"

definition no_uri_error :: "string \<Rightarrow> string option" where
  "no_uri_error uri = None"

definition test_env :: "reader \<Rightarrow> handler_env" where
  "test_env reader =
     \<lparr>he_externs = reading_externs reader,
      he_audit = \<lparr>av_open = test_open, av_now = test_now, av_random = test_random, av_write_error = test_write_error\<rparr>,
      he_uri_error = no_uri_error\<rparr>"

definition fresh_state :: handler_state where
  "fresh_state = \<lparr>hs_audit = \<lparr>al_entries = [], al_file = []\<rparr>, hs_sent = []\<rparr>"

definition localhost :: string where
  "localhost = ''http://localhost''"

definition test_request :: "string \<Rightarrow> string \<Rightarrow> (string \<times> bytes) list \<Rightarrow> bytes \<Rightarrow> incoming" where
  "test_request mth target headers body =
     \<lparr>in_method = mth,
      in_uri = \<lparr>uri_text = localhost @ target, uri_path = fst (split_target target), uri_path_and_query = Some target\<rparr>,
      in_version = 11, in_headers = headers, in_body = Inr body\<rparr>"

text \<open>One request to a handler in a fresh state: status, body, requests seen by the transport, audit entries.\<close>

fun status_of :: "outcome \<Rightarrow> nat" where
  "status_of (Responded r) = rs_status r"
| "status_of Panicked = 0"

fun text_of :: "outcome \<Rightarrow> string" where
  "text_of (Responded r) = rs_body r"
| "text_of Panicked = []"

definition answers :: "handler_env \<Rightarrow> handler \<Rightarrow> incoming \<Rightarrow> nat \<Rightarrow> string \<Rightarrow> bool" where
  "answers e h rq status msg \<longleftrightarrow>
     status_of (fst (handle e h fresh_state rq)) = status \<and> text_of (fst (handle e h fresh_state rq)) = msg"

definition captured :: "handler_env \<Rightarrow> handler \<Rightarrow> incoming \<Rightarrow> http_request list" where
  "captured e h rq = hs_sent (snd (handle e h fresh_state rq))"

definition refuses :: "handler_env \<Rightarrow> handler \<Rightarrow> incoming \<Rightarrow> string \<Rightarrow> bool" where
  "refuses e h rq msg \<longleftrightarrow> answers e h rq 403 msg \<and> captured e h rq = []"

subsection \<open>Bodies and transport errors\<close>

definition MockTransport :: transport where
  "MockTransport sent req = Inr \<lparr>rs_status = 200, rs_headers = [], rs_body = rq_body req\<rparr>"

definition svc_policy :: "string list option \<Rightarrow> policy" where
  "svc_policy flags = (policy_of ''svc'' None [''alpine''])
     \<lparr>container_config := Some \<lparr>network_mode = Some ''bridge'', restart_policy = None, security_options = None,
        cc_user = None, log_driver = None, log_options = None, group_add = None\<rparr>,
      allowed_cli_flags := flags\<rparr>"

definition svc_handler :: "string list option \<Rightarrow> transport \<Rightarrow> handler" where
  "svc_handler flags t = new_handler (new_router (from_map [(''svc'', svc_policy flags)])) chain_new t"

definition make_test_handler :: handler where
  "make_test_handler = svc_handler None MockTransport"

definition alpine_body :: "string list \<Rightarrow> json" where
  "alpine_body cmd = JObject [(''Cmd'', JArray (map JString cmd)), (''Image'', JString ''alpine'')]"

definition read_sleep :: reader where
  "read_sleep bs = read_known [alpine_body [''sleep'', ''100'']] bs"

definition read_privileged :: reader where
  "read_privileged bs = read_known [alpine_body [''--privileged'']] bs"

definition post_create :: "json \<Rightarrow> incoming" where
  "post_create v = test_request ''POST'' ''/containers/create'' [(''content-type'', ''application/json'')] (print_json v)"

definition test_handler_forwards_modified_body :: bool where
  "test_handler_forwards_modified_body =
     (status_of (fst (handle (test_env read_sleep) make_test_handler fresh_state
        (post_create (alpine_body [''sleep'', ''100''])))) = 200 \<and>
      (case captured (test_env read_sleep) make_test_handler
          (post_create (alpine_body [''sleep'', ''100''])) of
         [r] \<Rightarrow>
           rq_body r = print_json (JObject [(''Cmd'', JArray [JString ''sleep'', JString ''100'']),
             (''Image'', JString ''alpine''),
             (''HostConfig'', JObject [(''NetworkMode'', JString ''bridge''), (''Privileged'', JBool False)]),
             (''NetworkingConfig'', JObject [(''EndpointsConfig'', JObject [(''bridge'', JObject [])])])]) \<and>
           map_of (rq_headers r) ''content-length'' = Some (dec_nat (length (rq_body r)))
       | _ \<Rightarrow> False))"

datatype failure_kind = SocketPermissionFailure | OtherFailure

fun FailingTransport :: "failure_kind \<Rightarrow> transport" where
  "FailingTransport SocketPermissionFailure sent req =
     Inl (SocketPermission (new_io_error PermissionDenied ''permission denied''))"
| "FailingTransport OtherFailure sent req = Inl (OtherError ''connection refused'')"

definition make_forward_failing_handler :: "failure_kind \<Rightarrow> handler" where
  "make_forward_failing_handler kind = svc_handler None (FailingTransport kind)"

definition ping :: incoming where
  "ping = test_request ''GET'' ''/_ping'' [] []"

definition test_handler_socket_permission_returns_403 :: bool where
  "test_handler_socket_permission_returns_403 =
     (status_of (fst (handle (test_env read_nothing) (make_forward_failing_handler SocketPermissionFailure) fresh_state ping)) = 403)"

definition test_handler_forward_error_returns_502 :: bool where
  "test_handler_forward_error_returns_502 =
     (status_of (fst (handle (test_env read_nothing) (make_forward_failing_handler OtherFailure) fresh_state ping)) = 502)"

definition make_deny_handler :: handler where
  "make_deny_handler = svc_handler (Some [''--cap-drop'']) MockTransport"

definition test_handler_denies_by_middleware :: bool where
  "test_handler_denies_by_middleware =
     (status_of (fst (handle (test_env read_privileged) make_deny_handler fresh_state
        (post_create (alpine_body [''--privileged''])))) = 403)"

lemma forwarding_tests:
  test_handler_forwards_modified_body test_handler_socket_permission_returns_403
  test_handler_forward_error_returns_502 test_handler_denies_by_middleware
  by code_simp+

subsection \<open>Paths, queries and pulls\<close>

definition UriRecordingTransport :: transport where
  "UriRecordingTransport sent req = Inr \<lparr>rs_status = 200, rs_headers = [], rs_body = []\<rparr>"

definition recording_handler :: "(string \<times> policy) list \<Rightarrow> bool \<Rightarrow> handler" where
  "recording_handler ps ro = new_handler (with_readonly (new_router (from_map ps)) ro) chain_new UriRecordingTransport"

definition make_uri_recording_handler :: handler where
  "make_uri_recording_handler = new_handler (new_router (from_map [])) chain_new UriRecordingTransport"

definition forwards_query :: "handler \<Rightarrow> incoming \<Rightarrow> string \<Rightarrow> bool" where
  "forwards_query h rq query \<longleftrightarrow>
     status_of (fst (handle (test_env read_nothing) h fresh_state rq)) = 200 \<and>
     map (snd \<circ> split_target \<circ> rq_uri) (captured (test_env read_nothing) h rq) = [query]"

definition test_handler_readonly_denies_delete :: bool where
  "test_handler_readonly_denies_delete =
     refuses (test_env read_nothing) (recording_handler [] True) (test_request ''DELETE'' ''/containers/mycontainer'' [] [])
       ''read-only mode: DELETE requests are not allowed''"

definition denies_percent :: "string \<Rightarrow> bool" where
  "denies_percent target \<longleftrightarrow>
     status_of (fst (handle (test_env read_nothing) make_uri_recording_handler fresh_state (test_request ''DELETE'' target [] []))) = 403 \<and>
     str_contains ''percent-encoded''
       (text_of (fst (handle (test_env read_nothing) make_uri_recording_handler fresh_state (test_request ''DELETE'' target [] [])))) \<and>
     captured (test_env read_nothing) make_uri_recording_handler (test_request ''DELETE'' target [] []) = []"

definition test_handler_denies_percent_encoded_name :: bool where
  "test_handler_denies_percent_encoded_name = denies_percent ''/containers/foo%20bar''"

definition test_handler_denies_percent_encoded_slash :: bool where
  "test_handler_denies_percent_encoded_slash = denies_percent ''/containers/%2F''"

definition test_handler_forwards_percent_encoded_query :: bool where
  "test_handler_forwards_percent_encoded_query =
     forwards_query make_uri_recording_handler
       (test_request ''GET'' ''/containers/json?filters=%7B%22status%22%3A%5B%22running%22%5D%7D'' [] [])
       ''filters=%7B%22status%22%3A%5B%22running%22%5D%7D''"

definition probe_handler :: handler where
  "probe_handler = recording_handler [(''probe'', policy_of ''probe'' None [''alpine''])] False"

definition read_pull :: reader where
  "read_pull bs = read_known [JObject [(''fromImage'', JString ''alpine'')]] bs"

fun denies_pull_body :: "string \<times> bytes \<Rightarrow> bool" where
  "denies_pull_body (content_type, body) =
     refuses (test_env read_pull) probe_handler
       (test_request ''POST'' ''/v1.56/images/create?fromImage=alpine&tag=3.19'' [(''content-type'', content_type)] body)
       ''image pull must not have a request body''"

definition test_handler_pull_denies_body :: bool where
  "test_handler_pull_denies_body =
     list_all denies_pull_body [
        (''application/x-www-form-urlencoded'', ''fromImage=busybox&tag=latest''),
        (''application/json'', print_json (JObject [(''fromImage'', JString ''alpine'')])),
        (''text/plain'', ''x'')]"

definition test_handler_pull_routes_on_query :: bool where
  "test_handler_pull_routes_on_query =
     (forwards_query probe_handler
        (test_request ''POST'' ''/v1.56/images/create?fromImage=docker.io%2Flibrary%2Falpine&tag=3.19'' [] [])
        ''fromImage=docker.io%2Flibrary%2Falpine&tag=3.19'' \<and>
      refuses (test_env read_nothing) probe_handler
        (test_request ''POST'' ''/v1.56/images/create?fromImage=busybox&tag=latest'' [] [])
        ''image busybox not allowed by any policy'')"

lemma path_and_pull_tests:
  test_handler_readonly_denies_delete test_handler_denies_percent_encoded_name
  test_handler_denies_percent_encoded_slash test_handler_forwards_percent_encoded_query
  test_handler_pull_denies_body test_handler_pull_routes_on_query
  by code_simp+

subsection \<open>The audit log\<close>

definition audited :: "handler \<Rightarrow> incoming list \<Rightarrow> (string \<times> string \<times> string \<times> string) list" where
  "audited h rqs = map (\<lambda>a. (ae_decision a, ae_method a, ae_uri a, ae_reason a))
     (al_entries (hs_audit (serve_all (test_env read_nothing) h fresh_state rqs)))"

definition test_handler_audit_uri_is_request_target :: bool where
  "test_handler_audit_uri_is_request_target =
     (map (\<lambda>(d, m, u, r). (m, u, d)) (audited make_uri_recording_handler
        [test_request ''GET'' ''/containers/json?all=1'' [] [],
         test_request ''DELETE'' ''/containers/a%2Fb?force=1'' [] []]) =
      [(''GET'', ''/containers/json?all=1'', ''ALLOW''), (''DELETE'', ''/containers/a%2Fb?force=1'', ''DENY'')])"

definition upgrade_requests :: "incoming list" where
  "upgrade_requests =
     [test_request ''GET'' ''/containers/json'' [(''upgrade'', ''websocket''), (''connection'', ''Upgrade'')] [],
      test_request ''GET'' ''/_ping'' [(''connection'', ''keep-alive, Upgrade'')] [],
      test_request ''GET'' ''/_ping'' [(''upgrade'', ''h2c'')] []]"

definition test_handler_refuses_protocol_upgrade :: bool where
  "test_handler_refuses_protocol_upgrade =
     (list_all (\<lambda>rq. refuses (test_env read_nothing) make_uri_recording_handler rq ''protocol upgrade not allowed'') upgrade_requests \<and>
      status_of (fst (handle (test_env read_nothing) make_uri_recording_handler fresh_state
        (test_request ''GET'' ''/containers/json'' [] []))) = 200 \<and>
      captured (test_env read_nothing) make_uri_recording_handler (test_request ''GET'' ''/containers/json'' [] []) \<noteq> [] \<and>
      take 1 (audited make_uri_recording_handler upgrade_requests) =
        [(''DENY'', ''GET'', ''/containers/json'', ''protocol upgrade not allowed'')])"

text \<open>The URI of a CONNECT request is given without a scheme: in authority form it has no path.\<close>

definition connect_request :: "uri \<Rightarrow> (string \<times> bytes) list \<Rightarrow> incoming" where
  "connect_request u headers =
     \<lparr>in_method = ''CONNECT'', in_uri = u, in_version = 11, in_headers = headers, in_body = Inr []\<rparr>"

definition connect_requests :: "incoming list" where
  "connect_requests =
     [connect_request \<lparr>uri_text = ''/_ping'', uri_path = ''/_ping'', uri_path_and_query = Some ''/_ping''\<rparr> [],
      connect_request \<lparr>uri_text = ''localhost:80'', uri_path = [], uri_path_and_query = None\<rparr> [],
      connect_request \<lparr>uri_text = ''/_ping'', uri_path = ''/_ping'', uri_path_and_query = Some ''/_ping''\<rparr>
        [(''upgrade'', ''websocket''), (''connection'', ''Upgrade'')]]"

definition test_handler_refuses_connect :: bool where
  "test_handler_refuses_connect =
     (list_all (\<lambda>rq. refuses (test_env read_nothing) make_uri_recording_handler rq ''CONNECT is not allowed'') connect_requests \<and>
      audited make_uri_recording_handler connect_requests =
        map (\<lambda>uri. (''DENY'', ''CONNECT'', uri, ''CONNECT is not allowed'')) [''/_ping'', ''localhost:80'', ''/_ping''])"

lemma audit_tests:
  test_handler_audit_uri_is_request_target test_handler_refuses_protocol_upgrade test_handler_refuses_connect
  by code_simp+

subsection \<open>Containers named by ID\<close>

definition BEACON_ID :: string where
  "BEACON_ID = ''4f6e1d2c9a7b8c3d4e5f60718293a4b5c6d7e8f9012345678901234567890abc''"

definition MONITORING_ID :: string where
  "MONITORING_ID = ''9d8c7b6a5f4e3d2c1b0a99887766554433221100ffeeddccbbaa998877665544''"

definition beacon_short :: string where
  "beacon_short = take 12 BEACON_ID"

definition mon_short :: string where
  "mon_short = take 12 MONITORING_ID"

definition daemon_names :: "(string \<times> string) list" where
  "daemon_names = [(''beacon'', ''beacon''), (BEACON_ID, ''beacon''), (beacon_short, ''beacon''),
     (''dsp-monitoring'', ''dsp-monitoring''), (MONITORING_ID, ''dsp-monitoring''), (mon_short, ''dsp-monitoring'')]"

definition inspect_answer :: "string \<Rightarrow> json" where
  "inspect_answer name = JObject [(''Id'', JString ''4f6e1d2c9a7b''), (''Name'', JString (''/'' @ name))]"

text \<open>\<open>Uri::path\<close> of a request to the transport: the text without scheme, host and query.\<close>

definition request_path :: "http_request \<Rightarrow> string" where
  "request_path r = fst (split_target (unwrap_or (strip_prefix localhost (rq_uri r)) (rq_uri r)))"

definition is_inspect :: "http_request \<Rightarrow> bool" where
  "is_inspect r \<longleftrightarrow> rq_method r = ''GET'' \<and> starts_with (request_path r) ''/containers/'' \<and> ends_with (request_path r) ''/json''"

definition DaemonTransport :: "nat option \<Rightarrow> transport" where
  "DaemonTransport status sent req =
     (if is_inspect req then
        (case status of
           Some code \<Rightarrow> Inr (respond code ''boom'')
         | None \<Rightarrow>
             (case map_of daemon_names
                 (take (length (request_path req) - length ''/containers/'' - length ''/json'')
                    (drop (length ''/containers/'') (request_path req))) of
                Some name \<Rightarrow> Inr (respond 200 (print_json (inspect_answer name)))
              | None \<Rightarrow> Inr (respond 404 ''no such container'')))
      else Inr (respond 204 []))"

definition read_inspect :: reader where
  "read_inspect bs = read_known (map inspect_answer [''beacon'', ''dsp-monitoring'']) bs"

definition make_daemon_handler :: "manager \<Rightarrow> nat option \<Rightarrow> handler" where
  "make_daemon_handler m status = new_handler (new_router m) chain_new (DaemonTransport status)"

definition BEACON_ONLY :: "policy_file list" where
  "BEACON_ONLY = [plain_file ''beacon.yaml'' ''beacon'' [''chainsafe/lodestar'']]"

definition beacon_manager :: manager where
  "beacon_manager = manager_of [policy_of ''beacon'' None [''chainsafe/lodestar'']]"

lemma load_BEACON_ONLY: "load_dir BEACON_ONLY = Inr beacon_manager"
  by code_simp

definition beacon_handler :: "nat option \<Rightarrow> handler" where
  "beacon_handler status = make_daemon_handler beacon_manager status"

definition not_managed_text :: "string \<Rightarrow> string" where
  "not_managed_text cid = fmt [''container '', cid, '' is not managed by any policy'']"

definition seen :: "http_request \<Rightarrow> string" where
  "seen r = fmt [rq_method r, '' '', request_path r]"

definition coverage_result :: "string \<Rightarrow> string \<Rightarrow> nat \<Rightarrow> string \<Rightarrow> string list \<Rightarrow> outcome \<times> handler_state \<Rightarrow> bool" where
  "coverage_result mth target status body inspects res \<longleftrightarrow>
     status_of (fst res) = status \<and> (body = [] \<or> text_of (fst res) = body) \<and>
     map seen (hs_sent (snd res)) =
       map (\<lambda>cid. fmt [''GET /containers/'', cid, ''/json'']) inspects @
       (if status \<noteq> 403 then [fmt [mth, '' '', fst (split_target target)]] else [])"

fun covers_container :: "string \<times> string \<times> nat \<times> string \<times> string list \<Rightarrow> bool" where
  "covers_container (mth, target, status, body, inspects) =
     coverage_result mth target status body inspects
       (handle (test_env read_inspect) (beacon_handler None) fresh_state (test_request mth target [] []))"

definition test_handler_lifecycle_coverage :: bool where
  "test_handler_lifecycle_coverage = list_all covers_container [
        (''POST'', ''/v1.45/containers/beacon/stop?t=1'', 204, [], []),
        (''POST'', fmt [''/containers/'', BEACON_ID, ''/kill''], 204, [], [BEACON_ID]),
        (''DELETE'', fmt [''/containers/'', beacon_short, ''?force=1''], 204, [], [beacon_short]),
        (''POST'', ''/containers/dsp-monitoring/stop'', 403, not_managed_text ''dsp-monitoring'', [''dsp-monitoring'']),
        (''POST'', fmt [''/containers/'', MONITORING_ID, ''/kill''], 403, not_managed_text MONITORING_ID, [MONITORING_ID]),
        (''DELETE'', fmt [''/containers/'', mon_short], 403, not_managed_text mon_short, [mon_short]),
        (''DELETE'', ''/containers/mycontainer'', 403, not_managed_text ''mycontainer'', [''mycontainer'']),
        (''POST'', ''/containers/exec-runner/start'', 403, not_managed_text ''exec-runner'', [''exec-runner''])]"

definition stop_short :: incoming where
  "stop_short = test_request ''POST'' (fmt [''/containers/'', beacon_short, ''/stop'']) [] []"

definition test_handler_lifecycle_resolve_fails_closed :: bool where
  "test_handler_lifecycle_resolve_fails_closed =
     (answers (test_env read_inspect) (beacon_handler (Some 500)) stop_short 403
        (fmt [''cannot resolve container '', beacon_short, '': daemon returned 500'']) \<and>
      length (captured (test_env read_inspect) (beacon_handler (Some 500)) stop_short) = 1)"

definition test_handler_lifecycle_audits_resolved_name :: bool where
  "test_handler_lifecycle_audits_resolved_name =
     (map (\<lambda>a. (ae_decision a, ae_reason a))
        (al_entries (hs_audit (serve_all (test_env read_inspect) (beacon_handler None) fresh_state
           [test_request ''POST'' (fmt [''/containers/'', beacon_short, ''/start'']) [] [],
            test_request ''POST'' (fmt [''/containers/'', mon_short, ''/start'']) [] []]))) =
      [(''ALLOW'', fmt [''container '', beacon_short, '' resolved to beacon'']),
       (''DENY'', fmt [''container '', mon_short, '' is not managed by any policy (resolved to dsp-monitoring)''])])"

lemma container_tests:
  test_handler_lifecycle_resolve_fails_closed test_handler_lifecycle_audits_resolved_name
  by code_simp+

lemma coverage_tests: test_handler_lifecycle_coverage
  by code_simp

subsection \<open>Repeated creates\<close>

text \<open>
  With a transport that answers every request on its own, an answer and the requests it causes do not
  depend on what was handled before. So a table of requests repeated any number of times is decided by
  one request each, in a fresh state.
\<close>

definition forgetful :: "handler \<Rightarrow> bool" where
  "forgetful h \<longleftrightarrow> (\<forall>sent req. h_transport h sent req = h_transport h [] req)"

definition same_answer :: "handler_state \<Rightarrow> outcome \<times> handler_state \<Rightarrow> handler_state \<Rightarrow> outcome \<times> handler_state \<Rightarrow> bool" where
  "same_answer st res st' res' \<longleftrightarrow> fst res = fst res' \<and>
     (\<exists>sent. hs_sent (snd res) = hs_sent st @ sent \<and> hs_sent (snd res') = hs_sent st' @ sent)"

lemma refuse_same: "same_answer st (refuse e st m u r t) st' (refuse e st' m u r t)"
  by (simp add: same_answer_def refuse_def)

lemma forgetful_transport: "forgetful h \<Longrightarrow> h_transport h sent req = h_transport h sent' req"
  unfolding forgetful_def by metis

lemma forward_allowed_same:
  "forgetful h \<Longrightarrow> same_answer st (forward_allowed e h st rq r body) st' (forward_allowed e h st' rq r body)"
  using forgetful_transport[of h "hs_sent st" _ "hs_sent st'"]
  by (auto simp: same_answer_def forward_allowed_def transmit_def send_def log_allowed_effect split: option.split)

lemma dispatch_same:
  assumes "forgetful h"
  shows "same_answer st (dispatch e h rq body (r, st)) st' (dispatch e h rq body (r, st'))"
  using forward_allowed_same[OF assms] refuse_same
  by (simp add: dispatch_def after_chain_def split: option.split)

lemma resolve_route_same:
  assumes "forgetful h"
  obtains r sent where "fst (resolve_route e h st q) = r" "fst (resolve_route e h st' q) = r"
    "hs_sent (snd (resolve_route e h st q)) = hs_sent st @ sent"
    "hs_sent (snd (resolve_route e h st' q)) = hs_sent st' @ sent"
proof -
  have "h_transport h (hs_sent st) req = h_transport h (hs_sent st') req" for req
    using assms by (rule forgetful_transport)
  then show ?thesis
    using that by (cases "rr_action q = ResolveContainer"; cases "he_uri_error e (inspect_uri (unwrap_or (rr_container q) []))")
      (auto simp: resolve_route_def resolve_container_def send_def)
qed

lemma same_answer_extend:
  assumes "same_answer st1 res st1' res'" "hs_sent st1 = hs_sent st @ sent" "hs_sent st1' = hs_sent st' @ sent"
  shows "same_answer st res st' res'"
  using assms by (auto simp: same_answer_def)

lemma handle_same:
  assumes "forgetful h"
  shows "same_answer st (handle e h st rq) st' (handle e h st' rq)"
proof -
  have "same_answer st (handle_body e h st rq body) st' (handle_body e h st' rq body)" for body
  proof -
    define q where "q = route_request (he_externs e) (h_router h) (in_method rq) (target_of (in_uri rq)) (body \<noteq> [])
      (parse_body (he_externs e) body)"
    obtain r sent where res: "fst (resolve_route e h st q) = r" "fst (resolve_route e h st' q) = r"
      "hs_sent (snd (resolve_route e h st q)) = hs_sent st @ sent"
      "hs_sent (snd (resolve_route e h st' q)) = hs_sent st' @ sent"
      using resolve_route_same[OF assms] .
    have "same_answer (snd (resolve_route e h st q)) (handle_body e h st rq body)
        (snd (resolve_route e h st' q)) (handle_body e h st' rq body)"
      using dispatch_same[OF assms, of "snd (resolve_route e h st q)" e rq body r "snd (resolve_route e h st' q)"] res(1,2)
      unfolding handle_body_def q_def [symmetric] by (metis prod.collapse)
    then show ?thesis using same_answer_extend res(3,4) by blast
  qed
  moreover have "same_answer st (r, st) st' (r, st')" for r by (simp add: same_answer_def)
  ultimately show ?thesis
    by (simp add: handle_def refuse_same split: sum.split)
qed

text \<open>The answers to a sequence of requests, each with the requests it caused.\<close>

primrec transcript :: "handler_env \<Rightarrow> handler \<Rightarrow> handler_state \<Rightarrow> incoming list \<Rightarrow> (outcome \<times> http_request list) list" where
  "transcript e h st [] = []"
| "transcript e h st (rq # rqs) =
     (fst (handle e h st rq), drop (length (hs_sent st)) (hs_sent (snd (handle e h st rq)))) #
     transcript e h (snd (handle e h st rq)) rqs"

lemma transcript_forgetful:
  assumes "forgetful h"
  shows "transcript e h st rqs = map (\<lambda>rq. (fst (handle e h fresh_state rq), captured e h rq)) rqs"
proof (induction rqs arbitrary: st)
  case (Cons rq rqs)
  from handle_same[OF assms, of st e rq fresh_state] show ?case
    by (auto simp: Cons.IH same_answer_def captured_def fresh_state_def)
qed simp

definition user_policy :: "string \<Rightarrow> string \<Rightarrow> policy" where
  "user_policy name user = (policy_of name (Some [name]) [''alpine''])
     \<lparr>container_config := Some \<lparr>network_mode = None, restart_policy = None, security_options = None,
        cc_user = Some user, log_driver = None, log_options = None, group_add = None\<rparr>\<rparr>"

definition user_files :: "policy_file list" where
  "user_files = [(''a.yaml'', user_policy ''svc-a'' ''1111:1111'', None), (''b.yaml'', user_policy ''svc-b'' ''2222:2222'', None)]"

definition user_manager :: manager where
  "user_manager = manager_of [user_policy ''svc-a'' ''1111:1111'', user_policy ''svc-b'' ''2222:2222'']"

lemma load_user_files: "load_dir user_files = Inr user_manager"
  by code_simp

definition true_body :: json where
  "true_body = JObject [(''Image'', JString ''alpine:3.20''), (''Cmd'', JArray [JString ''true''])]"

definition unnamed_body :: json where
  "unnamed_body = JObject [(''Image'', JString ''alpine:3.20'')]"

definition read_create :: reader where
  "read_create bs = read_known [true_body, unnamed_body] bs"

definition forwarded_user :: "string \<Rightarrow> bytes" where
  "forwarded_user user = print_json (JObject [(''Image'', JString ''alpine:3.20''), (''Cmd'', JArray [JString ''true'']),
     (''HostConfig'', JObject [(''Privileged'', JBool False)]), (''User'', JString user)])"

definition create_named :: "string \<times> string \<Rightarrow> incoming" where
  "create_named row = test_request ''POST'' (fmt [''/v1.45/containers/create?name='', fst row]) [] (print_json true_body)"

definition created_as :: "string \<times> string \<Rightarrow> outcome \<times> http_request list \<Rightarrow> bool" where
  "created_as row res \<longleftrightarrow> status_of (fst res) = 204 \<and> map rq_body (snd res) = [forwarded_user (snd row)]"

definition user_rows :: "(string \<times> string) list" where
  "user_rows = [(''svc-a'', ''1111:1111''), (''svc-b'', ''2222:2222'')]"

definition test_handler_create_selects_by_name :: "nat \<Rightarrow> bool" where
  "test_handler_create_selects_by_name n =
     (list_all2 created_as (concat (replicate n user_rows))
        (transcript (test_env read_create) (make_daemon_handler user_manager None) fresh_state
          (map create_named (concat (replicate n user_rows)))) \<and>
      answers (test_env read_create) (make_daemon_handler user_manager None)
        (test_request ''POST'' ''/containers/create'' [] (print_json unnamed_body)) 403
        ''image alpine:3.20 requires a container name'')"

definition create_outcome :: "string \<times> string \<Rightarrow> outcome \<times> http_request list" where
  "create_outcome row =
     (fst (handle (test_env read_create) (make_daemon_handler user_manager None) fresh_state (create_named row)),
      captured (test_env read_create) (make_daemon_handler user_manager None) (create_named row))"

lemma create_once: "list_all (\<lambda>row. created_as row (create_outcome row)) user_rows"
  by code_simp

lemma create_unnamed:
  "answers (test_env read_create) (make_daemon_handler user_manager None)
     (test_request ''POST'' ''/containers/create'' [] (print_json unnamed_body)) 403
     ''image alpine:3.20 requires a container name''"
  by code_simp

lemma create_test: "test_handler_create_selects_by_name n"
proof -
  have "forgetful (make_daemon_handler user_manager None)"
    by (simp add: forgetful_def make_daemon_handler_def new_handler_def DaemonTransport_def)
  from transcript_forgetful[OF this]
  have "transcript (test_env read_create) (make_daemon_handler user_manager None) fresh_state (map create_named rows) =
      map create_outcome rows" for rows
    by (simp add: create_outcome_def)
  moreover have "list_all2 created_as (concat (replicate n user_rows)) (map create_outcome (concat (replicate n user_rows)))"
    using create_once by (auto simp: list_all2_map2 list_all2_same list_all_iff simp del: concat_eq_append_conv)
  ultimately show ?thesis using create_unnamed by (simp add: test_handler_create_selects_by_name_def)
qed

end
