(* ===== verification/System_Conformance.thy ===== *)
theory System_Conformance
  imports Handler_Conformance Server Instances
begin

section \<open>The tests of main.rs, audit.rs and transport.rs\<close>

text \<open>
  The tests of \<open>src/rs/src/main.rs\<close>, \<open>src/rs/src/audit.rs\<close> and \<open>src/rs/src/transport.rs\<close> on
  the model: one definition per test function, evaluated by the lemmas. A temporary directory is a state
  of the operating system, what a connection attempt returns is the world's \<open>w_probe\<close>, and a call
  that the kernel refuses is a fault. The race of eight threads is the theorem on races of
  \<open>Instances\<close>, which covers every interleaving; here one schedule of it is evaluated. The tests of
  the shutdown run the server. Tests of the command-line parser are left out.
\<close>

subsection \<open>Audit log and transport\<close>

definition log_externs :: externs where
  "log_externs = (reading_externs read_nothing)\<lparr>json_display := print_json\<rparr>"

definition log_env :: audit_env where
  "log_env = he_audit (test_env read_nothing)"

definition read_log :: "audit_log \<Rightarrow> string list" where
  "read_log l = filter (\<lambda>line. line \<noteq> []) (split_on (CHR 0x0A) (al_file l))"

definition logged_line :: "string \<Rightarrow> string \<Rightarrow> string \<Rightarrow> string \<Rightarrow> string" where
  "logged_line decision mth uri reason = print_json (entry_json
     \<lparr>ae_timestamp = test_now 0, ae_request_id = request_id (test_random 0), ae_decision = decision, ae_method = mth,
      ae_uri = uri, ae_reason = reason\<rparr>)"

definition empty_log :: audit_log where
  "empty_log = \<lparr>al_entries = [], al_file = []\<rparr>"

definition test_allow_writes_entry :: bool where
  "test_allow_writes_entry =
     (audit_open log_env ''audit-test.log'' = Inr empty_log \<and>
      read_log (audit_allow log_externs log_env empty_log ''GET'' ''/_ping'') = [logged_line ''ALLOW'' ''GET'' ''/_ping'' []] \<and>
      list_all (\<lambda>a. ae_request_id a \<noteq> [] \<and> ae_timestamp a \<noteq> [])
        (al_entries (audit_allow log_externs log_env empty_log ''GET'' ''/_ping'')))"

definition test_deny_writes_entry :: bool where
  "test_deny_writes_entry =
     (read_log (audit_deny log_externs log_env empty_log ''POST'' ''/containers/create'' ''exec denied by policy'') =
      [logged_line ''DENY'' ''POST'' ''/containers/create'' ''exec denied by policy''])"

definition test_multiple_entries :: bool where
  "test_multiple_entries =
     (length (read_log (((\<lambda>l. audit_allow log_externs log_env l ''GET'' ''/version'') ^^ 5) empty_log)) = 5)"

definition test_nop_writes_nowhere :: bool where
  "test_nop_writes_nowhere =
     (case audit_nop log_env of
        None \<Rightarrow> False
      | Some l \<Rightarrow> al_file (audit_deny log_externs (log_env\<lparr>av_write_error := (\<lambda>_. Some 0)\<rparr>)
          (audit_allow log_externs (log_env\<lparr>av_write_error := (\<lambda>_. Some 0)\<rparr>) l ''GET'' ''/_ping'')
          ''POST'' ''/containers/create'' ''denied'') = [])"

lemma audit_log_tests:
  test_allow_writes_entry test_deny_writes_entry test_multiple_entries test_nop_writes_nowhere
  by code_simp+

definition missing_socket :: docker_socket where
  "missing_socket = \<lparr>sk_connect = (\<lambda>_. Inl (os_err NotFound 2)), sk_handshake = Inr (),
     sk_send = (\<lambda>_. Inr (respond 200 [])), sk_collect = (\<lambda>r. Inr (rs_body r))\<rparr>"

fun is_permission :: "transport_error \<Rightarrow> bool" where
  "is_permission (SocketPermission e) = True"
| "is_permission (OtherError e) = False"

definition test_forward_missing_socket_errors :: bool where
  "test_forward_missing_socket_errors =
     (case unix_socket_transport (\<lambda>_. missing_socket) ''/nonexistent/docker.sock'' []
         \<lparr>rq_method = ''GET'', rq_uri = ''/_ping'', rq_version = 11, rq_headers = [], rq_body = []\<rparr> of
        Inl e \<Rightarrow> \<not> is_permission e
      | Inr _ \<Rightarrow> False)"

definition test_map_connect_error_kinds :: bool where
  "test_map_connect_error_kinds =
     (is_permission (map_connect_error (new_io_error PermissionDenied ''permission denied'')) \<and>
      \<not> is_permission (map_connect_error (new_io_error NotFound ''entity not found'')) \<and>
      \<not> is_permission (map_connect_error (new_io_error (OtherKind ''ConnectionRefused'') ''connection refused'')))"

lemma transport_tests: test_forward_missing_socket_errors test_map_connect_error_kinds
  by code_simp+

subsection \<open>Addresses and groups\<close>

fun rejects :: "(string \<Rightarrow> check) \<Rightarrow> string \<times> string \<Rightarrow> bool" where
  "rejects f (addr, want) = (case f addr of Inl err \<Rightarrow> str_contains want err | Inr _ \<Rightarrow> False)"

definition test_validate_listen_socket :: bool where
  "test_validate_listen_socket =
     (validate_listen_socket ''/var/run/docker-socket-policy.sock'' = Inr () \<and>
      list_all (rejects validate_listen_socket)
       [([], ''must not be empty''),
        (''fd://3'', ''only supports Unix socket paths''),
        (''fd://4'', ''only supports Unix socket paths''),
        (''fd://0'', ''only supports Unix socket paths''),
        (''fd://abc'', ''only supports Unix socket paths''),
        (''tcp://0.0.0.0:2375'', ''only supports Unix socket paths''),
        (''http://0.0.0.0:2375'', ''only supports Unix socket paths''),
        (''https://0.0.0.0:2375'', ''only supports Unix socket paths''),
        (''unix:///var/run/d.sock'', ''only supports Unix socket paths''),
        (''@dsp'', ''abstract sockets have no permissions''),
        (CHR 0x00 # ''dsp'', ''abstract sockets have no permissions''),
        (''0.0.0.0:2375'', ''must be an absolute path''),
        (''dsp.sock'', ''must be an absolute path'')])"

definition test_validate_docker_host :: bool where
  "test_validate_docker_host =
     (validate_docker_host ''/var/run/docker.sock'' = Inr () \<and>
      list_all (rejects validate_docker_host)
       [([], ''must not be empty''),
        (''tcp://dind:2375'', ''only supports Unix socket paths''),
        (''http://dind:2375'', ''only supports Unix socket paths''),
        (''https://dind:2375'', ''only supports Unix socket paths''),
        (''unix:///var/run/docker.sock'', ''only supports Unix socket paths'')])"

lemma address_tests: test_validate_listen_socket test_validate_docker_host
  by code_simp+

definition connection_refused :: io_error where
  "connection_refused = os_err (OtherKind ''ConnectionRefused'') ECONNREFUSED"

definition no_fault :: "nat \<Rightarrow> io_error option" where
  "no_fault t = None"

definition fault_at :: "nat \<Rightarrow> io_error \<Rightarrow> nat \<Rightarrow> io_error option" where
  "fault_at n err t = (if t = n then Some err else None)"

definition group_database :: "string \<Rightarrow> group_lookup" where
  "group_database g = (if g = ''root'' then GroupFound 0 else NoGroup)"

definition test_world :: "nat \<Rightarrow> probe \<Rightarrow> (nat \<Rightarrow> io_error option) \<Rightarrow> world" where
  "test_world pid answer fault =
     \<lparr>w_pid = pid, w_egid = 5, w_fault = fault, w_probe = (\<lambda>_ _. answer), w_getgrnam = group_database,
      w_debug_file_type = (\<lambda>_. ''FileType'')\<rparr>"

definition plain_world :: world where
  "plain_world = test_world 1 (ConnectErr connection_refused) no_fault"

definition gid_out_of_range :: "string \<Rightarrow> string" where
  "gid_out_of_range v = fmt [''--listen-socket-group '', debug_str v, '': gid out of range (0-4294967294)'']"

definition test_resolve_group :: bool where
  "test_resolve_group =
     (resolve_group plain_world ''2001'' = Inr 2001 \<and> isl (resolve_group plain_world ''definitely-no-such-group-xyz'') \<and>
      resolve_group plain_world ''root'' = Inr 0)"

definition test_resolve_group_rejects_out_of_range_gid :: bool where
  "test_resolve_group_rejects_out_of_range_gid =
     (resolve_group plain_world ''4294967294'' = Inr 4294967294 \<and>
      list_all (\<lambda>v. resolve_group plain_world v = Inl (gid_out_of_range v))
        [''4294967295'', ''4294967296'', ''12345678901234567890''] \<and>
      list_all (\<lambda>v. isl (resolve_group plain_world v)) [''+4294967296'', ''+5''])"

lemma digit_chars:
  "digit_char 2 = CHR ''2''" "digit_char 3 = CHR ''3''" "digit_char 4 = CHR ''4''" "digit_char 5 = CHR ''5''"
  "digit_char 6 = CHR ''6''" "digit_char 7 = CHR ''7''" "digit_char 9 = CHR ''9''"
  by code_simp+

lemma dec_nat_max_gid: "dec_nat (unat MAX_SOCKET_GID) = ''4294967294''"
  by (simp add: MAX_SOCKET_GID_def unat_top dec_nat.simps digit_chars)

lemma dec_values:
  "dec_value ''2001'' = 2001" "dec_value ''4294967294'' = 4294967294" "dec_value ''4294967295'' = 4294967295"
  "dec_value ''4294967296'' = 4294967296" "dec_value ''12345678901234567890'' = 12345678901234567890"
  by (simp_all add: dec_value_def digit_val_def)

lemma numeric_groups:
  "all_digits ''2001''" "all_digits ''4294967294''" "all_digits ''4294967295''" "all_digits ''4294967296''"
  "all_digits ''12345678901234567890''"
  by code_simp+

lemma resolve_group_too_big:
  assumes "all_digits v" "2 ^ 32 - 1 \<le> dec_value v"
  shows "resolve_group w v = Inl (gid_out_of_range v)"
proof (cases "resolve_group w v")
  case (Inr gid)
  with resolve_group_numeric[OF assms(1)] assms(2) show ?thesis by simp
next
  case (Inl err)
  have "v \<noteq> [] \<and> list_all is_ascii_digit v" using assms(1) by (auto simp: all_digits_def list_all_iff)
  with Inl show ?thesis
    by (auto simp: resolve_group_def gid_out_of_range_def dec_nat_max_gid ok_or_def fmt_def split: option.splits)
qed

lemma signed_groups:
  "isl (resolve_group plain_world ''+4294967296'')" "isl (resolve_group plain_world ''+5'')"
  "isl (resolve_group plain_world ''definitely-no-such-group-xyz'')" "resolve_group plain_world ''root'' = Inr 0"
  by code_simp+

lemma group_tests: test_resolve_group test_resolve_group_rejects_out_of_range_gid
  unfolding test_resolve_group_def test_resolve_group_rejects_out_of_range_gid_def list.pred_inject
  by (simp_all add: signed_groups resolve_group_numeric resolve_group_too_big numeric_groups dec_values)

definition known_groups :: "string \<Rightarrow> 32 word res" where
  "known_groups name =
     (if name = ''docker-socket-policy'' then Inr 2001 else if name = ''ops'' then Inr 3001
      else Inl (fmt [''--listen-socket-group '', debug_str name, '': unknown group'']))"

definition no_groups :: "string \<Rightarrow> 32 word res" where
  "no_groups name = Inl (fmt [''--listen-socket-group '', debug_str name, '': unknown group''])"

definition test_select_socket_group :: bool where
  "test_select_socket_group =
     (select_socket_group None known_groups 65532 = Inr (2001, None) \<and>
      select_socket_group None no_groups 65532 =
        Inr (65532, Some ''group docker-socket-policy not found, using the proxy's own group 65532'') \<and>
      select_socket_group (Some ''ops'') known_groups 65532 = Inr (3001, None) \<and>
      isl (select_socket_group (Some ''nope'') known_groups 65532) \<and>
      select_socket_group (Some []) known_groups 65532 = Inr (65532, None))"

lemma select_group_tests: test_select_socket_group
  by (simp add: test_select_socket_group_def select_socket_group_def known_groups_def no_groups_def DEFAULT_SOCKET_GROUP_def
      dec_nat.simps digit_chars fmt_def)

subsection \<open>The socket's path\<close>

definition test_files :: "(string \<times> inode) list \<Rightarrow> os" where
  "test_files files = \<lparr>os_files = map_of files, os_umask = 18, os_locks = (\<lambda>_. None), os_clock = 0, os_hist = []\<rparr>"

definition left_socket :: inode where
  "left_socket = \<lparr>ino_kind = SocketFile, ino_mode = SOCKET_MODE, ino_gid = 5\<rparr>"

definition file_of :: "file_kind \<Rightarrow> inode" where
  "file_of kind = \<lparr>ino_kind = kind, ino_mode = 420, ino_gid = 5\<rparr>"

definition test_open_listener_replaces_stale_socket :: bool where
  "test_open_listener_replaces_stale_socket =
     (fst (open_listener plain_world ''/t/stale.sock'' None (test_files [(''/t/stale.sock'', left_socket)])) = Inr ())"

definition fails_with :: "(string \<Rightarrow> bool) \<Rightarrow> (io_error + unit) \<times> os \<Rightarrow> bool" where
  "fails_with P r = (case fst r of Inl e \<Rightarrow> P (io_text e) | Inr _ \<Rightarrow> False)"

definition keeps :: "string \<Rightarrow> inode \<Rightarrow> (io_error + unit) \<times> os \<Rightarrow> bool" where
  "keeps path i r \<longleftrightarrow> os_files (snd r) path = Some i"

definition test_open_listener_refuses_to_delete_non_socket :: bool where
  "test_open_listener_refuses_to_delete_non_socket =
     (fails_with (str_contains ''not a socket'') (open_listener plain_world ''/t/important.txt'' None
        (test_files [(''/t/important.txt'', file_of RegularFile)])) \<and>
      keeps ''/t/important.txt'' (file_of RegularFile) (open_listener plain_world ''/t/important.txt'' None
        (test_files [(''/t/important.txt'', file_of RegularFile)])) \<and>
      fails_with (\<lambda>_. True) (open_listener plain_world ''/t/adir'' None (test_files [(''/t/adir'', file_of DirectoryFile)])) \<and>
      keeps ''/t/adir'' (file_of DirectoryFile)
        (open_listener plain_world ''/t/adir'' None (test_files [(''/t/adir'', file_of DirectoryFile)])))"

definition prepared :: "probe \<Rightarrow> string \<Rightarrow> inode option \<Rightarrow> (io_error + unit) \<times> os" where
  "prepared answer path i = prepare_socket_path (test_world 1 answer no_fault) path
     (test_files (case i of None \<Rightarrow> [] | Some j \<Rightarrow> [(path, j)]))"

definition eacces :: io_error where
  "eacces = os_err PermissionDenied 13"

definition test_prepare_socket_path :: bool where
  "test_prepare_socket_path =
     (fst (prepared (ConnectErr connection_refused) ''/t/absent.sock'' None) = Inr () \<and>
      fst (prepared (ConnectErr connection_refused) ''/t/stale.sock'' (Some left_socket)) = Inr () \<and>
      os_files (snd (prepared (ConnectErr connection_refused) ''/t/stale.sock'' (Some left_socket))) ''/t/stale.sock'' = None \<and>
      fails_with (\<lambda>t. t = ''/t/live.sock is in use by another process'')
        (prepared ConnectOk ''/t/live.sock'' (Some left_socket)) \<and>
      keeps ''/t/live.sock'' left_socket (prepared ConnectOk ''/t/live.sock'' (Some left_socket)) \<and>
      fails_with (\<lambda>t. starts_with t ''refusing to remove /t/eacces.sock'')
        (prepared (ConnectErr eacces) ''/t/eacces.sock'' (Some left_socket)) \<and>
      keeps ''/t/eacces.sock'' left_socket (prepared (ConnectErr eacces) ''/t/eacces.sock'' (Some left_socket)) \<and>
      fails_with (\<lambda>t. starts_with t ''refusing to remove /t/file.txt: not a socket'')
        (prepared (ConnectErr connection_refused) ''/t/file.txt'' (Some (file_of RegularFile))) \<and>
      keeps ''/t/file.txt'' (file_of RegularFile)
        (prepared (ConnectErr connection_refused) ''/t/file.txt'' (Some (file_of RegularFile))))"

lemma path_tests:
  test_open_listener_replaces_stale_socket test_open_listener_refuses_to_delete_non_socket test_prepare_socket_path
  by code_simp+

subsection \<open>The instance lock\<close>

definition in_use_text :: "string \<Rightarrow> string" where
  "in_use_text path = fmt [path, '' is in use by another instance (lock '', path, ''.lock held)'']"

definition locked_by :: "nat \<Rightarrow> os \<Rightarrow> (io_error + unit) \<times> os" where
  "locked_by pid s = acquire_instance_lock (test_world pid (ConnectErr connection_refused) no_fault) ''/t/lock.sock'' s"

definition dropped_by :: "nat \<Rightarrow> os \<Rightarrow> os" where
  "dropped_by pid s = release_lock (test_world pid (ConnectErr connection_refused) no_fault) ''/t/lock.sock'' s"

definition test_acquire_instance_lock :: bool where
  "test_acquire_instance_lock =
     (fst (locked_by 1 (test_files [])) = Inr () \<and>
      fails_with (\<lambda>t. t = in_use_text ''/t/lock.sock'') (locked_by 1 (snd (locked_by 1 (test_files [])))) \<and>
      map_option (\<lambda>i. ino_mode i AND 511) (os_files (snd (locked_by 1 (test_files []))) ''/t/lock.sock.lock'') = Some 384 \<and>
      os_files (dropped_by 1 (snd (locked_by 1 (test_files [])))) ''/t/lock.sock.lock'' \<noteq> None \<and>
      fst (locked_by 1 (dropped_by 1 (snd (locked_by 1 (test_files []))))) = Inr ())"

definition test_acquire_instance_lock_refuses_symlink :: bool where
  "test_acquire_instance_lock_refuses_symlink =
     (fails_with (str_contains ''/t/lock.sock.lock'') (locked_by 1 (test_files [(''/t/lock.sock.lock'', file_of SymlinkFile)])) \<and>
      os_files (snd (locked_by 1 (test_files [(''/t/lock.sock.lock'', file_of SymlinkFile)]))) ''/t/target'' = None)"

definition test_acquire_instance_lock_unreadable :: bool where
  "test_acquire_instance_lock_unreadable =
     fails_with (str_contains ''/t/lock.sock.lock'')
       (acquire_instance_lock (test_world 1 ConnectOk (fault_at 0 eacces)) ''/t/lock.sock''
         (test_files [(''/t/lock.sock.lock'', file_of RegularFile)]))"

text \<open>The kernel drops a killed child's lock.\<close>

definition test_lock_released_on_sigkill :: bool where
  "test_lock_released_on_sigkill =
     (fst (locked_by 2 (test_files [])) = Inr () \<and>
      isl (fst (locked_by 1 (snd (locked_by 2 (test_files []))))) \<and>
      fst (locked_by 1 (dropped_by 2 (snd (locked_by 1 (snd (locked_by 2 (test_files []))))))) = Inr ())"

lemma lock_tests:
  test_acquire_instance_lock test_acquire_instance_lock_refuses_symlink test_acquire_instance_lock_unreadable
  test_lock_released_on_sigkill
  by code_simp+

definition racers :: deployment where
  "racers = \<lparr>dp_world = (\<lambda>p. test_world p (ConnectErr connection_refused) no_fault), dp_addr = ''/t/c0.sock'',
     dp_gid = (\<lambda>_. None)\<rparr>"

text \<open>All eight open the lock file, then each takes its next calls in turn; the winner goes on to listen.\<close>

definition race_schedule :: "inst_label list" where
  "race_schedule = map Launch [0..<8] @ map Move [0..<8] @ map Move [0..<8] @ replicate 4 (Move 0)"

definition test_open_listener_concurrent :: bool where
  "test_open_listener_concurrent =
     (case inst_run racers (powered_off (test_files [])) race_schedule of
        None \<Rightarrow> False
      | Some s \<Rightarrow> in_point s 0 = Listening \<and>
          list_all (\<lambda>p. in_point s p = Exited (Some (new_io_error AddrInUse (in_use_text ''/t/c0.sock'')))) [1..<8])"

lemma race_test: test_open_listener_concurrent
  by code_simp

subsection \<open>Binding\<close>

definition eperm :: io_error where
  "eperm = os_err PermissionDenied EPERM"

definition bound :: "world \<Rightarrow> 32 word option \<Rightarrow> os \<Rightarrow> (io_error + unit) \<times> os" where
  "bound w gid s = bind_unix_listener w ''/t/p.sock'' gid s"

definition permissions :: "os \<Rightarrow> mode_t option" where
  "permissions s = map_option (\<lambda>i. ino_mode i AND 511) (os_files s ''/t/p.sock'')"

definition test_bind_unix_listener_binds_fresh_path :: bool where
  "test_bind_unix_listener_binds_fresh_path =
     (fst (bound plain_world None (test_files [])) = Inr () \<and>
      os_files (snd (bound plain_world None (test_files []))) ''/t/p.sock'' \<noteq> None)"

definition test_bind_applies_socket_mode :: bool where
  "test_bind_applies_socket_mode = (permissions (snd (bound plain_world None (test_files []))) = Some 432)"

definition test_bind_ignores_ambient_umask :: bool where
  "test_bind_ignores_ambient_umask =
     (permissions (snd (bound plain_world None ((test_files [])\<lparr>os_umask := 0\<rparr>))) = Some 432 \<and>
      map_option (\<lambda>m. m AND 2) (permissions (snd (bound plain_world None ((test_files [])\<lparr>os_umask := 0\<rparr>)))) = Some 0)"

text \<open>The process is no member of group 0: its second call, the \<open>chown\<close>, is refused.\<close>

definition unprivileged :: world where
  "unprivileged = test_world 1 (ConnectErr connection_refused) (fault_at 1 eperm)"

definition test_bind_chown_eperm_names_group :: bool where
  "test_bind_chown_eperm_names_group =
     (fails_with (str_contains ''the proxy's user must be a member of it'') (bound unprivileged (Some 0) (test_files [])) \<and>
      os_files (snd (bound unprivileged (Some 0) (test_files []))) ''/t/p.sock'' = None)"

lemma bind_tests:
  test_bind_unix_listener_binds_fresh_path test_bind_applies_socket_mode test_bind_ignores_ambient_umask
  test_bind_chown_eperm_names_group
  by code_simp+

subsection \<open>Shutdown\<close>

text \<open>
  The listener task runs from a bound socket. The slow transport answers when the schedule says so:
  the request stands at the stage that waits for it while the signal arrives.
\<close>

definition SlowTransport :: transport where
  "SlowTransport sent req = Inr (respond 418 ''teapot'')"

definition test_handler :: handler where
  "test_handler = new_handler (new_router \<lparr>policies_by_name = []\<rparr>) chain_new SlowTransport"

definition test_server_env :: server_env where
  "test_server_env = \<lparr>se_env = test_env read_nothing, se_handler = test_handler, se_world = plain_world,
     se_addr = ''/t/p.sock''\<rparr>"

definition spawned :: server where
  "spawned = serving fresh_state (snd (bound plain_world None (test_files [])))"

definition after_run :: "label list \<Rightarrow> (server \<Rightarrow> bool) \<Rightarrow> bool" where
  "after_run ls P = (case exec_steps test_server_env spawned ls of None \<Rightarrow> False | Some s \<Rightarrow> P s)"

definition is_finished :: "server \<Rightarrow> bool" where
  "is_finished s \<longleftrightarrow> sv_phase s = Finished"

definition test_listener_shuts_down_promptly_when_idle :: bool where
  "test_listener_shuts_down_promptly_when_idle = after_run [Signal, Notice, Drained] is_finished"

definition get_over_unix :: "string \<Rightarrow> incoming" where
  "get_over_unix target =
     \<lparr>in_method = ''GET'',
      in_uri = \<lparr>uri_text = target, uri_path = fst (split_target target), uri_path_and_query = Some target\<rparr>,
      in_version = 11, in_headers = [(''host'', ''localhost'')], in_body = Inr []\<rparr>"

definition stalled :: "label list" where
  "stalled = [Accept, Request 0 (get_over_unix ''/_ping''), Advance 0, Advance 0]"

definition drained_run :: "label list" where
  "drained_run = stalled @ [Signal, Notice, Graceful 0, Advance 0, Advance 0]"

fun waits_for_daemon :: "connection list \<Rightarrow> bool" where
  "waits_for_daemon [c] \<longleftrightarrow> map_option snd (cn_busy c) = Some (AwaitForward (forwarded (get_over_unix ''/_ping'') []))"
| "waits_for_daemon cs \<longleftrightarrow> False"

fun has_reply :: "nat \<Rightarrow> string \<Rightarrow> connection list \<Rightarrow> bool" where
  "has_reply status body [c] \<longleftrightarrow> map_option snd (cn_busy c) = Some (Replied (Responded (respond status body)))"
| "has_reply status body cs \<longleftrightarrow> False"

definition test_listener_drains_in_flight_request :: bool where
  "test_listener_drains_in_flight_request =
     (after_run stalled (\<lambda>s. waits_for_daemon (sv_conns s)) \<and>
      after_run drained_run (\<lambda>s. has_reply 418 ''teapot'' (sv_conns s)) \<and>
      after_run (drained_run @ [Respond 0, Drained]) is_finished)"

definition has_socket :: "server \<Rightarrow> bool" where
  "has_socket s \<longleftrightarrow> os_files (sv_os s) ''/t/p.sock'' \<noteq> None"

definition test_listener_unlinks_socket_on_shutdown :: bool where
  "test_listener_unlinks_socket_on_shutdown =
     (after_run [] has_socket \<and> after_run [Signal, Notice, Drained] (\<lambda>s. is_finished s \<and> \<not> has_socket s))"

definition test_listener_releases_idle_keepalive_connection :: bool where
  "test_listener_releases_idle_keepalive_connection =
     after_run [Accept, Signal, Notice, Graceful 0, Drained] is_finished"

lemma shutdown_tests:
  test_listener_shuts_down_promptly_when_idle test_listener_unlinks_socket_on_shutdown
  test_listener_releases_idle_keepalive_connection
  by code_simp+

lemma drain_test: test_listener_drains_in_flight_request
  by code_simp

end
