(* ===== verification/Spec2Isabelle.thy ===== *)
theory Spec2Isabelle
  imports Policy_Properties Gate_Properties Router_Properties Listener_Properties Lifecycle
    Policy_Conformance Gate_Conformance Router_Conformance Handler_Conformance System_Conformance
begin

text \<open>
  \<^bold>\<open>docker-socket-policy, the Rust proxy (src/rs/src).\<close>

  The program listens on a Unix socket, reads HTTP requests meant for the Docker daemon and forwards
  only those that a set of policies permits. Its parts and how they interact:

  \<^item> \<open>main.rs\<close> validates the addresses, loads the policies, opens the listening socket under an
    instance lock, accepts connections and shuts down on a signal. It gives each request to the handler.
  \<^item> \<open>handler.rs\<close> refuses CONNECT and protocol upgrades, asks the router for a decision, resolves a
    container with the daemon where its name alone does not decide, runs the middleware chain on a
    container create, writes the audit entry and forwards through the transport.
  \<^item> \<open>proxy.rs\<close> is the router: the checks on method and path, then one decision per endpoint.
  \<^item> \<open>middleware.rs\<close> holds the chain for a container create: one mutator, which forces what the
    policy fixes, and six gates, the first of which to fail denies.
  \<^item> \<open>policy.rs\<close> holds the policies, their validation, the manager that selects among them, and
    the parser of image references. \<open>audit.rs\<close> writes the log, \<open>transport.rs\<close> talks to
    the daemon.

  \<^bold>\<open>Theories.\<close>

  \<^item> \<open>Dsp_Prelude\<close>: results, loops with early return, the collections of simplification rules.
    \<open>Rust_Strings\<close>, \<open>Rust_Maps\<close>, \<open>Regexes\<close>, \<open>Json\<close>: what the sources use of the
    standard library, the anchored constant patterns with a derivative matcher proved correct, JSON
    values, and \<open>externs\<close>, the record of third-party functions.
  \<^item> \<open>Image_Ref\<close>, \<open>Policy\<close>: \<open>policy.rs\<close>. A \<open>policy\<close> is the record of the source; a
    manager is the \<open>BTreeMap\<close> of policies. \<open>new_manager\<close> loads and checks a directory,
    \<open>select_for_create\<close> and \<open>covering\<close> are the two queries.
  \<^item> \<open>Field_Checks\<close>, \<open>Cmd_Gate\<close>, \<open>Mount_Gate\<close>, \<open>HostConfig_Gate\<close>,
    \<open>Network_Mutator\<close>, \<open>Chain\<close>: \<open>middleware.rs\<close>. A gate is a function from the
    externs, a policy and a body to \<open>Inr ()\<close> or an error text; each has a specification that does
    not mention loops or messages, and is shown equivalent to it.
  \<^item> \<open>Url_Encoding\<close>, \<open>Router\<close>: \<open>proxy.rs\<close> and \<open>path_escape\<close> of \<open>handler.rs\<close>.
  \<^item> \<open>Audit_Log\<close>, \<open>Transport\<close>, \<open>Handler\<close>: \<open>audit.rs\<close>, \<open>transport.rs\<close>,
    \<open>handler.rs\<close>. The state of a handler is the audit log and the list of the requests given to the
    transport, so that a property can speak of all that the daemon receives. \<open>Stages\<close> is the same
    \<open>async fn\<close> as a coroutine: a \<open>stage\<close> is an \<open>await\<close> at which it gives up control or is
    dropped, \<open>resume\<close> is one poll, and polled to the end it is \<open>handle\<close>. \<open>accounted\<close> says
    what a request sent to the daemon must be, given the requests of the clients and the requests sent
    before it, from which the answers of the daemon follow.
  \<^item> \<open>Listener\<close>, \<open>Instances\<close>, \<open>Server\<close>, \<open>Lifecycle\<close>: \<open>main.rs\<close>. Start-up is a
    function over an explicit file system, umask and lock table in which every system call may fail;
    \<open>inst_step\<close> is the same start-up by any number of processes whose calls interleave, with stops,
    kills and restarts; serving is the labelled step relation \<open>step\<close>, in which the requests of all
    connections advance stage by stage; \<open>life_step\<close> is the abstract machine it implements. Both
    relations have an executable counterpart (\<open>exec_step\<close>, \<open>inst_exec\<close>), so runs are evaluated.
  \<^item> \<open>Runs\<close>: runs of labelled step relations, and how invariants, execution and simulation lift
    from steps to runs.
  \<^item> \<open>Policy_Properties\<close>, \<open>Gate_Properties\<close>, \<open>Router_Properties\<close>,
    \<open>Listener_Properties\<close> and this theory: the properties, on \<open>Sample\<close>, a small deployment on
    which the hypotheses are shown to hold.
  \<^item> \<open>Policy_Conformance\<close>, \<open>Gate_Conformance\<close>, \<open>Router_Conformance\<close>,
    \<open>Handler_Conformance\<close>, \<open>System_Conformance\<close>: the unit tests of all seven files, row by row,
    evaluated on the model inside the logic. They tie the definitions to the behaviour the authors
    expect, in the same tables as the sources; mock transports are transports of the model, temporary
    directories are states of its operating system, threads and tasks are schedules of its steps.

  \<^bold>\<open>Interfaces.\<close> \<open>map_spec\<close> and its extension \<open>sorted_map_spec\<close> are what clients use of
  \<open>HashMap\<close> and \<open>BTreeMap\<close>; \<open>gate\<close> is a gate with its specification, interpreted six
  times; \<open>gate_chain\<close> composes gates and is interpreted on \<open>chain_new\<close>;
  \<open>policy_selection\<close> is what the router relies on in the manager; \<open>keeps_invariant\<close> and its
  extensions \<open>executable\<close>, \<open>simulation\<close> and \<open>potential\<close> (a bound on the steps of a run) are
  interpreted on the server and on the starting instances.

  \<^bold>\<open>What is shown.\<close> Nothing reaches the daemon but what a policy justifies: in any interleaving of
  connections each request sent is accounted for by a request of a client of the run and, where the name
  of a container does not decide, by an answer the daemon gave in the run before. In every run of a proxy
  that \<open>start\<close> brought up, a forwarded create is safe as the daemon reads it, case variants of field
  names included, and in read-only mode only reads are forwarded. Every decision is audited, and in any
  interleaving, with requests dropped anywhere, logged before the request is sent, and no request is
  sent twice; the log file holds the lines of the decisions, cut where a write failed. A start that fails
  leaves no lock behind, changes nothing but the socket and its lock file, and creates at most the log. A loaded configuration is unambiguous; each gate and the chain are equivalent to their
  specifications; the mutator forces the policy's values, is idempotent (\<open>mutator_idem\<close>) and keeps
  bodies well formed (\<open>body_wf_mutator\<close>); parsing of image references, queries and path escapes is characterised; the socket
  never has a wider group or mode than intended at any moment between system calls and only stale sockets
  are removed; of any number of processes one owns the socket, undisturbed by the others, and a race has
  exactly one winner; the server refines the abstract life cycle; its drain is bounded in every
  schedule and never stuck once all connections are told, and one interleaving is exhibited in which a
  late connection holds it.

  \<^bold>\<open>Bounds.\<close> No fuel is used: every loop of the sources is a structural recursion or has a measure,
  and the server, which need not end, is a relation. Six polls finish every request, ten calls every
  start-up, eight steps every connection of a draining server and every request it still
  takes; each bound is proved enough. Group ids are compared in the range of the source (\<open>MAX_SOCKET_GID\<close>); modes and the
  umask are words.

  \<^bold>\<open>Parameters.\<close> The regex engine for patterns of policy files, the YAML and JSON parsers, the
  serialiser, the \<open>http\<close> crate's URI parser, the daemon, the clock, the random generator, the group
  database and the faults of system calls. What a property needs of one of them is among its
  hypotheses.

  \<^bold>\<open>Not modelled.\<close> Trace messages; hyper's and tokio's internals; durations (the accept back-off, the
  probe's and the drain's deadline: a step may come at any time); poisoning of the audit mutex; a
  \<open>listen\<close> that fails after its \<open>bind\<close> (they are one call of the model); symbolic links in the
  log's path; the
  command-line parser, whose result is a \<open>cli\<close> record, and its two tests; the YAML parser, the
  deserialisers that \<open>serde\<close> derives (the one written by hand, \<open>group_list\<close>, is modelled) and the
  tests of \<open>policy.rs\<close> that only deserialise. The Go and TypeScript implementations, the Quint
  specifications, and the deployment files are other programs.
\<close>

section \<open>Properties of the whole proxy\<close>

text \<open>
  C1. Every request the handler gives to the transport, beyond the ones before, is an inspection of
  the container a write names, or the client's own request once, and then the request passed the
  path checks and is justified: a read, a create the chain allowed (with the chain's body), an
  accepted pull, or an action on a container a policy covers.
\<close>

theorem forwards_only_justified:
  "\<exists>ins fwd. hs_sent (snd (handle e h st rq)) = hs_sent st @ ins @ fwd \<and> inspection h rq ins \<and>
     (fwd = [] \<or> (\<exists>body body'. fwd = [forwarded rq body'] \<and> passes h rq body \<and>
        justified e h st (in_method rq) (target_of (in_uri rq)) body body'))"
proof -
  have none: "inspection h rq []" by (simp add: inspection_def)
  from handle_results[of e h st rq] show ?thesis
    unfolding handle_result_def
  proof (elim disjE exE conjE)
    assume "snd (handle e h st rq) = st"
    with none show ?thesis by (intro exI [of _ "[]"]) simp
  next
    fix ins
    assume "inspection h rq ins" "hs_sent (snd (handle e h st rq)) = hs_sent st @ ins"
    then show ?thesis by (intro exI [of _ ins] exI [of _ "[]"]) simp
  next
    fix ins body body'
    assume "inspection h rq ins" "passes h rq body"
      "justified e h st (in_method rq) (target_of (in_uri rq)) body body'"
      "hs_sent (snd (handle e h st rq)) = hs_sent st @ ins @ [forwarded rq body']"
    then show ?thesis by blast
  qed auto
qed

text \<open>
  C2. In every run of a proxy that has started, every request the daemon receives is an inspection or
  a client's request, and when that is a container create it carries the serialised body of a policy
  of the manager that passed all six gates, whose \<open>HostConfig\<close> the daemon reads as not privileged
  and, field by field, as what the gates checked. This needs that serialisation succeeds and that the
  JSON parser returns well-formed bodies.
\<close>

theorem create_forward_safe:
  assumes "start ho c s = (Running h st, s')" and "se_handler e = h"
    and "\<And>b. json_to_vec (he_externs (se_env e)) b \<noteq> None"
    and "\<forall>bs b. json_map_from_slice (he_externs (se_env e)) bs = Some b \<longrightarrow> body_wf b"
    and "steps e (serving st s') ls t"
  shows "list_all (\<lambda>r. (\<exists>name. r = inspect_request name) \<or>
    (\<exists>rq\<in>set (requests ls). \<exists>body. r = forwarded rq body \<and>
      (in_method rq = ''POST'' \<and> api_path (target_of (in_uri rq)) = ''/containers/create'' \<longrightarrow>
        (\<exists>p b. p \<in> set (policies (router_manager (h_router h))) \<and>
          json_to_vec (he_externs (se_env e)) b = Some body \<and> create_safe (he_externs (se_env e)) p b))))
    (hs_sent (sv_handler t))"
proof (rule started_run[OF assms(1,5,2)])
  fix pre r
  assume "accounted (se_env e) h (set (requests ls)) pre r"
  then consider (inspect) cid where "r = inspect_request cid"
    | (forward) rq body body' where "rq \<in> set (requests ls)" "may_forward (se_env e) h pre rq body body'" "r = forwarded rq body'"
    unfolding accounted_def by blast
  then show "(\<exists>name. r = inspect_request name) \<or> (\<exists>rq\<in>set (requests ls). \<exists>body. r = forwarded rq body \<and>
      (in_method rq = ''POST'' \<and> api_path (target_of (in_uri rq)) = ''/containers/create'' \<longrightarrow>
        (\<exists>p b. p \<in> set (policies (router_manager (h_router h))) \<and>
          json_to_vec (he_externs (se_env e)) b = Some body \<and> create_safe (he_externs (se_env e)) p b)))"
  proof cases
    case forward
    have "\<exists>p b. p \<in> set (policies (router_manager (h_router h))) \<and>
        json_to_vec (he_externs (se_env e)) b = Some body' \<and> create_safe (he_externs (se_env e)) p b"
      if "in_method rq = ''POST'' \<and> api_path (target_of (in_uri rq)) = ''/containers/create''"
      using create_justified_safe[OF may_forward_create[OF forward(2)] started_handler(1)[OF assms(1)]] that assms(3,4)
      by blast
    with forward(1,3) show ?thesis by blast
  qed blast
qed

theorem create_forward_safe_witness:
  "\<exists>t p b. steps (started_env False) (serving sample_state opened_os) request_labels t \<and>
    json_to_vec sample_externs b = Some created_body \<and> create_safe sample_externs p b"
proof -
  have x: "he_externs (se_env (started_env False)) = sample_externs" by (simp add: started_env_simps sample_env_def)
  have ser: "json_to_vec (he_externs (se_env (started_env False))) b \<noteq> None" for b by (simp add: x sample_externs_def)
  have "body_wf sample_body" by code_simp
  then have wf: "\<forall>bs b. json_map_from_slice (he_externs (se_env (started_env False))) bs = Some b \<longrightarrow> body_wf b"
    by (simp add: x sample_externs_def)
  have rq: "in_method create_request = ''POST''" "api_path (target_of (in_uri create_request)) = ''/containers/create''"
    "requests request_labels = [create_request]"
    by code_simp+
  obtain t where t: "steps (started_env False) (serving sample_state opened_os) request_labels t"
    "map rq_body (hs_sent (sv_handler t)) = [created_body]"
    using sample_create_run by metis
  obtain r where r: "hs_sent (sv_handler t) = [r]" "rq_body r = created_body"
    using t(2) by (auto simp: map_eq_Cons_conv)
  have "created_body \<noteq> []" by (simp add: created_body_def)
  then have "\<not> (\<exists>name. r = inspect_request name)" using r(2) by (auto simp: inspect_request_def)
  with create_forward_safe[OF sample_start started_env_simps(1) ser wf t(1)] r(1) rq
  obtain p b where "json_to_vec sample_externs b = Some (rq_body r)" "create_safe sample_externs p b"
    unfolding x by (auto simp: forwarded_def)
  with t(1) r(2) show ?thesis by auto
qed

text \<open>
  C3. Every request but one with an unreadable body makes exactly one call of the audit log, with its
  method (what such a call leaves in the file is C29): a denial is answered 403 and forwards nothing but a possible inspection; an allowed request is
  forwarded and answered with the transport's reply, unless the request builder panics on the URI.
\<close>

theorem every_decision_audited:
  "(\<exists>err. in_body rq = Inl err \<and>
      handle e h st rq = (Responded (respond 400 ''failed to read request body''), st)) \<or>
   (\<exists>msg ins. fst (handle e h st rq) = Responded (respond 403 msg) \<and>
      logged st (snd (handle e h st rq)) ''DENY'' (in_method rq) \<and> inspection h rq ins \<and>
      hs_sent (snd (handle e h st rq)) = hs_sent st @ ins) \<or>
   (\<exists>ins body'. logged st (snd (handle e h st rq)) ''ALLOW'' (in_method rq) \<and> inspection h rq ins \<and>
      (fst (handle e h st rq) = Panicked \<and> hs_sent (snd (handle e h st rq)) = hs_sent st @ ins \<or>
       fst (handle e h st rq) = Responded (reply (h_transport h (hs_sent st @ ins) (forwarded rq body'))) \<and>
         hs_sent (snd (handle e h st rq)) = hs_sent st @ ins @ [forwarded rq body']))"
  using handle_results[of e h st rq] unfolding handle_result_def
proof (elim disjE)
  assume "\<exists>err. in_body rq = Inl err \<and> fst (handle e h st rq) = Responded (respond 400 ''failed to read request body'') \<and>
    snd (handle e h st rq) = st"
  then show ?thesis by (intro disjI1) (auto intro: prod_eqI)
next
  assume "\<exists>msg ins. fst (handle e h st rq) = Responded (respond 403 msg) \<and>
    logged st (snd (handle e h st rq)) ''DENY'' (in_method rq) \<and> inspection h rq ins \<and>
    hs_sent (snd (handle e h st rq)) = hs_sent st @ ins"
  then show ?thesis by (rule disjI2 [OF disjI1])
qed (intro disjI2, blast)

text \<open>
  C4. Whatever happens in a run of a proxy started in read-only mode, everything the daemon receives is
  a GET or a HEAD.
\<close>

theorem readonly_forwards_only_reads:
  assumes "start ho c s = (Running h st, s')" and "cli_readonly c" and "se_handler e = h"
    and "steps e (serving st s') ls t"
  shows "list_all (\<lambda>r. rq_method r \<in> {''GET'', ''HEAD''}) (hs_sent (sv_handler t))"
  by (rule started_run[OF assms(1,4,3)], erule accounted_readonly) (simp add: started_handler(2)[OF assms(1)] assms(2))

theorem readonly_forwards_only_reads_witness:
  "\<exists>t. steps (started_env True) (serving sample_state opened_os) readonly_labels t \<and>
     length (hs_sent (sv_handler t)) = 1 \<and> list_all (\<lambda>r. rq_method r \<in> {''GET'', ''HEAD''}) (hs_sent (sv_handler t))"
proof -
  obtain t where t: "steps (started_env True) (serving sample_state opened_os) readonly_labels t"
    "length (hs_sent (sv_handler t)) = 1"
    using sample_readonly_run by blast
  have "cli_readonly (sample_cli True)" by (simp add: sample_cli_def)
  from readonly_forwards_only_reads[OF sample_start this started_env_simps(1) t(1)] t show ?thesis by blast
qed

text \<open>
  C5. In every run of the server, nothing a client sent reaches the daemon as CONNECT, with an upgrade
  header, with an escape, an empty or a dot segment in its path, or on the auth, build, commit, exec or
  attach endpoints.
\<close>

theorem denied_endpoints_unreachable:
  assumes "steps e (serving hs s0) ls s"
  shows "\<exists>fwd. hs_sent (sv_handler s) = hs_sent hs @ fwd \<and>
     list_all (\<lambda>r. (\<exists>name. r = inspect_request name) \<or>
       (\<exists>rq\<in>set (requests ls). \<exists>body. r = forwarded rq body \<and> in_method rq \<noteq> ''CONNECT'' \<and>
          \<not> is_upgrade_request (in_headers rq) \<and> plain_path (target_path (target_of (in_uri rq))) \<and>
          \<not> denied_path (api_path (target_of (in_uri rq))))) fwd"
  using run_accounts(1)[OF assms]
  by (rule accounts_all) (auto simp: accounted_def may_forward_def passes_def)

theorem denied_endpoints_unreachable_witness:
  "\<exists>s r. steps sample_server_env (serving sample_state opened_os) request_labels s \<and> hs_sent (sv_handler s) = [r] \<and>
     ((\<exists>name. r = inspect_request name) \<or>
       (\<exists>body. r = forwarded create_request body \<and> \<not> denied_path (api_path (target_of (in_uri create_request)))))"
proof -
  obtain s where run: "steps sample_server_env (serving sample_state opened_os) request_labels s"
    "length (hs_sent (sv_handler s)) = 1"
    using sample_request_run by blast
  obtain r where r: "hs_sent (sv_handler s) = [r]" using run(2) by (auto simp: length_Suc_conv)
  have "requests request_labels = [create_request]" "hs_sent sample_state = []" by code_simp+
  with denied_endpoints_unreachable[OF run(1)] r
  have "(\<exists>name. r = inspect_request name) \<or>
      (\<exists>body. r = forwarded create_request body \<and> \<not> denied_path (api_path (target_of (in_uri create_request))))" by auto
  with run(1) r show ?thesis by blast
qed

text \<open>
  C6. In every run of the server, however accepts, the stages of requests on different connections,
  signals, closing clients and the deadline interleave, and wherever a request is dropped: each request
  the daemon receives is an inspection of the container that a client's write names, or a request of a
  client of this run that passed the path checks and is permitted by what was sent before it: a read, a
  create the chain allowed, with the chain's body, an accepted pull, or an action on a container that a
  policy covers by name or by the answer that the daemon gave to an inspection sent before.
\<close>

theorem server_run_accounted:
  assumes "steps e (serving hs s0) ls s"
  shows "\<exists>fwd. hs_sent (sv_handler s) = hs_sent hs @ fwd \<and>
    (\<forall>k<length fwd. accounted (se_env e) (se_handler e) (set (requests ls)) (hs_sent hs @ take k fwd) (fwd ! k))"
  using run_accounts(1)[OF assms] by (simp add: accounts_def)

theorem server_run_accounted_witness:
  "\<exists>s r. steps sample_server_env (serving sample_state opened_os) request_labels s \<and> hs_sent (sv_handler s) = [r] \<and>
    accounted sample_env (sample_handler False) {create_request} [] r"
proof -
  obtain s where run: "steps sample_server_env (serving sample_state opened_os) request_labels s"
    "length (hs_sent (sv_handler s)) = 1"
    using sample_request_run by blast
  obtain r where r: "hs_sent (sv_handler s) = [r]" using run(2) by (auto simp: length_Suc_conv)
  have "requests request_labels = [create_request]" "hs_sent sample_state = []" by code_simp+
  with server_run_accounted[OF run(1)] r have "accounted sample_env (sample_handler False) {create_request} [] r"
    by (auto simp: sample_server_env_def)
  with run(1) r show ?thesis by blast
qed

text \<open>
  C23. In every run of the server, whatever interleaves and wherever requests are dropped, each
  request of a client that has reached the daemon was given to the audit log before, and none is sent
  twice: the forwards outnumber neither the \<open>ALLOW\<close> entries nor the requests that clients made.
\<close>

theorem logged_before_forwarded:
  assumes "steps e (serving hs s0) ls s"
  shows "forwards (sv_handler s) + allows hs \<le> forwards hs + allows (sv_handler s) \<and>
    forwards (sv_handler s) \<le> forwards hs + length (requests ls)"
  using run_counts[OF assms serving_ids_ok serving_stages_ok order_refl] by (simp add: all_weight_def serving_def)

theorem logged_before_forwarded_witness:
  "\<exists>s. steps sample_server_env (serving sample_state opened_os) request_labels s \<and> length (hs_sent (sv_handler s)) = 1 \<and>
    forwards (sv_handler s) \<le> allows (sv_handler s) \<and> forwards (sv_handler s) \<le> 1"
proof -
  obtain s where run: "steps sample_server_env (serving sample_state opened_os) request_labels s"
    "length (hs_sent (sv_handler s)) = 1"
    using sample_request_run by blast
  have "forwards sample_state = 0" "allows sample_state = 0" "length (requests request_labels) = 1" by code_simp+
  with logged_before_forwarded[OF run(1)] run show ?thesis by auto
qed

text \<open>
  C29. In every run of the server the audit log is only added to, and by decisions alone. The file gets
  the line of each new entry, in order, cut short where its write failed; the requests of clients that
  reach the daemon are no more than the new \<open>ALLOW\<close> entries. So while no write fails, the file holds
  a complete line for every request that was sent on.
\<close>

theorem log_file_holds_decisions:
  assumes "steps e (serving hs s0) ls s"
  shows "\<exists>new. al_entries (hs_audit (sv_handler s)) = al_entries (hs_audit hs) @ new \<and>
    al_file (hs_audit (sv_handler s)) = al_file (hs_audit hs) @
      written (he_externs (se_env e)) (he_audit (se_env e)) (length (al_entries (hs_audit hs))) new \<and>
    list_all (\<lambda>a. ae_decision a \<in> {''ALLOW'', ''DENY''}) new \<and>
    forwards (sv_handler s) \<le> forwards hs + length (filter (\<lambda>a. ae_decision a = ''ALLOW'') new) \<and>
    ((\<forall>k. av_write_error (he_audit (se_env e)) k = None) \<longrightarrow>
      al_file (hs_audit (sv_handler s)) = al_file (hs_audit hs) @ concat (map (audit_line (he_externs (se_env e))) new))"
proof -
  from run_logs[OF assms] obtain new where
    new: "al_entries (hs_audit (sv_handler s)) = al_entries (hs_audit hs) @ new"
      "al_file (hs_audit (sv_handler s)) = al_file (hs_audit hs) @
        written (he_externs (se_env e)) (he_audit (se_env e)) (length (al_entries (hs_audit hs))) new"
      "list_all (\<lambda>a. ae_decision a \<in> {''ALLOW'', ''DENY''}) new"
    unfolding logs_more_def logs_def serving_def by auto
  have "forwards (sv_handler s) + allows hs \<le> forwards hs + allows (sv_handler s)"
    using run_counts[OF assms serving_ids_ok serving_stages_ok order_refl] by (simp add: all_weight_def serving_def)
  with new(1) have "forwards (sv_handler s) \<le> forwards hs + length (filter (\<lambda>a. ae_decision a = ''ALLOW'') new)"
    by (simp add: allows_def)
  with new written_all show ?thesis by (metis (no_types, lifting))
qed

theorem log_file_holds_decisions_witness:
  "\<exists>s new. steps sample_server_env (serving sample_state opened_os) request_labels s \<and> length (hs_sent (sv_handler s)) = 1 \<and>
    al_entries (hs_audit (sv_handler s)) = new \<and> al_file (hs_audit (sv_handler s)) = concat (map (audit_line sample_externs) new)"
proof -
  obtain s where run: "steps sample_server_env (serving sample_state opened_os) request_labels s"
    "length (hs_sent (sv_handler s)) = 1"
    using sample_request_run by blast
  have env: "he_externs (se_env sample_server_env) = sample_externs"
    "\<forall>k. av_write_error (he_audit (se_env sample_server_env)) k = None"
    by (simp_all add: sample_server_env_def sample_env_def sample_audit_def)
  have "al_entries (hs_audit sample_state) = []" "al_file (hs_audit sample_state) = []" by (simp_all add: sample_state_def)
  with log_file_holds_decisions[OF run(1)] env have
    "al_file (hs_audit (sv_handler s)) = concat (map (audit_line sample_externs) (al_entries (hs_audit (sv_handler s))))"
    by auto
  with run show ?thesis by blast
qed

text \<open>
  C28. Polled to its end, which takes at most six polls, the coroutine of a request answers what
  \<open>handle\<close> answers and leaves the log and the daemon as \<open>handle\<close> does.
\<close>

theorem coroutine_implements_handle:
  "resumes e h rq 6 (Arrived, st) = (Replied (fst (handle e h st rq)), snd (handle e h st rq))"
  using resumes_handle[of e h rq 0 st] by (simp add: replied_def)

text \<open>
  C19. A proxy that starts serves on an absolute path, with the six-gate chain, the read-only switch
  of the command line and a manager in which no create is ambiguous; it holds the instance lock, has
  sent nothing yet, and its socket belongs to the selected group with mode 0660, unless that group is the
  reserved 4294967295, which no number on the command line selects.
\<close>

theorem started_proxy_configured:
  assumes "start ho c s = (Running h st, s')"
  shows "starts_with (listen_socket c) ''/'' \<and> h_chain h = chain_new \<and>
    router_readonly (h_router h) = cli_readonly c \<and> unambiguous (router_manager (h_router h)) \<and> hs_sent st = [] \<and>
    (\<exists>gid warning. select_socket_group (listen_socket_group c) (resolve_group (ho_world ho)) (w_egid (ho_world ho))
        = Inr (gid, warning) \<and>
      (gid \<noteq> - 1 \<longrightarrow> os_locks s' (lock_path (listen_socket c)) = Some (w_pid (ho_world ho)) \<and>
        os_files s' (listen_socket c) = Some \<lparr>ino_kind = SocketFile, ino_mode = SOCKET_MODE, ino_gid = gid\<rparr>))"
  using assms
proof (rule start_Running)
  fix m gid warning l s1
  assume *: "starts_with (listen_socket c) ''/''"
    "select_socket_group (listen_socket_group c) (resolve_group (ho_world ho)) (w_egid (ho_world ho)) = Inr (gid, warning)"
    "new_manager (ho_yaml ho) (ho_config ho) (config_dir c) = Inr m" "h = start_handler ho c m"
    "st = \<lparr>hs_audit = l, hs_sent = []\<rparr>"
    "open_listener (ho_world ho) (listen_socket c) (Some gid) s1 = (Inr (), s')"
  have "unambiguous m" using *(3) by (rule new_manager_unambiguous)
  with * open_success[OF *(6)] show ?thesis
    by (auto simp: start_handler_def new_handler_def with_readonly_def new_router_def)
qed

theorem started_proxy_configured_witness:
  "\<exists>h st s'. start sample_host (sample_cli True) sample_os = (Running h st, s') \<and> h_chain h = chain_new \<and>
    router_readonly (h_router h) \<and> unambiguous (router_manager (h_router h)) \<and> hs_sent st = []"
proof -
  obtain h st s' where run: "start sample_host (sample_cli True) sample_os = (Running h st, s')"
    using sample_start by blast
  have "cli_readonly (sample_cli True)" by (simp add: sample_cli_def)
  with started_proxy_configured[OF run] run show ?thesis by simp
qed

text \<open>
  C17. A start that does not lead to serving ends the process, with exit code 2 exactly when the listen
  socket is no absolute path, the Docker host is refused or the group cannot be resolved, and with 1 or a
  panic otherwise. It holds no lock that it did not hold before and restores the umask. Besides the socket
  and its lock file it changes no file; it only creates the log, or \<open>/dev/null\<close> in its place, where
  there was none. With any code but 1 it has touched nothing at all.
\<close>

theorem failed_start_is_clean:
  assumes "start ho c s = (r, s')" and "\<forall>h st. r \<noteq> Running h st"
  shows "r \<in> {startup.Exited 2, startup.Exited 1, StartPanic} \<and>
    (r = startup.Exited 2 \<longleftrightarrow> \<not> starts_with (listen_socket c) ''/'' \<or> isl (validate_docker_host (docker_host c)) \<or>
       isl (select_socket_group (listen_socket_group c) (resolve_group (ho_world ho)) (w_egid (ho_world ho)))) \<and>
    os_locks s' = os_locks s \<and> os_umask s' = os_umask s \<and>
    (\<forall>q. q \<notin> {listen_socket c, lock_path (listen_socket c)} \<longrightarrow> os_files s' q = os_files s q \<or>
       created_file s s' q \<and> q \<in> {log_file c, ''/dev/null''}) \<and>
    (r \<noteq> startup.Exited 1 \<longrightarrow> s' = s)"
  using assms
proof (cases rule: start_failed)
  case (failed gid)
  note frame = start_proxy_failed_frame[OF failed(1) assms(2)]
  have "r = startup.Exited 1 \<or> r = StartPanic" "r \<noteq> startup.Exited 2" "r \<noteq> startup.Exited 1 \<longrightarrow> s' = s"
    using frame(1) by auto
  with failed(2-4) frame(2-4) show ?thesis by blast
qed auto

theorem failed_start_is_clean_witness:
  "\<exists>r s'. start sample_host ((sample_cli False)\<lparr>listen_socket := ''proxy.sock''\<rparr>) sample_os = (r, s') \<and>
     r = startup.Exited 2 \<and> s' = sample_os"
proof -
  obtain r s' where run: "start sample_host ((sample_cli False)\<lparr>listen_socket := ''proxy.sock''\<rparr>) sample_os = (r, s')"
    by (cases "start sample_host ((sample_cli False)\<lparr>listen_socket := ''proxy.sock''\<rparr>) sample_os")
  have bad: "\<not> starts_with ''proxy.sock'' ''/''" by code_simp
  have "\<forall>h st. r \<noteq> Running h st"
  proof (intro allI notI)
    fix h st
    assume "r = Running h st"
    with run have "start sample_host ((sample_cli False)\<lparr>listen_socket := ''proxy.sock''\<rparr>) sample_os = (Running h st, s')" by simp
    then show False by (rule start_Running) (simp add: bad)
  qed
  from failed_start_is_clean[OF run this] bad run show ?thesis by simp
qed

text \<open>
  C35. The server implements the abstract life cycle: every run, step by step, is a run of the machine
  that accepts, stops accepting, closes connections and ends, and the instance lock is held exactly
  until the end.
\<close>

theorem server_implements_life_cycle:
  assumes "steps e (serving hs s0) ls s" and "os_locks s0 (lock_path (se_addr e)) = Some (w_pid (se_world e))"
  shows "(\<exists>ms. length ms = length ls \<and> life_run (life_of e (serving hs s0)) ms (life_of e s)) \<and>
    (os_locks (sv_os s) (lock_path (se_addr e)) = Some (w_pid (se_world e))) = (sv_phase s \<noteq> Finished)"
proof -
  have r: "server_inv e s0 s \<and> (\<exists>ms. length ms = length ls \<and> life_run (life_of e (serving hs s0)) ms (life_of e s))"
    using assms by (intro server_refines_life serving_inv)
  moreover from this have "(os_locks (sv_os s) (lock_path (se_addr e)) = Some (w_pid (se_world e))) = (sv_phase s \<noteq> Finished)"
    by (auto simp: server_inv_def lock_ok_def)
  ultimately show ?thesis by blast
qed

theorem server_implements_life_cycle_witness:
  "\<exists>s ms. steps sample_server_env (serving sample_state opened_os) [Accept, Signal, Notice] s \<and> length ms = 3 \<and>
    life_run (life_of sample_server_env (serving sample_state opened_os)) ms (life_of sample_server_env s) \<and>
    os_locks (sv_os s) (lock_path sample_addr) = Some 1"
proof -
  have env: "se_addr sample_server_env = sample_addr" "w_pid (se_world sample_server_env) = 1"
    by (simp_all add: sample_server_env_def sample_world_def)
  have l: "os_locks opened_os (lock_path (se_addr sample_server_env)) = Some (w_pid (se_world sample_server_env))"
    using sample_lock by (simp add: env)
  obtain s where run: "steps sample_server_env (serving sample_state opened_os) [Accept, Signal, Notice] s"
    "sv_phase s = Draining"
    using sample_signal_run by blast
  from server_implements_life_cycle[OF run(1) l] obtain ms where ms: "length ms = 3"
    "life_run (life_of sample_server_env (serving sample_state opened_os)) ms (life_of sample_server_env s)"
    and held: "os_locks (sv_os s) (lock_path sample_addr) = Some 1"
    unfolding env run(2) by (auto simp: numeral_3_eq_3)
  from run(1) ms held show ?thesis by blast
qed



text \<open>
  C40. A connection accepted between the signal and the moment the accept loop notices it is subscribed
  too late and is never told. While it stays idle, no step of the server, of other connections or of
  their clients ends the drain: only its own client, another signal or the deadline does.
\<close>

theorem late_connection_holds_drain:
  "\<exists>s. steps e (serving hs s0) [Signal, Accept, Notice] s \<and> sv_phase s = Draining \<and>
     (\<forall>ls' s'. steps e s ls' s' \<and> list_all (\<lambda>l. \<not> outside_label 0 l) ls' \<longrightarrow> sv_phase s' \<noteq> Finished)"
proof -
  define s1 where "s1 = signal (serving hs s0)"
  define s2 where "s2 = accept_conn s1"
  define s3 where "s3 = begin_drain e s2"
  have f: "sv_phase s1 = Accepting" "sv_phase s2 = Accepting" "sv_pending s2" "sv_phase s3 = Draining"
    "sv_conns s3 = [new_connection 0]"
    by (simp_all add: s1_def s2_def s3_def signal_def accept_conn_def begin_drain_def serving_def)
  have "step e (serving hs s0) Signal s1" unfolding s1_def by (rule signal) (simp add: serving_def)
  moreover have "step e s1 Accept s2" unfolding s2_def using f(1) by (rule accept)
  moreover have "step e s2 Notice s3" unfolding s3_def using f(2,3) by (rule notice)
  ultimately have run: "steps e (serving hs s0) [Signal, Accept, Notice] s3" by (blast intro: runs.intros)
  have "conns_ok (serving hs s0)" by (simp add: serving_def conns_ok_def ids_ok_def graceful_ok_def)
  with steps_conns_ok[OF run] have ok: "conns_ok s3" by blast
  have w: "waits 0 s3" using f by (simp add: waits_def new_connection_def)
  have "sv_phase s' \<noteq> Finished" if "steps e s3 ls' s'" "list_all (\<lambda>l. \<not> outside_label 0 l) ls'" for ls' s'
    using steps_waits[OF that(1) ok w] that(2) by (simp add: list_all_iff waits_def)
  with run f show ?thesis by blast
qed

theorem late_connection_holds_drain_witness:
  "\<exists>s. steps sample_server_env (serving sample_state opened_os) [Signal, Accept, Notice] s \<and> sv_phase s = Draining \<and>
     (\<forall>ls' s'. steps sample_server_env s ls' s' \<and> list_all (\<lambda>l. \<not> outside_label 0 l) ls' \<longrightarrow> sv_phase s' \<noteq> Finished)"
  by (rule late_connection_holds_drain)

end
